(* ===== verification/Prelude.thy ===== *)
theory Prelude
  imports Main "HOL-Library.Word" "HOL-Library.Finite_Map" "HOL-Library.State_Monad"
    "HOL-Library.Char_ord" "HOL-Library.List_Lexorder"
begin

text \<open>
  Shared vocabulary of the development: the Go types the operator uses (sized integers,
  nil-able maps, errors that keep their Kubernetes reason under wrapping, times), the few
  functions of Go's \<open>strings\<close> and \<open>strconv\<close> packages that the sources call, the state monad
  in which code that talks to the API server runs, and the generic lemmas the component
  theories rely on.
\<close>

named_theorems go_defs \<open>definitions of Go library functions\<close>
named_theorems run_simps \<open>evaluation of the world monad\<close>

section \<open>Go values\<close>

type_synonym int32 = "32 word"
type_synonym int64 = "64 word"
type_synonym bytes = string

text \<open>A Go \<open>map[string]string\<close>; a map that the code compares with nil is an option of it.\<close>

type_synonym gomap = "(string, string) fmap"

text \<open>\<open>metav1.Time\<close>: nanoseconds since the epoch, and None for the zero time.\<close>

type_synonym gotime = "int option"

datatype err_reason = ReasonNotFound | ReasonConflict | ReasonOther

text \<open>
  A Go error: its text and the Kubernetes status reason that \<open>k8serrors.IsNotFound\<close> finds
  through the chain of wrapped errors.
\<close>

record goerr =
  err_msg :: string
  err_reason :: err_reason

type_synonym 'a result = "goerr + 'a"

definition Errorf :: "string \<Rightarrow> goerr" where
  "Errorf s = \<lparr>err_msg = s, err_reason = ReasonOther\<rparr>"

definition Wrap :: "string \<Rightarrow> goerr \<Rightarrow> goerr" where
  "Wrap s e = e\<lparr>err_msg := s @ '': '' @ err_msg e\<rparr>"

definition IsNotFound :: "goerr \<Rightarrow> bool" where
  "IsNotFound e \<longleftrightarrow> err_reason e = ReasonNotFound"

definition IsConflict :: "goerr \<Rightarrow> bool" where
  "IsConflict e \<longleftrightarrow> err_reason e = ReasonConflict"

lemma IsNotFound_Wrap [simp]: "IsNotFound (Wrap s e) = IsNotFound e"
  by (simp add: IsNotFound_def Wrap_def)

lemma IsConflict_Wrap [simp]: "IsConflict (Wrap s e) = IsConflict e"
  by (simp add: IsConflict_def Wrap_def)

lemma IsNotFound_Errorf [simp]: "\<not> IsNotFound (Errorf s)"
  by (simp add: IsNotFound_def Errorf_def)

lemma IsConflict_Errorf [simp]: "\<not> IsConflict (Errorf s)"
  by (simp add: IsConflict_def Errorf_def)

section \<open>Decimal printing\<close>

text \<open>\<open>strconv.Itoa\<close> and the verb \<open>%d\<close>.\<close>

definition digit :: "nat \<Rightarrow> char" where
  "digit n = char_of (48 + n)"

fun dec_nat :: "nat \<Rightarrow> string" where
  "dec_nat n = (if n < 10 then [digit n] else dec_nat (n div 10) @ [digit (n mod 10)])"

declare dec_nat.simps [simp del]

definition Itoa :: "int \<Rightarrow> string" where
  "Itoa i = (if i < 0 then ''-'' @ dec_nat (nat (- i)) else dec_nat (nat i))"

definition fmt_d :: "('a::len) word \<Rightarrow> string" where
  "fmt_d w = Itoa (sint w)"

fun undec :: "nat \<Rightarrow> string \<Rightarrow> nat" where
  "undec acc [] = acc"
| "undec acc (c # cs) = undec (10 * acc + (of_char c - 48)) cs"

lemma undec_append: "undec acc (xs @ ys) = undec (undec acc xs) ys"
  by (induction acc xs rule: undec.induct) auto

lemma of_char_digit: "n < 10 \<Longrightarrow> of_char (digit n) = 48 + n"
  by (simp add: digit_def)

lemma undec_dec_nat: "undec 0 (dec_nat n) = n"
proof (induction n rule: dec_nat.induct)
  case (1 n)
  show ?case
  proof (cases "n < 10")
    case True
    then show ?thesis by (simp add: dec_nat.simps [of n] of_char_digit)
  next
    case False
    with 1 have "undec 0 (dec_nat (n div 10)) = n div 10" by simp
    with False show ?thesis
      by (simp add: dec_nat.simps [of n] undec_append of_char_digit)
  qed
qed

lemma dec_nat_inject: "dec_nat m = dec_nat n \<longleftrightarrow> m = n"
  by (metis undec_dec_nat)

lemma dec_nat_nonempty: "dec_nat n \<noteq> []"
  by (simp add: dec_nat.simps [of n])

lemma dec_nat_no_minus: "CHR ''-'' \<notin> set (dec_nat n)"
proof (induction n rule: dec_nat.induct)
  case (1 n)
  have d: "digit k \<noteq> CHR ''-''" if "k < 10" for k :: nat
  proof
    assume "digit k = CHR ''-''"
    then have "(of_char (digit k) :: nat) = of_char CHR ''-''" by simp
    with that show False by (simp add: of_char_digit)
  qed
  show ?case
  proof (cases "n < 10")
    case True
    with d [of n] show ?thesis by (simp add: dec_nat.simps [of n] eq_commute)
  next
    case False
    with 1 d [of "n mod 10"] show ?thesis
      by (simp add: dec_nat.simps [of n] eq_commute [of "CHR ''-''"])
  qed
qed

lemma Itoa_inject: "Itoa i = Itoa j \<longleftrightarrow> i = j"
proof -
  have "''-'' @ dec_nat m \<noteq> dec_nat n" for m n
    using dec_nat_no_minus [of n] by (metis append_Cons in_set_conv_decomp append_Nil)
  then show ?thesis
    by (auto simp: Itoa_def dec_nat_inject) metis+
qed

section \<open>Strings\<close>

definition byte_in :: "nat \<Rightarrow> nat \<Rightarrow> char \<Rightarrow> bool" where
  "byte_in lo hi c \<longleftrightarrow> lo \<le> of_char c \<and> of_char c \<le> hi"

text \<open>\<open>strings.ToLower\<close> on ASCII text: the letters A to Z move up by 32.\<close>

definition lower_char :: "char \<Rightarrow> char" where
  "lower_char c = (if byte_in 65 90 c then char_of (of_char c + (32::nat)) else c)"

definition ToLower :: "string \<Rightarrow> string" where
  "ToLower s = map lower_char s"

definition EqualFold :: "string \<Rightarrow> string \<Rightarrow> bool" where
  "EqualFold s t \<longleftrightarrow> ToLower s = ToLower t"

text \<open>\<open>strings.ReplaceAll\<close> of one byte by another.\<close>

definition ReplaceChar :: "char \<Rightarrow> char \<Rightarrow> string \<Rightarrow> string" where
  "ReplaceChar a b s = map (\<lambda>c. if c = a then b else c) s"

definition TrimRightChar :: "char \<Rightarrow> string \<Rightarrow> string" where
  "TrimRightChar a s = rev (dropWhile (\<lambda>c. c = a) (rev s))"

text \<open>\<open>strings.ReplaceAll\<close> for a non-empty old text.\<close>

fun ReplaceAll :: "string \<Rightarrow> string \<Rightarrow> string \<Rightarrow> string" where
  "ReplaceAll [] old new = []"
| "ReplaceAll (c # cs) old new =
     (if old \<noteq> [] \<and> take (length old) (c # cs) = old
      then new @ ReplaceAll (drop (length old - 1) cs) old new
      else c # ReplaceAll cs old new)"

fun Join :: "string list \<Rightarrow> string \<Rightarrow> string" where
  "Join [] sep = []"
| "Join [s] sep = s"
| "Join (s # t # ss) sep = s @ sep @ Join (t # ss) sep"

lemma length_ToLower [simp]: "length (ToLower s) = length s"
  by (simp add: ToLower_def)

lemma length_ReplaceChar [simp]: "length (ReplaceChar a b s) = length s"
  by (simp add: ReplaceChar_def)

lemma length_TrimRightChar: "length (TrimRightChar a s) \<le> length s"
  by (metis TrimRightChar_def length_dropWhile_le length_rev)

section \<open>Lists and maps\<close>

text \<open>\<open>slices.IndexFunc\<close>: the first index with the property, None for the Go result -1.\<close>

fun IndexFunc :: "'a list \<Rightarrow> ('a \<Rightarrow> bool) \<Rightarrow> nat option" where
  "IndexFunc [] p = None"
| "IndexFunc (x # xs) p = (if p x then Some 0 else map_option Suc (IndexFunc xs p))"

lemma IndexFunc_None: "IndexFunc xs p = None \<longleftrightarrow> (\<forall>x\<in>set xs. \<not> p x)"
  by (induction xs) auto

lemma IndexFunc_Some:
  "IndexFunc xs p = Some i \<Longrightarrow> i < length xs \<and> p (xs ! i) \<and> (\<forall>j<i. \<not> p (xs ! j))"
proof (induction xs arbitrary: i)
  case (Cons x xs)
  then show ?case
    by (auto split: if_splits simp: nth_Cons split: nat.splits)
qed simp

text \<open>\<open>maps.Copy (dst, src)\<close> is \<open>dst ++\<^sub>f src\<close>.\<close>

declare fmlookup_add [simp del]

lemma fmlookup_copy [simp]:
  "fmlookup (m ++\<^sub>f n) k = (case fmlookup n k of None \<Rightarrow> fmlookup m k | Some v \<Rightarrow> Some v)"
  by (auto simp: fmlookup_add fmlookup_dom_iff split: option.splits)

lemma fmsubset_iff: "m \<subseteq>\<^sub>f n \<longleftrightarrow> (\<forall>k v. fmlookup m k = Some v \<longrightarrow> fmlookup n k = Some v)"
  by (auto simp: fmsubset.rep_eq map_le_def dom_def)

lemma distinct_map_list_update:
  assumes "i < length xs" "f (xs ! i) = f x" "distinct (map f xs)"
  shows "distinct (map f (xs[i := x]))"
proof -
  have "map f (xs[i := x]) = map f xs"
    using assms(1,2) by (metis list_update_id map_update)
  with assms(3) show ?thesis by simp
qed

lemma last_drop_suffix: "n < length xs \<Longrightarrow> last (drop n xs) = last xs"
  by simp

section \<open>Code that talks to the API server\<close>

text \<open>
  Such code runs in the state monad over an arbitrary world \<open>'w\<close>: every call to the cluster
  may observe and cause any change of it. \<open>run_simps\<close> evaluates a computation from a given
  world; \<open>holds P m\<close> says that every result of \<open>m\<close>, from every world, satisfies \<open>P\<close>.
\<close>

lemma run_bind [run_simps]:
  "run_state (State_Monad.bind m f) w = (case run_state m w of (a, w') \<Rightarrow> run_state (f a) w')"
  by (simp add: State_Monad.bind_def)

lemma run_return [run_simps]: "run_state (State_Monad.return a) w = (a, w)"
  by (simp add: State_Monad.return_def)

lemma run_State [run_simps]: "run_state (State g) w = g w"
  by simp

definition holds :: "('a \<Rightarrow> bool) \<Rightarrow> ('w, 'a) state \<Rightarrow> bool" where
  "holds P m \<longleftrightarrow> (\<forall>w. P (fst (run_state m w)))"

lemma holds_return [simp]: "holds P (State_Monad.return a) \<longleftrightarrow> P a"
  by (simp add: holds_def run_simps)

lemma holds_bindI:
  assumes "holds Q m" and "\<And>a. Q a \<Longrightarrow> holds P (f a)"
  shows "holds P (State_Monad.bind m f)"
  using assms by (auto simp: holds_def run_simps split: prod.split) (metis fst_conv)

lemma holds_bind_any: "(\<And>a. holds P (f a)) \<Longrightarrow> holds P (State_Monad.bind m f)"
  by (rule holds_bindI [where Q = "\<lambda>_. True"]) (auto simp: holds_def)

lemma holdsD: "holds P m \<Longrightarrow> run_state m w = (a, w') \<Longrightarrow> P a"
  by (metis fst_conv holds_def)

lemma holds_mono: "holds P m \<Longrightarrow> (\<And>a. P a \<Longrightarrow> Q a) \<Longrightarrow> holds Q m"
  by (auto simp: holds_def)

lemma holdsI: "(\<And>w. P (fst (run_state m w))) \<Longrightarrow> holds P m"
  by (simp add: holds_def)

lemma holds_ifI: "(c \<Longrightarrow> holds P x) \<Longrightarrow> (\<not> c \<Longrightarrow> holds P y) \<Longrightarrow> holds P (if c then x else y)"
  by simp

lemma holds_sumI:
  "(\<And>e. r = Inl e \<Longrightarrow> holds P (f e)) \<Longrightarrow> (\<And>x. r = Inr x \<Longrightarrow> holds P (g x)) \<Longrightarrow> holds P (case r of Inl e \<Rightarrow> f e | Inr x \<Rightarrow> g x)"
  by (cases r) auto

lemma holds_optionI:
  "(r = None \<Longrightarrow> holds P x) \<Longrightarrow> (\<And>y. r = Some y \<Longrightarrow> holds P (f y)) \<Longrightarrow> holds P (case r of None \<Rightarrow> x | Some y \<Rightarrow> f y)"
  by (cases r) auto

lemma holds_LetI: "(\<And>y. y = x \<Longrightarrow> holds P (f y)) \<Longrightarrow> holds P (Let x f)"
  by simp

lemma holds_returnI: "P a \<Longrightarrow> holds P (State_Monad.return a)"
  by simp

lemmas holds_intros = holds_ifI holds_sumI holds_optionI holds_returnI holds_bind_any

section \<open>Keeping an invariant\<close>

text \<open>\<open>preserves I m Q\<close>: the computation \<open>m\<close> keeps the invariant \<open>I\<close> of the world and gives results with \<open>Q\<close>.\<close>

definition preserves :: "('w \<Rightarrow> bool) \<Rightarrow> ('w, 'a) state \<Rightarrow> ('a \<Rightarrow> bool) \<Rightarrow> bool" where
  "preserves I m Q \<longleftrightarrow> (\<forall>w. I w \<longrightarrow> Q (fst (run_state m w)) \<and> I (snd (run_state m w)))"

lemma preserves_return [simp]: "preserves I (State_Monad.return a) Q \<longleftrightarrow> (Ex I \<longrightarrow> Q a)"
  by (auto simp: preserves_def run_simps)

lemma preserves_bind:
  assumes "preserves I m P" and "\<And>a. P a \<Longrightarrow> preserves I (f a) Q"
  shows "preserves I (m \<bind> f) Q"
  using assms unfolding preserves_def run_simps case_prod_beta by blast

lemma read_ok: "preserves I m (\<lambda>_. True) \<Longrightarrow> (\<And>a. preserves I (f a) Q) \<Longrightarrow> preserves I (m \<bind> f) Q"
  by (rule preserves_bind)

lemma preserves_weaken: "preserves I m P \<Longrightarrow> (\<And>a. P a \<Longrightarrow> Q a) \<Longrightarrow> preserves I m Q"
  unfolding preserves_def by blast

lemma preserves_any: "preserves I m P \<Longrightarrow> preserves I m (\<lambda>_. True)"
  by (erule preserves_weaken) simp

lemma preservesD: "preserves I m Q \<Longrightarrow> I w \<Longrightarrow> I (snd (run_state m w))"
  unfolding preserves_def by blast

lemma preserves_optionI:
  "(r = None \<Longrightarrow> preserves I x Q) \<Longrightarrow> (\<And>y. r = Some y \<Longrightarrow> preserves I (f y) Q) \<Longrightarrow>
   preserves I (case r of None \<Rightarrow> x | Some y \<Rightarrow> f y) Q"
  by (cases r) auto

lemma preserves_sumI:
  "(\<And>e. r = Inl e \<Longrightarrow> preserves I (f e) Q) \<Longrightarrow> (\<And>x. r = Inr x \<Longrightarrow> preserves I (g x) Q) \<Longrightarrow>
   preserves I (case r of Inl e \<Rightarrow> f e | Inr x \<Rightarrow> g x) Q"
  by (cases r) auto

end
