(* ===== verification/KubeTypes.thy ===== *)
theory KubeTypes
  imports Prelude
begin

text \<open>
  The Kubernetes API types that the operator fills in or reads. Each record has the fields
  the sources name; what the operator only carries from the custom resource to the cluster is
  kept as its serialized text (\<open>k8s_raw\<close>). A Go slice is a list (nil and empty slices behave
  alike at these uses), a pointer is an option, a map that is compared with nil is an option of
  a finite map. Replica counts, ports and periods keep their width.
\<close>

type_synonym k8s_raw = string

section \<open>Containers and pods\<close>

datatype env_source =
    FieldRef (fr_APIVersion: string) (fr_FieldPath: string)
  | SecretKeyRef (skr_Name: string) (skr_Key: string)
  | OtherEnvSource k8s_raw

record env_var =
  ev_Name :: string
  ev_Value :: string
  ev_ValueFrom :: "env_source option"

record volume_mount =
  vm_Name :: string
  vm_MountPath :: string
  vm_ReadOnly :: bool
  vm_rest :: k8s_raw

datatype volume_source =
    SecretVolume (sv_SecretName: string)
  | EmptyDirVolume (ed_SizeLimit: string)
  | EphemeralVolume k8s_raw
  | OtherVolume k8s_raw

record volume =
  vol_Name :: string
  vol_Source :: volume_source

text \<open>\<open>resource.Quantity\<close>: its text and what its method \<open>Value\<close> returns.\<close>

datatype quantity = Quantity (q_text: string) (q_value: int)

type_synonym resource_list = "(string, quantity) fmap"

record resource_requirements =
  rr_Requests :: "resource_list option"
  rr_Limits :: "resource_list option"

record security_context =
  sc_AllowPrivilegeEscalation :: "bool option"
  sc_CapabilitiesDrop :: "string list"
  sc_rest :: k8s_raw

record pod_security_context =
  psc_FSGroup :: "int64 option"
  psc_RunAsGroup :: "int64 option"
  psc_RunAsNonRoot :: "bool option"
  psc_RunAsUser :: "int64 option"
  psc_SeccompProfileType :: "string option"
  psc_rest :: k8s_raw

record container_port =
  cp_Name :: string
  cp_ContainerPort :: int32
  cp_Protocol :: string

record probe =
  pr_Path :: string
  pr_Port :: int32
  pr_PeriodSeconds :: int32
  pr_TimeoutSeconds :: int32
  pr_InitialDelaySeconds :: int32
  pr_FailureThreshold :: int32

record container =
  c_Name :: string
  c_Image :: string
  c_ImagePullPolicy :: string
  c_Command :: "string list"
  c_Args :: "string list"
  c_Env :: "env_var list"
  c_VolumeMounts :: "volume_mount list"
  c_Ports :: "container_port list"
  c_Resources :: resource_requirements
  c_SecurityContext :: "security_context option"
  c_PreStopExec :: "string list"
  c_StartupProbe :: "probe option"
  c_LivenessProbe :: "probe option"
  c_ReadinessProbe :: "probe option"
  c_rest :: k8s_raw

record pod_spec =
  ps_Volumes :: "volume list"
  ps_TopologySpreadConstraints :: "k8s_raw list"
  ps_NodeSelector :: "gomap option"
  ps_ImagePullSecrets :: "string list"
  ps_EnableServiceLinks :: "bool option"
  ps_RestartPolicy :: string
  ps_TerminationGracePeriodSeconds :: "int64 option"
  ps_Containers :: "container list"
  ps_SecurityContext :: "pod_security_context option"
  ps_InitContainers :: "container list"
  ps_ServiceAccountName :: string
  ps_ShareProcessNamespace :: "bool option"
  ps_Tolerations :: "k8s_raw list"
  ps_Affinity :: "k8s_raw list"

section \<open>Object metadata and workloads\<close>

record object_meta =
  m_Name :: string
  m_Namespace :: string
  m_Labels :: gomap
  m_Annotations :: "gomap option"
  m_ResourceVersion :: string
  m_CreationTimestamp :: gotime
  m_DeletionTimestamp :: gotime
  m_ControllerOwner :: "string option"

record pod_template =
  pt_Labels :: gomap
  pt_Annotations :: "gomap option"
  pt_Spec :: pod_spec

record dep_condition =
  dc_Type :: string
  dc_Status :: string
  dc_Reason :: string

record deployment_status =
  dst_Replicas :: int32
  dst_AvailableReplicas :: int32
  dst_UnavailableReplicas :: int32
  dst_Conditions :: "dep_condition list"

record deployment_spec =
  ds_Replicas :: int32
  ds_ProgressDeadlineSeconds :: int32
  ds_MatchLabels :: gomap
  ds_MaxSurge :: string
  ds_MaxUnavailable :: string
  ds_Template :: pod_template

record deployment =
  d_Meta :: object_meta
  d_Spec :: deployment_spec
  d_Status :: deployment_status

record job_spec =
  js_BackoffLimit :: "int32 option"
  js_TTLSecondsAfterFinished :: "int32 option"
  js_Parallelism :: "int32 option"
  js_Completions :: "int32 option"
  js_Selector :: gomap
  js_Template :: pod_template

record job_status =
  jst_Active :: int32
  jst_Succeeded :: int32
  jst_Failed :: int32
  jst_StartTime :: gotime
  jst_CompletionTime :: gotime

record job =
  j_Meta :: object_meta
  j_Spec :: job_spec
  j_Status :: job_status

text \<open>The status of a cron job: the number of active jobs and two optional times.\<close>

record cron_job_status =
  cjs_Active :: nat
  cjs_LastScheduleTime :: "gotime option"
  cjs_LastSuccessfulTime :: "gotime option"

definition new_cron_job_status :: cron_job_status where
  "new_cron_job_status = \<lparr>cjs_Active = 0, cjs_LastScheduleTime = None, cjs_LastSuccessfulTime = None\<rparr>"

record cron_job =
  cj_Meta :: object_meta
  cj_Schedule :: string
  cj_TimeZone :: "string option"
  cj_ConcurrencyPolicy :: string
  cj_Suspend :: bool
  cj_JobMeta :: object_meta
  cj_JobSpec :: job_spec
  cj_Status :: cron_job_status

text \<open>A container status of a pod; the terminated state holds the exit code and the reason.\<close>

record terminated_state =
  ts_ExitCode :: int32
  ts_Reason :: string

record container_status =
  cst_Name :: string
  cst_Terminated :: "terminated_state option"

record pod =
  p_Meta :: object_meta
  p_Spec :: pod_spec
  p_Phase :: string
  p_Ready :: bool
  p_ContainerStatuses :: "container_status list"

record secret =
  s_Meta :: object_meta
  s_Data :: "(string, bytes) fmap option"
  s_StringData :: "gomap option"

section \<open>Network and scaling objects\<close>

record service_port =
  svp_Name :: string
  svp_Protocol :: string
  svp_Port :: int32
  svp_TargetPort :: int32

record service_spec =
  sv_Selector :: gomap
  sv_Type :: string
  sv_Ports :: "service_port list"
  sv_ClusterIP :: string
  sv_HealthCheckNodePort :: int32
  sv_PublishNotReadyAddresses :: bool

record service =
  sv_Meta :: object_meta
  sv_Spec :: service_spec

record pdb =
  pdb_Meta :: object_meta
  pdb_MatchLabels :: gomap
  pdb_MaxUnavailable :: int32

text \<open>A metric of an autoscaler: the utilization of a resource, or one that is only carried.\<close>

datatype metric_spec = ResourceUtilization (mt_Name: string) (mt_AverageUtilization: int32) | OtherMetric k8s_raw

record hpa =
  hp_Meta :: object_meta
  hp_TargetKind :: string
  hp_TargetName :: string
  hp_TargetAPIVersion :: string
  hp_MinReplicas :: "int32 option"
  hp_MaxReplicas :: int32
  hp_Metrics :: "metric_spec list"
  hp_Behavior :: "k8s_raw option"

text \<open>A path of a route with the service and port behind it; all paths match as prefixes.\<close>

record route_path =
  rp_Path :: string
  rp_PathType :: string
  rp_ServiceName :: string
  rp_ServicePort :: int32

record ingress_rule =
  ir_Host :: string
  ir_Paths :: "route_path list"

record ingress_tls =
  it_Hosts :: "string list"
  it_SecretName :: string

record ingress =
  ing_Meta :: object_meta
  ing_ClassName :: string
  ing_Rules :: "ingress_rule list"
  ing_TLS :: "ingress_tls list"

record parent_ref =
  par_Name :: string
  par_Namespace :: "string option"
  par_SectionName :: "string option"

record http_route =
  hr_Meta :: object_meta
  hr_ParentRefs :: "parent_ref list"
  hr_Hostnames :: "string list"
  hr_Rules :: "route_path list"

definition empty_meta :: object_meta where
  "empty_meta = \<lparr>m_Name = [], m_Namespace = [], m_Labels = fmempty, m_Annotations = None,
     m_ResourceVersion = [], m_CreationTimestamp = None, m_DeletionTimestamp = None,
     m_ControllerOwner = None\<rparr>"

definition empty_pod_spec :: pod_spec where
  "empty_pod_spec = \<lparr>ps_Volumes = [], ps_TopologySpreadConstraints = [], ps_NodeSelector = None,
     ps_ImagePullSecrets = [], ps_EnableServiceLinks = None, ps_RestartPolicy = [],
     ps_TerminationGracePeriodSeconds = None, ps_Containers = [], ps_SecurityContext = None,
     ps_InitContainers = [], ps_ServiceAccountName = [], ps_ShareProcessNamespace = None,
     ps_Tolerations = [], ps_Affinity = []\<rparr>"

definition empty_container :: container where
  "empty_container = \<lparr>c_Name = [], c_Image = [], c_ImagePullPolicy = [], c_Command = [],
     c_Args = [], c_Env = [], c_VolumeMounts = [], c_Ports = [],
     c_Resources = \<lparr>rr_Requests = None, rr_Limits = None\<rparr>, c_SecurityContext = None,
     c_PreStopExec = [], c_StartupProbe = None, c_LivenessProbe = None, c_ReadinessProbe = None,
     c_rest = []\<rparr>"

definition empty_job_status :: job_status where
  "empty_job_status = \<lparr>jst_Active = 0, jst_Succeeded = 0, jst_Failed = 0,
     jst_StartTime = None, jst_CompletionTime = None\<rparr>"

definition empty_deployment_status :: deployment_status where
  "empty_deployment_status = \<lparr>dst_Replicas = 0, dst_AvailableReplicas = 0,
     dst_UnavailableReplicas = 0, dst_Conditions = []\<rparr>"

definition env_value :: "string \<Rightarrow> string \<Rightarrow> env_var" where
  "env_value n v = \<lparr>ev_Name = n, ev_Value = v, ev_ValueFrom = None\<rparr>"

definition env_secret :: "string \<Rightarrow> string \<Rightarrow> string \<Rightarrow> env_var" where
  "env_secret n sec key =
     \<lparr>ev_Name = n, ev_Value = [], ev_ValueFrom = Some (SecretKeyRef sec key)\<rparr>"

definition env_field :: "string \<Rightarrow> string \<Rightarrow> string \<Rightarrow> env_var" where
  "env_field n api path =
     \<lparr>ev_Name = n, ev_Value = [], ev_ValueFrom = Some (FieldRef api path)\<rparr>"

lemma ev_Name_simps [simp]:
  "ev_Name (env_value n v) = n"
  "ev_Name (env_secret n s k) = n"
  "ev_Name (env_field n a p) = n"
  by (simp_all add: env_value_def env_secret_def env_field_def)

end
