(* ===== verification/StoreTypes.thy ===== *)
theory StoreTypes
  imports KubeTypes
begin

text \<open>
  The custom resources of \<open>src/api/v1\<close>: the Store specification and status (\<open>store.go\<close>,
  \<open>store_status.go\<close>), StoreExec (\<open>exec.go\<close>, \<open>execstatus.go\<close>), StoreDebugInstance and the
  snapshot resources, field by field.
\<close>

section \<open>Parts of the Store specification\<close>

record secret_ref =
  ref_Name :: string
  ref_Key :: string

record fastly_spec =
  fa_DisableOnSetupMigration :: bool
  fa_TokenRef :: secret_ref
  fa_ServiceRef :: secret_ref

record configuration =
  co_Currency :: string
  co_Locale :: string
  co_Fastly :: fastly_spec
  co_UsageDataConsent :: string

record credentials =
  cr_Username :: string
  cr_Password :: string
  cr_UsernameSecretRef :: secret_ref
  cr_PasswordSecretRef :: secret_ref

record hook =
  hk_After :: string
  hk_Before :: string

record hpa_spec =
  hpa_MinReplicas :: "int32 option"
  hpa_MaxReplicas :: int32
  hpa_Metrics :: "metric_spec list"
  hpa_Behavior :: "k8s_raw option"
  hpa_Enabled :: bool
  hpa_Annotations :: "gomap option"

record scheduled_task_spec =
  stk_TimeZone :: string
  stk_Schedule :: string
  stk_Suspend :: bool
  stk_Command :: string

record opensearch_index_spec =
  oi_Prefix :: string
  oi_Shards :: int
  oi_Replicas :: int

record opensearch_spec =
  os_Enabled :: bool
  os_Host :: string
  os_Username :: string
  os_PasswordSecretRef :: secret_ref
  os_Port :: int32
  os_Schema :: string
  os_Index :: opensearch_index_spec

record network_spec =
  nw_EnabledIngress :: bool
  nw_EnabledGateway :: bool
  nw_Host :: string
  nw_Hosts :: "string list"
  nw_AppURLHost :: string
  nw_Port :: int32
  nw_Annotations :: "gomap option"
  nw_Labels :: "gomap option"
  nw_IngressClassName :: string
  nw_IngressAnnotations :: "gomap option"
  nw_IngressLabels :: "gomap option"
  nw_GatewayName :: string
  nw_GatewayNamespace :: string
  nw_GatewaySectionName :: string
  nw_GatewayAnnotations :: "gomap option"
  nw_GatewayLabels :: "gomap option"
  nw_TLSSecretName :: string
  nw_PreStopDelaySeconds :: int64

record affinity =
  af_NodeAffinity :: "k8s_raw option"
  af_PodAffinity :: "k8s_raw option"
  af_PodAntiAffinity :: "k8s_raw option"

record container_spec =
  cs_Image :: string
  cs_ImagePullPolicy :: string
  cs_Volumes :: "volume list"
  cs_Port :: int32
  cs_VolumeMounts :: "volume_mount list"
  cs_ImagePullSecrets :: "string list"
  cs_RestartPolicy :: string
  cs_SecurityContext :: "pod_security_context option"
  cs_ExtraContainers :: "container list"
  cs_InitContainers :: "container list"
  cs_Replicas :: int32
  cs_ProgressDeadlineSeconds :: int32
  cs_TerminationGracePeriodSeconds :: int64
  cs_Annotations :: "gomap option"
  cs_Labels :: "gomap option"
  cs_NodeSelector :: "gomap option"
  cs_TopologySpreadConstraints :: "k8s_raw list"
  cs_Tolerations :: "k8s_raw list"
  cs_Affinity :: affinity
  cs_Resources :: resource_requirements
  cs_ServiceAccountName :: string
  cs_EnableServiceLinks :: "bool option"
  cs_ExtraEnvs :: "env_var list"

text \<open>In the override the slices are compared with nil, so they are options.\<close>

record container_merge_spec =
  cm_Image :: string
  cm_ImagePullPolicy :: string
  cm_ImagePullSecrets :: "string list option"
  cm_Volumes :: "volume list option"
  cm_VolumeMounts :: "volume_mount list option"
  cm_RestartPolicy :: string
  cm_SecurityContext :: "pod_security_context option"
  cm_ExtraContainers :: "container list option"
  cm_InitContainers :: "container list option"
  cm_Replicas :: int32
  cm_ProgressDeadlineSeconds :: int32
  cm_TerminationGracePeriodSeconds :: int64
  cm_Annotations :: "gomap option"
  cm_Labels :: "gomap option"
  cm_NodeSelector :: "gomap option"
  cm_TopologySpreadConstraints :: "k8s_raw list option"
  cm_Tolerations :: "k8s_raw list option"
  cm_Affinity :: affinity
  cm_Resources :: resource_requirements
  cm_ExtraEnvs :: "env_var list option"
  cm_ServiceAccountName :: string
  cm_EnableServiceLinks :: "bool option"

record redis_spec =
  rd_RedisDSN :: string
  rd_RedisHost :: string
  rd_RedisPort :: int
  rd_RedisIndex :: int

record session_cache_spec = redis_spec +
  sca_Adapter :: string
  sca_SavePath :: string

record worker_spec = redis_spec +
  wk_EnableKedaScaling :: bool
  wk_MaxReplicas :: int32
  wk_MinReplicas :: int32
  wk_CooldownPeriod :: int32
  wk_PollingInterval :: int32
  wk_TargetQueueLength :: int32
  wk_Adapter :: string

record app_cache_spec = redis_spec +
  aca_Adapter :: string

record lock_spec = redis_spec +
  lk_Adapter :: string

record fpm_spec =
  fpm_ProcessManagement :: string
  fpm_Listen :: string
  fpm_ScrapeURI :: string
  fpm_StatusPath :: string
  fpm_MaxChildren :: int
  fpm_StartServers :: int
  fpm_MinSpareServers :: int
  fpm_MaxSpareServers :: int

record blackfire_spec =
  bf_Enabled :: bool
  bf_Host :: string
  bf_Port :: int

record tideways_spec =
  tw_Enabled :: bool
  tw_Host :: string
  tw_Port :: int
  tw_Service :: string
  tw_APIKeyRef :: secret_ref

record otel_spec =
  ot_Enabled :: bool
  ot_ServiceName :: string
  ot_TracesExporter :: string
  ot_ExporterProtocol :: string
  ot_ExporterEndpoint :: string

record s3_storage =
  s3_EndpointURL :: string
  s3_PrivateBucketName :: string
  s3_PublicBucketName :: string
  s3_Region :: string
  s3_AccessKeyRef :: secret_ref
  s3_SecretAccessKeyRef :: secret_ref

record database_tls =
  dtls_SecretName :: string
  dtls_ClientCertificate :: bool
  dtls_DontVerifyServerCertificate :: bool

record database_spec =
  db_Host :: string
  db_HostRef :: secret_ref
  db_Port :: int32
  db_Version :: string
  db_User :: string
  db_Name :: string
  db_SSLMode :: string
  db_TLS :: database_tls
  db_Options :: string
  db_PasswordSecretRef :: secret_ref

record store_spec =
  sp_Database :: database_spec
  sp_Container :: container_spec
  sp_AdminDeploymentContainer :: container_merge_spec
  sp_WorkerDeploymentContainer :: container_merge_spec
  sp_StorefrontDeploymentContainer :: container_merge_spec
  sp_SetupJobContainer :: container_merge_spec
  sp_MigrationJobContainer :: container_merge_spec
  sp_Network :: network_spec
  sp_S3Storage :: s3_storage
  sp_CDNURL :: string
  sp_Blackfire :: blackfire_spec
  sp_Tideways :: tideways_spec
  sp_Otel :: otel_spec
  sp_FPM :: fpm_spec
  sp_HPA :: hpa_spec
  sp_Opensearch :: opensearch_spec
  sp_ServiceAccountName :: string
  sp_ShopConfiguration :: configuration
  sp_DisableChecks :: bool
  sp_DisableS3Check :: bool
  sp_DisableFastlyCheck :: bool
  sp_DisableOpensearchCheck :: bool
  sp_DisableDatabaseCheck :: bool
  sp_DisableJobDeletion :: bool
  sp_SessionCache :: session_cache_spec
  sp_AppCache :: app_cache_spec
  sp_Lock :: lock_spec
  sp_Worker :: worker_spec
  sp_SecretName :: string
  sp_AdminCredentials :: credentials
  sp_SetupHook :: hook
  sp_SetupScript :: string
  sp_MigrationHook :: hook
  sp_MigrationScript :: string
  sp_ScheduledTask :: scheduled_task_spec
  sp_ScheduledTaskLabels :: "gomap option"

section \<open>Status of a Store\<close>

text \<open>
  \<open>StatefulAppState\<close> is a string type in Go; a value the operator does not know (read back from
  the status subresource) is the last constructor.
\<close>

datatype app_state =
    StateEmpty | StateWait | StateSetup | StateSetupError | StateInitializing
  | StateMigration | StateMigrationError | StateReady | StateUnregistered string

fun app_state_text :: "app_state \<Rightarrow> string" where
  "app_state_text StateEmpty = []"
| "app_state_text StateWait = ''waiting''"
| "app_state_text StateSetup = ''setup''"
| "app_state_text StateSetupError = ''setup_error''"
| "app_state_text StateInitializing = ''initializing''"
| "app_state_text StateMigration = ''migrating''"
| "app_state_text StateMigrationError = ''migrating_error''"
| "app_state_text StateReady = ''ready''"
| "app_state_text (StateUnregistered s) = s"

datatype dep_state =
    DeploymentStateEmpty | DeploymentStateUnknown | DeploymentStateError | DeploymentStateNotFound
  | DeploymentStateRunning | DeploymentStateScaling

record store_condition =
  con_Type :: string
  con_LastTransitionTime :: gotime
  con_LastUpdateTime :: gotime
  con_Message :: string
  con_Reason :: string
  con_Status :: string

record deployment_condition =
  dcon_State :: dep_state
  dcon_LastUpdateTime :: gotime
  dcon_Message :: string
  dcon_Ready :: string
  dcon_StoreReplicas :: int32

record queue_transport_stats =
  qt_Name :: string
  qt_Count :: int64

record queue_condition =
  qc_LastUpdateTime :: gotime
  qc_Error :: string
  qc_Transports :: "queue_transport_stats list"
  qc_UncountableTransports :: "string list"

record store_status =
  ss_State :: app_state
  ss_Message :: string
  ss_CurrentImageTag :: string
  ss_WorkerState :: deployment_condition
  ss_AdminState :: deployment_condition
  ss_StorefrontState :: deployment_condition
  ss_QueueState :: queue_condition
  ss_Conditions :: "store_condition list"

record store =
  st_Meta :: object_meta
  st_Spec :: store_spec
  st_Status :: store_status

section \<open>The other custom resources\<close>

datatype exec_state =
  ExecStateEmpty | ExecStateWait | ExecStateRunning | ExecStateDone | ExecStateError

record exec_condition =
  ec_Type :: exec_state
  ec_LastTransitionTime :: gotime
  ec_LastUpdateTime :: gotime
  ec_Message :: string
  ec_Reason :: string
  ec_Status :: string

record store_exec_status =
  es_State :: exec_state
  es_Done :: string
  es_Conditions :: "exec_condition list"

text \<open>Durations are \<open>metav1.Duration\<close>, a signed number of nanoseconds.\<close>

record store_exec_spec =
  ex_StoreRef :: string
  ex_CronSchedule :: string
  ex_CronSuspend :: bool
  ex_Script :: string
  ex_MaxRetries :: int32
  ex_CleanupPeriodSuccessfulExec :: int
  ex_CleanupPeriodErrorExec :: int
  ex_ExtraEnvs :: "env_var list"
  ex_Container :: container_spec

record store_exec =
  e_Meta :: object_meta
  e_Spec :: store_exec_spec
  e_Status :: store_exec_status

datatype debug_state =
    StoreDebugInstanceStateUnspecified | StoreDebugInstanceStateWait
  | StoreDebugInstanceStatePending | StoreDebugInstanceStateRunning
  | StoreDebugInstanceStateDone | StoreDebugInstanceStateError

record debug_condition =
  dbc_Type :: debug_state
  dbc_LastTransitionTime :: gotime
  dbc_LastUpdateTime :: gotime
  dbc_Message :: string
  dbc_Reason :: string
  dbc_Status :: string

record debug_status =
  dbs_State :: debug_state
  dbs_Conditions :: "debug_condition list"

record debug_spec =
  di_StoreRef :: string
  di_Duration :: int
  di_ExtraLabels :: "gomap option"
  di_ExtraContainerPorts :: "container_port list"
  di_CustomImage :: string
  di_IgnoreStoreStatus :: bool

record debug_instance =
  dbi_Meta :: object_meta
  dbi_Spec :: debug_spec
  dbi_Status :: debug_status

datatype snapshot_state =
    SnapshotStateEmpty | SnapshotStatePending | SnapshotStateRunning
  | SnapshotStateFailed | SnapshotStateSucceeded

record s3_bucket_auth =
  ba_AccessKeyRef :: secret_ref
  ba_SecretAccessKeyRef :: secret_ref

record snapshot_spec =
  sn_StoreNameRef :: string
  sn_Path :: string
  sn_S3BucketAuth :: s3_bucket_auth
  sn_MaxRetries :: int32
  sn_Container :: container_spec

record snapshot_status =
  sns_State :: snapshot_state
  sns_CompletedAt :: gotime
  sns_Message :: string
  sns_Duration :: gotime
  sns_TerminationMessageFromJob :: string
  sns_Conditions :: "store_condition list"

text \<open>\<open>StoreSnapshotCreate\<close> and \<open>StoreSnapshotRestore\<close> have the same specification and status.\<close>

record snapshot =
  sh_Meta :: object_meta
  sh_Spec :: snapshot_spec
  sh_Status :: snapshot_status

section \<open>Zero values\<close>

text \<open>What Go's zero value of the types is; concrete inputs are built from them.\<close>

definition no_ref :: secret_ref where
  "no_ref = \<lparr>ref_Name = [], ref_Key = []\<rparr>"

definition zero_container_spec :: container_spec where
  "zero_container_spec = \<lparr>cs_Image = [], cs_ImagePullPolicy = [], cs_Volumes = [], cs_Port = 0,
     cs_VolumeMounts = [], cs_ImagePullSecrets = [], cs_RestartPolicy = [], cs_SecurityContext = None,
     cs_ExtraContainers = [], cs_InitContainers = [], cs_Replicas = 0, cs_ProgressDeadlineSeconds = 0,
     cs_TerminationGracePeriodSeconds = 0, cs_Annotations = None, cs_Labels = None,
     cs_NodeSelector = None, cs_TopologySpreadConstraints = [], cs_Tolerations = [],
     cs_Affinity = \<lparr>af_NodeAffinity = None, af_PodAffinity = None, af_PodAntiAffinity = None\<rparr>,
     cs_Resources = \<lparr>rr_Requests = None, rr_Limits = None\<rparr>, cs_ServiceAccountName = [],
     cs_EnableServiceLinks = None, cs_ExtraEnvs = []\<rparr>"

definition zero_merge_spec :: container_merge_spec where
  "zero_merge_spec = \<lparr>cm_Image = [], cm_ImagePullPolicy = [], cm_ImagePullSecrets = None,
     cm_Volumes = None, cm_VolumeMounts = None, cm_RestartPolicy = [], cm_SecurityContext = None,
     cm_ExtraContainers = None, cm_InitContainers = None, cm_Replicas = 0,
     cm_ProgressDeadlineSeconds = 0, cm_TerminationGracePeriodSeconds = 0, cm_Annotations = None,
     cm_Labels = None, cm_NodeSelector = None, cm_TopologySpreadConstraints = None,
     cm_Tolerations = None,
     cm_Affinity = \<lparr>af_NodeAffinity = None, af_PodAffinity = None, af_PodAntiAffinity = None\<rparr>,
     cm_Resources = \<lparr>rr_Requests = None, rr_Limits = None\<rparr>, cm_ExtraEnvs = None,
     cm_ServiceAccountName = [], cm_EnableServiceLinks = None\<rparr>"

definition zero_redis :: redis_spec where
  "zero_redis = \<lparr>rd_RedisDSN = [], rd_RedisHost = [], rd_RedisPort = 0, rd_RedisIndex = 0\<rparr>"

definition zero_store_spec :: store_spec where
  "zero_store_spec =
     \<lparr>sp_Database = \<lparr>db_Host = [], db_HostRef = no_ref, db_Port = 0, db_Version = [], db_User = [],
        db_Name = [], db_SSLMode = [],
        db_TLS = \<lparr>dtls_SecretName = [], dtls_ClientCertificate = False,
                  dtls_DontVerifyServerCertificate = False\<rparr>,
        db_Options = [], db_PasswordSecretRef = no_ref\<rparr>,
      sp_Container = zero_container_spec, sp_AdminDeploymentContainer = zero_merge_spec,
      sp_WorkerDeploymentContainer = zero_merge_spec,
      sp_StorefrontDeploymentContainer = zero_merge_spec, sp_SetupJobContainer = zero_merge_spec,
      sp_MigrationJobContainer = zero_merge_spec,
      sp_Network = \<lparr>nw_EnabledIngress = False, nw_EnabledGateway = False, nw_Host = [], nw_Hosts = [],
        nw_AppURLHost = [], nw_Port = 0, nw_Annotations = None, nw_Labels = None,
        nw_IngressClassName = [], nw_IngressAnnotations = None, nw_IngressLabels = None,
        nw_GatewayName = [], nw_GatewayNamespace = [], nw_GatewaySectionName = [],
        nw_GatewayAnnotations = None, nw_GatewayLabels = None, nw_TLSSecretName = [],
        nw_PreStopDelaySeconds = 0\<rparr>,
      sp_S3Storage = \<lparr>s3_EndpointURL = [], s3_PrivateBucketName = [], s3_PublicBucketName = [],
        s3_Region = [], s3_AccessKeyRef = no_ref, s3_SecretAccessKeyRef = no_ref\<rparr>,
      sp_CDNURL = [], sp_Blackfire = \<lparr>bf_Enabled = False, bf_Host = [], bf_Port = 0\<rparr>,
      sp_Tideways = \<lparr>tw_Enabled = False, tw_Host = [], tw_Port = 0, tw_Service = [],
        tw_APIKeyRef = no_ref\<rparr>,
      sp_Otel = \<lparr>ot_Enabled = False, ot_ServiceName = [], ot_TracesExporter = [],
        ot_ExporterProtocol = [], ot_ExporterEndpoint = []\<rparr>,
      sp_FPM = \<lparr>fpm_ProcessManagement = [], fpm_Listen = [], fpm_ScrapeURI = [], fpm_StatusPath = [],
        fpm_MaxChildren = 0, fpm_StartServers = 0, fpm_MinSpareServers = 0, fpm_MaxSpareServers = 0\<rparr>,
      sp_HPA = \<lparr>hpa_MinReplicas = None, hpa_MaxReplicas = 0, hpa_Metrics = [], hpa_Behavior = None,
        hpa_Enabled = False, hpa_Annotations = None\<rparr>,
      sp_Opensearch = \<lparr>os_Enabled = False, os_Host = [], os_Username = [],
        os_PasswordSecretRef = no_ref, os_Port = 0, os_Schema = [],
        os_Index = \<lparr>oi_Prefix = [], oi_Shards = 0, oi_Replicas = 0\<rparr>\<rparr>,
      sp_ServiceAccountName = [],
      sp_ShopConfiguration = \<lparr>co_Currency = [], co_Locale = [],
        co_Fastly = \<lparr>fa_DisableOnSetupMigration = False, fa_TokenRef = no_ref, fa_ServiceRef = no_ref\<rparr>,
        co_UsageDataConsent = []\<rparr>,
      sp_DisableChecks = False, sp_DisableS3Check = False, sp_DisableFastlyCheck = False,
      sp_DisableOpensearchCheck = False, sp_DisableDatabaseCheck = False,
      sp_DisableJobDeletion = False,
      sp_SessionCache = redis_spec.extend zero_redis \<lparr>sca_Adapter = [], sca_SavePath = []\<rparr>,
      sp_AppCache = redis_spec.extend zero_redis \<lparr>aca_Adapter = []\<rparr>,
      sp_Lock = redis_spec.extend zero_redis \<lparr>lk_Adapter = []\<rparr>,
      sp_Worker = redis_spec.extend zero_redis \<lparr>wk_EnableKedaScaling = False, wk_MaxReplicas = 0,
        wk_MinReplicas = 0, wk_CooldownPeriod = 0, wk_PollingInterval = 0, wk_TargetQueueLength = 0,
        wk_Adapter = []\<rparr>,
      sp_SecretName = [],
      sp_AdminCredentials = \<lparr>cr_Username = [], cr_Password = [], cr_UsernameSecretRef = no_ref,
        cr_PasswordSecretRef = no_ref\<rparr>,
      sp_SetupHook = \<lparr>hk_After = [], hk_Before = []\<rparr>, sp_SetupScript = [],
      sp_MigrationHook = \<lparr>hk_After = [], hk_Before = []\<rparr>, sp_MigrationScript = [],
      sp_ScheduledTask = \<lparr>stk_TimeZone = [], stk_Schedule = [], stk_Suspend = False, stk_Command = []\<rparr>,
      sp_ScheduledTaskLabels = None\<rparr>"

definition zero_deployment_condition :: deployment_condition where
  "zero_deployment_condition = \<lparr>dcon_State = DeploymentStateEmpty, dcon_LastUpdateTime = None,
     dcon_Message = [], dcon_Ready = [], dcon_StoreReplicas = 0\<rparr>"

definition zero_store_status :: store_status where
  "zero_store_status = \<lparr>ss_State = StateEmpty, ss_Message = [], ss_CurrentImageTag = [],
     ss_WorkerState = zero_deployment_condition, ss_AdminState = zero_deployment_condition,
     ss_StorefrontState = zero_deployment_condition,
     ss_QueueState = \<lparr>qc_LastUpdateTime = None, qc_Error = [], qc_Transports = [],
       qc_UncountableTransports = []\<rparr>,
     ss_Conditions = []\<rparr>"

definition zero_store :: store where
  "zero_store = \<lparr>st_Meta = empty_meta, st_Spec = zero_store_spec, st_Status = zero_store_status\<rparr>"

section \<open>Accessors\<close>

abbreviation st_Name :: "store \<Rightarrow> string" where
  "st_Name s \<equiv> m_Name (st_Meta s)"

abbreviation st_Namespace :: "store \<Rightarrow> string" where
  "st_Namespace s \<equiv> m_Namespace (st_Meta s)"

abbreviation st_Container :: "store \<Rightarrow> container_spec" where
  "st_Container s \<equiv> sp_Container (st_Spec s)"

definition set_Container :: "container_spec \<Rightarrow> store \<Rightarrow> store" where
  "set_Container c s = s\<lparr>st_Spec := (st_Spec s)\<lparr>sp_Container := c\<rparr>\<rparr>"

definition update_Status :: "(store_status \<Rightarrow> store_status) \<Rightarrow> store \<Rightarrow> store" where
  "update_Status f s = s\<lparr>st_Status := f (st_Status s)\<rparr>"

definition GetSecretName :: "store \<Rightarrow> string" where
  "GetSecretName s = sp_SecretName (st_Spec s)"

definition RequiresTLSSecret :: "database_spec \<Rightarrow> bool" where
  "RequiresTLSSecret d = EqualFold (db_SSLMode d) ''REQUIRED''"

lemma set_Container_simps [simp]:
  "st_Meta (set_Container c s) = st_Meta s"
  "st_Status (set_Container c s) = st_Status s"
  "st_Container (set_Container c s) = c"
  "sp_StorefrontDeploymentContainer (st_Spec (set_Container c s)) =
     sp_StorefrontDeploymentContainer (st_Spec s)"
  "sp_AdminDeploymentContainer (st_Spec (set_Container c s)) =
     sp_AdminDeploymentContainer (st_Spec s)"
  "sp_WorkerDeploymentContainer (st_Spec (set_Container c s)) =
     sp_WorkerDeploymentContainer (st_Spec s)"
  "sp_Worker (st_Spec (set_Container c s)) = sp_Worker (st_Spec s)"
  by (simp_all add: set_Container_def)

lemma update_Status_simps [simp]:
  "st_Meta (update_Status f s) = st_Meta s"
  "st_Spec (update_Status f s) = st_Spec s"
  "st_Status (update_Status f s) = f (st_Status s)"
  by (simp_all add: update_Status_def)

end
