(* ===== verification/Conditions.thy ===== *)
theory Conditions
  imports StoreTypes
begin

text \<open>
  The condition history in the status of a custom resource. Three resources have their own copy
  of \<open>AddCondition\<close> and \<open>GetLastCondition\<close> (\<open>store_status.go\<close>, which the snapshot status embeds
  too, \<open>execstatus.go\<close> and \<open>storedebuginstance_status.go\<close>). The locale \<open>condition_list\<close> states
  what they share: a history of bounded length in which consecutive entries have different
  types and whose last entry is the one just reported. It is interpreted for all three.
\<close>

definition maxStatusesQuantity :: nat where
  "maxStatusesQuantity = 6"

section \<open>The three implementations\<close>

definition AddCondition :: "store_condition list \<Rightarrow> store_condition \<Rightarrow> store_condition list" where
  "AddCondition cs c =
     (if length cs = 0 then cs @ [c]
      else if con_Type (cs ! (length cs - 1)) = con_Type c then cs[length cs - 1 := c]
      else let cs' = (if con_Type (cs ! (length cs - 1)) \<noteq> con_Type c then cs @ [c] else cs)
           in if length cs' > maxStatusesQuantity
              then drop (length cs' - maxStatusesQuantity) cs' else cs')"

definition zero_condition :: store_condition where
  "zero_condition = \<lparr>con_Type = [], con_LastTransitionTime = None, con_LastUpdateTime = None,
     con_Message = [], con_Reason = [], con_Status = []\<rparr>"

definition GetLastCondition :: "store_condition list \<Rightarrow> store_condition" where
  "GetLastCondition cs = (if length cs = 0 then zero_condition else cs ! (length cs - 1))"

definition ExecAddCondition :: "exec_condition list \<Rightarrow> exec_condition \<Rightarrow> exec_condition list" where
  "ExecAddCondition cs c =
     (if length cs = 0 then cs @ [c]
      else if ec_Type (cs ! (length cs - 1)) = ec_Type c then cs[length cs - 1 := c]
      else let cs' = (if ec_Type (cs ! (length cs - 1)) \<noteq> ec_Type c then cs @ [c] else cs)
           in if length cs' > maxStatusesQuantity
              then drop (length cs' - maxStatusesQuantity) cs' else cs')"

definition zero_exec_condition :: exec_condition where
  "zero_exec_condition = \<lparr>ec_Type = ExecStateEmpty, ec_LastTransitionTime = None,
     ec_LastUpdateTime = None, ec_Message = [], ec_Reason = [], ec_Status = []\<rparr>"

definition ExecGetLastCondition :: "exec_condition list \<Rightarrow> exec_condition" where
  "ExecGetLastCondition cs = (if length cs = 0 then zero_exec_condition else cs ! (length cs - 1))"

definition DebugAddCondition :: "debug_condition list \<Rightarrow> debug_condition \<Rightarrow> debug_condition list" where
  "DebugAddCondition cs c =
     (if length cs = 0 then cs @ [c]
      else if dbc_Type (cs ! (length cs - 1)) = dbc_Type c then cs[length cs - 1 := c]
      else let cs' = (if dbc_Type (cs ! (length cs - 1)) \<noteq> dbc_Type c then cs @ [c] else cs)
           in if length cs' > maxStatusesQuantity
              then drop (length cs' - maxStatusesQuantity) cs' else cs')"

definition zero_debug_condition :: debug_condition where
  "zero_debug_condition = \<lparr>dbc_Type = StoreDebugInstanceStateUnspecified,
     dbc_LastTransitionTime = None, dbc_LastUpdateTime = None, dbc_Message = [],
     dbc_Reason = [], dbc_Status = []\<rparr>"

definition DebugGetLastCondition :: "debug_condition list \<Rightarrow> debug_condition" where
  "DebugGetLastCondition cs = (if length cs = 0 then zero_debug_condition else cs ! (length cs - 1))"

text \<open>\<open>IsState\<close> of the four resources is \<open>slices.Contains\<close> on the state.\<close>

definition IsState :: "store \<Rightarrow> app_state list \<Rightarrow> bool" where
  "IsState s states \<longleftrightarrow> ss_State (st_Status s) \<in> set states"

definition ExecIsState :: "store_exec \<Rightarrow> exec_state list \<Rightarrow> bool" where
  "ExecIsState e states \<longleftrightarrow> es_State (e_Status e) \<in> set states"

definition DebugIsState :: "debug_instance \<Rightarrow> debug_state list \<Rightarrow> bool" where
  "DebugIsState d states \<longleftrightarrow> dbs_State (dbi_Status d) \<in> set states"

definition SnapshotIsState :: "snapshot_status \<Rightarrow> snapshot_state list \<Rightarrow> bool" where
  "SnapshotIsState s states \<longleftrightarrow> sns_State s \<in> set states"

section \<open>The contract\<close>

text \<open>
  \<open>well_formed\<close> is the invariant of a history: at most \<open>maxStatusesQuantity\<close> entries, and
  neighbours of different types.
\<close>

locale condition_list =
  fixes add :: "'c list \<Rightarrow> 'c \<Rightarrow> 'c list"
    and ctype :: "'c \<Rightarrow> 't"
    and latest :: "'c list \<Rightarrow> 'c"
  assumes add_Nil: "add [] c = [c]"
    and add_same: "cs \<noteq> [] \<Longrightarrow> ctype (last cs) = ctype c \<Longrightarrow> add cs c = butlast cs @ [c]"
    and add_other: "cs \<noteq> [] \<Longrightarrow> ctype (last cs) \<noteq> ctype c \<Longrightarrow>
          add cs c = drop (length cs + 1 - maxStatusesQuantity) cs @ [c]"
    and latest_last: "cs \<noteq> [] \<Longrightarrow> latest cs = last cs"
begin

definition well_formed :: "'c list \<Rightarrow> bool" where
  "well_formed cs \<longleftrightarrow> length cs \<le> maxStatusesQuantity \<and> distinct_adj (map ctype cs)"

definition keep :: "'c list \<Rightarrow> 'c \<Rightarrow> 'c list" where
  "keep cs c = (if cs \<noteq> [] \<and> ctype (last cs) = ctype c then butlast cs else cs)"

lemma add_decomp:
  "\<exists>n. add cs c = drop n (keep cs c) @ [c] \<and> (length cs < maxStatusesQuantity \<longrightarrow> n = 0)"
proof (cases "cs = []")
  case True
  then show ?thesis by (intro exI [of _ 0]) (simp add: add_Nil keep_def)
next
  case False
  show ?thesis
  proof (cases "ctype (last cs) = ctype c")
    case True
    with False show ?thesis by (intro exI [of _ 0]) (simp add: add_same keep_def)
  next
    case other: False
    with False show ?thesis
      by (intro exI [of _ "length cs + 1 - maxStatusesQuantity"]) (simp add: add_other keep_def)
  qed
qed

lemma add_nonempty: "add cs c \<noteq> []"
  using add_decomp [of cs c] by auto

lemma latest_add: "latest (add cs c) = c"
  using add_decomp [of cs c] by (auto simp: latest_last)

lemma add_length: "length cs \<le> maxStatusesQuantity \<Longrightarrow> length (add cs c) \<le> maxStatusesQuantity"
  by (cases "cs = []"; cases "ctype (last cs) = ctype c")
    (auto simp: add_Nil add_same add_other maxStatusesQuantity_def)

lemma distinct_adj_drop: "distinct_adj xs \<Longrightarrow> distinct_adj (drop n xs)"
  by (metis append_take_drop_id distinct_adj_append_iff)

lemma distinct_adj_butlast: "distinct_adj xs \<Longrightarrow> distinct_adj (butlast xs)"
  by (metis append_butlast_last_id butlast.simps(1) distinct_adj_append_iff)

lemma butlast_last_neq:
  "distinct_adj xs \<Longrightarrow> butlast xs \<noteq> [] \<Longrightarrow> last (butlast xs) \<noteq> last xs"
  by (metis append_butlast_last_id butlast.simps(1) distinct_adj_append_iff list.sel(1)
      not_Cons_self2)

lemma keep_last_differs:
  assumes "distinct_adj (map ctype cs)" and "drop n (keep cs c) \<noteq> []"
  shows "ctype (last (drop n (keep cs c))) \<noteq> ctype c"
proof -
  have l: "last (drop n (keep cs c)) = last (keep cs c)"
    using assms(2) by simp
  show ?thesis
  proof (cases "cs \<noteq> [] \<and> ctype (last cs) = ctype c")
    case True
    then have k: "keep cs c = butlast cs" by (simp add: keep_def)
    with assms(2) have "butlast cs \<noteq> []" by (metis drop_Nil)
    then have "last (butlast (map ctype cs)) \<noteq> last (map ctype cs)"
      using butlast_last_neq [OF assms(1)] by (metis map_butlast map_is_Nil_conv)
    with True l k \<open>butlast cs \<noteq> []\<close> show ?thesis
      by (simp add: map_butlast [symmetric] last_map)
  next
    case False
    with assms(2) l show ?thesis by (auto simp: keep_def)
  qed
qed

lemma add_distinct_adj:
  assumes "distinct_adj (map ctype cs)"
  shows "distinct_adj (map ctype (add cs c))"
proof -
  obtain n where a: "add cs c = drop n (keep cs c) @ [c]"
    using add_decomp by blast
  have "distinct_adj (map ctype (keep cs c))"
    using assms distinct_adj_butlast by (auto simp: keep_def map_butlast)
  then have "distinct_adj (map ctype (drop n (keep cs c)))"
    by (simp add: drop_map [symmetric] distinct_adj_drop)
  with keep_last_differs [OF assms, of n c] show ?thesis
    by (cases "drop n (keep cs c) = []") (auto simp: a distinct_adj_append_iff last_map)
qed

lemma well_formed_Nil: "well_formed []"
  by (simp add: well_formed_def)

lemma well_formed_add: "well_formed cs \<Longrightarrow> well_formed (add cs c)"
  by (simp add: well_formed_def add_length add_distinct_adj)

lemma well_formed_foldl: "well_formed cs \<Longrightarrow> well_formed (foldl add cs xs)"
  by (induction xs arbitrary: cs) (auto simp: well_formed_add)

lemma latest_foldl: "xs \<noteq> [] \<Longrightarrow> latest (foldl add cs xs) = last xs"
  by (induction xs rule: rev_induct) (auto simp: latest_add)

text \<open>Entries already in the history are dropped from its old end only, or replaced by the new one.\<close>

lemma add_set: "set (add cs c) \<subseteq> insert c (set cs)"
proof -
  obtain n where "add cs c = drop n (keep cs c) @ [c]" using add_decomp by blast
  moreover have "set (keep cs c) \<subseteq> set cs" by (auto simp: keep_def dest: in_set_butlastD)
  ultimately show ?thesis using set_drop_subset [of n "keep cs c"] by auto
qed

end

section \<open>The providers\<close>

lemma update_last: "cs \<noteq> [] \<Longrightarrow> cs[length cs - Suc 0 := c] = butlast cs @ [c]"
  unfolding One_nat_def [symmetric]
  by (metis append_butlast_last_id length_butlast list_update_length)

lemma window:
  "(if length (cs @ [c]) > m then drop (length (cs @ [c]) - m) (cs @ [c]) else cs @ [c]) =
     drop (length cs + 1 - m) cs @ [c]" if "0 < m" for m :: nat
  using that by (cases "length cs + 1 - m") auto

interpretation store_conditions: condition_list AddCondition con_Type GetLastCondition
proof unfold_locales
  fix cs :: "store_condition list" and c
  show "AddCondition [] c = [c]" by (simp add: AddCondition_def)
  show "cs \<noteq> [] \<Longrightarrow> con_Type (last cs) = con_Type c \<Longrightarrow> AddCondition cs c = butlast cs @ [c]"
    by (simp add: AddCondition_def last_conv_nth update_last)
  show "cs \<noteq> [] \<Longrightarrow> con_Type (last cs) \<noteq> con_Type c \<Longrightarrow>
      AddCondition cs c = drop (length cs + 1 - maxStatusesQuantity) cs @ [c]"
    using window [of maxStatusesQuantity cs c]
    by (simp add: AddCondition_def last_conv_nth Let_def maxStatusesQuantity_def)
  show "cs \<noteq> [] \<Longrightarrow> GetLastCondition cs = last cs"
    by (simp add: GetLastCondition_def last_conv_nth)
qed

interpretation exec_conditions: condition_list ExecAddCondition ec_Type ExecGetLastCondition
proof unfold_locales
  fix cs :: "exec_condition list" and c
  show "ExecAddCondition [] c = [c]" by (simp add: ExecAddCondition_def)
  show "cs \<noteq> [] \<Longrightarrow> ec_Type (last cs) = ec_Type c \<Longrightarrow> ExecAddCondition cs c = butlast cs @ [c]"
    by (simp add: ExecAddCondition_def last_conv_nth update_last)
  show "cs \<noteq> [] \<Longrightarrow> ec_Type (last cs) \<noteq> ec_Type c \<Longrightarrow>
      ExecAddCondition cs c = drop (length cs + 1 - maxStatusesQuantity) cs @ [c]"
    using window [of maxStatusesQuantity cs c]
    by (simp add: ExecAddCondition_def last_conv_nth Let_def maxStatusesQuantity_def)
  show "cs \<noteq> [] \<Longrightarrow> ExecGetLastCondition cs = last cs"
    by (simp add: ExecGetLastCondition_def last_conv_nth)
qed

interpretation debug_conditions: condition_list DebugAddCondition dbc_Type DebugGetLastCondition
proof unfold_locales
  fix cs :: "debug_condition list" and c
  show "DebugAddCondition [] c = [c]" by (simp add: DebugAddCondition_def)
  show "cs \<noteq> [] \<Longrightarrow> dbc_Type (last cs) = dbc_Type c \<Longrightarrow> DebugAddCondition cs c = butlast cs @ [c]"
    by (simp add: DebugAddCondition_def last_conv_nth update_last)
  show "cs \<noteq> [] \<Longrightarrow> dbc_Type (last cs) \<noteq> dbc_Type c \<Longrightarrow>
      DebugAddCondition cs c = drop (length cs + 1 - maxStatusesQuantity) cs @ [c]"
    using window [of maxStatusesQuantity cs c]
    by (simp add: DebugAddCondition_def last_conv_nth Let_def maxStatusesQuantity_def)
  show "cs \<noteq> [] \<Longrightarrow> DebugGetLastCondition cs = last cs"
    by (simp add: DebugGetLastCondition_def last_conv_nth)
qed

section \<open>Properties\<close>

text \<open>
  C34: whatever a controller reports, the history kept in the status of a Store, of a StoreExec and
  of a StoreDebugInstance holds at most six entries, has no two neighbours of the same type, and
  its last condition is the last one reported.
\<close>

theorem condition_history:
  "length (foldl AddCondition [] (xs @ [x])) \<le> 6 \<and>
   distinct_adj (map con_Type (foldl AddCondition [] (xs @ [x]))) \<and>
   GetLastCondition (foldl AddCondition [] (xs @ [x])) = x \<and>
   length (foldl ExecAddCondition [] (ys @ [y])) \<le> 6 \<and>
   distinct_adj (map ec_Type (foldl ExecAddCondition [] (ys @ [y]))) \<and>
   ExecGetLastCondition (foldl ExecAddCondition [] (ys @ [y])) = y \<and>
   length (foldl DebugAddCondition [] (zs @ [z])) \<le> 6 \<and>
   distinct_adj (map dbc_Type (foldl DebugAddCondition [] (zs @ [z]))) \<and>
   DebugGetLastCondition (foldl DebugAddCondition [] (zs @ [z])) = z"
  using store_conditions.well_formed_foldl [OF store_conditions.well_formed_Nil, of "xs @ [x]"]
    exec_conditions.well_formed_foldl [OF exec_conditions.well_formed_Nil, of "ys @ [y]"]
    debug_conditions.well_formed_foldl [OF debug_conditions.well_formed_Nil, of "zs @ [z]"]
  by (simp add: store_conditions.well_formed_def exec_conditions.well_formed_def
      debug_conditions.well_formed_def maxStatusesQuantity_def store_conditions.latest_add
      exec_conditions.latest_add debug_conditions.latest_add)

end
