(* ===== verification/ContainerMerge.thy ===== *)
theory ContainerMerge
  imports Conditions
begin

text \<open>
  Overlaying a per-workload override on the container specification of a Store
  (\<open>mergeVolumeMountsByName\<close>, \<open>mergeVolumesByName\<close> and \<open>ContainerSpec.Merge\<close> of
  \<open>api/v1/store.go\<close>).

  Go passes a Store by value as a struct copy, whose maps and slices are still shared with the
  original. \<open>Merge\<close> writes into the maps it finds and into the array behind the mounts and the
  volumes. \<open>Merge\<close> below is what the receiver becomes; \<open>Merge_shared\<close> is what a struct copy taken
  before the call reads afterwards. Slices come from a deep copy of the informer cache, so their
  capacity is their length and the first append moves them to a new array.
\<close>

section \<open>Merging by name\<close>

text \<open>
  The two Go functions differ in the element type only. \<open>index_names\<close> is the first loop (a later
  entry overwrites the index of an earlier one), \<open>merge_loop\<close> the second one.
\<close>

fun index_names :: "('a \<Rightarrow> string) \<Rightarrow> nat \<Rightarrow> 'a list \<Rightarrow> (string, nat) fmap \<Rightarrow> (string, nat) fmap" where
  "index_names nm i [] idx = idx"
| "index_names nm i (x # xs) idx = index_names nm (Suc i) xs (fmupd (nm x) i idx)"

fun merge_loop :: "('a \<Rightarrow> string) \<Rightarrow> (string, nat) fmap \<Rightarrow> 'a list \<Rightarrow> 'a list \<Rightarrow> 'a list" where
  "merge_loop nm idx base [] = base"
| "merge_loop nm idx base (m # ms) =
     (case fmlookup idx (nm m) of
        Some i \<Rightarrow> merge_loop nm idx (base[i := m]) ms
      | None \<Rightarrow> merge_loop nm (fmupd (nm m) (length base) idx) (base @ [m]) ms)"

text \<open>What the caller's slice holds after the loop: writes before the first append.\<close>

fun shared_loop :: "('a \<Rightarrow> string) \<Rightarrow> (string, nat) fmap \<Rightarrow> 'a list \<Rightarrow> 'a list \<Rightarrow> 'a list" where
  "shared_loop nm idx base [] = base"
| "shared_loop nm idx base (m # ms) =
     (case fmlookup idx (nm m) of
        Some i \<Rightarrow> shared_loop nm idx (base[i := m]) ms
      | None \<Rightarrow> base)"

definition mergeVolumeMountsByName :: "volume_mount list \<Rightarrow> volume_mount list \<Rightarrow> volume_mount list" where
  "mergeVolumeMountsByName base from = merge_loop vm_Name (index_names vm_Name 0 base fmempty) base from"

definition mergeVolumesByName :: "volume list \<Rightarrow> volume list \<Rightarrow> volume list" where
  "mergeVolumesByName base from = merge_loop vol_Name (index_names vol_Name 0 base fmempty) base from"

definition sharedVolumeMounts :: "volume_mount list \<Rightarrow> volume_mount list \<Rightarrow> volume_mount list" where
  "sharedVolumeMounts base from = shared_loop vm_Name (index_names vm_Name 0 base fmempty) base from"

definition sharedVolumes :: "volume list \<Rightarrow> volume list \<Rightarrow> volume list" where
  "sharedVolumes base from = shared_loop vol_Name (index_names vol_Name 0 base fmempty) base from"

section \<open>Merge\<close>

definition override_str :: "string \<Rightarrow> string \<Rightarrow> string" where
  "override_str old new = (if new \<noteq> [] then new else old)"

definition override_word :: "('a::len) word \<Rightarrow> 'a word \<Rightarrow> 'a word" where
  "override_word old new = (if new \<noteq> 0 then new else old)"

definition override_nil :: "'a \<Rightarrow> 'a option \<Rightarrow> 'a" where
  "override_nil old new = (case new of None \<Rightarrow> old | Some v \<Rightarrow> v)"

definition override_ptr :: "'a option \<Rightarrow> 'a option \<Rightarrow> 'a option" where
  "override_ptr old new = (case new of None \<Rightarrow> old | Some v \<Rightarrow> Some v)"

text \<open>
  Labels and annotations: only touched when the override has a map, which is copied into the
  existing one or into a new one. Resources: a missing map is always replaced by an empty one.
\<close>

definition merge_meta :: "gomap option \<Rightarrow> gomap option \<Rightarrow> gomap option" where
  "merge_meta c from =
     (case from of
        None \<Rightarrow> c
      | Some f \<Rightarrow> Some ((case c of None \<Rightarrow> fmempty | Some m \<Rightarrow> m) ++\<^sub>f f))"

definition merge_resources :: "resource_list option \<Rightarrow> resource_list option \<Rightarrow> resource_list option" where
  "merge_resources c from =
     (let m = (case c of None \<Rightarrow> fmempty | Some m \<Rightarrow> m)
      in Some (case from of None \<Rightarrow> m | Some f \<Rightarrow> m ++\<^sub>f f))"

definition affinity_set :: "affinity \<Rightarrow> bool" where
  "affinity_set a \<longleftrightarrow> af_NodeAffinity a \<noteq> None \<or> af_PodAffinity a \<noteq> None \<or> af_PodAntiAffinity a \<noteq> None"

definition Merge :: "container_spec \<Rightarrow> container_merge_spec \<Rightarrow> container_spec" where
  "Merge c from =
     \<lparr>cs_Image = override_str (cs_Image c) (cm_Image from),
      cs_ImagePullPolicy = override_str (cs_ImagePullPolicy c) (cm_ImagePullPolicy from),
      cs_Volumes = (case cm_Volumes from of None \<Rightarrow> cs_Volumes c
                    | Some v \<Rightarrow> mergeVolumesByName (cs_Volumes c) v),
      cs_Port = cs_Port c,
      cs_VolumeMounts = (case cm_VolumeMounts from of None \<Rightarrow> cs_VolumeMounts c
                         | Some v \<Rightarrow> mergeVolumeMountsByName (cs_VolumeMounts c) v),
      cs_ImagePullSecrets = override_nil (cs_ImagePullSecrets c) (cm_ImagePullSecrets from),
      cs_RestartPolicy = override_str (cs_RestartPolicy c) (cm_RestartPolicy from),
      cs_SecurityContext = override_ptr (cs_SecurityContext c) (cm_SecurityContext from),
      cs_ExtraContainers = override_nil (cs_ExtraContainers c) (cm_ExtraContainers from),
      cs_InitContainers = override_nil (cs_InitContainers c) (cm_InitContainers from),
      cs_Replicas = override_word (cs_Replicas c) (cm_Replicas from),
      cs_ProgressDeadlineSeconds =
        override_word (cs_ProgressDeadlineSeconds c) (cm_ProgressDeadlineSeconds from),
      cs_TerminationGracePeriodSeconds =
        override_word (cs_TerminationGracePeriodSeconds c) (cm_TerminationGracePeriodSeconds from),
      cs_Annotations = merge_meta (cs_Annotations c) (cm_Annotations from),
      cs_Labels = merge_meta (cs_Labels c) (cm_Labels from),
      cs_NodeSelector = override_ptr (cs_NodeSelector c) (cm_NodeSelector from),
      cs_TopologySpreadConstraints =
        override_nil (cs_TopologySpreadConstraints c) (cm_TopologySpreadConstraints from),
      cs_Tolerations = override_nil (cs_Tolerations c) (cm_Tolerations from),
      cs_Affinity = (if affinity_set (cm_Affinity from) then cm_Affinity from else cs_Affinity c),
      cs_Resources =
        \<lparr>rr_Requests = merge_resources (rr_Requests (cs_Resources c)) (rr_Requests (cm_Resources from)),
         rr_Limits = merge_resources (rr_Limits (cs_Resources c)) (rr_Limits (cm_Resources from))\<rparr>,
      cs_ServiceAccountName = override_str (cs_ServiceAccountName c) (cm_ServiceAccountName from),
      cs_EnableServiceLinks = override_ptr (cs_EnableServiceLinks c) (cm_EnableServiceLinks from),
      cs_ExtraEnvs = override_nil (cs_ExtraEnvs c) (cm_ExtraEnvs from)\<rparr>"

text \<open>
  The copy that shares its maps with the receiver: a nil map stays nil in the copy, an existing
  map has received the entries of the override.
\<close>

definition shared_map :: "('k, 'v) fmap option \<Rightarrow> ('k, 'v) fmap option \<Rightarrow> ('k, 'v) fmap option" where
  "shared_map c from = (case (c, from) of (Some m, Some f) \<Rightarrow> Some (m ++\<^sub>f f) | _ \<Rightarrow> c)"

definition Merge_shared :: "container_spec \<Rightarrow> container_merge_spec \<Rightarrow> container_spec" where
  "Merge_shared c from =
     c\<lparr>cs_Volumes := (case cm_Volumes from of None \<Rightarrow> cs_Volumes c
                      | Some v \<Rightarrow> sharedVolumes (cs_Volumes c) v),
       cs_VolumeMounts := (case cm_VolumeMounts from of None \<Rightarrow> cs_VolumeMounts c
                           | Some v \<Rightarrow> sharedVolumeMounts (cs_VolumeMounts c) v),
       cs_Annotations := shared_map (cs_Annotations c) (cm_Annotations from),
       cs_Labels := shared_map (cs_Labels c) (cm_Labels from),
       cs_Resources :=
         \<lparr>rr_Requests = shared_map (rr_Requests (cs_Resources c)) (rr_Requests (cm_Resources from)),
          rr_Limits = shared_map (rr_Limits (cs_Resources c)) (rr_Limits (cm_Resources from))\<rparr>\<rparr>"

lemmas override_defs =
  override_str_def override_word_def override_nil_def override_ptr_def

section \<open>The index kept by the loop\<close>

text \<open>The index names exactly the positions of the list; this needs unique names.\<close>

definition idx_ok :: "('a \<Rightarrow> string) \<Rightarrow> (string, nat) fmap \<Rightarrow> 'a list \<Rightarrow> bool" where
  "idx_ok nm idx base \<longleftrightarrow> (\<forall>n i. fmlookup idx n = Some i \<longleftrightarrow> i < length base \<and> nm (base ! i) = n)"

lemma idx_ok_distinct: "idx_ok nm idx base \<Longrightarrow> distinct (map nm base)"
  unfolding idx_ok_def distinct_conv_nth by (metis length_map nth_map option.inject)

lemma idx_ok_Some: "idx_ok nm idx base \<Longrightarrow> fmlookup idx n = Some i \<Longrightarrow> i < length base \<and> nm (base ! i) = n"
  by (simp add: idx_ok_def)

lemma idx_ok_None: "idx_ok nm idx base \<Longrightarrow> fmlookup idx n = None \<Longrightarrow> n \<notin> nm ` set base"
  by (auto simp: idx_ok_def in_set_conv_nth) (metis option.distinct(1))

lemma idx_ok_update:
  assumes "idx_ok nm idx base" and "fmlookup idx (nm m) = Some i"
  shows "idx_ok nm idx (base[i := m])"
  using assms by (auto simp: idx_ok_def nth_list_update split: if_splits)

lemma idx_ok_append:
  assumes "idx_ok nm idx base" and "fmlookup idx (nm m) = None"
  shows "idx_ok nm (fmupd (nm m) (length base) idx) (base @ [m])"
proof -
  have "nm (base ! i) \<noteq> nm m" if "i < length base" for i
    using assms that by (metis idx_ok_def option.distinct(1))
  with assms(1) show ?thesis
    by (auto simp: idx_ok_def nth_append less_Suc_eq split: if_splits)
qed

lemma idx_ok_index_names:
  assumes "idx_ok nm idx ys" and "distinct (map nm (ys @ xs))"
  shows "idx_ok nm (index_names nm (length ys) xs idx) (ys @ xs)"
  using assms
proof (induction xs arbitrary: ys idx)
  case (Cons x xs)
  have none: "fmlookup idx (nm x) = None"
  proof (rule ccontr)
    assume "fmlookup idx (nm x) \<noteq> None"
    then obtain i where "i < length ys" "nm (ys ! i) = nm x"
      using Cons.prems(1) by (auto simp: idx_ok_def)
    with Cons.prems(2) show False by (auto simp: image_iff) (metis nth_mem)
  qed
  have "idx_ok nm (fmupd (nm x) (length ys) idx) (ys @ [x])"
    using Cons.prems(1) none by (rule idx_ok_append)
  with Cons.IH [of "fmupd (nm x) (length ys) idx" "ys @ [x]"] Cons.prems(2) show ?case by simp
qed simp

lemma idx_ok_start: "distinct (map nm xs) \<Longrightarrow> idx_ok nm (index_names nm 0 xs fmempty) xs"
  using idx_ok_index_names [of nm fmempty "[]" xs] by (simp add: idx_ok_def)

section \<open>Result of the loop\<close>

definition named :: "('a \<Rightarrow> string) \<Rightarrow> 'a list \<Rightarrow> string \<Rightarrow> 'a option" where
  "named nm xs n = map_of (map (\<lambda>x. (nm x, x)) xs) n"

lemma named_simps [simp]:
  "named nm [] n = None"
  "named nm (x # xs) n = (if nm x = n then Some x else named nm xs n)"
  by (auto simp: named_def)

lemma named_append: "named nm (xs @ ys) n = (case named nm xs n of None \<Rightarrow> named nm ys n | Some x \<Rightarrow> Some x)"
  by (auto simp: named_def map_add_def split: option.splits)

lemma named_None: "named nm xs n = None \<longleftrightarrow> n \<notin> nm ` set xs"
  by (induction xs) auto

lemma named_update:
  assumes "distinct (map nm xs)" "i < length xs" "nm (xs ! i) = nm m"
  shows "named nm (xs[i := m]) n = (if n = nm m then Some m else named nm xs n)"
  using assms
proof (induction xs arbitrary: i)
  case (Cons x xs)
  show ?case
  proof (cases i)
    case 0
    with Cons.prems show ?thesis by auto
  next
    case (Suc j)
    with Cons.prems have "nm x \<noteq> nm m"
      by (metis distinct.simps(2) length_Cons list.simps(9) not_less_eq nth_Cons_Suc length_map
          nth_map nth_mem)
    with Cons Suc show ?thesis by auto
  qed
qed simp

lemma merge_loop_props:
  assumes "idx_ok nm idx base"
  shows "distinct (map nm (merge_loop nm idx base new))"
    and "named nm (merge_loop nm idx base new) n =
           (case named nm (rev new) n of None \<Rightarrow> named nm base n | Some x \<Rightarrow> Some x)"
    and "take (length base) (map nm (merge_loop nm idx base new)) = map nm base"
  using assms
proof (induction new arbitrary: idx base)
  case Nil
  {
    case 1
    then show ?case by (simp add: idx_ok_distinct)
  next
    case 2
    then show ?case by simp
  next
    case 3
    then show ?case by simp
  }
next
  case (Cons m ms)
  {
    case 1
    then show ?case
      using Cons.IH(1) by (auto split: option.splits intro: idx_ok_update idx_ok_append)
  next
    case 2
    show ?case
    proof (cases "fmlookup idx (nm m)")
      case None
      with 2 Cons.IH(2) [OF idx_ok_append [OF 2 None]] idx_ok_None [OF 2 None]
      show ?thesis
        by (auto simp: named_append named_None [symmetric] split: option.splits)
    next
      case (Some i)
      with 2 have "i < length base" "nm (base ! i) = nm m" by (auto dest: idx_ok_Some)
      with 2 Some Cons.IH(2) [OF idx_ok_update [OF 2 Some]] show ?thesis
        by (auto simp: named_append named_update idx_ok_distinct split: option.splits)
    qed
  next
    case 3
    show ?case
    proof (cases "fmlookup idx (nm m)")
      case None
      with Cons.IH(3) [OF idx_ok_append [OF 3 None]] show ?thesis
        by (metis (no_types, lifting) append_eq_conv_conj length_append length_map map_append
            merge_loop.simps(2) min.absorb1 option.simps(4) take_add take_take le_add1)
    next
      case (Some i)
      with 3 have "i < length base" "nm (base ! i) = nm m" by (auto dest: idx_ok_Some)
      then have "map nm (base[i := m]) = map nm base"
        by (metis list_update_id map_update)
      with Some Cons.IH(3) [OF idx_ok_update [OF 3 Some]] show ?thesis by simp
    qed
  }
qed

lemma shared_loop_names:
  "idx_ok nm idx base \<Longrightarrow> map nm (shared_loop nm idx base new) = map nm base"
proof (induction new arbitrary: idx base)
  case (Cons m ms)
  show ?case
  proof (cases "fmlookup idx (nm m)")
    case (Some i)
    with Cons.prems have "i < length base" "nm (base ! i) = nm m" by (auto dest: idx_ok_Some)
    then have "map nm (base[i := m]) = map nm base" by (metis list_update_id map_update)
    with Some Cons.IH [OF idx_ok_update [OF Cons.prems Some]] show ?thesis by simp
  qed simp
qed simp

lemma merge_loop_present:
  assumes "idx_ok nm idx base" and "nm ` set new \<subseteq> nm ` set base"
  shows "map nm (merge_loop nm idx base new) = map nm base"
  using assms
proof (induction new arbitrary: idx base)
  case (Cons m ms)
  from Cons.prems obtain i where i: "fmlookup idx (nm m) = Some i"
    using idx_ok_None [OF Cons.prems(1), of "nm m"] by (cases "fmlookup idx (nm m)") auto
  with Cons.prems have "i < length base" "nm (base ! i) = nm m" by (auto dest: idx_ok_Some)
  then have m: "map nm (base[i := m]) = map nm base" by (metis list_update_id map_update)
  then have "nm ` set (base[i := m]) = nm ` set base" by (metis set_map)
  with Cons i m idx_ok_update [OF Cons.prems(1) i] show ?case by simp
qed simp

lemma named_nth: "distinct (map nm xs) \<Longrightarrow> i < length xs \<Longrightarrow> named nm xs (nm (xs ! i)) = Some (xs ! i)"
  unfolding named_def by (rule map_of_is_SomeI) (auto simp: comp_def)

lemma named_eqI:
  assumes "map nm xs = map nm ys" "distinct (map nm ys)" "\<And>n. named nm xs n = named nm ys n"
  shows "xs = ys"
proof (rule nth_equalityI)
  show l: "length xs = length ys" using assms(1) by (metis length_map)
  fix i assume i: "i < length xs"
  then have "nm (xs ! i) = nm (ys ! i)" using assms(1) l by (metis nth_map)
  moreover have "distinct (map nm xs)" using assms(1,2) by simp
  ultimately show "xs ! i = ys ! i"
    using named_nth [of nm xs i] named_nth [of nm ys i] assms(2,3) i l by (metis option.inject)
qed

text \<open>Merging by name as a function of two lists, the common form of the two Go functions.\<close>

definition merge_by :: "('a \<Rightarrow> string) \<Rightarrow> 'a list \<Rightarrow> 'a list \<Rightarrow> 'a list" where
  "merge_by nm base new = merge_loop nm (index_names nm 0 base fmempty) base new"

definition ex_base :: container_spec where
  "ex_base = zero_container_spec\<lparr>
     cs_Image := ''shop:1'',
     cs_Volumes := [\<lparr>vol_Name = ''a'', vol_Source = SecretVolume ''s1''\<rparr>],
     cs_VolumeMounts := [\<lparr>vm_Name = ''a'', vm_MountPath = ''/a'', vm_ReadOnly = True, vm_rest = []\<rparr>],
     cs_Labels := Some (fmap_of_list [(''team'', ''shop'')]),
     cs_Resources := \<lparr>rr_Requests = None, rr_Limits = Some (fmap_of_list [(''cpu'', Quantity ''1'' 1)])\<rparr>\<rparr>"

definition ex_override :: container_merge_spec where
  "ex_override = zero_merge_spec\<lparr>
     cm_Volumes := Some [\<lparr>vol_Name = ''b'', vol_Source = EmptyDirVolume ''1Gi''\<rparr>,
       \<lparr>vol_Name = ''a'', vol_Source = SecretVolume ''s2''\<rparr>],
     cm_VolumeMounts := Some [\<lparr>vm_Name = ''a'', vm_MountPath = ''/x'', vm_ReadOnly = False, vm_rest = []\<rparr>],
     cm_Labels := Some (fmap_of_list [(''tier'', ''admin'')]),
     cm_Resources := \<lparr>rr_Requests = None, rr_Limits = Some (fmap_of_list [(''cpu'', Quantity ''4'' 4)])\<rparr>\<rparr>"

lemma merge_by_Go:
  "mergeVolumesByName = merge_by vol_Name" "mergeVolumeMountsByName = merge_by vm_Name"
  by (auto simp: fun_eq_iff mergeVolumesByName_def mergeVolumeMountsByName_def merge_by_def)

lemma merge_by_props:
  assumes "distinct (map nm base)"
  shows "distinct (map nm (merge_by nm base new))"
    and "named nm (merge_by nm base new) n =
           (case named nm (rev new) n of None \<Rightarrow> named nm base n | Some x \<Rightarrow> Some x)"
    and "take (length base) (map nm (merge_by nm base new)) = map nm base"
  using merge_loop_props [OF idx_ok_start [OF assms]] by (simp_all add: merge_by_def)

lemma merge_by_idem:
  assumes "distinct (map nm base)"
  shows "merge_by nm (merge_by nm base new) new = merge_by nm base new" (is "merge_by nm ?r new = _")
proof (rule named_eqI [where nm = nm])
  note r = merge_by_props [OF assms, of new]
  have "n \<in> nm ` set ?r" if "n \<in> nm ` set new" for n
    using r(2) [of n] that by (metis named_None option.case_eq_if set_rev option.distinct(1))
  then show "map nm (merge_by nm ?r new) = map nm ?r"
    unfolding merge_by_def [of nm ?r] by (intro merge_loop_present idx_ok_start r(1)) auto
  show "distinct (map nm ?r)" by (rule r(1))
  show "named nm (merge_by nm ?r new) n = named nm ?r n" for n
    by (simp add: merge_by_props(2) [OF r(1)] r(2) split: option.splits)
qed

lemma override_idem:
  "override_str (override_str a b) b = override_str a b"
  "override_word (override_word v w) w = override_word v w"
  "override_nil (override_nil x y) y = override_nil x y"
  "override_ptr (override_ptr p q) q = override_ptr p q"
  by (auto simp: override_defs split: option.split)

lemma merge_meta_idem: "merge_meta (merge_meta c f) f = merge_meta c f"
  by (auto simp: merge_meta_def split: option.splits intro!: fmap_ext)

lemma merge_resources_idem: "merge_resources (merge_resources c f) f = merge_resources c f"
  by (auto simp: merge_resources_def Let_def split: option.splits intro!: fmap_ext)

section \<open>Properties\<close>

text \<open>
  C25: an override adds volumes and mounts by name. The names stay unique, the entries of the base
  keep their place, a name that the override lists is bound to its last entry there, and every
  other name to what it was.
\<close>

theorem Merge_volumes_by_name:
  assumes "distinct (map vol_Name (cs_Volumes c))" and "distinct (map vm_Name (cs_VolumeMounts c))"
    and "cm_Volumes f = Some vs" and "cm_VolumeMounts f = Some ms"
  shows "distinct (map vol_Name (cs_Volumes (Merge c f))) \<and>
    distinct (map vm_Name (cs_VolumeMounts (Merge c f))) \<and>
    take (length (cs_Volumes c)) (map vol_Name (cs_Volumes (Merge c f))) = map vol_Name (cs_Volumes c) \<and>
    take (length (cs_VolumeMounts c)) (map vm_Name (cs_VolumeMounts (Merge c f))) =
      map vm_Name (cs_VolumeMounts c) \<and>
    (\<forall>n. named vol_Name (cs_Volumes (Merge c f)) n =
       (case named vol_Name (rev vs) n of None \<Rightarrow> named vol_Name (cs_Volumes c) n | Some v \<Rightarrow> Some v)) \<and>
    (\<forall>n. named vm_Name (cs_VolumeMounts (Merge c f)) n =
       (case named vm_Name (rev ms) n of None \<Rightarrow> named vm_Name (cs_VolumeMounts c) n | Some v \<Rightarrow> Some v))"
  using assms(3,4) merge_by_props [OF assms(1)] merge_by_props [OF assms(2)]
  by (simp add: Merge_def merge_by_Go)

theorem Merge_volumes_by_name_witness:
  "named vol_Name (cs_Volumes (Merge ex_base ex_override)) ''a'' =
     Some \<lparr>vol_Name = ''a'', vol_Source = SecretVolume ''s2''\<rparr> \<and>
   distinct (map vol_Name (cs_Volumes (Merge ex_base ex_override)))"
  using Merge_volumes_by_name [of ex_base ex_override] by (simp add: ex_base_def ex_override_def)

text \<open>
  Applying the same override twice is the same as applying it once, for every field of the
  container specification.
\<close>

theorem Merge_idempotent:
  assumes "distinct (map vol_Name (cs_Volumes c))" and "distinct (map vm_Name (cs_VolumeMounts c))"
  shows "Merge (Merge c f) f = Merge c f"
proof -
  have "cs_Volumes (Merge (Merge c f) f) = cs_Volumes (Merge c f)"
    "cs_VolumeMounts (Merge (Merge c f) f) = cs_VolumeMounts (Merge c f)"
    using merge_by_idem [OF assms(1)] merge_by_idem [OF assms(2)]
    by (simp_all add: Merge_def merge_by_Go split: option.split)
  then show ?thesis
    unfolding Merge_def by (simp add: override_idem merge_meta_idem merge_resources_idem)
qed

theorem Merge_idempotent_witness:
  "Merge (Merge ex_base ex_override) ex_override = Merge ex_base ex_override \<and>
   Merge ex_base ex_override \<noteq> ex_base"
proof
  show "Merge (Merge ex_base ex_override) ex_override = Merge ex_base ex_override"
    by (rule Merge_idempotent) (simp_all add: ex_base_def)
  have "length (cs_Volumes (Merge ex_base ex_override)) \<noteq> length (cs_Volumes ex_base)"
    by (simp add: Merge_def ex_base_def ex_override_def mergeVolumesByName_def)
  then show "Merge ex_base ex_override \<noteq> ex_base" by metis
qed

text \<open>
  An override in which nothing is set leaves the specification alone, except that missing
  resource maps become empty ones.
\<close>

theorem Merge_zero:
  "Merge c zero_merge_spec =
     c\<lparr>cs_Resources :=
         \<lparr>rr_Requests = Some (case rr_Requests (cs_Resources c) of None \<Rightarrow> fmempty | Some m \<Rightarrow> m),
          rr_Limits = Some (case rr_Limits (cs_Resources c) of None \<Rightarrow> fmempty | Some m \<Rightarrow> m)\<rparr>\<rparr>"
  by (simp add: Merge_def zero_merge_spec_def override_defs merge_meta_def merge_resources_def
      affinity_set_def Let_def)

text \<open>
  A copy of the Store that was taken by value before \<open>Merge\<close> reads, for every label, annotation
  and resource of an existing map, what the override wrote: the call is visible outside the copy.
  All scalar fields of the copy keep their values.
\<close>

theorem Merge_writes_through_copies:
  assumes "cs_Labels c = Some l" and "cm_Labels f = Some fl"
    and "rr_Limits (cs_Resources c) = Some r" and "rr_Limits (cm_Resources f) = Some fr"
  shows "cs_Labels (Merge_shared c f) = cs_Labels (Merge c f) \<and>
    rr_Limits (cs_Resources (Merge_shared c f)) = rr_Limits (cs_Resources (Merge c f)) \<and>
    (\<forall>k v. fmlookup fr k = Some v \<longrightarrow>
       fmlookup (the (rr_Limits (cs_Resources (Merge_shared c f)))) k = Some v) \<and>
    cs_Image (Merge_shared c f) = cs_Image c \<and> cs_Replicas (Merge_shared c f) = cs_Replicas c"
  using assms
  by (auto simp: Merge_shared_def Merge_def shared_map_def merge_meta_def merge_resources_def
      dest: fmdomI)

theorem Merge_writes_through_copies_witness:
  "\<exists>r'. rr_Limits (cs_Resources (Merge_shared ex_base ex_override)) = Some r' \<and>
     fmlookup r' ''cpu'' = Some (Quantity ''4'' 4) \<and> cs_Image (Merge_shared ex_base ex_override) = ''shop:1''"
  using Merge_writes_through_copies [of ex_base _ ex_override]
  by (simp add: ex_base_def ex_override_def Merge_shared_def shared_map_def fmlookup_of_list)

end
