(* ===== verification/StoreEnv.thy ===== *)
theory StoreEnv
  imports ContainerMerge "HOL-Library.Sublist"
begin

text \<open>
  The environment of the Shopware containers (\<open>api/v1/store_env.go\<close>): one function per feature of
  the Store, \<open>operatorEnv\<close> which concatenates them, \<open>GetEnv\<close> which lets the extra variables of
  the Store replace or extend the list, \<open>OverriddenOperatorEnvs\<close>, and \<open>MergeEnv\<close> of
  \<open>internal/util/env.go\<close>. The package variable \<open>operatorServiceURL\<close> is an argument.
\<close>

definition DatabaseTLSVolumeName :: string where
  "DatabaseTLSVolumeName = ''shopware-database-tls''"

definition DatabaseTLSMountPath :: string where
  "DatabaseTLSMountPath = ''/etc/shopware/database-tls''"

definition DatabaseTLSCAFile :: string where
  "DatabaseTLSCAFile = DatabaseTLSMountPath @ ''/ca.crt''"

definition DatabaseTLSCertFile :: string where
  "DatabaseTLSCertFile = DatabaseTLSMountPath @ ''/tls.crt''"

definition DatabaseTLSKeyFile :: string where
  "DatabaseTLSKeyFile = DatabaseTLSMountPath @ ''/tls.key''"

definition GetDatabaseTLSVolumes :: "store \<Rightarrow> volume list" where
  "GetDatabaseTLSVolumes s =
     (let sec = dtls_SecretName (db_TLS (sp_Database (st_Spec s)))
      in if sec = [] then []
         else [\<lparr>vol_Name = DatabaseTLSVolumeName, vol_Source = SecretVolume sec\<rparr>])"

definition GetDatabaseTLSVolumeMounts :: "store \<Rightarrow> volume_mount list" where
  "GetDatabaseTLSVolumeMounts s =
     (if dtls_SecretName (db_TLS (sp_Database (st_Spec s))) = [] then []
      else [\<lparr>vm_Name = DatabaseTLSVolumeName, vm_MountPath = DatabaseTLSMountPath,
             vm_ReadOnly = True, vm_rest = []\<rparr>])"

section \<open>One function per feature\<close>

text \<open>The format \<open>scheme://host:port/index\<close> used for the redis settings.\<close>

definition redis_url :: "string \<Rightarrow> 'a redis_spec_scheme \<Rightarrow> string" where
  "redis_url scheme r =
     scheme @ ''://'' @ rd_RedisHost r @ '':'' @ Itoa (rd_RedisPort r) @ ''/'' @ Itoa (rd_RedisIndex r)"

definition getAppCache :: "store \<Rightarrow> env_var list" where
  "getAppCache s =
     (let c = sp_AppCache (st_Spec s) in
      if aca_Adapter c = ''redis'' then
        (if rd_RedisDSN c \<noteq> [] then
           [env_value ''K8S_CACHE_TYPE'' ''redis'', env_value ''K8S_REDIS_APP_DSN'' (rd_RedisDSN c)]
         else
           [env_value ''K8S_CACHE_TYPE'' ''redis'',
            env_value ''K8S_CACHE_HOST'' (rd_RedisHost c),
            env_value ''K8S_CACHE_PORT'' (Itoa (rd_RedisPort c)),
            env_value ''K8S_CACHE_INDEX'' (Itoa (rd_RedisIndex c)),
            env_value ''K8S_CACHE_URL'' (redis_url ''redis'' c)])
      else [])"

definition getOldSessionCache :: "store \<Rightarrow> env_var list" where
  "getOldSessionCache s =
     (let c = sp_SessionCache (st_Spec s) in
      if sca_Adapter c = ''redis'' then
        (if rd_RedisDSN c \<noteq> [] then
           [env_value ''REDIS_SESSION_DSN'' (rd_RedisDSN c),
            env_value ''PHP_SESSION_HANDLER'' ''redis'',
            env_value ''PHP_SESSION_SAVE_PATH'' ''tcp://127.0.0.1:6379'']
         else
           [env_value ''PHP_SESSION_HANDLER'' ''redis'',
            env_value ''PHP_SESSION_SAVE_PATH'' (redis_url ''tcp'' c)])
      else [env_value ''PHP_SESSION_HANDLER'' ''files''])"

definition getSessionCache :: "store \<Rightarrow> env_var list" where
  "getSessionCache s =
     (let c = sp_SessionCache (st_Spec s) in
      if sca_Adapter c = ''redis'' then
        [env_value ''K8S_REDIS_SESSION_DSN''
           (if rd_RedisDSN c \<noteq> [] then rd_RedisDSN c else redis_url ''redis'' c)]
      else [env_value ''PHP_SESSION_HANDLER'' ''files''])"

definition getLock :: "store \<Rightarrow> env_var list" where
  "getLock s =
     (let c = sp_Lock (st_Spec s) in
      if lk_Adapter c \<noteq> ''redis'' then []
      else [env_value ''LOCK_DSN'' (if rd_RedisDSN c = [] then redis_url ''redis'' c else rd_RedisDSN c)])"

definition getFPMConfiguration :: "fpm_spec \<Rightarrow> env_var list" where
  "getFPMConfiguration f =
     (if fpm_ProcessManagement f \<noteq> ''dynamic'' \<and> fpm_ProcessManagement f \<noteq> ''operator'' then
        [env_value ''FPM_PM'' (fpm_ProcessManagement f),
         env_value ''FPM_LISTEN'' (fpm_Listen f),
         env_value ''PHP_FPM_SCRAPE_URI'' (fpm_ScrapeURI f),
         env_value ''FPM_PM_STATUS_PATH'' (fpm_StatusPath f),
         env_value ''FPM_PM_MAX_CHILDREN'' (Itoa (fpm_MaxChildren f)),
         env_value ''FPM_PM_START_SERVERS'' (Itoa (fpm_StartServers f)),
         env_value ''FPM_PM_MIN_SPARE_SERVERS'' (Itoa (fpm_MinSpareServers f)),
         env_value ''FPM_PM_MAX_SPARE_SERVERS'' (Itoa (fpm_MaxSpareServers f))]
      else if fpm_ProcessManagement f = ''operator'' then [env_value ''FPM_PM'' ''dynamic'']
      else [env_value ''FPM_PM'' (fpm_ProcessManagement f)])"

definition getWorker :: "store \<Rightarrow> env_var list" where
  "getWorker s =
     (let c = sp_Worker (st_Spec s) in
      if wk_Adapter c = ''redis'' then
        [env_value ''MESSENGER_TRANSPORT_DSN''
           (if rd_RedisDSN c \<noteq> [] then rd_RedisDSN c
            else ''redis://'' @ rd_RedisHost c @ '':'' @ Itoa (rd_RedisPort c) @
                 ''/messages/symfony?auto_setup=true&serializer=1&stream_max_entries=0&dbindex='' @
                 Itoa (rd_RedisIndex c)),
         env_field ''MESSENGER_CONSUMER_NAME'' ''v1'' ''metadata.name'']
      else [])"

definition getOpensearch :: "store \<Rightarrow> env_var list" where
  "getOpensearch s =
     (let o' = sp_Opensearch (st_Spec s); sec = sp_SecretName (st_Spec s) in
      if os_Enabled o' then
        [env_secret ''OPENSEARCH_URL'' sec ''opensearch-url'',
         env_secret ''ADMIN_OPENSEARCH_URL'' sec ''opensearch-url'',
         env_value ''SHOPWARE_ES_ENABLED'' ''1'',
         env_value ''SHOPWARE_ES_INDEXING_ENABLED'' ''1'',
         env_value ''SHOPWARE_ADMIN_ES_ENABLED'' ''1'',
         env_value ''SHOPWARE_ADMIN_ES_REFRESH_INDICES'' ''1'',
         env_value ''SHOPWARE_ES_THROW_EXCEPTION'' ''1'',
         env_value ''K8S_ES_NUMBER_OF_REPLICAS'' (Itoa (oi_Replicas (os_Index o'))),
         env_value ''K8S_ES_NUMBER_OF_SHARDS'' (Itoa (oi_Shards (os_Index o'))),
         env_value ''SHOPWARE_ES_INDEX_PREFIX'' (oi_Prefix (os_Index o')),
         env_value ''SHOPWARE_ADMIN_ES_INDEX_PREFIX'' (oi_Prefix (os_Index o') @ ''-admin'')]
      else [])"

definition getOtel :: "store \<Rightarrow> env_var list" where
  "getOtel s =
     (let o' = sp_Otel (st_Spec s) in
      if ot_Enabled o' then
        [env_value ''OTEL_PHP_AUTOLOAD_ENABLED'' ''true'',
         env_value ''OTEL_SERVICE_NAME'' (ot_ServiceName o'),
         env_value ''OTEL_TRACES_EXPORTER'' (ot_TracesExporter o'),
         env_value ''OTEL_EXPORTER_OTLP_PROTOCOL'' (ot_ExporterProtocol o'),
         env_value ''OTEL_EXPORTER_OTLP_ENDPOINT'' (ot_ExporterEndpoint o'),
         env_value ''OTEL_PHP_EXCLUDED_URLS'' ''/api/_info/health-check,/-/fpm/'']
      else [])"

definition getBlackfire :: "store \<Rightarrow> env_var list" where
  "getBlackfire s =
     (let b = sp_Blackfire (st_Spec s) in
      if bf_Enabled b then
        [env_value ''BLACKFIRE_AGENT_SOCKET'' (''tcp://'' @ bf_Host b @ '':'' @ Itoa (bf_Port b))]
      else [])"

definition getTideways :: "store \<Rightarrow> env_var list" where
  "getTideways s =
     (let t = sp_Tideways (st_Spec s) in
      if \<not> tw_Enabled t then []
      else
        [env_value ''TIDEWAYS_CONNECTION'' (''tcp://'' @ tw_Host t @ '':'' @ Itoa (tw_Port t))] @
        (if tw_Service t \<noteq> [] then [env_value ''TIDEWAYS_SERVICE'' (tw_Service t)] else []) @
        (if ref_Name (tw_APIKeyRef t) \<noteq> [] \<and> ref_Key (tw_APIKeyRef t) \<noteq> []
         then [env_secret ''TIDEWAYS_APIKEY'' (ref_Name (tw_APIKeyRef t)) (ref_Key (tw_APIKeyRef t))]
         else []))"

definition getStorage :: "store \<Rightarrow> env_var list" where
  "getStorage s =
     (let t = sp_S3Storage (st_Spec s) in
      [env_value ''K8S_FILESYSTEM_PUBLIC_BUCKET'' (s3_PublicBucketName t),
       env_value ''K8S_FILESYSTEM_PRIVATE_BUCKET'' (s3_PrivateBucketName t),
       env_value ''K8S_FILESYSTEM_PUBLIC_URL'' (sp_CDNURL (st_Spec s)),
       env_value ''K8S_FILESYSTEM_REGION'' (s3_Region t),
       env_value ''K8S_FILESYSTEM_ENDPOINT'' (s3_EndpointURL t)] @
      (if ref_Name (s3_AccessKeyRef t) \<noteq> []
       then [env_secret ''AWS_ACCESS_KEY_ID'' (ref_Name (s3_AccessKeyRef t)) (ref_Key (s3_AccessKeyRef t))]
       else []) @
      (if ref_Key (s3_SecretAccessKeyRef t) \<noteq> []
       then [env_secret ''AWS_SECRET_ACCESS_KEY''
               (ref_Name (s3_SecretAccessKeyRef t)) (ref_Key (s3_SecretAccessKeyRef t))]
       else []))"

definition getFastly :: "store \<Rightarrow> env_var list" where
  "getFastly s =
     (let f = co_Fastly (sp_ShopConfiguration (st_Spec s)); sec = sp_SecretName (st_Spec s) in
      if ref_Name (fa_ServiceRef f) \<noteq> [] \<and> ref_Key (fa_ServiceRef f) \<noteq> [] \<and>
         ref_Name (fa_TokenRef f) \<noteq> [] \<and> ref_Key (fa_TokenRef f) \<noteq> [] then
        [env_secret ''FASTLY_SERVICE_ID'' sec ''fastly-service-id'',
         env_secret ''FASTLY_API_TOKEN'' sec ''fastly-token''] @
        (if fa_DisableOnSetupMigration f then [env_value ''FASTLY_DISABLE_SNIPPET_UPDATE'' ''1''] else [])
      else [])"

section \<open>The whole environment\<close>

definition baseEnv :: "string \<Rightarrow> store \<Rightarrow> env_var list" where
  "baseEnv operatorServiceURL s =
     (let spec = st_Spec s; sec = sp_SecretName spec;
          appUrl = ''https://'' @ (if nw_AppURLHost (sp_Network spec) = [] then nw_Host (sp_Network spec)
                                   else nw_AppURLHost (sp_Network spec)) in
      [env_secret ''DATABASE_URL'' sec ''database-url'',
       env_secret ''APP_SECRET'' sec ''app-secret'',
       env_secret ''JWT_PRIVATE_KEY'' sec ''jwt-private-key'',
       env_secret ''JWT_PUBLIC_KEY'' sec ''jwt-public-key'',
       env_value ''TRUSTED_PROXIES'' ''REMOTE_ADDR'',
       env_value ''SYMFONY_TRUSTED_PROXIES'' ''REMOTE_ADDR'',
       env_value ''SHOPWARE_DBAL_TIMEZONE_SUPPORT_ENABLED'' ''1'',
       env_value ''PHP_OPCACHE_MAX_ACCELERATED_FILES'' ''20000'',
       env_value ''PHP_OPCACHE_MEMORY_CONSUMPTION'' ''256'',
       env_value ''PHP_OPCACHE_INTERNED_STRINGS_BUFFER'' ''64'',
       env_value ''INSTALL_LOCALE'' (co_Locale (sp_ShopConfiguration spec)),
       env_value ''INSTALL_CURRENCY'' (co_Currency (sp_ShopConfiguration spec)),
       env_value ''APP_URL'' appUrl,
       env_value ''DATABASE_PERSISTENT_CONNECTION'' ''0'',
       env_value ''SHOPWARE_OPERATOR_URL'' operatorServiceURL,
       env_value ''SHOPWARE_DEPLOYMENT_TIMEOUT'' ''0''])"

definition tlsEnv :: "store \<Rightarrow> env_var list" where
  "tlsEnv s =
     (let t = db_TLS (sp_Database (st_Spec s)) in
      if dtls_SecretName t \<noteq> [] then
        [env_value ''DATABASE_SSL_CA'' DatabaseTLSCAFile] @
        (if dtls_ClientCertificate t
         then [env_value ''DATABASE_SSL_CERT'' DatabaseTLSCertFile,
               env_value ''DATABASE_SSL_KEY'' DatabaseTLSKeyFile] else []) @
        (if dtls_DontVerifyServerCertificate t
         then [env_value ''DATABASE_SSL_DONT_VERIFY_SERVER_CERT'' ''1''] else [])
      else [])"

definition consentEnv :: "store \<Rightarrow> env_var list" where
  "consentEnv s =
     (if co_UsageDataConsent (sp_ShopConfiguration (st_Spec s)) = ''revoked''
      then [env_value ''SHOPWARE_USAGE_DATA_CONSENT'' ''revoked''] else [])"

definition operatorEnv :: "string \<Rightarrow> store \<Rightarrow> env_var list" where
  "operatorEnv operatorServiceURL s =
     baseEnv operatorServiceURL s @ tlsEnv s @ consentEnv s @ getOldSessionCache s @
     getSessionCache s @ getAppCache s @ getLock s @ getOtel s @ getBlackfire s @ getTideways s @
     getStorage s @ getWorker s @ getOpensearch s @ getFastly s @
     getFPMConfiguration (sp_FPM (st_Spec s))"

fun add_extra :: "env_var list \<Rightarrow> env_var list \<Rightarrow> env_var list" where
  "add_extra c [] = c"
| "add_extra c (e # es) =
     (case IndexFunc c (\<lambda>v. ev_Name v = ev_Name e) of
        Some i \<Rightarrow> add_extra (c[i := e]) es
      | None \<Rightarrow> add_extra (c @ [e]) es)"

definition GetEnv :: "string \<Rightarrow> store \<Rightarrow> env_var list" where
  "GetEnv operatorServiceURL s =
     add_extra (operatorEnv operatorServiceURL s) (cs_ExtraEnvs (st_Container s))"

record env_override =
  eo_Operator :: env_var
  eo_Extra :: env_var

fun overridden_loop :: "env_var list \<Rightarrow> env_override list \<Rightarrow> env_var list \<Rightarrow> env_override list" where
  "overridden_loop operator ov [] = ov"
| "overridden_loop operator ov (e # es) =
     (case IndexFunc ov (\<lambda>o'. ev_Name (eo_Extra o') = ev_Name e) of
        Some i \<Rightarrow> overridden_loop operator (ov[i := (ov ! i)\<lparr>eo_Extra := e\<rparr>]) es
      | None \<Rightarrow>
          (case IndexFunc operator (\<lambda>c. ev_Name c = ev_Name e) of
             Some i \<Rightarrow> overridden_loop operator
                        (ov @ [\<lparr>eo_Operator = operator ! i, eo_Extra = e\<rparr>]) es
           | None \<Rightarrow> overridden_loop operator ov es))"

definition OverriddenOperatorEnvs :: "string \<Rightarrow> store \<Rightarrow> env_override list" where
  "OverriddenOperatorEnvs operatorServiceURL s =
     overridden_loop (operatorEnv operatorServiceURL s) [] (cs_ExtraEnvs (st_Container s))"

text \<open>\<open>util.MergeEnv\<close>: entries of \<open>src\<close> overwrite in place, the others are collected and appended.\<close>

fun merge_env_loop :: "env_var list \<Rightarrow> env_var list \<Rightarrow> env_var list \<Rightarrow> env_var list" where
  "merge_env_loop dst toAppend [] = dst @ toAppend"
| "merge_env_loop dst toAppend (e # es) =
     (case IndexFunc dst (\<lambda>d. ev_Name e = ev_Name d) of
        Some i \<Rightarrow> merge_env_loop (dst[i := e]) toAppend es
      | None \<Rightarrow> merge_env_loop dst (toAppend @ [e]) es)"

definition MergeEnv :: "env_var list \<Rightarrow> env_var list \<Rightarrow> env_var list" where
  "MergeEnv dst src = merge_env_loop dst [] src"

section \<open>Names\<close>

lemma subseq_set_subset: "subseq xs ys \<Longrightarrow> set xs \<subseteq> set ys"
  by (induction rule: list_emb.induct) auto

lemma subseq_distinct: "subseq xs ys \<Longrightarrow> distinct ys \<Longrightarrow> distinct xs"
  by (induction rule: list_emb.induct) (auto dest: subseq_set_subset)

text \<open>
  Each part of the environment uses names from its own fixed list, in that order. The lists are
  disjoint but for the session handler, which \<open>getOldSessionCache\<close> and \<open>getSessionCache\<close> both set
  when the sessions are not in redis.
\<close>

definition base_names :: "string list" where
  "base_names = [''DATABASE_URL'', ''APP_SECRET'', ''JWT_PRIVATE_KEY'', ''JWT_PUBLIC_KEY'',
     ''TRUSTED_PROXIES'', ''SYMFONY_TRUSTED_PROXIES'', ''SHOPWARE_DBAL_TIMEZONE_SUPPORT_ENABLED'',
     ''PHP_OPCACHE_MAX_ACCELERATED_FILES'', ''PHP_OPCACHE_MEMORY_CONSUMPTION'',
     ''PHP_OPCACHE_INTERNED_STRINGS_BUFFER'', ''INSTALL_LOCALE'', ''INSTALL_CURRENCY'', ''APP_URL'',
     ''DATABASE_PERSISTENT_CONNECTION'', ''SHOPWARE_OPERATOR_URL'', ''SHOPWARE_DEPLOYMENT_TIMEOUT'',
     ''DATABASE_SSL_CA'', ''DATABASE_SSL_CERT'', ''DATABASE_SSL_KEY'',
     ''DATABASE_SSL_DONT_VERIFY_SERVER_CERT'', ''SHOPWARE_USAGE_DATA_CONSENT'']"

definition session_names :: "string list" where
  "session_names = [''REDIS_SESSION_DSN'', ''PHP_SESSION_HANDLER'', ''PHP_SESSION_SAVE_PATH'',
     ''K8S_REDIS_SESSION_DSN'']"

definition tail_names :: "string list" where
  "tail_names = [''K8S_CACHE_TYPE'', ''K8S_REDIS_APP_DSN'', ''K8S_CACHE_HOST'', ''K8S_CACHE_PORT'',
     ''K8S_CACHE_INDEX'', ''K8S_CACHE_URL''] @ [''LOCK_DSN''] @
    [''OTEL_PHP_AUTOLOAD_ENABLED'', ''OTEL_SERVICE_NAME'', ''OTEL_TRACES_EXPORTER'',
     ''OTEL_EXPORTER_OTLP_PROTOCOL'', ''OTEL_EXPORTER_OTLP_ENDPOINT'', ''OTEL_PHP_EXCLUDED_URLS''] @
    [''BLACKFIRE_AGENT_SOCKET''] @
    [''TIDEWAYS_CONNECTION'', ''TIDEWAYS_SERVICE'', ''TIDEWAYS_APIKEY''] @
    [''K8S_FILESYSTEM_PUBLIC_BUCKET'', ''K8S_FILESYSTEM_PRIVATE_BUCKET'',
     ''K8S_FILESYSTEM_PUBLIC_URL'', ''K8S_FILESYSTEM_REGION'', ''K8S_FILESYSTEM_ENDPOINT'',
     ''AWS_ACCESS_KEY_ID'', ''AWS_SECRET_ACCESS_KEY''] @
    [''MESSENGER_TRANSPORT_DSN'', ''MESSENGER_CONSUMER_NAME''] @
    [''OPENSEARCH_URL'', ''ADMIN_OPENSEARCH_URL'', ''SHOPWARE_ES_ENABLED'',
     ''SHOPWARE_ES_INDEXING_ENABLED'', ''SHOPWARE_ADMIN_ES_ENABLED'',
     ''SHOPWARE_ADMIN_ES_REFRESH_INDICES'', ''SHOPWARE_ES_THROW_EXCEPTION'',
     ''K8S_ES_NUMBER_OF_REPLICAS'', ''K8S_ES_NUMBER_OF_SHARDS'', ''SHOPWARE_ES_INDEX_PREFIX'',
     ''SHOPWARE_ADMIN_ES_INDEX_PREFIX''] @
    [''FASTLY_SERVICE_ID'', ''FASTLY_API_TOKEN'', ''FASTLY_DISABLE_SNIPPET_UPDATE''] @
    [''FPM_PM'', ''FPM_LISTEN'', ''PHP_FPM_SCRAPE_URI'', ''FPM_PM_STATUS_PATH'',
     ''FPM_PM_MAX_CHILDREN'', ''FPM_PM_START_SERVERS'', ''FPM_PM_MIN_SPARE_SERVERS'',
     ''FPM_PM_MAX_SPARE_SERVERS'']"

definition envHead :: "string \<Rightarrow> store \<Rightarrow> env_var list" where
  "envHead u s = baseEnv u s @ tlsEnv s @ consentEnv s"

definition envTail :: "store \<Rightarrow> env_var list" where
  "envTail s = getAppCache s @ getLock s @ getOtel s @ getBlackfire s @ getTideways s @
     getStorage s @ getWorker s @ getOpensearch s @ getFastly s @
     getFPMConfiguration (sp_FPM (st_Spec s))"

lemma operatorEnv_split:
  "operatorEnv u s = envHead u s @ (getOldSessionCache s @ getSessionCache s) @ envTail s"
  by (simp add: operatorEnv_def envHead_def envTail_def)

lemmas env_part_defs =
  getAppCache_def getLock_def getOtel_def getBlackfire_def getTideways_def getStorage_def
  getWorker_def getOpensearch_def getFastly_def getFPMConfiguration_def

lemma names_envHead: "subseq (map ev_Name (envHead u s)) base_names"
  by (simp add: envHead_def baseEnv_def tlsEnv_def consentEnv_def base_names_def Let_def)

lemma names_envTail: "subseq (map ev_Name (envTail s)) tail_names"
  unfolding envTail_def tail_names_def map_append
  by (intro list_emb_append_mono) (auto simp: env_part_defs Let_def)

lemma names_session_redis:
  "sca_Adapter (sp_SessionCache (st_Spec s)) = ''redis'' \<Longrightarrow>
     subseq (map ev_Name (getOldSessionCache s @ getSessionCache s)) session_names"
  by (simp add: getOldSessionCache_def getSessionCache_def session_names_def Let_def)

lemma all_names_distinct: "distinct (base_names @ session_names @ tail_names)"
  unfolding base_names_def session_names_def tail_names_def by simp

lemma operatorEnv_distinct:
  assumes "sca_Adapter (sp_SessionCache (st_Spec s)) = ''redis''"
  shows "distinct (map ev_Name (operatorEnv u s))"
proof -
  have "subseq (map ev_Name (operatorEnv u s)) (base_names @ session_names @ tail_names)"
    unfolding operatorEnv_split map_append
    by (intro list_emb_append_mono names_envHead names_envTail
        names_session_redis [OF assms, unfolded map_append])
  then show ?thesis using all_names_distinct by (rule subseq_distinct)
qed

section \<open>Extra variables\<close>

text \<open>On lists with unique names the linear search of the code finds what the index would.\<close>

lemma IndexFunc_idx:
  assumes "idx_ok nm idx xs"
  shows "IndexFunc xs (\<lambda>v. nm v = n) = fmlookup idx n"
proof (cases "IndexFunc xs (\<lambda>v. nm v = n)")
  case None
  then have "n \<notin> nm ` set xs" by (auto simp: IndexFunc_None)
  with assms None show ?thesis by (cases "fmlookup idx n") (auto dest: idx_ok_Some)
next
  case (Some i)
  then have "i < length xs" "nm (xs ! i) = n" by (auto dest: IndexFunc_Some)
  with assms Some show ?thesis by (metis idx_ok_def)
qed

lemma add_extra_merge_loop:
  "idx_ok ev_Name idx c \<Longrightarrow> add_extra c es = merge_loop ev_Name idx c es"
  by (induction es arbitrary: idx c)
    (auto simp: IndexFunc_idx idx_ok_update idx_ok_append split: option.splits)

lemma add_extra_props:
  assumes "distinct (map ev_Name c)"
  shows "distinct (map ev_Name (add_extra c es))"
    and "named ev_Name (add_extra c es) n =
           (case named ev_Name (rev es) n of None \<Rightarrow> named ev_Name c n | Some x \<Rightarrow> Some x)"
  using merge_loop_props [OF idx_ok_start [OF assms]] add_extra_merge_loop [OF idx_ok_start [OF assms]]
  by simp_all

lemma merge_env_loop_props:
  assumes "distinct (map ev_Name dst)" "distinct (map ev_Name (app @ es))"
    and "ev_Name ` set app \<inter> ev_Name ` set dst = {}"
  shows "distinct (map ev_Name (merge_env_loop dst app es))"
    and "named ev_Name (merge_env_loop dst app es) n =
           (case named ev_Name (app @ es) n of None \<Rightarrow> named ev_Name dst n | Some x \<Rightarrow> Some x)"
proof -
  have "distinct (map ev_Name (merge_env_loop dst app es)) \<and>
      named ev_Name (merge_env_loop dst app es) n =
           (case named ev_Name (app @ es) n of None \<Rightarrow> named ev_Name dst n | Some x \<Rightarrow> Some x)"
    using assms
  proof (induction es arbitrary: dst app)
    case Nil
    then have "named ev_Name dst n = None \<or> named ev_Name app n = None"
      by (auto simp: named_None)
    with Nil show ?case
      by (auto simp: named_append disjoint_iff split: option.splits)
  next
    case (Cons e es)
    show ?case
    proof (cases "IndexFunc dst (\<lambda>d. ev_Name e = ev_Name d)")
      case None
      then have "ev_Name e \<notin> ev_Name ` set dst" by (auto simp: IndexFunc_None)
      with None Cons.IH [of dst "app @ [e]"] Cons.prems show ?thesis
        by (simp add: disjoint_iff)
    next
      case (Some i)
      then have i: "i < length dst" "ev_Name (dst ! i) = ev_Name e"
        by (auto dest: IndexFunc_Some)
      then have m: "map ev_Name (dst[i := e]) = map ev_Name dst"
        by (metis list_update_id map_update)
      then have im: "ev_Name ` set (dst[i := e]) = ev_Name ` set dst"
        by (metis set_map)
      have ne: "named ev_Name (app @ es) (ev_Name e) = None"
        using Cons.prems(2) by (auto simp: named_None)
      have u: "named ev_Name (dst[i := e]) n = (if n = ev_Name e then Some e else named ev_Name dst n)"
        by (rule named_update) (use i Cons.prems in auto)
      have "distinct (map ev_Name (merge_env_loop (dst[i := e]) app es)) \<and>
          named ev_Name (merge_env_loop (dst[i := e]) app es) n =
            (case named ev_Name (app @ es) n of None \<Rightarrow> named ev_Name (dst[i := e]) n | Some x \<Rightarrow> Some x)"
        by (rule Cons.IH) (use Cons.prems in \<open>simp_all add: m im\<close>)
      with Some u ne show ?thesis
        by (cases "n = ev_Name e") (simp_all add: named_append split: option.splits)
    qed
  qed
  then show "distinct (map ev_Name (merge_env_loop dst app es))"
    and "named ev_Name (merge_env_loop dst app es) n =
           (case named ev_Name (app @ es) n of None \<Rightarrow> named ev_Name dst n | Some x \<Rightarrow> Some x)"
    by auto
qed

section \<open>A name that occurs twice\<close>

text \<open>
  \<open>shadowed n v c\<close>: the last entry named \<open>n\<close> is \<open>v\<close>, and an earlier one has that name too.
  \<open>add_extra\<close> only reaches the first of them.
\<close>

definition shadowed :: "string \<Rightarrow> env_var \<Rightarrow> env_var list \<Rightarrow> bool" where
  "shadowed n v c \<longleftrightarrow> (\<exists>xs ys. c = xs @ v # ys \<and> ev_Name v = n \<and>
     n \<in> ev_Name ` set xs \<and> n \<notin> ev_Name ` set ys)"

lemma shadowed_named: "shadowed n v c \<Longrightarrow> named ev_Name (rev c) n = Some v"
  by (auto simp: shadowed_def named_append named_None split: option.splits)
    (metis image_eqI named_None option.distinct(1) set_rev)

lemma names_update:
  "ev_Name (xs ! i) = ev_Name e \<Longrightarrow> i < length xs \<Longrightarrow> ev_Name ` set (xs[i := e]) = ev_Name ` set xs"
  by (metis list_update_id map_update set_map)

lemma shadowed_append: "shadowed n v c \<Longrightarrow> ev_Name e \<noteq> n \<Longrightarrow> shadowed n v (c @ [e])"
  unfolding shadowed_def by (metis (no_types, lifting) Un_insert_left append.assoc append_Cons
      empty_iff image_Un image_empty image_insert insert_iff list.simps(15) set_append sup_bot_left
      UnE list.set(1))

lemma shadowed_update:
  assumes "shadowed n v c" and i: "IndexFunc c (\<lambda>x. ev_Name x = ev_Name e) = Some i"
  shows "shadowed n v (c[i := e])"
proof -
  obtain xs ys where c: "c = xs @ v # ys" "ev_Name v = n" "n \<in> ev_Name ` set xs" "n \<notin> ev_Name ` set ys"
    using assms(1) by (auto simp: shadowed_def)
  have ix: "i < length c" "ev_Name (c ! i) = ev_Name e" "\<forall>j<i. ev_Name (c ! j) \<noteq> ev_Name e"
    using IndexFunc_Some [OF i] by auto
  consider "i < length xs" | "i = length xs" | "i > length xs" by linarith
  then show ?thesis
  proof cases
    case 1
    then have "c[i := e] = xs[i := e] @ v # ys" by (simp add: c list_update_append)
    moreover have "ev_Name ` set (xs[i := e]) = ev_Name ` set xs"
      using 1 ix by (intro names_update) (auto simp: c nth_append)
    ultimately show ?thesis
      unfolding shadowed_def using c by (intro exI [of _ "xs[i := e]"] exI [of _ ys]) simp
  next
    case 2
    with ix c have "ev_Name e = n" by (simp add: nth_append)
    moreover obtain j where "j < length xs" "ev_Name (xs ! j) = n"
      using c(3) by (auto simp: in_set_conv_nth)
    ultimately show ?thesis using ix(3) 2 c by (auto simp: nth_append)
  next
    case 3
    define k where "k = i - length xs - 1"
    with 3 have ik: "i = length xs + Suc k" by simp
    then have "c[i := e] = xs @ v # ys[k := e]" by (simp add: c list_update_append)
    moreover have "ev_Name ` set (ys[k := e]) = ev_Name ` set ys"
      using ix ik by (intro names_update) (auto simp: c nth_append)
    ultimately show ?thesis
      unfolding shadowed_def using c by (intro exI [of _ xs] exI [of _ "ys[k := e]"]) simp
  qed
qed

lemma shadowed_add_extra: "shadowed n v c \<Longrightarrow> shadowed n v (add_extra c es)"
proof (induction es arbitrary: c)
  case (Cons e es)
  have "ev_Name e \<noteq> n" if "IndexFunc c (\<lambda>x. ev_Name x = ev_Name e) = None"
    using that Cons.prems by (auto simp: shadowed_def IndexFunc_None)
  with Cons show ?case
    by (auto split: option.splits intro: shadowed_update shadowed_append)
qed simp

lemma IndexFunc_named:
  "IndexFunc xs (\<lambda>v. nm v = n) = Some i \<Longrightarrow> named nm xs n = Some (xs ! i)"
  by (induction xs arbitrary: i) (auto split: if_splits)

lemma IndexFunc_named_None: "IndexFunc xs (\<lambda>v. nm v = n) = None \<longleftrightarrow> named nm xs n = None"
  by (auto simp: IndexFunc_None named_None)

section \<open>Reported overrides\<close>

definition eo_Name :: "env_override \<Rightarrow> string" where
  "eo_Name o' = ev_Name (eo_Extra o')"

lemma overridden_loop_named:
  assumes "distinct (map eo_Name ov)"
    and "\<And>n o'. named eo_Name ov n = Some o' \<Longrightarrow> named ev_Name operator n = Some (eo_Operator o')"
  shows "distinct (map eo_Name (overridden_loop operator ov es)) \<and>
    named eo_Name (overridden_loop operator ov es) n =
      (case named ev_Name (rev es) n of
         None \<Rightarrow> named eo_Name ov n
       | Some e \<Rightarrow> map_option (\<lambda>v. \<lparr>eo_Operator = v, eo_Extra = e\<rparr>) (named ev_Name operator n))"
  using assms
proof (induction es arbitrary: ov)
  case (Cons e es)
  have eq: "(\<lambda>o'. ev_Name (eo_Extra o') = ev_Name e) = (\<lambda>o'. eo_Name o' = ev_Name e)"
    by (simp add: eo_Name_def)
  show ?case
  proof (cases "IndexFunc ov (\<lambda>o'. eo_Name o' = ev_Name e)")
    case None
    show ?thesis
    proof (cases "IndexFunc operator (\<lambda>c. ev_Name c = ev_Name e)")
      case none: None
      then have "named ev_Name operator (ev_Name e) = None" by (simp add: IndexFunc_named_None)
      moreover have "named eo_Name ov (ev_Name e) = None" using None by (simp add: IndexFunc_named_None)
      ultimately show ?thesis
        using Cons.IH [OF Cons.prems] None none
        by (cases "n = ev_Name e") (simp_all add: eq named_append split: option.splits)
    next
      case (Some i)
      let ?o = "\<lparr>eo_Operator = operator ! i, eo_Extra = e\<rparr>"
      have op: "named ev_Name operator (ev_Name e) = Some (operator ! i)"
        by (rule IndexFunc_named [OF Some])
      have nov: "named eo_Name ov (ev_Name e) = None" using None by (simp add: IndexFunc_named_None)
      have nm: "eo_Name ?o = ev_Name e" by (simp add: eo_Name_def)
      have app: "named eo_Name (ov @ [?o]) k = (if k = ev_Name e then Some ?o else named eo_Name ov k)" for k
        using nov by (auto simp: named_append nm split: option.splits)
      have "distinct (map eo_Name (overridden_loop operator (ov @ [?o]) es)) \<and>
        named eo_Name (overridden_loop operator (ov @ [?o]) es) n =
        (case named ev_Name (rev es) n of
           None \<Rightarrow> named eo_Name (ov @ [?o]) n
         | Some e \<Rightarrow> map_option (\<lambda>v. \<lparr>eo_Operator = v, eo_Extra = e\<rparr>) (named ev_Name operator n))"
        by (rule Cons.IH)
          (use Cons.prems nov op in \<open>auto simp: nm app named_None split: if_splits\<close>)
      with None Some op app show ?thesis
        by (cases "n = ev_Name e") (simp_all add: eq named_append split: option.splits)
    qed
  next
    case (Some i)
    let ?o = "(ov ! i)\<lparr>eo_Extra := e\<rparr>"
    have i: "i < length ov" "eo_Name (ov ! i) = ev_Name e" using Some by (auto dest: IndexFunc_Some)
    have nm: "eo_Name ?o = ev_Name e" by (simp add: eo_Name_def)
    have op: "named ev_Name operator (ev_Name e) = Some (eo_Operator (ov ! i))"
      by (rule Cons.prems(2)) (rule IndexFunc_named [OF Some])
    have upd: "named eo_Name (ov[i := ?o]) k = (if k = ev_Name e then Some ?o else named eo_Name ov k)" for k
      using named_update [OF Cons.prems(1) i(1), of ?o k] i nm by simp
    have "distinct (map eo_Name (overridden_loop operator (ov[i := ?o]) es)) \<and>
      named eo_Name (overridden_loop operator (ov[i := ?o]) es) n =
      (case named ev_Name (rev es) n of
         None \<Rightarrow> named eo_Name (ov[i := ?o]) n
       | Some e \<Rightarrow> map_option (\<lambda>v. \<lparr>eo_Operator = v, eo_Extra = e\<rparr>) (named ev_Name operator n))"
    proof (rule Cons.IH)
      show "distinct (map eo_Name (ov[i := ?o]))"
        by (rule distinct_map_list_update) (use i nm Cons.prems in auto)
      show "named ev_Name operator k = Some (eo_Operator o')" if "named eo_Name (ov[i := ?o]) k = Some o'" for k o'
        using that op Cons.prems(2) by (auto simp: upd split: if_splits)
    qed
    with Some op upd show ?thesis
      by (cases "n = ev_Name e") (simp_all add: eq named_append split: option.splits)
  qed
qed simp

section \<open>Properties\<close>

text \<open>
  With sessions in redis, the environment of a container has unique names; a variable that the
  Store lists under \<open>extraEnvs\<close> has its last value from there, every other variable the value the
  operator computed.
\<close>

theorem GetEnv_extra_envs_win:
  assumes "sca_Adapter (sp_SessionCache (st_Spec s)) = ''redis''"
  shows "distinct (map ev_Name (GetEnv url s)) \<and>
    (\<forall>n. named ev_Name (GetEnv url s) n =
       (case named ev_Name (rev (cs_ExtraEnvs (st_Container s))) n of
          None \<Rightarrow> named ev_Name (operatorEnv url s) n
        | Some e \<Rightarrow> Some e))"
  using add_extra_props [OF operatorEnv_distinct [OF assms]] by (simp add: GetEnv_def)

definition ex_redis_store :: store where
  "ex_redis_store = zero_store\<lparr>st_Spec := zero_store_spec\<lparr>
     sp_SessionCache := redis_spec.extend zero_redis \<lparr>sca_Adapter = ''redis'', sca_SavePath = []\<rparr>,
     sp_Container := zero_container_spec\<lparr>cs_ExtraEnvs := [env_value ''APP_URL'' ''x'', env_value ''MY'' ''1'']\<rparr>\<rparr>\<rparr>"

theorem GetEnv_extra_envs_win_witness:
  "named ev_Name (GetEnv ''http://op'' ex_redis_store) ''APP_URL'' = Some (env_value ''APP_URL'' ''x'') \<and>
   distinct (map ev_Name (GetEnv ''http://op'' ex_redis_store))"
  using GetEnv_extra_envs_win [of ex_redis_store "''http://op''"]
  by (simp add: ex_redis_store_def redis_spec.defs)

text \<open>
  With sessions outside redis the list contains the session handler twice, and \<open>extraEnvs\<close>
  replaces only the first entry: whatever the Store lists, the last entry of that name, the one a
  container sees, stays the operator's value \<open>files\<close>.
\<close>

theorem GetEnv_session_handler_not_overridable:
  assumes "sca_Adapter (sp_SessionCache (st_Spec s)) \<noteq> ''redis''"
  shows "named ev_Name (rev (GetEnv url s)) ''PHP_SESSION_HANDLER'' =
           Some (env_value ''PHP_SESSION_HANDLER'' ''files'')"
proof -
  have "set (map ev_Name (envTail s)) \<subseteq> set tail_names"
    by (rule subseq_set_subset [OF names_envTail])
  then have t: "''PHP_SESSION_HANDLER'' \<notin> ev_Name ` set (envTail s)"
    by (auto simp: tail_names_def)
  let ?h = "env_value ''PHP_SESSION_HANDLER'' ''files''"
  have "operatorEnv url s = (envHead url s @ [?h]) @ ?h # envTail s"
    using assms by (simp add: operatorEnv_split getOldSessionCache_def getSessionCache_def Let_def)
  with t have "shadowed ''PHP_SESSION_HANDLER'' ?h (operatorEnv url s)"
    unfolding shadowed_def by (intro exI [of _ "envHead url s @ [?h]"] exI [of _ "envTail s"]) simp
  then show ?thesis
    unfolding GetEnv_def by (intro shadowed_named shadowed_add_extra)
qed

definition ex_files_store :: store where
  "ex_files_store = zero_store\<lparr>st_Spec := zero_store_spec\<lparr>
     sp_Container := zero_container_spec\<lparr>cs_ExtraEnvs := [env_value ''PHP_SESSION_HANDLER'' ''memcached'']\<rparr>\<rparr>\<rparr>"

theorem GetEnv_session_handler_not_overridable_witness:
  "named ev_Name (rev (GetEnv [] ex_files_store)) ''PHP_SESSION_HANDLER'' =
     Some (env_value ''PHP_SESSION_HANDLER'' ''files'') \<and>
   named ev_Name (cs_ExtraEnvs (st_Container ex_files_store)) ''PHP_SESSION_HANDLER'' =
     Some (env_value ''PHP_SESSION_HANDLER'' ''memcached'')"
  using GetEnv_session_handler_not_overridable [of ex_files_store "[]"]
  by (simp add: ex_files_store_def zero_store_spec_def redis_spec.defs)

text \<open>
  The overrides reported to the user are exactly the variables that \<open>extraEnvs\<close> and the
  operator's environment share, once per name, with the operator's value and the last extra value.
\<close>

theorem OverriddenOperatorEnvs_exact:
  "distinct (map eo_Name (OverriddenOperatorEnvs url s)) \<and>
   (\<forall>n. named eo_Name (OverriddenOperatorEnvs url s) n =
      (case named ev_Name (rev (cs_ExtraEnvs (st_Container s))) n of
         None \<Rightarrow> None
       | Some e \<Rightarrow> map_option (\<lambda>v. \<lparr>eo_Operator = v, eo_Extra = e\<rparr>)
                    (named ev_Name (operatorEnv url s) n)))"
  using overridden_loop_named [of "[]" "operatorEnv url s"]
  by (simp add: OverriddenOperatorEnvs_def cong: option.case_cong)

text \<open>
  Merging an environment into another, both with unique names, gives unique names, the merged
  value wherever there is one and the old value elsewhere.
\<close>

theorem MergeEnv_lookup:
  assumes "distinct (map ev_Name dst)" and "distinct (map ev_Name src)"
  shows "distinct (map ev_Name (MergeEnv dst src)) \<and>
    (\<forall>n. named ev_Name (MergeEnv dst src) n =
       (case named ev_Name src n of None \<Rightarrow> named ev_Name dst n | Some e \<Rightarrow> Some e))"
  using merge_env_loop_props [of dst "[]" src] assms by (simp add: MergeEnv_def)

theorem MergeEnv_lookup_witness:
  "named ev_Name (MergeEnv [env_value ''A'' ''1'', env_value ''B'' ''2'']
      [env_value ''B'' ''3'', env_value ''C'' ''4'']) ''B'' = Some (env_value ''B'' ''3'')"
  using MergeEnv_lookup [of "[env_value ''A'' ''1'', env_value ''B'' ''2'']"
      "[env_value ''B'' ''3'', env_value ''C'' ''4'']"] by simp

end
