(* ===== verification/Util.thy ===== *)
theory Util
  imports StoreEnv
begin

text \<open>
  The helpers of \<open>internal/util\<close> that build parts of Kubernetes objects: labels (\<open>labels.go\<close>),
  annotations (\<open>annotations.go\<close>), security contexts (\<open>security.go\<close>), \<open>MapEqual\<close> (\<open>map.go\<close>) and
  the connection URLs (\<open>db.go\<close>, \<open>opensearch.go\<close>) with \<open>url.QueryEscape\<close> of the standard library.
  Go maps returned by the label functions are new; those of the annotation functions may be the
  map of the Store itself, which the functions with suffix \<open>_shared\<close> describe.
\<close>

section \<open>Labels\<close>

definition ShopwareKey :: "string \<Rightarrow> string" where
  "ShopwareKey key = ''shop.shopware.com/'' @ key"

definition GetStoreLabel :: "store \<Rightarrow> gomap" where
  "GetStoreLabel s = fmupd (ShopwareKey ''store.name'') (st_Name s) fmempty"

text \<open>\<open>maps.Copy\<close> of a map that may be nil.\<close>

definition copy_nil :: "gomap \<Rightarrow> gomap option \<Rightarrow> gomap" where
  "copy_nil m x = (case x of None \<Rightarrow> m | Some n \<Rightarrow> m ++\<^sub>f n)"

definition overrideStoreLabels :: "store \<Rightarrow> gomap option \<Rightarrow> gomap" where
  "overrideStoreLabels s extra = copy_nil (copy_nil (GetStoreLabel s) (cs_Labels (st_Container s))) extra"

definition GetDefaultContainerStoreLabels :: "store \<Rightarrow> gomap option \<Rightarrow> gomap" where
  "GetDefaultContainerStoreLabels s extra = overrideStoreLabels s extra"

definition GetDefaultStoreExecLabels :: "store \<Rightarrow> gomap option \<Rightarrow> string \<Rightarrow> string \<Rightarrow> gomap" where
  "GetDefaultStoreExecLabels s extra name execType =
     fmupd (ShopwareKey ''storeexec.type'') execType
       (fmupd (ShopwareKey ''storeexec.name'') name (overrideStoreLabels s extra))"

definition GetDefaultStoreSnapshotLabels :: "store \<Rightarrow> gomap option \<Rightarrow> string \<Rightarrow> string \<Rightarrow> gomap" where
  "GetDefaultStoreSnapshotLabels s overwrite name subCommand =
     fmupd (ShopwareKey ''storesnapshot.type'') subCommand
       (fmupd (ShopwareKey ''storesnapshot.name'') name (overrideStoreLabels s overwrite))"

text \<open>
  The end of a debug instance, in nanoseconds. The creation time of an object read from the
  cluster is set; the zero time counts as 0 here.
\<close>

definition validUntil :: "debug_instance \<Rightarrow> int" where
  "validUntil d = (case m_CreationTimestamp (dbi_Meta d) of None \<Rightarrow> 0 | Some t \<Rightarrow> t) + di_Duration (dbi_Spec d)"

definition GetDefaultStoreInstanceDebugLabels :: "store \<Rightarrow> debug_instance \<Rightarrow> gomap" where
  "GetDefaultStoreInstanceDebugLabels s d =
     fmupd (ShopwareKey ''store.debug.validUntil'') (Itoa (validUntil d))
       (fmupd (ShopwareKey ''store.debug.instance'') (m_Name (dbi_Meta d))
         (fmupd (ShopwareKey ''store.debug'') ''true''
           (GetDefaultContainerStoreLabels s (di_ExtraLabels (dbi_Spec d)))))"

definition GetAdminDeploymentMatchLabel :: gomap where
  "GetAdminDeploymentMatchLabel = fmupd (ShopwareKey ''store.app'') ''shopware-admin'' fmempty"

definition GetAdminDeploymentStoreLabels :: "store \<Rightarrow> gomap" where
  "GetAdminDeploymentStoreLabels s = GetStoreLabel s ++\<^sub>f GetAdminDeploymentMatchLabel"

definition GetStorefrontDeploymentMatchLabel :: gomap where
  "GetStorefrontDeploymentMatchLabel = fmupd (ShopwareKey ''store.app'') ''shopware-storefront'' fmempty"

definition GetStorefrontDeploymentStoreLabels :: "store \<Rightarrow> gomap" where
  "GetStorefrontDeploymentStoreLabels s = GetStoreLabel s ++\<^sub>f GetStorefrontDeploymentMatchLabel"

definition GetWorkerDeploymentMatchLabel :: gomap where
  "GetWorkerDeploymentMatchLabel = fmupd (ShopwareKey ''store.app'') ''shopware-worker'' fmempty"

definition GetWorkerDeploymentStoreLabels :: "store \<Rightarrow> gomap" where
  "GetWorkerDeploymentStoreLabels s = GetStoreLabel s ++\<^sub>f GetWorkerDeploymentMatchLabel"

section \<open>Annotations\<close>

definition default_container_annotations :: "string \<Rightarrow> gomap option \<Rightarrow> gomap" where
  "default_container_annotations c a =
     fmupd ''kubectl.kubernetes.io/default-logs-container'' c
       (fmupd ''kubectl.kubernetes.io/default-container'' c
         (case a of None \<Rightarrow> fmempty | Some m \<Rightarrow> m))"

definition GetDefaultContainerAnnotations :: "string \<Rightarrow> store \<Rightarrow> gomap option \<Rightarrow> gomap" where
  "GetDefaultContainerAnnotations defaultContainer s overwrite =
     copy_nil (default_container_annotations defaultContainer (cs_Annotations (st_Container s))) overwrite"

text \<open>
  The Store after the call: when its container annotations are set, the returned map is that map,
  and the Store now reads what the call wrote.
\<close>

definition annotate_shared :: "gomap \<Rightarrow> container_spec \<Rightarrow> container_spec" where
  "annotate_shared a c = c\<lparr>cs_Annotations := map_option (\<lambda>_. a) (cs_Annotations c)\<rparr>"

definition GetDefaultContainerAnnotations_shared :: "string \<Rightarrow> store \<Rightarrow> gomap option \<Rightarrow> store" where
  "GetDefaultContainerAnnotations_shared c s overwrite =
     set_Container (annotate_shared (GetDefaultContainerAnnotations c s overwrite) (st_Container s)) s"

definition GetDefaultContainerExecAnnotations :: "string \<Rightarrow> store_exec \<Rightarrow> gomap" where
  "GetDefaultContainerExecAnnotations c ex =
     default_container_annotations c (cs_Annotations (ex_Container (e_Spec ex)))"

definition GetDefaultContainerSnapshotAnnotations :: "string \<Rightarrow> snapshot_spec \<Rightarrow> gomap" where
  "GetDefaultContainerSnapshotAnnotations c sn =
     default_container_annotations c (cs_Annotations (sn_Container sn))"

section \<open>Security contexts\<close>

definition RestrictedContainerSecurityContext :: security_context where
  "RestrictedContainerSecurityContext =
     \<lparr>sc_AllowPrivilegeEscalation = Some False, sc_CapabilitiesDrop = [''ALL''], sc_rest = []\<rparr>"

definition DefaultContainerSecurityContexts :: "container list \<Rightarrow> container list" where
  "DefaultContainerSecurityContexts cs =
     map (\<lambda>c. if c_SecurityContext c = None
              then c\<lparr>c_SecurityContext := Some RestrictedContainerSecurityContext\<rparr> else c) cs"

definition RestrictedPodSecurityContext :: pod_security_context where
  "RestrictedPodSecurityContext =
     \<lparr>psc_FSGroup = Some 82, psc_RunAsGroup = Some 82, psc_RunAsNonRoot = Some True,
      psc_RunAsUser = Some 82, psc_SeccompProfileType = Some ''RuntimeDefault'', psc_rest = []\<rparr>"

definition DefaultPodSecurityContext :: "pod_security_context option \<Rightarrow> pod_security_context option" where
  "DefaultPodSecurityContext sc =
     (if sc \<noteq> None then sc else Some RestrictedPodSecurityContext)"

section \<open>Comparing maps\<close>

text \<open>A missing key of a Go map reads as the empty string.\<close>

definition go_lookup :: "gomap \<Rightarrow> string \<Rightarrow> string" where
  "go_lookup m k = (case fmlookup m k of None \<Rightarrow> [] | Some v \<Rightarrow> v)"

definition MapEqual :: "gomap \<Rightarrow> gomap \<Rightarrow> bool" where
  "MapEqual a b =
     (if fcard (fmdom a) \<noteq> fcard (fmdom b) then False
      else fBall (fmdom a) (\<lambda>k. go_lookup b k = go_lookup a k))"

section \<open>Connection URLs\<close>

definition hex_upper :: "nat \<Rightarrow> char" where
  "hex_upper n = (if n < 10 then char_of (48 + n) else char_of (55 + n))"

definition unreserved :: "char \<Rightarrow> bool" where
  "unreserved c \<longleftrightarrow> byte_in 48 57 c \<or> byte_in 65 90 c \<or> byte_in 97 122 c \<or>
     c = CHR ''-'' \<or> c = CHR ''_'' \<or> c = CHR ''.'' \<or> c = CHR ''~''"

definition escape_char :: "char \<Rightarrow> string" where
  "escape_char c =
     (if unreserved c then [c]
      else if c = CHR '' '' then ''+''
      else [CHR ''%'', hex_upper (of_char c div 16), hex_upper (of_char c mod 16)])"

definition QueryEscape :: "string \<Rightarrow> string" where
  "QueryEscape s = concat (map escape_char s)"

text \<open>The resolved database settings of \<open>GetDBSpec\<close> (the type is declared in \<open>mysql_shell.go\<close>).\<close>

record resolved_db =
  rdb_Host :: string
  rdb_Password :: bytes
  rdb_User :: string
  rdb_Port :: int32
  rdb_Name :: string
  rdb_Version :: string
  rdb_Options :: string
  rdb_TLSCA :: bytes
  rdb_TLSCert :: bytes
  rdb_TLSKey :: bytes
  rdb_TLSClientCertificate :: bool
  rdb_TLSDontVerifyServerCertificate :: bool

definition GenerateDatabaseURLForShopware :: "resolved_db \<Rightarrow> bytes" where
  "GenerateDatabaseURLForShopware d =
     (let urlP = QueryEscape (rdb_Password d);
          options = (if rdb_Options d \<noteq> [] then ''&'' @ rdb_Options d else [])
      in ''mysql://'' @ rdb_User d @ '':'' @ urlP @ ''@'' @ rdb_Host d @ '':'' @ fmt_d (rdb_Port d) @
         ''/'' @ rdb_Name d @ ''?serverVersion='' @ rdb_Version d @ options)"

definition GenerateDatabaseURLForGo :: "resolved_db \<Rightarrow> bytes" where
  "GenerateDatabaseURLForGo d =
     rdb_User d @ '':'' @ rdb_Password d @ ''@tcp('' @ rdb_Host d @ '':'' @ fmt_d (rdb_Port d) @ '')/'' @
     rdb_Name d"

definition GenerateOpensearchURLForShopware :: "opensearch_spec \<Rightarrow> bytes \<Rightarrow> bytes" where
  "GenerateOpensearchURLForShopware o' p =
     os_Schema o' @ ''://'' @ os_Username o' @ '':'' @ QueryEscape p @ ''@'' @ os_Host o' @ '':'' @
     fmt_d (os_Port o')"

section \<open>Unescaping\<close>

text \<open>What a reader of the URL does with the user info: the inverse of \<open>QueryEscape\<close>.\<close>

definition unhex :: "char \<Rightarrow> nat" where
  "unhex c = (if byte_in 48 57 c then of_char c - 48 else of_char c - 55)"

fun QueryUnescape :: "string \<Rightarrow> string" where
  "QueryUnescape (CHR ''%'' # a # b # s) = char_of (16 * unhex a + unhex b) # QueryUnescape s"
| "QueryUnescape (c # s) = (if c = CHR ''+'' then CHR '' '' else c) # QueryUnescape s"
| "QueryUnescape [] = []"

lemma of_char_hex_upper: "n < 16 \<Longrightarrow> of_char (hex_upper n) = (if n < 10 then 48 + n else 55 + n)"
  by (auto simp: hex_upper_def)

lemma unhex_hex_upper: "n < 16 \<Longrightarrow> unhex (hex_upper n) = n"
  by (auto simp: unhex_def byte_in_def of_char_hex_upper)

lemma unreserved_hex_upper: "n < 16 \<Longrightarrow> unreserved (hex_upper n)"
  by (auto simp: unreserved_def byte_in_def of_char_hex_upper)

lemma not_unreserved:
  "\<not> unreserved CHR ''%''" "\<not> unreserved CHR ''+''" "\<not> unreserved CHR ''@''" "\<not> unreserved CHR '':''"
  "\<not> unreserved CHR ''/''" "\<not> unreserved CHR ''?''"
  by (simp_all add: unreserved_def byte_in_def)

lemma of_char_nibbles: "of_char c div 16 < (16::nat)" "of_char c mod 16 < (16::nat)"
proof -
  have "(of_char c :: nat) < 256" using nat_of_char_less_256 [of c] by simp
  then show "of_char c div 16 < (16::nat)" by (rule less_mult_imp_div_less [OF less_le_trans]) simp
  show "of_char c mod 16 < (16::nat)" by simp
qed

lemma QueryUnescape_plain:
  "c \<noteq> CHR ''%'' \<Longrightarrow> c \<noteq> CHR ''+'' \<Longrightarrow> QueryUnescape (c # s) = c # QueryUnescape s"
  by (cases "(c # s)" rule: QueryUnescape.cases) auto

lemma QueryUnescape_escape_char: "QueryUnescape (escape_char c @ s) = c # QueryUnescape s"
proof -
  have "char_of (16 * (of_char c div 16 :: nat) + of_char c mod 16) = c"
    by simp
  moreover have "c \<noteq> CHR ''%'' \<and> c \<noteq> CHR ''+''" if "unreserved c"
    using that not_unreserved by metis
  ultimately show ?thesis
    using of_char_nibbles [of c]
    by (auto simp: escape_char_def unhex_hex_upper not_unreserved QueryUnescape_plain)
qed

lemma QueryUnescape_QueryEscape: "QueryUnescape (QueryEscape s) = s"
proof (induction s)
  case (Cons c s)
  then show ?case
    using QueryUnescape_escape_char [of c "QueryEscape s"] by (simp add: QueryEscape_def)
qed (simp add: QueryEscape_def)

lemma escape_char_set: "x \<in> set (escape_char c) \<Longrightarrow> unreserved x \<or> x = CHR ''+'' \<or> x = CHR ''%''"
  using of_char_nibbles [of c] by (auto simp: escape_char_def unreserved_hex_upper split: if_splits)

lemma QueryEscape_set: "x \<in> set (QueryEscape s) \<Longrightarrow> unreserved x \<or> x = CHR ''+'' \<or> x = CHR ''%''"
  by (auto simp: QueryEscape_def dest: escape_char_set)

lemma takeWhile_QueryEscape:
  "takeWhile (\<lambda>c. c \<noteq> CHR ''@'') (QueryEscape s @ CHR ''@'' # t) = QueryEscape s"
proof -
  have "\<forall>x\<in>set (QueryEscape s). x \<noteq> CHR ''@''"
    using QueryEscape_set not_unreserved by fastforce
  then show ?thesis by (subst takeWhile_append2) auto
qed

lemma user_info:
  "QueryUnescape (takeWhile (\<lambda>c. c \<noteq> CHR ''@'') (drop (length pre) (pre @ QueryEscape p @ CHR ''@'' # t))) = p"
  by (simp add: takeWhile_QueryEscape QueryUnescape_QueryEscape)

section \<open>Security contexts are filled in\<close>

lemma DefaultContainerSecurityContexts_set:
  "\<forall>c\<in>set (DefaultContainerSecurityContexts cs). c_SecurityContext c \<noteq> None"
  by (auto simp: DefaultContainerSecurityContexts_def)

lemma DefaultContainerSecurityContexts_keeps:
  "\<forall>c\<in>set cs. c_SecurityContext c \<noteq> None \<Longrightarrow> DefaultContainerSecurityContexts cs = cs"
  by (auto simp: DefaultContainerSecurityContexts_def intro: map_idI)

section \<open>Properties\<close>

text \<open>
  Whatever bytes the database password holds, a reader of the URL in the Store secret that
  takes the text between the user name and the first \<open>@\<close> and unescapes it gets the password
  back; the same holds for the Opensearch URL.
\<close>

theorem password_roundtrip:
  "QueryUnescape (takeWhile (\<lambda>c. c \<noteq> CHR ''@'')
     (drop (length (''mysql://'' @ rdb_User d @ '':'')) (GenerateDatabaseURLForShopware d))) =
     rdb_Password d \<and>
   QueryUnescape (takeWhile (\<lambda>c. c \<noteq> CHR ''@'')
     (drop (length (os_Schema o' @ ''://'' @ os_Username o' @ '':'')) (GenerateOpensearchURLForShopware o' p))) = p"
  using user_info [of "''mysql://'' @ rdb_User d @ '':''" "rdb_Password d"]
    user_info [of "os_Schema o' @ ''://'' @ os_Username o' @ '':''" p]
  by (simp add: GenerateDatabaseURLForShopware_def GenerateOpensearchURLForShopware_def Let_def)

text \<open>
  When no value of the maps is empty, \<open>MapEqual\<close> is equality of maps. (The empty value is
  where it is not: a missing key reads as the empty string.)
\<close>

theorem MapEqual_iff:
  assumes "\<And>k. fmlookup a k \<noteq> Some []"
  shows "MapEqual a b \<longleftrightarrow> a = b"
proof
  assume eq: "MapEqual a b"
  have sub: "fmlookup b k = Some v" if "fmlookup a k = Some v" for k v
  proof -
    have "go_lookup b k = v"
      using eq that fmdomI [OF that]
      by (auto simp: MapEqual_def split: if_splits dest!: fbspec) (simp add: go_lookup_def)
    moreover have "v \<noteq> []" using that assms by metis
    ultimately show ?thesis by (auto simp: go_lookup_def split: option.splits)
  qed
  then have "fmdom a |\<subseteq>| fmdom b" by (auto simp: fmlookup_dom_iff)
  moreover have "fcard (fmdom a) = fcard (fmdom b)" using eq by (simp add: MapEqual_def split: if_splits)
  ultimately have "fmdom a = fmdom b" by (metis fcard_seteq order_refl)
  then show "a = b"
    by (metis (no_types, lifting) fmap_ext fmdom_notD fmdom_notI option.exhaust sub)
qed (simp add: MapEqual_def)

theorem MapEqual_iff_witness:
  "\<not> MapEqual (fmupd ''a'' ''x'' fmempty) (fmupd ''b'' ''x'' fmempty)"
proof -
  have "fmlookup (fmupd ''a'' ''x'' fmempty) ''a'' \<noteq> fmlookup (fmupd ''b'' ''x'' fmempty :: gomap) ''a''"
    by simp
  then have "fmupd ''a'' ''x'' fmempty \<noteq> (fmupd ''b'' ''x'' fmempty :: gomap)" by metis
  then show ?thesis by (subst MapEqual_iff) simp_all
qed

end
