(* ===== verification/Sha256.thy ===== *)
theory Sha256
  imports Prelude
begin

text \<open>
  \<open>sha256.Sum256\<close> of the Go standard library (FIPS 180-4) followed by the verb \<open>%x\<close>. The operator
  shortens names with the first characters of this digest, so what the names need of it is its
  length and its alphabet; both are proved here from the definition.
\<close>

unbundle bit_operations_syntax

section \<open>Compression\<close>

definition K256 :: "int32 list" where
  "K256 = [
     1116352408, 1899447441, 3049323471, 3921009573, 961987163, 1508970993,
     2453635748, 2870763221, 3624381080, 310598401, 607225278, 1426881987,
     1925078388, 2162078206, 2614888103, 3248222580, 3835390401, 4022224774,
     264347078, 604807628, 770255983, 1249150122, 1555081692, 1996064986,
     2554220882, 2821834349, 2952996808, 3210313671, 3336571891, 3584528711,
     113926993, 338241895, 666307205, 773529912, 1294757372, 1396182291,
     1695183700, 1986661051, 2177026350, 2456956037, 2730485921, 2820302411,
     3259730800, 3345764771, 3516065817, 3600352804, 4094571909, 275423344,
     430227734, 506948616, 659060556, 883997877, 958139571, 1322822218,
     1537002063, 1747873779, 1955562222, 2024104815, 2227730452, 2361852424,
     2428436474, 2756734187, 3204031479, 3329325298]"

definition H256 :: "int32 list" where
  "H256 = [1779033703, 3144134277, 1013904242, 2773480762, 1359893119, 2600822924, 528734635, 1541459225]"

definition bsig0 :: "int32 \<Rightarrow> int32" where
  "bsig0 x = word_rotr 2 x XOR word_rotr 13 x XOR word_rotr 22 x"

definition bsig1 :: "int32 \<Rightarrow> int32" where
  "bsig1 x = word_rotr 6 x XOR word_rotr 11 x XOR word_rotr 25 x"

definition ssig0 :: "int32 \<Rightarrow> int32" where
  "ssig0 x = word_rotr 7 x XOR word_rotr 18 x XOR drop_bit 3 x"

definition ssig1 :: "int32 \<Rightarrow> int32" where
  "ssig1 x = word_rotr 17 x XOR word_rotr 19 x XOR drop_bit 10 x"

definition Ch :: "int32 \<Rightarrow> int32 \<Rightarrow> int32 \<Rightarrow> int32" where
  "Ch x y z = (x AND y) XOR (NOT x AND z)"

definition Maj :: "int32 \<Rightarrow> int32 \<Rightarrow> int32 \<Rightarrow> int32" where
  "Maj x y z = (x AND y) XOR (x AND z) XOR (y AND z)"

text \<open>The message schedule as a sliding window of the last sixteen words.\<close>

fun rounds :: "int32 list \<Rightarrow> int32 list \<Rightarrow> int32 list \<Rightarrow> int32 list" where
  "rounds [] w st = st"
| "rounds (k # ks) w st =
     (case st of
        [a, b, c, d, e, f, g, h] \<Rightarrow>
          let w0 = w ! 0;
              t1 = h + bsig1 e + Ch e f g + k + w0;
              t2 = bsig0 a + Maj a b c;
              wn = ssig1 (w ! 14) + w ! 9 + ssig0 (w ! 1) + w0
          in rounds ks (tl w @ [wn]) [t1 + t2, a, b, c, d + t1, e, f, g]
      | _ \<Rightarrow> st)"

definition compress :: "int32 list \<Rightarrow> int32 list \<Rightarrow> int32 list" where
  "compress st block = map2 (+) st (rounds K256 block st)"

section \<open>Padding and digest\<close>

definition be_word :: "nat list \<Rightarrow> int32" where
  "be_word bs = foldl (\<lambda>a b. push_bit 8 a OR of_nat b) 0 bs"

definition be_bytes :: "nat \<Rightarrow> nat \<Rightarrow> nat list" where
  "be_bytes n v = rev (map (\<lambda>i. v div 256 ^ i mod 256) [0..<n])"

definition pad :: "nat list \<Rightarrow> nat list" where
  "pad bs = bs @ [0x80] @ replicate ((119 - length bs mod 64) mod 64) 0 @ be_bytes 8 (8 * length bs)"

fun words :: "nat list \<Rightarrow> int32 list" where
  "words (a # b # c # d # bs) = be_word [a, b, c, d] # words bs"
| "words _ = []"

fun blocks :: "int32 list \<Rightarrow> int32 list list" where
  "blocks ws = (if length ws < 16 then [] else take 16 ws # blocks (drop 16 ws))"

declare blocks.simps [simp del]

definition Sum256 :: "bytes \<Rightarrow> int32 list" where
  "Sum256 s = foldl compress H256 (blocks (words (pad (map of_char s))))"

definition hex_lower :: "nat \<Rightarrow> char" where
  "hex_lower n = (if n < 10 then char_of (48 + n) else char_of (87 + n))"

definition hex_word :: "int32 \<Rightarrow> string" where
  "hex_word w = map (\<lambda>i. hex_lower (unat (drop_bit (4 * i) w AND 15))) (rev [0..<8])"

definition sha256hex :: "bytes \<Rightarrow> string" where
  "sha256hex s = concat (map hex_word (Sum256 s))"

section \<open>Length and alphabet\<close>

lemma length_rounds: "length (rounds ks w st) = length st"
  by (induction ks w st rule: rounds.induct) (auto simp: Let_def split: list.splits)

lemma length_compress: "length (compress st b) = length st"
  by (simp add: compress_def length_rounds)

lemma length_Sum256: "length (Sum256 s) = 8"
proof -
  have "length (foldl compress st bs) = length st" for st bs
    by (induction bs arbitrary: st) (auto simp: length_compress)
  then show ?thesis by (simp add: Sum256_def H256_def)
qed

lemma length_sha256hex: "length (sha256hex s) = 64"
proof -
  have "length (concat (map hex_word ws)) = 8 * length ws" for ws
    by (induction ws) (auto simp: hex_word_def)
  then show ?thesis by (simp add: sha256hex_def length_Sum256)
qed

definition is_hex :: "char \<Rightarrow> bool" where
  "is_hex c \<longleftrightarrow> byte_in 48 57 c \<or> byte_in 97 102 c"

lemma is_hex_hex_lower: "n < 16 \<Longrightarrow> is_hex (hex_lower n)"
  by (auto simp: is_hex_def byte_in_def hex_lower_def)

lemma unat_and_15: "unat ((w :: int32) AND 15) < 16"
proof -
  have "w AND 15 \<le> 15" by (rule word_and_le1)
  then have "unat (w AND 15) \<le> unat (15 :: int32)" by (simp only: word_le_nat_alt)
  then show ?thesis by simp
qed

lemma set_sha256hex: "c \<in> set (sha256hex s) \<Longrightarrow> is_hex c"
  by (auto simp: sha256hex_def hex_word_def intro!: is_hex_hex_lower unat_and_15)

end
