(* ===== verification/Deployments.thy ===== *)
theory Deployments
  imports Util Sha256
begin

text \<open>
  The Deployments of a Store (\<open>internal/deployment\<close>): the builders of the admin, storefront and
  worker deployments, the names of the worker deployments, the KEDA scaled objects, the settings
  computed for PHP-FPM, and the condition derived from a deployment's status. The builders take
  the operator's service URL, which \<open>GetEnv\<close> reads from a package variable, as an argument.

  The builders merge into a deep copy of the container specification, so of the Store they write
  only the container annotations (\<open>GetDefaultContainerAnnotations_shared\<close>).
\<close>

section \<open>Condition of a deployment\<close>

fun progress_loop :: "dep_condition list \<Rightarrow> bool" where
  "progress_loop [] = False"
| "progress_loop (c # cs) =
     (if dc_Type c = ''Progressing''
      then dc_Status c = ''False'' \<and> dc_Reason c = ''ProgressDeadlineExceeded''
      else progress_loop cs)"

definition progressDeadlineExceeded :: "deployment \<Rightarrow> bool" where
  "progressDeadlineExceeded d = progress_loop (dst_Conditions (d_Status d))"

definition ready_text :: "int32 \<Rightarrow> int32 \<Rightarrow> string" where
  "ready_text a b = fmt_d a @ ''/'' @ fmt_d b"

definition getDeploymentCondition :: "gotime \<Rightarrow> deployment \<Rightarrow> int32 \<Rightarrow> deployment_condition" where
  "getDeploymentCondition now d storeReplicas =
     (let avail = dst_AvailableReplicas (d_Status d);
          con = (\<lambda>st msg. \<lparr>dcon_State = st, dcon_LastUpdateTime = now, dcon_Message = msg,
                   dcon_Ready = ready_text avail storeReplicas, dcon_StoreReplicas = storeReplicas\<rparr>)
      in
      if avail = dst_Replicas (d_Status d) then
        (if avail \<noteq> storeReplicas
         then con DeploymentStateRunning ''Deployment is running, but has own scaling''
         else con DeploymentStateRunning ''Deployment is running'')
      else if avail \<noteq> dst_Replicas (d_Status d) then
        (if 0 <s avail \<or> storeReplicas = 0
         then con DeploymentStateRunning ''Deployment is running, but is scaling''
         else if progressDeadlineExceeded d
         then con DeploymentStateError
                ''Deployment has no available replicas and exceeded its progress deadline''
         else con DeploymentStateScaling ''Deployment is scaling'')
      else if 0 <s dst_UnavailableReplicas (d_Status d)
      then con DeploymentStateError ''Deployment has UnavailableReplicas''
      else (con DeploymentStateUnknown ''Unknown state of the deployment'')\<lparr>dcon_Ready := ''0/0''\<rparr>)"

section \<open>PHP-FPM settings\<close>

text \<open>
  Go's integer division truncates towards zero. \<open>math.Round\<close> rounds halves away from zero; the
  ratios are the fractions 1/4, 1/5 and 3/8, and since n/5 is never closer than 1/10 to a half the
  inexact constant 0.2 rounds like the fraction. Likewise \<open>floor (0.9 m)\<close> is \<open>9 m div 10\<close>.
\<close>

definition godiv :: "int \<Rightarrow> int \<Rightarrow> int" where
  "godiv a b = sgn a * sgn b * (\<bar>a\<bar> div \<bar>b\<bar>)"

definition round_div :: "int \<Rightarrow> int \<Rightarrow> int" where
  "round_div a b = (if 0 \<le> a then (2 * a + b) div (2 * b) else - ((2 * - a + b) div (2 * b)))"

definition GetCalculatedPHPFPMValues :: "int \<Rightarrow> env_var list" where
  "GetCalculatedPHPFPMValues memoryLimitMiB =
     (let maxChildren = godiv memoryLimitMiB 80;
          startServers = round_div maxChildren 4;
          minSpare = round_div maxChildren 5;
          maxSpare = round_div (3 * maxChildren) 8 + 1
      in [env_value ''FPM_PM'' ''dynamic'',
          env_value ''FPM_PM_MAX_CHILDREN'' (Itoa maxChildren),
          env_value ''FPM_PM_START_SERVERS'' (Itoa startServers),
          env_value ''FPM_PM_MIN_SPARE_SERVERS'' (Itoa minSpare),
          env_value ''FPM_PM_MAX_SPARE_SERVERS'' (Itoa maxSpare)])"

text \<open>\<open>Limits.Memory().Value()\<close>; the method returns a zero quantity when there is no entry.\<close>

definition memory_limit :: "resource_requirements \<Rightarrow> int" where
  "memory_limit r =
     (case rr_Limits r of
        None \<Rightarrow> 0
      | Some m \<Rightarrow> (case fmlookup m ''memory'' of None \<Rightarrow> 0 | Some q \<Rightarrow> q_value q))"

section \<open>Parts shared by the builders\<close>

definition getCaddyGracefulShutdownLifecycleHook :: "int64 \<Rightarrow> string list" where
  "getCaddyGracefulShutdownLifecycleHook delay =
     [''/bin/sh'', ''-c'', ''/bin/sleep '' @ fmt_d delay @ ''; pkill -TERM caddy'']"

text \<open>The merged container specification with the volumes of the database TLS secret.\<close>

definition merged_spec :: "store \<Rightarrow> container_merge_spec \<Rightarrow> container_spec" where
  "merged_spec s ov =
     (let c = Merge (st_Container s) ov
      in c\<lparr>cs_Volumes := cs_Volumes c @ GetDatabaseTLSVolumes s,
           cs_VolumeMounts := cs_VolumeMounts c @ GetDatabaseTLSVolumeMounts s\<rparr>)"

definition fpm_envs :: "string \<Rightarrow> store \<Rightarrow> container_spec \<Rightarrow> env_var list" where
  "fpm_envs url s c =
     (let envs = MergeEnv (GetEnv url s) (cs_ExtraEnvs c) in
      if fpm_ProcessManagement (sp_FPM (st_Spec s)) = ''operator'' then
        (if memory_limit (cs_Resources c) \<noteq> 0
         then MergeEnv envs (GetCalculatedPHPFPMValues (godiv (memory_limit (cs_Resources c)) (1024 * 1024)))
         else MergeEnv envs (GetCalculatedPHPFPMValues 2048))
      else envs)"

definition service_account :: "store \<Rightarrow> container_spec \<Rightarrow> string" where
  "service_account s c =
     (let old = (if sp_ServiceAccountName (st_Spec s) \<noteq> [] then sp_ServiceAccountName (st_Spec s) else [])
      in if cs_ServiceAccountName c \<noteq> [] then cs_ServiceAccountName c else old)"

definition deployment_object ::
  "string \<Rightarrow> store \<Rightarrow> gomap \<Rightarrow> gomap \<Rightarrow> gomap \<Rightarrow> container_spec \<Rightarrow> int32 \<Rightarrow> int64 \<Rightarrow> container list \<Rightarrow> deployment"
where
  "deployment_object name s labels annotations matchLabels c replicas grace containers =
     \<lparr>d_Meta = empty_meta\<lparr>m_Name := name, m_Namespace := st_Namespace s, m_Labels := labels,
                           m_Annotations := Some annotations\<rparr>,
      d_Spec =
        \<lparr>ds_Replicas = replicas,
         ds_ProgressDeadlineSeconds = cs_ProgressDeadlineSeconds c,
         ds_MatchLabels = matchLabels,
         ds_MaxSurge = ''25%'', ds_MaxUnavailable = ''25%'',
         ds_Template =
           \<lparr>pt_Labels = labels, pt_Annotations = Some annotations,
            pt_Spec = empty_pod_spec\<lparr>
              ps_Volumes := cs_Volumes c,
              ps_TopologySpreadConstraints := cs_TopologySpreadConstraints c,
              ps_NodeSelector := cs_NodeSelector c,
              ps_ImagePullSecrets := cs_ImagePullSecrets c,
              ps_EnableServiceLinks := cs_EnableServiceLinks c,
              ps_RestartPolicy := cs_RestartPolicy c,
              ps_TerminationGracePeriodSeconds := Some grace,
              ps_Containers := containers,
              ps_SecurityContext := DefaultPodSecurityContext (cs_SecurityContext c),
              ps_InitContainers := DefaultContainerSecurityContexts (cs_InitContainers c),
              ps_ServiceAccountName := service_account s c\<rparr>\<rparr>\<rparr>,
      d_Status = empty_deployment_status\<rparr>"

definition tcp_port :: "int32 \<Rightarrow> container_port" where
  "tcp_port p = \<lparr>cp_Name = [], cp_ContainerPort = p, cp_Protocol = ''TCP''\<rparr>"

definition FPM_ADMIN_PORT :: int32 where
  "FPM_ADMIN_PORT = 8001"

definition http_probe :: "string \<Rightarrow> int32 \<Rightarrow> probe" where
  "http_probe path port =
     \<lparr>pr_Path = path, pr_Port = port, pr_PeriodSeconds = 0, pr_TimeoutSeconds = 0,
      pr_InitialDelaySeconds = 0, pr_FailureThreshold = 0\<rparr>"

section \<open>Admin\<close>

definition GetAdminDeploymentName :: "store \<Rightarrow> string" where
  "GetAdminDeploymentName s = st_Name s @ ''-store-admin''"

definition AdminDeployment :: "string \<Rightarrow> store \<Rightarrow> deployment" where
  "AdminDeployment url s =
     (let ov = sp_AdminDeploymentContainer (st_Spec s);
          c = merged_spec s ov;
          appName = ''shopware-admin'';
          labels = GetDefaultContainerStoreLabels s (cm_Labels ov) ++\<^sub>f GetAdminDeploymentMatchLabel;
          annotations = GetDefaultContainerAnnotations appName s (cm_Annotations ov);
          envs = fpm_envs url s c;
          containers = DefaultContainerSecurityContexts (cs_ExtraContainers c) @
            [empty_container\<lparr>
               c_PreStopExec := getCaddyGracefulShutdownLifecycleHook (nw_PreStopDelaySeconds (sp_Network (st_Spec s))),
               c_LivenessProbe := Some ((http_probe ''/-/healthz'' FPM_ADMIN_PORT)
                 \<lparr>pr_TimeoutSeconds := 2, pr_InitialDelaySeconds := 5\<rparr>),
               c_ReadinessProbe := Some ((http_probe ''/api/_info/health-check'' (cs_Port c))
                 \<lparr>pr_TimeoutSeconds := 5, pr_InitialDelaySeconds := 5\<rparr>),
               c_Name := appName,
               c_Image := cs_Image c,
               c_ImagePullPolicy := cs_ImagePullPolicy c,
               c_SecurityContext := Some RestrictedContainerSecurityContext,
               c_Env := envs,
               c_VolumeMounts := cs_VolumeMounts c,
               c_Ports := [tcp_port (cs_Port c)],
               c_Resources := cs_Resources c\<rparr>]
      in deployment_object (GetAdminDeploymentName s) s labels annotations GetAdminDeploymentMatchLabel c
           (cs_Replicas c) (cs_TerminationGracePeriodSeconds c) containers)"

section \<open>Storefront\<close>

definition DEPLOYMENT_STOREFRONT_CONTAINER_NAME :: string where
  "DEPLOYMENT_STOREFRONT_CONTAINER_NAME = ''shopware-storefront''"

definition GetStorefrontDeploymentName :: "store \<Rightarrow> string" where
  "GetStorefrontDeploymentName s = st_Name s @ ''-storefront''"

definition StorefrontDeployment :: "string \<Rightarrow> store \<Rightarrow> deployment" where
  "StorefrontDeployment url s =
     (let ov = sp_StorefrontDeploymentContainer (st_Spec s);
          c = merged_spec s ov;
          appName = ''shopware-storefront'';
          labels = GetDefaultContainerStoreLabels s (cm_Labels ov) ++\<^sub>f GetStorefrontDeploymentMatchLabel;
          annotations = GetDefaultContainerAnnotations appName s (cm_Annotations ov);
          envs = fpm_envs url s c;
          containers = DefaultContainerSecurityContexts (cs_ExtraContainers c) @
            [empty_container\<lparr>
               c_PreStopExec := getCaddyGracefulShutdownLifecycleHook (nw_PreStopDelaySeconds (sp_Network (st_Spec s))),
               c_Name := DEPLOYMENT_STOREFRONT_CONTAINER_NAME,
               c_StartupProbe := Some ((http_probe ''/-/fpm/ping'' FPM_ADMIN_PORT)
                 \<lparr>pr_PeriodSeconds := 5, pr_TimeoutSeconds := 5, pr_FailureThreshold := 18\<rparr>),
               c_LivenessProbe := Some ((http_probe ''/-/healthz'' FPM_ADMIN_PORT)
                 \<lparr>pr_PeriodSeconds := 10, pr_TimeoutSeconds := 5, pr_FailureThreshold := 3\<rparr>),
               c_ReadinessProbe := Some ((http_probe ''/api/_info/health-check'' (cs_Port c))
                 \<lparr>pr_TimeoutSeconds := 5, pr_InitialDelaySeconds := 5\<rparr>),
               c_Image := cs_Image c,
               c_ImagePullPolicy := cs_ImagePullPolicy c,
               c_SecurityContext := Some RestrictedContainerSecurityContext,
               c_Env := envs,
               c_VolumeMounts := cs_VolumeMounts c,
               c_Ports := [tcp_port (cs_Port c)],
               c_Resources := cs_Resources c\<rparr>]
      in deployment_object (GetStorefrontDeploymentName s) s labels annotations
           GetStorefrontDeploymentMatchLabel c (cs_Replicas c) (cs_TerminationGracePeriodSeconds c) containers)"

section \<open>Worker names\<close>

definition maxK8sNameLength :: nat where
  "maxK8sNameLength = 63"

definition workerTimeLimitSeconds :: int64 where
  "workerTimeLimitSeconds = 300"

definition truncateWithHash :: "string \<Rightarrow> string" where
  "truncateWithHash name =
     (if length name \<le> maxK8sNameLength then name
      else let hash = take 8 (sha256hex name)
           in TrimRightChar (CHR ''-'') (take (maxK8sNameLength - 9) name) @ ''-'' @ hash)"

definition GetWorkerDeploymentName :: "store \<Rightarrow> string" where
  "GetWorkerDeploymentName s = st_Name s @ ''-store-worker''"

definition sanitizeQueue :: "string \<Rightarrow> string" where
  "sanitizeQueue queue = ReplaceChar (CHR ''_'') (CHR ''-'') (ToLower queue)"

definition GetQueueWorkerDeploymentName :: "store \<Rightarrow> string \<Rightarrow> string" where
  "GetQueueWorkerDeploymentName s queue =
     (if queue = [] then GetWorkerDeploymentName s
      else let sanitized = sanitizeQueue queue;
               sanitized' = (if sanitized \<noteq> queue
                             then sanitized @ ''-'' @ take 8 (sha256hex queue) else sanitized)
           in truncateWithHash (GetWorkerDeploymentName s @ ''-'' @ sanitized'))"

section \<open>Worker deployments\<close>

definition WorkerQueues :: "store \<Rightarrow> string list" where
  "WorkerQueues s = map qt_Name (qc_Transports (ss_QueueState (st_Status s)))"

definition newline :: string where
  "newline = [CHR 0x0A]"

definition workerScript :: "string \<Rightarrow> string" where
  "workerScript consume =
     Join [''term() {'',
           ''  trap - TERM INT QUIT'',
           ''  kill -TERM \"$child\" 2>/dev/null'',
           ''  wait \"$child\"'',
           ''  exit 0'',
           ''}'',
           ''trap term TERM INT QUIT'',
           ''while true; do'',
           ''  '' @ consume @ '' &'',
           ''  child=$!'',
           ''  wait \"$child\"'',
           ''done''] newline"

definition phpMemoryLimitMiB :: "container_spec \<Rightarrow> int" where
  "phpMemoryLimitMiB c =
     (if memory_limit (cs_Resources c) \<noteq> 0
      then 9 * godiv (memory_limit (cs_Resources c)) (1024 * 1024) div 10 else 0)"

definition worker_envs :: "string \<Rightarrow> store \<Rightarrow> container_spec \<Rightarrow> env_var list" where
  "worker_envs url s c =
     (let workerDefaults = [env_value ''DATABASE_PERSISTENT_CONNECTION'' ''1''];
          envs = MergeEnv (MergeEnv (GetEnv url s) workerDefaults) (cs_ExtraEnvs c)
      in if memory_limit (cs_Resources c) \<noteq> 0
         then MergeEnv envs [env_value ''PHP_MEMORY_LIMIT'' (Itoa (phpMemoryLimitMiB c) @ ''M'')]
         else envs)"

definition WorkerDeployment :: "string \<Rightarrow> store \<Rightarrow> string list \<Rightarrow> deployment" where
  "WorkerDeployment url s consumeQueues =
     (let queue = (if length consumeQueues = 1 then consumeQueues ! 0 else []);
          ov = sp_WorkerDeploymentContainer (st_Spec s);
          c = merged_spec s ov;
          replicas = (if wk_EnableKedaScaling (sp_Worker (st_Spec s))
                      then wk_MinReplicas (sp_Worker (st_Spec s)) else cs_Replicas c);
          appName = ''shopware-worker'';
          matchLabels = (if queue \<noteq> []
                         then fmupd (ShopwareKey ''worker.queue'') (truncateWithHash queue)
                                GetWorkerDeploymentMatchLabel
                         else GetWorkerDeploymentMatchLabel);
          labels = fmupd (ShopwareKey ''worker.queues'') (truncateWithHash (Join consumeQueues ''.''))
                     (GetDefaultContainerStoreLabels s (cm_Labels ov) ++\<^sub>f matchLabels);
          annotations = GetDefaultContainerAnnotations appName s (cm_Annotations ov);
          consume = ''bin/console messenger:consume '' @ Join consumeQueues '' '' @
                    '' --time-limit='' @ fmt_d workerTimeLimitSeconds @ '' -vv'' @
                    (if phpMemoryLimitMiB c > 0
                     then '' --memory-limit='' @ Itoa (phpMemoryLimitMiB c) @ ''M'' else []);
          grace = (if cm_TerminationGracePeriodSeconds ov \<noteq> 0
                   then cm_TerminationGracePeriodSeconds ov else workerTimeLimitSeconds);
          containers = DefaultContainerSecurityContexts (cs_ExtraContainers c) @
            [empty_container\<lparr>
               c_Name := appName,
               c_Image := cs_Image c,
               c_ImagePullPolicy := cs_ImagePullPolicy c,
               c_Env := worker_envs url s c,
               c_SecurityContext := Some RestrictedContainerSecurityContext,
               c_Command := [''/bin/sh'', ''-c''],
               c_Args := [workerScript consume],
               c_VolumeMounts := cs_VolumeMounts c,
               c_Ports := [tcp_port (cs_Port c)],
               c_Resources := cs_Resources c\<rparr>]
      in deployment_object (GetQueueWorkerDeploymentName s queue) s labels annotations matchLabels c
           replicas grace containers)"

definition empty_queue_error :: "store \<Rightarrow> goerr" where
  "empty_queue_error s = Errorf (''empty queue name for store '' @ st_Namespace s @ ''/'' @ st_Name s)"

definition WorkerDeployments :: "string \<Rightarrow> store \<Rightarrow> deployment list result" where
  "WorkerDeployments url s =
     (let queues = WorkerQueues s in
      if [] \<in> set queues then Inl (empty_queue_error s)
      else if length queues = 0 then Inr []
      else if \<not> wk_EnableKedaScaling (sp_Worker (st_Spec s)) then Inr [WorkerDeployment url s queues]
      else Inr (map (\<lambda>q. WorkerDeployment url s [q]) queues))"

section \<open>Scaled objects\<close>

record scaled_object =
  so_Meta :: object_meta
  so_TargetName :: string
  so_MinReplicaCount :: int32
  so_MaxReplicaCount :: int32
  so_CooldownPeriod :: int32
  so_PollingInterval :: int32
  so_ScaleUpPods :: "int32 \<times> int32"
  so_TriggerType :: string
  so_TriggerMetadata :: gomap

definition WorkerScaledObject :: "store \<Rightarrow> string \<Rightarrow> string \<Rightarrow> scaled_object" where
  "WorkerScaledObject s queue metricsURL =
     (let worker = sp_Worker (st_Spec s);
          labels = fmupd (ShopwareKey ''worker.queue'') (truncateWithHash queue)
                     (fmupd (ShopwareKey ''store.app'') ''shopware-worker'' (GetStoreLabel s))
      in \<lparr>so_Meta = empty_meta\<lparr>m_Name := GetQueueWorkerDeploymentName s queue,
                               m_Namespace := st_Namespace s, m_Labels := labels\<rparr>,
          so_TargetName = GetQueueWorkerDeploymentName s queue,
          so_MinReplicaCount = wk_MinReplicas worker,
          so_MaxReplicaCount = wk_MaxReplicas worker,
          so_CooldownPeriod = wk_CooldownPeriod worker,
          so_PollingInterval = wk_PollingInterval worker,
          so_ScaleUpPods = (1, 10),
          so_TriggerType = ''metrics-api'',
          so_TriggerMetadata = fmap_of_list
            [(''url'', metricsURL @ ''/api/queue/'' @ st_Namespace s @ ''/'' @ st_Name s @ ''/'' @ queue),
             (''valueLocation'', ''count''),
             (''targetValue'', Itoa (sint (wk_TargetQueueLength worker)))]\<rparr>)"

fun scaled_loop :: "store \<Rightarrow> string \<Rightarrow> string list \<Rightarrow> scaled_object list result" where
  "scaled_loop s metricsURL [] = Inr []"
| "scaled_loop s metricsURL (q # qs) =
     (if q = [] then Inl (empty_queue_error s)
      else case scaled_loop s metricsURL qs of
             Inl e \<Rightarrow> Inl e
           | Inr os \<Rightarrow> Inr (WorkerScaledObject s q metricsURL # os))"

definition WorkerScaledObjects :: "store \<Rightarrow> string \<Rightarrow> scaled_object list result" where
  "WorkerScaledObjects s metricsURL = scaled_loop s metricsURL (WorkerQueues s)"

lemmas builder_defs =
  AdminDeployment_def StorefrontDeployment_def WorkerDeployment_def deployment_object_def Let_def

abbreviation dep_pod :: "deployment \<Rightarrow> pod_spec" where
  "dep_pod d \<equiv> pt_Spec (ds_Template (d_Spec d))"

abbreviation dep_Name :: "deployment \<Rightarrow> string" where
  "dep_Name d \<equiv> m_Name (d_Meta d)"

section \<open>Names\<close>

lemma ShopwareKey_inject [simp]: "ShopwareKey a = ShopwareKey b \<longleftrightarrow> a = b"
  by (simp add: ShopwareKey_def)

lemma truncateWithHash_short: "length n \<le> maxK8sNameLength \<Longrightarrow> truncateWithHash n = n"
  by (simp add: truncateWithHash_def)

lemma length_truncateWithHash: "length (truncateWithHash n) \<le> maxK8sNameLength"
  using length_TrimRightChar [of "CHR ''-''" "take 54 n"]
  by (auto simp: truncateWithHash_def Let_def maxK8sNameLength_def length_sha256hex)

lemma length_sanitizeQueue [simp]: "length (sanitizeQueue q) = length q"
  by (simp add: sanitizeQueue_def)

text \<open>The unhashed name of the deployment of a queue.\<close>

definition queue_suffix :: "string \<Rightarrow> string" where
  "queue_suffix q = (if sanitizeQueue q \<noteq> q then sanitizeQueue q @ ''-'' @ take 8 (sha256hex q) else q)"

lemma GetQueueWorkerDeploymentName_suffix:
  "q \<noteq> [] \<Longrightarrow> GetQueueWorkerDeploymentName s q =
     truncateWithHash (GetWorkerDeploymentName s @ ''-'' @ queue_suffix q)"
  by (simp add: GetQueueWorkerDeploymentName_def queue_suffix_def Let_def)

lemma queue_suffix_inject:
  assumes "sanitizeQueue q = q \<longleftrightarrow> sanitizeQueue r = r"
    and "sanitizeQueue q \<noteq> q \<Longrightarrow> take 8 (sha256hex q) = take 8 (sha256hex r) \<Longrightarrow> q = r"
    and "queue_suffix q = queue_suffix r"
  shows "q = r"
proof (cases "sanitizeQueue q = q")
  case True
  with assms show ?thesis by (simp add: queue_suffix_def)
next
  case False
  with assms(1,3) have eq: "sanitizeQueue q @ ''-'' @ take 8 (sha256hex q) =
      sanitizeQueue r @ ''-'' @ take 8 (sha256hex r)"
    by (simp add: queue_suffix_def)
  then have "take 8 (sha256hex q) = take 8 (sha256hex r)"
    by (subst (asm) append_assoc [symmetric], subst (asm) append_assoc [symmetric],
        subst (asm) append_eq_append_conv) (auto simp: length_sha256hex)
  with False show ?thesis by (rule assms(2))
qed

section \<open>PHP-FPM\<close>

lemma round_div_nonneg: "0 \<le> a \<Longrightarrow> round_div a b = (2 * a + b) div (2 * b)"
  by (simp add: round_div_def)

lemma godiv_nonneg: "0 \<le> a \<Longrightarrow> 0 < b \<Longrightarrow> godiv a b = a div b"
  by (cases "a = 0") (auto simp: godiv_def)

section \<open>Condition\<close>

lemma getDeploymentCondition_Running:
  "dcon_State (getDeploymentCondition now d r) = DeploymentStateRunning \<longleftrightarrow>
     dst_AvailableReplicas (d_Status d) = dst_Replicas (d_Status d) \<or>
     0 <s dst_AvailableReplicas (d_Status d) \<or> r = 0"
  by (simp add: getDeploymentCondition_def Let_def)

section \<open>Properties\<close>

text \<open>
  C27: every name and label value that the operator derives from a queue is at most 63 bytes long,
  and is the unshortened name whenever that fits.
\<close>

theorem worker_names_fit:
  "length (truncateWithHash n) \<le> 63 \<and>
   (length n \<le> 63 \<longrightarrow> truncateWithHash n = n) \<and>
   (q \<noteq> [] \<longrightarrow> length (GetQueueWorkerDeploymentName s q) \<le> 63)"
  using length_truncateWithHash [of n] truncateWithHash_short [of n]
    length_truncateWithHash [of "GetWorkerDeploymentName s @ ''-'' @ queue_suffix q"]
  by (auto simp: maxK8sNameLength_def GetQueueWorkerDeploymentName_suffix)

theorem worker_names_fit_witness:
  "truncateWithHash ''async'' = ''async'' \<and>
   length (GetQueueWorkerDeploymentName zero_store ''low_priority'') \<le> 63"
  using worker_names_fit [of "''async''" "''low_priority''" zero_store] by simp

text \<open>
  Two different queues get two different worker deployments: when the names fit into 63 bytes,
  the queue names are either both valid already or both in need of sanitizing, and in the second
  case the eight hex digits of the digest tell them apart.
\<close>

theorem worker_names_distinct:
  assumes "q \<noteq> []" and "r \<noteq> []" and "q \<noteq> r"
    and "sanitizeQueue q = q \<longleftrightarrow> sanitizeQueue r = r"
    and "sanitizeQueue q \<noteq> q \<Longrightarrow> take 8 (sha256hex q) \<noteq> take 8 (sha256hex r)"
    and "length (st_Name s) + 14 + length q + 9 \<le> 63" and "length (st_Name s) + 14 + length r + 9 \<le> 63"
  shows "GetQueueWorkerDeploymentName s q \<noteq> GetQueueWorkerDeploymentName s r"
proof
  assume eq: "GetQueueWorkerDeploymentName s q = GetQueueWorkerDeploymentName s r"
  have fit: "length (GetWorkerDeploymentName s @ ''-'' @ queue_suffix x) \<le> maxK8sNameLength"
    if "length (st_Name s) + 14 + length x + 9 \<le> 63" for x
    using that by (auto simp: GetWorkerDeploymentName_def queue_suffix_def maxK8sNameLength_def length_sha256hex)
  have "queue_suffix q = queue_suffix r"
    using eq assms(1,2) fit [OF assms(6)] fit [OF assms(7)]
    by (simp add: GetQueueWorkerDeploymentName_suffix truncateWithHash_short)
  with assms(3,4,5) show False using queue_suffix_inject by blast
qed

theorem worker_names_distinct_witness:
  "GetQueueWorkerDeploymentName zero_store ''async'' \<noteq> GetQueueWorkerDeploymentName zero_store ''low''"
proof (rule worker_names_distinct)
  have "sanitizeQueue ''async'' = ''async''" "sanitizeQueue ''low'' = ''low''" by code_simp+
  then show "take 8 (sha256hex ''async'') \<noteq> take 8 (sha256hex ''low'')" if "sanitizeQueue ''async'' \<noteq> ''async''"
    using that by simp
  show "(sanitizeQueue ''async'' = ''async'') = (sanitizeQueue ''low'' = ''low'')" by code_simp
qed (simp_all add: zero_store_def empty_meta_def)

text \<open>
  With at least 240 MiB of memory the computed PHP-FPM settings satisfy what PHP-FPM demands of
  a dynamic pool: 0 < min_spare <= start <= max_spare <= max_children.
\<close>

theorem GetCalculatedPHPFPMValues_valid:
  assumes "240 \<le> mem"
  shows "\<exists>children start mn mx.
    GetCalculatedPHPFPMValues mem =
      [env_value ''FPM_PM'' ''dynamic'', env_value ''FPM_PM_MAX_CHILDREN'' (Itoa children),
       env_value ''FPM_PM_START_SERVERS'' (Itoa start), env_value ''FPM_PM_MIN_SPARE_SERVERS'' (Itoa mn),
       env_value ''FPM_PM_MAX_SPARE_SERVERS'' (Itoa mx)] \<and>
    0 < mn \<and> mn \<le> start \<and> start \<le> mx \<and> mx \<le> children \<and> 80 * children \<le> mem"
proof -
  define n where "n = mem div 80"
  have n: "3 \<le> n" "80 * n \<le> mem" using assms by (auto simp: n_def)
  have g: "godiv mem 80 = n" using assms by (simp add: godiv_nonneg n_def)
  define a b c where "a = (2 * n + 5) div 10" and "b = (2 * n + 4) div 8" and "c = (6 * n + 8) div 16"
  have "10 * a \<le> 2 * n + 5" "2 * n + 5 < 10 * a + 10" "8 * b \<le> 2 * n + 4" "2 * n + 4 < 8 * b + 8"
    "16 * c \<le> 6 * n + 8" "6 * n + 8 < 16 * c + 16"
    unfolding a_def b_def c_def by linarith+
  with n(1) have "0 < a" "a \<le> b" "b \<le> c + 1" "c + 1 \<le> n" by linarith+
  then show ?thesis
    using n
    by (intro exI [of _ n] exI [of _ b] exI [of _ a] exI [of _ "c + 1"]) (simp add: a_def b_def c_def GetCalculatedPHPFPMValues_def Let_def g round_div_nonneg)
qed

theorem GetCalculatedPHPFPMValues_valid_witness:
  "\<exists>children start mn mx. GetCalculatedPHPFPMValues 512 =
      [env_value ''FPM_PM'' ''dynamic'', env_value ''FPM_PM_MAX_CHILDREN'' (Itoa children),
       env_value ''FPM_PM_START_SERVERS'' (Itoa start), env_value ''FPM_PM_MIN_SPARE_SERVERS'' (Itoa mn),
       env_value ''FPM_PM_MAX_SPARE_SERVERS'' (Itoa mx)] \<and> 0 < mn \<and> mx \<le> children"
  using GetCalculatedPHPFPMValues_valid [of 512] by auto

text \<open>
  Below 240 MiB (but not negative) the computed settings have no spare server, which PHP-FPM
  refuses in a dynamic pool.
\<close>

theorem GetCalculatedPHPFPMValues_small:
  assumes "0 \<le> mem" and "mem < 240"
  shows "named ev_Name (GetCalculatedPHPFPMValues mem) ''FPM_PM_MIN_SPARE_SERVERS'' =
           Some (env_value ''FPM_PM_MIN_SPARE_SERVERS'' ''0'')"
proof -
  have "mem div 80 = 0 \<or> mem div 80 = 1 \<or> mem div 80 = 2" using assms by presburger
  moreover have "Itoa 0 = ''0''" by code_simp
  ultimately show ?thesis
    using assms by (auto simp: GetCalculatedPHPFPMValues_def Let_def godiv_nonneg round_div_nonneg)
qed

theorem GetCalculatedPHPFPMValues_small_witness:
  "named ev_Name (GetCalculatedPHPFPMValues 128) ''FPM_PM_MIN_SPARE_SERVERS'' =
     Some (env_value ''FPM_PM_MIN_SPARE_SERVERS'' ''0'')"
  by (rule GetCalculatedPHPFPMValues_small) simp_all

section \<open>Labels\<close>

definition app_label :: "deployment \<Rightarrow> string option" where
  "app_label d = fmlookup (pt_Labels (ds_Template (d_Spec d))) (ShopwareKey ''store.app'')"

definition app_selector :: "deployment \<Rightarrow> string option" where
  "app_selector d = fmlookup (ds_MatchLabels (d_Spec d)) (ShopwareKey ''store.app'')"

lemma app_labels:
  "app_label (AdminDeployment url s) = Some ''shopware-admin''"
  "app_label (StorefrontDeployment url s) = Some ''shopware-storefront''"
  "app_label (WorkerDeployment url s qs) = Some ''shopware-worker''"
  "app_selector (AdminDeployment url s) = Some ''shopware-admin''"
  "app_selector (StorefrontDeployment url s) = Some ''shopware-storefront''"
  "app_selector (WorkerDeployment url s qs) = Some ''shopware-worker''"
  by (simp_all add: app_label_def app_selector_def builder_defs GetAdminDeploymentMatchLabel_def
      GetStorefrontDeploymentMatchLabel_def GetWorkerDeploymentMatchLabel_def)

lemma selector_mismatch:
  "app_selector d = Some a \<Longrightarrow> app_label e = Some b \<Longrightarrow> a \<noteq> b \<Longrightarrow>
     \<not> ds_MatchLabels (d_Spec d) \<subseteq>\<^sub>f pt_Labels (ds_Template (d_Spec e))"
  unfolding fmsubset_iff app_selector_def app_label_def by (metis option.inject)

lemma worker_selector:
  "ds_MatchLabels (d_Spec (WorkerDeployment url s qs)) \<subseteq>\<^sub>f
     pt_Labels (ds_Template (d_Spec (WorkerDeployment url s qs)))"
  by (auto simp: fmsubset_iff builder_defs GetWorkerDeploymentMatchLabel_def)

lemma admin_storefront_selectors:
  "ds_MatchLabels (d_Spec (AdminDeployment url s)) \<subseteq>\<^sub>f pt_Labels (ds_Template (d_Spec (AdminDeployment url' t)))"
  "ds_MatchLabels (d_Spec (StorefrontDeployment url s)) \<subseteq>\<^sub>f
     pt_Labels (ds_Template (d_Spec (StorefrontDeployment url' t)))"
  by (simp_all add: fmsubset_iff builder_defs)

definition selects :: "deployment \<Rightarrow> deployment \<Rightarrow> bool" where
  "selects d e \<longleftrightarrow> ds_MatchLabels (d_Spec d) \<subseteq>\<^sub>f pt_Labels (ds_Template (d_Spec e))"

text \<open>
  Whatever labels the user sets on the container or on the overrides, the selector of each of
  the three kinds of deployment selects the pods of its own template, and no pod of the other two.
\<close>

theorem deployment_selectors:
  "selects (AdminDeployment url s) (AdminDeployment url s) \<and>
   selects (StorefrontDeployment url s) (StorefrontDeployment url s) \<and>
   selects (WorkerDeployment url s qs) (WorkerDeployment url s qs) \<and>
   \<not> selects (AdminDeployment url s) (StorefrontDeployment url s) \<and>
   \<not> selects (AdminDeployment url s) (WorkerDeployment url s qs) \<and>
   \<not> selects (StorefrontDeployment url s) (AdminDeployment url s) \<and>
   \<not> selects (StorefrontDeployment url s) (WorkerDeployment url s qs) \<and>
   \<not> selects (WorkerDeployment url s qs) (AdminDeployment url s) \<and>
   \<not> selects (WorkerDeployment url s qs) (StorefrontDeployment url s)"
  unfolding selects_def
  by (intro conjI worker_selector admin_storefront_selectors selector_mismatch [OF app_labels(4) app_labels(2)]
      selector_mismatch [OF app_labels(4) app_labels(3)] selector_mismatch [OF app_labels(5) app_labels(1)]
      selector_mismatch [OF app_labels(5) app_labels(3)] selector_mismatch [OF app_labels(6) app_labels(1)]
      selector_mismatch [OF app_labels(6) app_labels(2)])
    simp_all

text \<open>
  The selectors do not tell Stores apart: the admin and storefront deployments of one Store
  select the pods of the admin and storefront deployments of any other Store of the namespace, and
  the worker deployment for several queues those of its workers.
\<close>

theorem selectors_ignore_the_store:
  "selects (AdminDeployment url s) (AdminDeployment url' t) \<and>
   selects (StorefrontDeployment url s) (StorefrontDeployment url' t) \<and>
   selects (WorkerDeployment url s (q # r # qs)) (WorkerDeployment url' t qs')"
  unfolding selects_def
  by (intro conjI admin_storefront_selectors)
    (auto simp: fmsubset_iff builder_defs GetWorkerDeploymentMatchLabel_def)

section \<open>Security\<close>

definition pod_restricted :: "pod_spec \<Rightarrow> bool" where
  "pod_restricted p \<longleftrightarrow> ps_SecurityContext p \<noteq> None \<and>
     (\<forall>c\<in>set (ps_Containers p) \<union> set (ps_InitContainers p). c_SecurityContext c \<noteq> None)"

lemma deployment_object_restricted:
  "(\<forall>c\<in>set cs. c_SecurityContext c \<noteq> None) \<Longrightarrow>
     pod_restricted (dep_pod (deployment_object n s l a m c r g cs))"
  using DefaultContainerSecurityContexts_set
  by (auto simp: pod_restricted_def deployment_object_def DefaultPodSecurityContext_def)

text \<open>
  Every deployment of a Store sets a pod security context and a security context on each of its
  containers, those that the user adds included; a context that the user gives is kept.
\<close>

theorem deployments_restricted:
  "pod_restricted (dep_pod (AdminDeployment url s)) \<and>
   pod_restricted (dep_pod (StorefrontDeployment url s)) \<and>
   pod_restricted (dep_pod (WorkerDeployment url s qs))"
  using DefaultContainerSecurityContexts_set
  by (auto simp: AdminDeployment_def StorefrontDeployment_def WorkerDeployment_def Let_def
      intro!: deployment_object_restricted)

text \<open>
  The condition of a deployment is decided by its status alone, and is never "unknown" or
  "not found": running when all replicas are available, or some are, or none is wanted; otherwise
  an error when the progress deadline is exceeded, and scaling if not.
\<close>

theorem getDeploymentCondition_state:
  "dcon_State (getDeploymentCondition now d r) =
     (if dst_AvailableReplicas (d_Status d) = dst_Replicas (d_Status d) \<or>
         0 <s dst_AvailableReplicas (d_Status d) \<or> r = 0
      then DeploymentStateRunning
      else if progressDeadlineExceeded d then DeploymentStateError else DeploymentStateScaling)"
  by (auto simp: getDeploymentCondition_def Let_def)

text \<open>
  The worker deployments of a Store: an error exactly when a transport has no name; without
  KEDA one deployment for all queues; with KEDA one per queue, in order, each with the name that
  its scaled object targets and the minimal number of replicas.
\<close>

theorem WorkerDeployments_cases:
  "if [] \<in> set (WorkerQueues s) then
     WorkerDeployments url s = Inl (empty_queue_error s) \<and> WorkerScaledObjects s m = Inl (empty_queue_error s)
   else \<exists>ds. WorkerDeployments url s = Inr ds \<and>
    (if wk_EnableKedaScaling (sp_Worker (st_Spec s)) then
       map dep_Name ds = map (GetQueueWorkerDeploymentName s) (WorkerQueues s) \<and>
       (\<exists>os. WorkerScaledObjects s m = Inr os \<and> map so_TargetName os = map dep_Name ds) \<and>
       set (map (\<lambda>d. ds_Replicas (d_Spec d)) ds) \<subseteq> {wk_MinReplicas (sp_Worker (st_Spec s))}
     else map dep_Name ds = (case WorkerQueues s of [] \<Rightarrow> [] | [q] \<Rightarrow> [GetQueueWorkerDeploymentName s q]
                             | _ \<Rightarrow> [GetWorkerDeploymentName s]))"
proof (cases "[] \<in> set (WorkerQueues s)")
  case True
  have "scaled_loop s m qs = Inl (empty_queue_error s)" if "[] \<in> set qs" for qs
    using that by (induction qs) (auto split: sum.splits)
  with True show ?thesis by (simp add: WorkerDeployments_def WorkerScaledObjects_def)
next
  case False
  have so: "\<exists>os. scaled_loop s m qs = Inr os \<and> map so_TargetName os = map (GetQueueWorkerDeploymentName s) qs"
    if "[] \<notin> set qs" for qs
    using that by (induction qs) (auto simp: WorkerScaledObject_def Let_def)
  show ?thesis
    using False so [OF False]
    by (auto simp: WorkerDeployments_def WorkerScaledObjects_def builder_defs GetQueueWorkerDeploymentName_def [of s "[]"]
        split: list.splits)
qed

lemma operatorEnv_set_Container [simp]: "operatorEnv url (set_Container c s) = operatorEnv url s"
  by (simp add: operatorEnv_def env_part_defs baseEnv_def tlsEnv_def consentEnv_def
      getOldSessionCache_def getSessionCache_def set_Container_def Let_def)

lemma set_Container_other [simp]:
  "GetDatabaseTLSVolumes (set_Container c s) = GetDatabaseTLSVolumes s"
  "GetDatabaseTLSVolumeMounts (set_Container c s) = GetDatabaseTLSVolumeMounts s"
  "GetStoreLabel (set_Container c s) = GetStoreLabel s"
  "GetAdminDeploymentName (set_Container c s) = GetAdminDeploymentName s"
  "GetStorefrontDeploymentName (set_Container c s) = GetStorefrontDeploymentName s"
  "GetQueueWorkerDeploymentName (set_Container c s) q = GetQueueWorkerDeploymentName s q"
  "sp_Network (st_Spec (set_Container c s)) = sp_Network (st_Spec s)"
  "sp_FPM (st_Spec (set_Container c s)) = sp_FPM (st_Spec s)"
  "sp_ServiceAccountName (st_Spec (set_Container c s)) = sp_ServiceAccountName (st_Spec s)"
  by (simp_all add: set_Container_def GetDatabaseTLSVolumes_def GetDatabaseTLSVolumeMounts_def
      GetStoreLabel_def GetAdminDeploymentName_def GetStorefrontDeploymentName_def
      GetQueueWorkerDeploymentName_def GetWorkerDeploymentName_def)

lemma Merge_tolerations:
  "\<exists>t' a'. Merge (c\<lparr>cs_Tolerations := t, cs_Affinity := a\<rparr>) f =
     (Merge c f)\<lparr>cs_Tolerations := t', cs_Affinity := a'\<rparr>"
  by (simp add: Merge_def cong: option.case_cong)

text \<open>
  Tolerations and affinity are merged but never reach a pod: a Store with any tolerations and
  affinity on the container gives the same deployments as the Store without them.
\<close>

theorem tolerations_and_affinity_ignored:
  "let s' = set_Container ((st_Container s)\<lparr>cs_Tolerations := t, cs_Affinity := aff\<rparr>) s in
   AdminDeployment url s' = AdminDeployment url s \<and>
   StorefrontDeployment url s' = StorefrontDeployment url s \<and>
   WorkerDeployment url s' qs = WorkerDeployment url s qs"
proof -
  define s' where "s' = set_Container ((st_Container s)\<lparr>cs_Tolerations := t, cs_Affinity := aff\<rparr>) s"
  have m: "\<exists>t' a'. merged_spec s' ov = (merged_spec s ov)\<lparr>cs_Tolerations := t', cs_Affinity := a'\<rparr>" for ov
  proof -
    obtain t' a' where "Merge ((st_Container s)\<lparr>cs_Tolerations := t, cs_Affinity := aff\<rparr>) ov =
        (Merge (st_Container s) ov)\<lparr>cs_Tolerations := t', cs_Affinity := a'\<rparr>"
      using Merge_tolerations by blast
    then have "merged_spec s' ov = (merged_spec s ov)\<lparr>cs_Tolerations := t', cs_Affinity := a'\<rparr>"
      by (intro container_spec.equality) (simp_all add: s'_def merged_spec_def Let_def)
    then show ?thesis by blast
  qed
  have l: "GetDefaultContainerStoreLabels s' = GetDefaultContainerStoreLabels s"
    "GetDefaultContainerAnnotations a s' = GetDefaultContainerAnnotations a s"
    "GetEnv url s' = GetEnv url s" for a
    by (auto simp: s'_def GetDefaultContainerStoreLabels_def overrideStoreLabels_def
        GetDefaultContainerAnnotations_def GetEnv_def fun_eq_iff)
  have f: "sp_AdminDeploymentContainer (st_Spec s') = sp_AdminDeploymentContainer (st_Spec s)"
    "sp_StorefrontDeploymentContainer (st_Spec s') = sp_StorefrontDeploymentContainer (st_Spec s)"
    "sp_WorkerDeploymentContainer (st_Spec s') = sp_WorkerDeploymentContainer (st_Spec s)"
    "GetAdminDeploymentName s' = GetAdminDeploymentName s" "st_Meta s' = st_Meta s"
    "GetStorefrontDeploymentName s' = GetStorefrontDeploymentName s"
    "GetQueueWorkerDeploymentName s' = GetQueueWorkerDeploymentName s"
    "sp_Network (st_Spec s') = sp_Network (st_Spec s)" "sp_FPM (st_Spec s') = sp_FPM (st_Spec s)"
    "sp_ServiceAccountName (st_Spec s') = sp_ServiceAccountName (st_Spec s)"
    "sp_Worker (st_Spec s') = sp_Worker (st_Spec s)"
    by (simp_all add: s'_def fun_eq_iff)
  note parts = builder_defs fpm_envs_def worker_envs_def phpMemoryLimitMiB_def service_account_def l f
  show ?thesis
    using m [of "sp_AdminDeploymentContainer (st_Spec s)"] m [of "sp_StorefrontDeploymentContainer (st_Spec s)"]
      m [of "sp_WorkerDeploymentContainer (st_Spec s)"]
    unfolding s'_def [symmetric] Let_def by (elim exE) (simp add: parts)
qed

end
