(* ===== verification/Resources.thy ===== *)
theory Resources
  imports Deployments
begin

text \<open>
  The objects around the deployments: services (\<open>internal/service\<close>), disruption budgets
  (\<open>internal/pdb\<close>), the autoscaler (\<open>internal/hpa\<close>), the ingress (\<open>internal/ingress\<close>), the Gateway
  route (\<open>internal/httproute\<close>) and the pod of a debug instance (\<open>internal/pod\<close>). Shown here: both
  kinds of routing send a request to the same service, and where the selectors and ports of these
  objects fit the pods.
\<close>

section \<open>Services\<close>

definition GetAdminServiceName :: "store \<Rightarrow> string" where
  "GetAdminServiceName s = st_Name s @ ''-admin''"

definition GetStorefrontServiceName :: "store \<Rightarrow> string" where
  "GetStorefrontServiceName s = st_Name s @ ''-storefront''"

definition service_object :: "string \<Rightarrow> store \<Rightarrow> gomap \<Rightarrow> service_port list \<Rightarrow> service" where
  "service_object name s selector ports =
     \<lparr>sv_Meta = empty_meta\<lparr>m_Name := name, m_Namespace := st_Namespace s, m_Labels := GetStoreLabel s\<rparr>,
      sv_Spec = \<lparr>sv_Selector = selector, sv_Type = ''ClusterIP'', sv_Ports = ports, sv_ClusterIP = [],
        sv_HealthCheckNodePort = 0, sv_PublishNotReadyAddresses = False\<rparr>\<rparr>"

definition service_port_of :: "string \<Rightarrow> string \<Rightarrow> int32 \<Rightarrow> service_port" where
  "service_port_of name protocol port =
     \<lparr>svp_Name = name, svp_Protocol = protocol, svp_Port = port, svp_TargetPort = port\<rparr>"

definition AdminService :: "store \<Rightarrow> service" where
  "AdminService s =
     service_object (GetAdminServiceName s) s (fmupd (ShopwareKey ''store.app'') ''shopware-admin'' fmempty)
       [service_port_of [] ''TCP'' 8000]"

definition StorefrontService :: "store \<Rightarrow> service" where
  "StorefrontService s =
     service_object (GetStorefrontServiceName s) s
       (fmupd (ShopwareKey ''store.app'') ''shopware-storefront'' fmempty) [service_port_of [] ''TCP'' 8000]"

definition DebugService :: "store \<Rightarrow> debug_instance \<Rightarrow> service" where
  "DebugService s d =
     service_object (m_Name (dbi_Meta d)) s (GetDefaultStoreInstanceDebugLabels s d)
       (service_port_of ''http'' ''TCP'' (cs_Port (st_Container s)) #
        map (\<lambda>p. service_port_of (cp_Name p) (cp_Protocol p) (cp_ContainerPort p))
          (di_ExtraContainerPorts (dbi_Spec d)))"

section \<open>Disruption budgets\<close>

text \<open>
  The builders merge an override into the Store they are given by value; the object does not depend
  on it, but the caller's Store changes through the shared maps: \<open>PDB_shared\<close>.
\<close>

definition pdb_object :: "string \<Rightarrow> store \<Rightarrow> gomap \<Rightarrow> pdb" where
  "pdb_object name s match =
     \<lparr>pdb_Meta = empty_meta\<lparr>m_Name := name, m_Namespace := st_Namespace s, m_Labels := GetStoreLabel s\<rparr>,
      pdb_MatchLabels = match, pdb_MaxUnavailable = 1\<rparr>"

definition PDB_shared :: "store \<Rightarrow> container_merge_spec \<Rightarrow> store" where
  "PDB_shared s ov = set_Container (Merge_shared (st_Container s) ov) s"

definition GetStorefrontPDBName :: "store \<Rightarrow> string" where
  "GetStorefrontPDBName s = st_Name s @ ''-storefront''"

definition GetAdminPDBName :: "store \<Rightarrow> string" where
  "GetAdminPDBName s = st_Name s @ ''-admin''"

definition GetWorkerPDBName :: "store \<Rightarrow> string" where
  "GetWorkerPDBName s = st_Name s @ ''-worker''"

definition StorefrontPDB :: "store \<Rightarrow> pdb" where
  "StorefrontPDB s = pdb_object (GetStorefrontPDBName s) s GetStorefrontDeploymentMatchLabel"

definition WorkerPDB :: "store \<Rightarrow> pdb" where
  "WorkerPDB s = pdb_object (GetWorkerPDBName s) s GetWorkerDeploymentMatchLabel"

definition AdminPDB :: "store \<Rightarrow> pdb" where
  "AdminPDB s = pdb_object (GetAdminPDBName s) s GetAdminDeploymentMatchLabel"

section \<open>Autoscaler\<close>

definition GetStoreHPAName :: "store \<Rightarrow> string" where
  "GetStoreHPAName s = ''store-'' @ st_Name s"

definition hpa_metrics :: "hpa_spec \<Rightarrow> metric_spec list" where
  "hpa_metrics h = (if length (hpa_Metrics h) = 0 then hpa_Metrics h @ [ResourceUtilization ''cpu'' 70] else hpa_Metrics h)"

definition StoreHPA :: "string \<Rightarrow> store \<Rightarrow> hpa" where
  "StoreHPA url s =
     (let dep = StorefrontDeployment url s; h = sp_HPA (st_Spec s) in
      \<lparr>hp_Meta = empty_meta\<lparr>m_Name := GetStoreHPAName s, m_Namespace := st_Namespace s,
         m_Labels := GetDefaultContainerStoreLabels s (Some fmempty), m_Annotations := hpa_Annotations h\<rparr>,
       hp_TargetKind = ''Deployment'', hp_TargetName = m_Name (d_Meta dep), hp_TargetAPIVersion = ''apps/v1'',
       hp_MinReplicas = hpa_MinReplicas h, hp_MaxReplicas = hpa_MaxReplicas h,
       hp_Metrics = hpa_metrics h, hp_Behavior = hpa_Behavior h\<rparr>)"

section \<open>Ingress and Gateway route\<close>

definition route_hosts :: "network_spec \<Rightarrow> string list" where
  "route_hosts n = (if nw_Host n \<noteq> [] then nw_Hosts n @ [nw_Host n] else nw_Hosts n)"

definition route_path_of :: "store \<Rightarrow> string \<Rightarrow> string \<Rightarrow> string \<Rightarrow> route_path" where
  "route_path_of s pathType path service =
     \<lparr>rp_Path = path, rp_PathType = pathType, rp_ServiceName = service,
      rp_ServicePort = nw_Port (sp_Network (st_Spec s))\<rparr>"

definition GetStoreIngressName :: "store \<Rightarrow> string" where
  "GetStoreIngressName s = ''store-'' @ st_Name s"

definition StoreIngress :: "store \<Rightarrow> ingress" where
  "StoreIngress s =
     (let n = sp_Network (st_Spec s);
          labels = copy_nil (copy_nil (GetDefaultContainerStoreLabels s (Some fmempty)) (nw_Labels n)) (nw_IngressLabels n);
          hosts = route_hosts n;
          tls = (if nw_TLSSecretName n \<noteq> [] then [\<lparr>it_Hosts = hosts, it_SecretName = nw_TLSSecretName n\<rparr>] else []);
          rules = map (\<lambda>host. \<lparr>ir_Host = host, ir_Paths =
            [route_path_of s ''Prefix'' ''/api'' (GetAdminServiceName s),
             route_path_of s ''Prefix'' ''/admin'' (GetAdminServiceName s),
             route_path_of s ''Prefix'' ''/store-api'' (GetStorefrontServiceName s),
             route_path_of s ''Prefix'' ''/'' (GetStorefrontServiceName s)]\<rparr>) hosts;
          annotations = copy_nil (copy_nil fmempty (nw_Annotations n)) (nw_IngressAnnotations n)
      in \<lparr>ing_Meta = empty_meta\<lparr>m_Name := GetStoreIngressName s, m_Namespace := st_Namespace s,
            m_Annotations := Some annotations, m_Labels := labels\<rparr>,
          ing_ClassName = nw_IngressClassName n, ing_Rules = rules, ing_TLS = tls\<rparr>)"

definition GetStoreHTTPRouteName :: "store \<Rightarrow> string" where
  "GetStoreHTTPRouteName s = ''store-'' @ st_Name s"

definition nonempty_ptr :: "string \<Rightarrow> string option" where
  "nonempty_ptr x = (if x \<noteq> [] then Some x else None)"

definition StoreHTTPRoute :: "store \<Rightarrow> http_route" where
  "StoreHTTPRoute s =
     (let n = sp_Network (st_Spec s);
          labels = copy_nil (GetDefaultContainerStoreLabels s (Some fmempty)) (nw_GatewayLabels n);
          parent = \<lparr>par_Name = nw_GatewayName n, par_Namespace = nonempty_ptr (nw_GatewayNamespace n),
                    par_SectionName = nonempty_ptr (nw_GatewaySectionName n)\<rparr>
      in \<lparr>hr_Meta = empty_meta\<lparr>m_Name := GetStoreHTTPRouteName s, m_Namespace := st_Namespace s,
            m_Annotations := nw_GatewayAnnotations n, m_Labels := labels\<rparr>,
          hr_ParentRefs = [parent], hr_Hostnames = route_hosts n,
          hr_Rules =
            [route_path_of s ''PathPrefix'' ''/api'' (GetAdminServiceName s),
             route_path_of s ''PathPrefix'' ''/admin'' (GetAdminServiceName s),
             route_path_of s ''PathPrefix'' ''/store-api'' (GetStorefrontServiceName s),
             route_path_of s ''PathPrefix'' ''/'' (GetStorefrontServiceName s)]\<rparr>)"

section \<open>Debug pod\<close>

text \<open>
  \<open>DebugPod\<close> merges the storefront override into its copy of the Store and reads the copy from then
  on; \<open>DebugPod_shared\<close> is the caller's Store afterwards.
\<close>

definition DebugPod :: "string \<Rightarrow> store \<Rightarrow> debug_instance \<Rightarrow> pod" where
  "DebugPod url s0 d =
     (let c = merged_spec s0 (sp_StorefrontDeploymentContainer (st_Spec s0));
          s = set_Container c s0;
          image = (if di_CustomImage (dbi_Spec d) \<noteq> [] then di_CustomImage (dbi_Spec d) else cs_Image c)
      in \<lparr>p_Meta = empty_meta\<lparr>m_Name := m_Name (dbi_Meta d), m_Namespace := m_Namespace (dbi_Meta d),
            m_Labels := GetDefaultStoreInstanceDebugLabels s d\<rparr>,
          p_Spec = empty_pod_spec\<lparr>
            ps_RestartPolicy := ''Never'',
            ps_Containers := DefaultContainerSecurityContexts (cs_ExtraContainers c) @
              [empty_container\<lparr>c_Name := DEPLOYMENT_STOREFRONT_CONTAINER_NAME,
                c_Image := image,
                c_ImagePullPolicy := cs_ImagePullPolicy c,
                c_Env := GetEnv url s,
                c_VolumeMounts := cs_VolumeMounts c,
                c_Ports := tcp_port (cs_Port c) # di_ExtraContainerPorts (dbi_Spec d),
                c_Resources := cs_Resources c,
                c_SecurityContext := Some RestrictedContainerSecurityContext\<rparr>],
            ps_Volumes := cs_Volumes c,
            ps_TopologySpreadConstraints := cs_TopologySpreadConstraints c,
            ps_NodeSelector := cs_NodeSelector c,
            ps_ImagePullSecrets := cs_ImagePullSecrets c,
            ps_EnableServiceLinks := cs_EnableServiceLinks c,
            ps_SecurityContext := DefaultPodSecurityContext (cs_SecurityContext c),
            ps_InitContainers := DefaultContainerSecurityContexts (cs_InitContainers c),
            ps_ServiceAccountName := service_account s0 c\<rparr>,
          p_Phase = [], p_Ready = False, p_ContainerStatuses = []\<rparr>)"

definition DebugPod_shared :: "store \<Rightarrow> store" where
  "DebugPod_shared s = PDB_shared s (sp_StorefrontDeploymentContainer (st_Spec s))"

section \<open>Where a request goes\<close>

text \<open>
  The documented meaning of a prefix path of an ingress and of a Gateway route: paths are compared
  element by element, and of several matching rules the longest one wins.
\<close>

fun split_elements :: "string \<Rightarrow> string \<Rightarrow> string list" where
  "split_elements acc [] = [rev acc]"
| "split_elements acc (c # cs) = (if c = CHR ''/'' then rev acc # split_elements [] cs else split_elements (c # acc) cs)"

definition elements :: "string \<Rightarrow> string list" where
  "elements p = filter (\<lambda>e. e \<noteq> []) (split_elements [] p)"

definition matching :: "route_path list \<Rightarrow> string \<Rightarrow> route_path list" where
  "matching rs p = filter (\<lambda>r. prefix (elements (rp_Path r)) (elements p)) rs"

fun longest :: "route_path list \<Rightarrow> route_path option" where
  "longest [] = None"
| "longest (r # rs) =
     (case longest rs of
        None \<Rightarrow> Some r
      | Some q \<Rightarrow> if length (elements (rp_Path r)) \<ge> length (elements (rp_Path q)) then Some r else Some q)"

definition backend :: "route_path list \<Rightarrow> string \<Rightarrow> (string \<times> int32) option" where
  "backend rs p = map_option (\<lambda>r. (rp_ServiceName r, rp_ServicePort r)) (longest (matching rs p))"

definition shop_paths :: "store \<Rightarrow> string \<Rightarrow> route_path list" where
  "shop_paths s t =
     [route_path_of s t ''/api'' (GetAdminServiceName s), route_path_of s t ''/admin'' (GetAdminServiceName s),
      route_path_of s t ''/store-api'' (GetStorefrontServiceName s), route_path_of s t ''/'' (GetStorefrontServiceName s)]"

lemma shop_elements:
  "elements ''/api'' = [''api'']" "elements ''/admin'' = [''admin'']"
  "elements ''/store-api'' = [''store-api'']" "elements ''/'' = []"
  by (simp_all add: elements_def)

lemma backend_shop_paths:
  "backend (shop_paths s t) p =
     Some (if elements p \<noteq> [] \<and> hd (elements p) \<in> {''api'', ''admin''}
           then GetAdminServiceName s else GetStorefrontServiceName s, nw_Port (sp_Network (st_Spec s)))"
proof (cases "elements p")
  case (Cons e es)
  then show ?thesis
    by (auto simp: backend_def matching_def shop_paths_def route_path_of_def shop_elements)
qed (simp add: backend_def matching_def shop_paths_def route_path_of_def shop_elements)

section \<open>Properties\<close>

text \<open>
  Ingress and Gateway route agree. Both serve exactly the configured hosts, and for each of them
  a request whose first path element is \<open>api\<close> or \<open>admin\<close> reaches the admin service and any other
  request the storefront service, on the port of the network settings.
\<close>

theorem routes_agree:
  "map ir_Host (ing_Rules (StoreIngress s)) = hr_Hostnames (StoreHTTPRoute s) \<and>
   (\<forall>r. r \<in> set (ing_Rules (StoreIngress s)) \<longrightarrow>
      backend (ir_Paths r) p = backend (hr_Rules (StoreHTTPRoute s)) p) \<and>
   backend (hr_Rules (StoreHTTPRoute s)) p =
     Some (if elements p \<noteq> [] \<and> hd (elements p) \<in> {''api'', ''admin''}
           then m_Name (sv_Meta (AdminService s)) else m_Name (sv_Meta (StorefrontService s)),
           nw_Port (sp_Network (st_Spec s)))"
proof -
  have r: "hr_Rules (StoreHTTPRoute s) = shop_paths s ''PathPrefix''"
    and i: "r \<in> set (ing_Rules (StoreIngress s)) \<Longrightarrow> ir_Paths r = shop_paths s ''Prefix''" for r
    by (auto simp: StoreHTTPRoute_def StoreIngress_def shop_paths_def Let_def)
  show ?thesis
    by (auto simp: r i backend_shop_paths AdminService_def StorefrontService_def service_object_def)
      (auto simp: StoreIngress_def StoreHTTPRoute_def Let_def comp_def)
qed

definition ex_shop :: store where
  "ex_shop = zero_store\<lparr>st_Meta := empty_meta\<lparr>m_Name := ''shop''\<rparr>, st_Spec := zero_store_spec\<lparr>
     sp_Network := (sp_Network zero_store_spec)\<lparr>nw_Hosts := [''example.com''], nw_Port := 8000\<rparr>\<rparr>\<rparr>"

theorem routes_agree_witness:
  "\<exists>r. r \<in> set (ing_Rules (StoreIngress ex_shop)) \<and>
     backend (ir_Paths r) ''/api/_info'' = Some (''shop-admin'', 8000)"
proof -
  have "ing_Rules (StoreIngress ex_shop) \<noteq> []"
    by (simp add: StoreIngress_def ex_shop_def route_hosts_def Let_def)
  then obtain r where r: "r \<in> set (ing_Rules (StoreIngress ex_shop))" by fastforce
  have "elements ''/api/_info'' = [''api'', ''_info'']" by (simp add: elements_def)
  with routes_agree [of ex_shop "''/api/_info''"] r show ?thesis
    by (auto simp: ex_shop_def AdminService_def service_object_def GetAdminServiceName_def intro!: exI [of _ r])
qed

text \<open>
  The services listen on port 8000, so the port that the routes name exists exactly when the
  network settings say 8000, and the pods behind it exactly when the container port is 8000 too.
\<close>

theorem route_port_exists_iff:
  "(\<exists>q\<in>set (sv_Ports (sv_Spec (StorefrontService s))). svp_Port q = nw_Port (sp_Network (st_Spec s))) \<longleftrightarrow>
     nw_Port (sp_Network (st_Spec s)) = 8000"
  by (auto simp: StorefrontService_def service_object_def service_port_of_def)

lemma debug_labels_mono:
  assumes "copy_nil (GetStoreLabel s) (cs_Labels (st_Container s)) \<subseteq>\<^sub>f
    copy_nil (GetStoreLabel t) (cs_Labels (st_Container t))"
  shows "GetDefaultStoreInstanceDebugLabels s d \<subseteq>\<^sub>f GetDefaultStoreInstanceDebugLabels t d"
proof -
  have "copy_nil m x \<subseteq>\<^sub>f copy_nil n x" if "m \<subseteq>\<^sub>f n" for m n :: gomap and x
    using that by (auto simp: copy_nil_def fmsubset_iff split: option.splits)
  moreover have "fmupd k v m \<subseteq>\<^sub>f fmupd k v n" if "m \<subseteq>\<^sub>f n" for m n :: gomap and k v
    using that by (auto simp: fmsubset_iff)
  ultimately show ?thesis
    using assms by (simp add: GetDefaultStoreInstanceDebugLabels_def GetDefaultContainerStoreLabels_def
        overrideStoreLabels_def)
qed

lemma shared_labels_subset:
  assumes "l \<noteq> None \<or> (\<forall>f. o' = Some f \<longrightarrow> fmdom m |\<inter>| fmdom f = {||})"
  shows "copy_nil m (shared_map l o') \<subseteq>\<^sub>f copy_nil m (merge_meta l o')"
proof (cases l)
  case None
  then show ?thesis
    using assms by (auto simp: copy_nil_def shared_map_def merge_meta_def fmsubset_iff split: option.splits)
      (metis disjoint_iff_fnot_equal fmdomI)
qed (auto simp: copy_nil_def shared_map_def merge_meta_def fmsubset_iff split: option.splits)

text \<open>
  The debug pod is reached through its service, although the pod takes its labels from the merged
  container and the service from the Store: because building the pod first writes the override into
  the labels that the Store shares, the selector of the service selects the labels of the pod
  whenever the container has labels, or the override leaves the Store's own label alone.
\<close>

theorem debug_service_selects_pod:
  assumes "cs_Labels (st_Container s) \<noteq> None \<or>
    (\<forall>f. cm_Labels (sp_StorefrontDeploymentContainer (st_Spec s)) = Some f \<longrightarrow> fmdom (GetStoreLabel s) |\<inter>| fmdom f = {||})"
  shows "sv_Selector (sv_Spec (DebugService (DebugPod_shared s) d)) \<subseteq>\<^sub>f m_Labels (p_Meta (DebugPod url s d))"
proof -
  have "GetStoreLabel (set_Container c s) = GetStoreLabel s" for c by (simp add: GetStoreLabel_def)
  then show ?thesis
    using shared_labels_subset [OF assms]
    by (auto simp: DebugService_def DebugPod_def DebugPod_shared_def PDB_shared_def service_object_def
        merged_spec_def Merge_def Merge_shared_def Let_def intro!: debug_labels_mono)
qed

definition ex_debug_store :: store where
  "ex_debug_store = zero_store\<lparr>st_Spec := zero_store_spec\<lparr>
     sp_Container := zero_container_spec\<lparr>cs_Labels := Some (fmupd ''team'' ''a'' fmempty)\<rparr>,
     sp_StorefrontDeploymentContainer := zero_merge_spec\<lparr>cm_Labels := Some (fmupd ''team'' ''b'' fmempty)\<rparr>\<rparr>\<rparr>"

definition ex_debug :: debug_instance where
  "ex_debug = \<lparr>dbi_Meta = empty_meta\<lparr>m_Name := ''dbg''\<rparr>,
     dbi_Spec = \<lparr>di_StoreRef = ''shop'', di_Duration = 0, di_ExtraLabels = None, di_ExtraContainerPorts = [],
       di_CustomImage = [], di_IgnoreStoreStatus = False\<rparr>,
     dbi_Status = \<lparr>dbs_State = StoreDebugInstanceStateUnspecified, dbs_Conditions = []\<rparr>\<rparr>"

theorem debug_service_selects_pod_witness:
  "sv_Selector (sv_Spec (DebugService (DebugPod_shared ex_debug_store) ex_debug)) \<subseteq>\<^sub>f
     m_Labels (p_Meta (DebugPod [] ex_debug_store ex_debug))"
  by (rule debug_service_selects_pod) (simp add: ex_debug_store_def)

end
