(* ===== verification/Client.thy ===== *)
theory Client
  imports Resources
begin

text \<open>
  The API server as the operator sees it. Code that calls controller-runtime's client runs in the
  state monad over an arbitrary world \<open>'w\<close>; the client itself, which is not part of the sources,
  is a record of such calls that every function takes as an argument. Nothing is assumed of it:
  a result that depends on what the cluster holds is stated on the calls' results.
  \<open>map_client\<close> is a concrete client on a finite map of objects.
\<close>

section \<open>Objects\<close>

datatype kind =
    KDeployment | KJob | KCronJob | KPod | KSecret | KScaledObject
  | KService | KPDB | KHPA | KIngress | KHTTPRoute
  | KStore | KStoreExec | KStoreDebugInstance | KStoreSnapshotCreate | KStoreSnapshotRestore

datatype kobj =
    ODeployment deployment
  | OJob job
  | OCronJob cron_job
  | OPod pod
  | OSecret secret
  | OScaledObject scaled_object
  | OService service
  | OPDB pdb
  | OHPA hpa
  | OIngress ingress
  | OHTTPRoute http_route
  | OStore store
  | OStoreExec store_exec
  | OStoreDebugInstance debug_instance
  | OStoreSnapshotCreate snapshot
  | OStoreSnapshotRestore snapshot

fun obj_kind :: "kobj \<Rightarrow> kind" where
  "obj_kind (ODeployment _) = KDeployment"
| "obj_kind (OJob _) = KJob"
| "obj_kind (OCronJob _) = KCronJob"
| "obj_kind (OPod _) = KPod"
| "obj_kind (OSecret _) = KSecret"
| "obj_kind (OScaledObject _) = KScaledObject"
| "obj_kind (OService _) = KService"
| "obj_kind (OPDB _) = KPDB"
| "obj_kind (OHPA _) = KHPA"
| "obj_kind (OIngress _) = KIngress"
| "obj_kind (OHTTPRoute _) = KHTTPRoute"
| "obj_kind (OStore _) = KStore"
| "obj_kind (OStoreExec _) = KStoreExec"
| "obj_kind (OStoreDebugInstance _) = KStoreDebugInstance"
| "obj_kind (OStoreSnapshotCreate _) = KStoreSnapshotCreate"
| "obj_kind (OStoreSnapshotRestore _) = KStoreSnapshotRestore"

fun obj_meta :: "kobj \<Rightarrow> object_meta" where
  "obj_meta (ODeployment d) = d_Meta d"
| "obj_meta (OJob j) = j_Meta j"
| "obj_meta (OCronJob c) = cj_Meta c"
| "obj_meta (OPod p) = p_Meta p"
| "obj_meta (OSecret s) = s_Meta s"
| "obj_meta (OScaledObject o') = so_Meta o'"
| "obj_meta (OService o') = sv_Meta o'"
| "obj_meta (OPDB o') = pdb_Meta o'"
| "obj_meta (OHPA o') = hp_Meta o'"
| "obj_meta (OIngress o') = ing_Meta o'"
| "obj_meta (OHTTPRoute o') = hr_Meta o'"
| "obj_meta (OStore s) = st_Meta s"
| "obj_meta (OStoreExec e) = e_Meta e"
| "obj_meta (OStoreDebugInstance d) = dbi_Meta d"
| "obj_meta (OStoreSnapshotCreate s) = sh_Meta s"
| "obj_meta (OStoreSnapshotRestore s) = sh_Meta s"

section \<open>The client\<close>

text \<open>
  What the hash of an object is made of (\<open>extractRelevantData\<close>): the specification, which in the
  flat records is the object without its metadata, the data of a secret, or the whole object.
\<close>

datatype hash_data =
    HDeployment deployment_spec
  | HService service_spec
  | HSecret "(string, bytes) fmap option" "gomap option"
  | HJob job_spec
  | HSpecOf kobj
  | HObject kobj

text \<open>
  \<open>cl_Get kind namespace name\<close>, \<open>cl_List kind namespace labels\<close>, \<open>cl_ListAll\<close> for all namespaces, and the writing calls, whose
  result is the error or None. \<open>cl_Now\<close> is \<open>metav1.Now\<close>, \<open>cl_Sleep\<close> a second of \<open>time.Sleep\<close>,
  \<open>cl_GetNil\<close> is \<open>Get\<close> with nil as the object to read into.
  Beside the client the record has the other library calls made on objects: their JSON encoding
  (\<open>cl_Marshal\<close>; the field names are those of the Kubernetes types), \<open>SetControllerReference\<close> of
  controller-runtime (owner, object) and \<open>RetryOnConflict\<close> of client-go.
\<close>

record 'w client =
  cl_Get :: "kind \<Rightarrow> string \<Rightarrow> string \<Rightarrow> ('w, kobj result) state"
  cl_List :: "kind \<Rightarrow> string \<Rightarrow> gomap \<Rightarrow> ('w, kobj list result) state"
  cl_ListAll :: "kind \<Rightarrow> ('w, kobj list result) state"
  cl_Create :: "kobj \<Rightarrow> ('w, goerr option) state"
  cl_Update :: "kobj \<Rightarrow> ('w, goerr option) state"
  cl_Patch :: "kobj \<Rightarrow> kobj \<Rightarrow> ('w, goerr option) state"
  cl_Delete :: "kobj \<Rightarrow> ('w, goerr option) state"
  cl_StatusUpdate :: "kobj \<Rightarrow> ('w, goerr option) state"
  cl_Now :: "('w, gotime) state"
  cl_Sleep :: "('w, unit) state"
  cl_GetNil :: "string \<Rightarrow> string \<Rightarrow> ('w, goerr option) state"
  cl_Marshal :: "hash_data \<Rightarrow> string result"
  cl_SetControllerReference :: "object_meta \<Rightarrow> kobj \<Rightarrow> kobj result"
  cl_RetryOnConflict :: "('w, goerr option) state \<Rightarrow> ('w, goerr option) state"

text \<open>
  Reading into a typed object. An object of another type in the answer is the error that the
  client's cache reports.
\<close>

definition type_error :: goerr where
  "type_error = Errorf ''cache had type of another kind''"

definition typed :: "(kobj \<Rightarrow> 'a option) \<Rightarrow> kobj result \<Rightarrow> 'a result" where
  "typed p r =
     (case r of Inl e \<Rightarrow> Inl e
      | Inr o' \<Rightarrow> (case p o' of Some x \<Rightarrow> Inr x | None \<Rightarrow> Inl type_error))"

fun typed_list :: "(kobj \<Rightarrow> 'a option) \<Rightarrow> kobj list \<Rightarrow> 'a list result" where
  "typed_list p [] = Inr []"
| "typed_list p (o' # os) =
     (case p o' of
        None \<Rightarrow> Inl type_error
      | Some x \<Rightarrow> (case typed_list p os of Inl e \<Rightarrow> Inl e | Inr xs \<Rightarrow> Inr (x # xs)))"

definition typed_items :: "(kobj \<Rightarrow> 'a option) \<Rightarrow> kobj list result \<Rightarrow> 'a list result" where
  "typed_items p r = (case r of Inl e \<Rightarrow> Inl e | Inr os \<Rightarrow> typed_list p os)"

definition GetDeployment :: "'w client \<Rightarrow> string \<Rightarrow> string \<Rightarrow> ('w, deployment result) state" where
  "GetDeployment cl ns n = do {
     r \<leftarrow> cl_Get cl KDeployment ns n;
     State_Monad.return (typed (\<lambda>o'. case o' of ODeployment d \<Rightarrow> Some d | _ \<Rightarrow> None) r) }"

definition GetJob :: "'w client \<Rightarrow> string \<Rightarrow> string \<Rightarrow> ('w, job result) state" where
  "GetJob cl ns n = do {
     r \<leftarrow> cl_Get cl KJob ns n;
     State_Monad.return (typed (\<lambda>o'. case o' of OJob d \<Rightarrow> Some d | _ \<Rightarrow> None) r) }"

definition GetCronJob :: "'w client \<Rightarrow> string \<Rightarrow> string \<Rightarrow> ('w, cron_job result) state" where
  "GetCronJob cl ns n = do {
     r \<leftarrow> cl_Get cl KCronJob ns n;
     State_Monad.return (typed (\<lambda>o'. case o' of OCronJob d \<Rightarrow> Some d | _ \<Rightarrow> None) r) }"

definition GetSecret :: "'w client \<Rightarrow> string \<Rightarrow> string \<Rightarrow> ('w, secret result) state" where
  "GetSecret cl ns n = do {
     r \<leftarrow> cl_Get cl KSecret ns n;
     State_Monad.return (typed (\<lambda>o'. case o' of OSecret d \<Rightarrow> Some d | _ \<Rightarrow> None) r) }"

definition GetPod :: "'w client \<Rightarrow> string \<Rightarrow> string \<Rightarrow> ('w, pod result) state" where
  "GetPod cl ns n = do {
     r \<leftarrow> cl_Get cl KPod ns n;
     State_Monad.return (typed (\<lambda>o'. case o' of OPod d \<Rightarrow> Some d | _ \<Rightarrow> None) r) }"

definition GetStore :: "'w client \<Rightarrow> string \<Rightarrow> string \<Rightarrow> ('w, store result) state" where
  "GetStore cl ns n = do {
     r \<leftarrow> cl_Get cl KStore ns n;
     State_Monad.return (typed (\<lambda>o'. case o' of OStore d \<Rightarrow> Some d | _ \<Rightarrow> None) r) }"

definition ListDeployments :: "'w client \<Rightarrow> string \<Rightarrow> gomap \<Rightarrow> ('w, deployment list result) state" where
  "ListDeployments cl ns l = do {
     r \<leftarrow> cl_List cl KDeployment ns l;
     State_Monad.return (typed_items (\<lambda>o'. case o' of ODeployment d \<Rightarrow> Some d | _ \<Rightarrow> None) r) }"

definition ListJobs :: "'w client \<Rightarrow> string \<Rightarrow> gomap \<Rightarrow> ('w, job list result) state" where
  "ListJobs cl ns l = do {
     r \<leftarrow> cl_List cl KJob ns l;
     State_Monad.return (typed_items (\<lambda>o'. case o' of OJob d \<Rightarrow> Some d | _ \<Rightarrow> None) r) }"

definition ListPods :: "'w client \<Rightarrow> string \<Rightarrow> gomap \<Rightarrow> ('w, pod list result) state" where
  "ListPods cl ns l = do {
     r \<leftarrow> cl_List cl KPod ns l;
     State_Monad.return (typed_items (\<lambda>o'. case o' of OPod d \<Rightarrow> Some d | _ \<Rightarrow> None) r) }"

definition ListScaledObjects :: "'w client \<Rightarrow> string \<Rightarrow> gomap \<Rightarrow> ('w, scaled_object list result) state" where
  "ListScaledObjects cl ns l = do {
     r \<leftarrow> cl_List cl KScaledObject ns l;
     State_Monad.return (typed_items (\<lambda>o'. case o' of OScaledObject d \<Rightarrow> Some d | _ \<Rightarrow> None) r) }"

section \<open>A concrete client\<close>

type_synonym cluster = "kobj list"

definition same_object :: "kobj \<Rightarrow> kobj \<Rightarrow> bool" where
  "same_object a b \<longleftrightarrow> obj_kind a = obj_kind b \<and> m_Namespace (obj_meta a) = m_Namespace (obj_meta b) \<and>
     m_Name (obj_meta a) = m_Name (obj_meta b)"

definition notFound :: goerr where
  "notFound = \<lparr>err_msg = ''not found'', err_reason = ReasonNotFound\<rparr>"

definition cluster_get :: "kind \<Rightarrow> string \<Rightarrow> string \<Rightarrow> cluster \<Rightarrow> kobj result" where
  "cluster_get k ns n w =
     (case find (\<lambda>o'. obj_kind o' = k \<and> m_Namespace (obj_meta o') = ns \<and> m_Name (obj_meta o') = n) w of
        None \<Rightarrow> Inl notFound | Some o' \<Rightarrow> Inr o')"

definition map_client :: "gotime \<Rightarrow> cluster client" where
  "map_client now =
     \<lparr>cl_Get = (\<lambda>k ns n. State (\<lambda>w. (cluster_get k ns n w, w))),
      cl_List = (\<lambda>k ns l. State (\<lambda>w. (Inr (filter (\<lambda>o'. obj_kind o' = k \<and> m_Namespace (obj_meta o') = ns \<and>
                  l \<subseteq>\<^sub>f m_Labels (obj_meta o')) w), w))),
      cl_ListAll = (\<lambda>k. State (\<lambda>w. (Inr (filter (\<lambda>o'. obj_kind o' = k) w), w))),
      cl_Create = (\<lambda>o'. State (\<lambda>w. (None, o' # w))),
      cl_Update = (\<lambda>o'. State (\<lambda>w. (None, o' # filter (\<lambda>x. \<not> same_object o' x) w))),
      cl_Patch = (\<lambda>old o'. State (\<lambda>w. (None, o' # filter (\<lambda>x. \<not> same_object o' x) w))),
      cl_Delete = (\<lambda>o'. State (\<lambda>w. (None, filter (\<lambda>x. \<not> same_object o' x) w))),
      cl_StatusUpdate = (\<lambda>o'. State (\<lambda>w. (None, o' # filter (\<lambda>x. \<not> same_object o' x) w))),
      cl_Now = State (\<lambda>w. (now, w)),
      cl_Sleep = State_Monad.return (),
      cl_GetNil = (\<lambda>ns n. State_Monad.return (Some (Errorf ''expected pointer, but got invalid kind''))),
      cl_Marshal = (\<lambda>_. Inr []),
      cl_SetControllerReference = (\<lambda>owner o'. Inr o'),
      cl_RetryOnConflict = (\<lambda>m. m)\<rparr>"

end
