(* ===== verification/Workloads.thy ===== *)
theory Workloads
  imports Client
begin

text \<open>
  The part of \<open>internal/deployment\<close> that reads and deletes deployments in the cluster: the
  conditions of the admin, storefront and worker deployments, the image the storefront runs, the
  ready admin pod, and the removal of worker deployments and scaled objects that are no longer
  wanted.
\<close>

section \<open>Admin and storefront\<close>

definition missing_condition :: "gotime \<Rightarrow> deployment_condition" where
  "missing_condition now =
     \<lparr>dcon_State = DeploymentStateNotFound, dcon_LastUpdateTime = now,
      dcon_Message = ''No deployment found'', dcon_Ready = ''0/0'', dcon_StoreReplicas = 0\<rparr>"

definition get_error_condition :: "gotime \<Rightarrow> goerr \<Rightarrow> deployment_condition" where
  "get_error_condition now e =
     \<lparr>dcon_State = DeploymentStateError, dcon_LastUpdateTime = now,
      dcon_Message = ''error on client get: '' @ err_msg e, dcon_Ready = ''0/0'', dcon_StoreReplicas = 0\<rparr>"

definition GetAdminDeployment :: "'w client \<Rightarrow> string \<Rightarrow> store \<Rightarrow> ('w, deployment result) state" where
  "GetAdminDeployment cl url s =
     (let setup = AdminDeployment url s in GetDeployment cl (m_Namespace (d_Meta setup)) (m_Name (d_Meta setup)))"

definition GetAdminDeploymentCondition ::
  "'w client \<Rightarrow> string \<Rightarrow> store \<Rightarrow> ('w, deployment_condition) state" where
  "GetAdminDeploymentCondition cl url s =
     (let d = AdminDeployment url s in do {
        r \<leftarrow> GetDeployment cl (m_Namespace (d_Meta d)) (m_Name (d_Meta d));
        now \<leftarrow> cl_Now cl;
        State_Monad.return (case r of
            Inl e \<Rightarrow> if IsNotFound e then missing_condition now else get_error_condition now e
          | Inr search \<Rightarrow> getDeploymentCondition now search (ds_Replicas (d_Spec d))) })"

definition GetStorefrontDeployment :: "'w client \<Rightarrow> string \<Rightarrow> store \<Rightarrow> ('w, deployment result) state" where
  "GetStorefrontDeployment cl url s =
     (let setup = StorefrontDeployment url s in
      GetDeployment cl (m_Namespace (d_Meta setup)) (m_Name (d_Meta setup)))"

definition GetStorefrontDeploymentCondition ::
  "'w client \<Rightarrow> string \<Rightarrow> store \<Rightarrow> ('w, deployment_condition) state" where
  "GetStorefrontDeploymentCondition cl url s =
     (let d = StorefrontDeployment url s in do {
        r \<leftarrow> GetDeployment cl (m_Namespace (d_Meta d)) (m_Name (d_Meta d));
        now \<leftarrow> cl_Now cl;
        State_Monad.return (case r of
            Inl e \<Rightarrow> if IsNotFound e then missing_condition now else get_error_condition now e
          | Inr search \<Rightarrow> getDeploymentCondition now search (ds_Replicas (d_Spec d))) })"

fun image_loop :: "container list \<Rightarrow> string result" where
  "image_loop [] = Inl (Errorf ''could not find storefront deployment container'')"
| "image_loop (c # cs) =
     (if c_Name c = DEPLOYMENT_STOREFRONT_CONTAINER_NAME then Inr (c_Image c) else image_loop cs)"

definition GetStoreDeploymentImage :: "'w client \<Rightarrow> string \<Rightarrow> store \<Rightarrow> ('w, string result) state" where
  "GetStoreDeploymentImage cl url s =
     (let setup = StorefrontDeployment url s in do {
        r \<leftarrow> GetDeployment cl (m_Namespace (d_Meta setup)) (m_Name (d_Meta setup));
        State_Monad.return (case r of
            Inl e \<Rightarrow> Inl e
          | Inr search \<Rightarrow> image_loop (ps_Containers (dep_pod search))) })"

section \<open>Worker deployments\<close>

text \<open>\<open>stateRank\<close>; a state that is not a key of the map has rank 0.\<close>

fun stateRank :: "dep_state \<Rightarrow> nat" where
  "stateRank DeploymentStateRunning = 0"
| "stateRank DeploymentStateScaling = 1"
| "stateRank DeploymentStateUnknown = 2"
| "stateRank DeploymentStateNotFound = 3"
| "stateRank DeploymentStateError = 4"
| "stateRank DeploymentStateEmpty = 0"

text \<open>What one iteration of the loop reads: the search result and, if there is one, the time.\<close>

definition observe_worker ::
  "'w client \<Rightarrow> deployment \<Rightarrow> ('w, deployment_condition \<times> int32) state" where
  "observe_worker cl d = do {
     r \<leftarrow> GetDeployment cl (m_Namespace (d_Meta d)) (m_Name (d_Meta d));
     case r of
       Inl e \<Rightarrow> State_Monad.return
         ((if IsNotFound e then (missing_condition None)\<lparr>dcon_Ready := []\<rparr>
           else (get_error_condition None e)\<lparr>dcon_Ready := []\<rparr>), 0)
     | Inr search \<Rightarrow> do {
         now \<leftarrow> cl_Now cl;
         State_Monad.return (getDeploymentCondition now search (ds_Replicas (d_Spec d)),
                             dst_AvailableReplicas (d_Status search)) } }"

definition raise_to :: "deployment \<Rightarrow> deployment_condition \<Rightarrow> deployment_condition \<Rightarrow> deployment_condition" where
  "raise_to d con agg =
     (if stateRank (dcon_State con) > stateRank (dcon_State agg)
      then agg\<lparr>dcon_State := dcon_State con,
               dcon_Message := m_Name (d_Meta d) @ '': '' @ dcon_Message con\<rparr>
      else agg)"

fun worker_loop ::
  "'w client \<Rightarrow> deployment list \<Rightarrow> int32 \<Rightarrow> int32 \<Rightarrow> deployment_condition \<Rightarrow>
   ('w, int32 \<times> int32 \<times> deployment_condition) state" where
  "worker_loop cl [] available storeReplicas agg = State_Monad.return (available, storeReplicas, agg)"
| "worker_loop cl (d # ds) available storeReplicas agg = do {
     ob \<leftarrow> observe_worker cl d;
     worker_loop cl ds (available + snd ob) (storeReplicas + ds_Replicas (d_Spec d))
       (raise_to d (fst ob) agg) }"

definition GetWorkerDeploymentCondition ::
  "'w client \<Rightarrow> string \<Rightarrow> store \<Rightarrow> ('w, deployment_condition) state" where
  "GetWorkerDeploymentCondition cl url s = do {
     now \<leftarrow> cl_Now cl;
     let agg = \<lparr>dcon_State = DeploymentStateRunning, dcon_LastUpdateTime = now,
                dcon_Message = ''All worker deployments are running'', dcon_Ready = [],
                dcon_StoreReplicas = 0\<rparr> in
     (case WorkerDeployments url s of
        Inl e \<Rightarrow> do {
          now \<leftarrow> cl_Now cl;
          State_Monad.return \<lparr>dcon_State = DeploymentStateError, dcon_LastUpdateTime = now,
            dcon_Message = err_msg e, dcon_Ready = ''0/0'', dcon_StoreReplicas = 0\<rparr> }
      | Inr workers \<Rightarrow>
          if length workers = 0 then do {
            now \<leftarrow> cl_Now cl;
            let message = ''No worker deployments, waiting for queue transports from the admin pod'';
                qerr = qc_Error (ss_QueueState (st_Status s)) in
            State_Monad.return \<lparr>dcon_State = DeploymentStateRunning, dcon_LastUpdateTime = now,
              dcon_Message = (if qerr \<noteq> [] then message @ '': '' @ qerr else message),
              dcon_Ready = ''0/0'', dcon_StoreReplicas = 0\<rparr> }
          else do {
            (available, storeReplicas, agg') \<leftarrow> worker_loop cl workers 0 0 agg;
            State_Monad.return (agg'\<lparr>dcon_Ready := ready_text available storeReplicas,
                                     dcon_StoreReplicas := storeReplicas\<rparr>) }) }"

fun cleanup_loop :: "'w client \<Rightarrow> string \<Rightarrow> kobj list \<Rightarrow> ('w, goerr option) state" where
  "cleanup_loop cl what [] = State_Monad.return None"
| "cleanup_loop cl what (o' # os) = do {
     e \<leftarrow> cl_Delete cl o';
     (case e of
        Some err \<Rightarrow> if \<not> IsNotFound err
          then State_Monad.return (Some (Wrap (what @ m_Name (obj_meta o')) err))
          else cleanup_loop cl what os
      | None \<Rightarrow> cleanup_loop cl what os) }"

definition CleanupObsoleteWorkerDeployments ::
  "'w client \<Rightarrow> string \<Rightarrow> store \<Rightarrow> ('w, goerr option) state" where
  "CleanupObsoleteWorkerDeployments cl url s =
     (case WorkerDeployments url s of
        Inl e \<Rightarrow> State_Monad.return (Some e)
      | Inr workers \<Rightarrow> do {
          let desired = map dep_Name workers;
          r \<leftarrow> ListDeployments cl (st_Namespace s) (GetWorkerDeploymentStoreLabels s);
          (case r of
             Inl e \<Rightarrow> State_Monad.return (Some (Wrap ''list worker deployments'' e))
           | Inr items \<Rightarrow>
               cleanup_loop cl ''delete obsolete worker deployment ''
                 (map ODeployment (filter (\<lambda>d. dep_Name d \<notin> set desired) items))) })"

definition CleanupObsoleteWorkerScaledObjects :: "'w client \<Rightarrow> store \<Rightarrow> ('w, goerr option) state" where
  "CleanupObsoleteWorkerScaledObjects cl s = do {
     r \<leftarrow> ListScaledObjects cl (st_Namespace s) (GetWorkerDeploymentStoreLabels s);
     (case r of
        Inl e \<Rightarrow> State_Monad.return (Some (Wrap ''list worker scaledobjects'' e))
      | Inr items \<Rightarrow>
          cleanup_loop cl ''delete obsolete worker scaledobject '' (map OScaledObject items)) }"

section \<open>The admin pod\<close>

text \<open>
  The readiness condition of a pod is \<open>p_Ready\<close>; the selector of a deployment read from the cluster
  has match labels only, as the operator writes it.
\<close>

fun ready_pod_loop :: "pod list \<Rightarrow> pod option" where
  "ready_pod_loop [] = None"
| "ready_pod_loop (p # ps) =
     (if p_Phase p \<noteq> ''Running'' \<or> m_DeletionTimestamp (p_Meta p) \<noteq> None then ready_pod_loop ps
      else if p_Ready p then Some p else ready_pod_loop ps)"

definition getRunningAdminPod :: "'w client \<Rightarrow> string \<Rightarrow> store \<Rightarrow> ('w, pod result) state" where
  "getRunningAdminPod cl url s =
     (let d = AdminDeployment url s in do {
        r \<leftarrow> GetDeployment cl (m_Namespace (d_Meta d)) (m_Name (d_Meta d));
        (case r of
           Inl e \<Rightarrow> State_Monad.return (Inl e)
         | Inr search \<Rightarrow> do {
             pods \<leftarrow> ListPods cl (m_Namespace (d_Meta search)) (ds_MatchLabels (d_Spec search));
             State_Monad.return (case pods of
                 Inl e \<Rightarrow> Inl e
               | Inr items \<Rightarrow>
                   (case ready_pod_loop items of
                      Some p \<Rightarrow> Inr p
                    | None \<Rightarrow> Inl (Errorf (''no ready admin pod found for store '' @ st_Namespace s @
                                ''/'' @ st_Name s)))) }) })"

section \<open>The worker loop as observation and aggregation\<close>

fun observe_all :: "'w client \<Rightarrow> deployment list \<Rightarrow> ('w, (deployment_condition \<times> int32) list) state" where
  "observe_all cl [] = State_Monad.return []"
| "observe_all cl (d # ds) = do {
     ob \<leftarrow> observe_worker cl d;
     obs \<leftarrow> observe_all cl ds;
     State_Monad.return (ob # obs) }"

fun aggregate :: "deployment list \<Rightarrow> (deployment_condition \<times> int32) list \<Rightarrow> deployment_condition \<Rightarrow> deployment_condition" where
  "aggregate (d # ds) (ob # obs) agg = aggregate ds obs (raise_to d (fst ob) agg)"
| "aggregate _ _ agg = agg"

lemma length_observe_all: "run_state (observe_all cl ds) w = (obs, w') \<Longrightarrow> length obs = length ds"
  by (induction ds arbitrary: w obs) (auto simp: run_simps split: prod.splits)

lemma run_worker_loop:
  "run_state (observe_all cl ds) w = (obs, w') \<Longrightarrow>
     run_state (worker_loop cl ds a r agg) w =
       ((a + sum_list (map snd obs), r + sum_list (map (\<lambda>d. ds_Replicas (d_Spec d)) ds), aggregate ds obs agg), w')"
  by (induction ds arbitrary: w obs a r agg) (auto simp: run_simps add_ac split: prod.splits)

lemma stateRank_eq_0: "stateRank s = 0 \<longleftrightarrow> s = DeploymentStateRunning \<or> s = DeploymentStateEmpty"
  by (cases s) auto

lemma aggregate_dominates:
  "length obs = length ds \<Longrightarrow>
     stateRank (dcon_State agg) \<le> stateRank (dcon_State (aggregate ds obs agg)) \<and>
     (\<forall>ob\<in>set obs. stateRank (dcon_State (fst ob)) \<le> stateRank (dcon_State (aggregate ds obs agg)))"
  by (induction ds obs agg rule: aggregate.induct) (auto simp: raise_to_def split: if_splits)

lemma aggregate_attained:
  "dcon_State (aggregate ds obs agg) \<in> insert (dcon_State agg) (dcon_State ` fst ` set obs)"
  by (induction ds obs agg rule: aggregate.induct) (auto simp: raise_to_def split: if_splits)

section \<open>Cleaning up\<close>

lemma cleanup_loop_cong:
  assumes "\<And>o'. o' \<in> set os \<Longrightarrow> del o' = cl_Delete cl o'"
  shows "cleanup_loop (cl\<lparr>cl_Delete := del\<rparr>) what os = cleanup_loop cl what os"
  using assms by (induction os) (auto cong: if_cong option.case_cong)


section \<open>Properties\<close>

text \<open>
  The condition reported for the workers of a Store is the worst of the conditions found for
  the wanted deployments: no deployment is in a worse state than the reported one, the reported
  state is "running" or one that was found, and the replica counts are the sums (as 32-bit
  integers) over all deployments.
\<close>

theorem worker_condition_is_worst:
  assumes "WorkerDeployments url s = Inr ds" and "ds \<noteq> []"
    and "run_state (cl_Now cl) w = (now, w1)"
    and "run_state (observe_all cl ds) w1 = (obs, w2)"
  shows "\<exists>c. run_state (GetWorkerDeploymentCondition cl url s) w = (c, w2) \<and>
    (\<forall>ob\<in>set obs. stateRank (dcon_State (fst ob)) \<le> stateRank (dcon_State c)) \<and>
    (dcon_State c = DeploymentStateRunning \<or> dcon_State c \<in> dcon_State ` fst ` set obs) \<and>
    dcon_StoreReplicas c = sum_list (map (\<lambda>d. ds_Replicas (d_Spec d)) ds) \<and>
    dcon_Ready c = ready_text (sum_list (map snd obs)) (sum_list (map (\<lambda>d. ds_Replicas (d_Spec d)) ds))"
proof -
  let ?agg = "\<lparr>dcon_State = DeploymentStateRunning, dcon_LastUpdateTime = now,
    dcon_Message = ''All worker deployments are running'', dcon_Ready = [], dcon_StoreReplicas = 0\<rparr>"
  have "length obs = length ds" using assms(4) by (rule length_observe_all)
  from aggregate_dominates [OF this, of ?agg] aggregate_attained [of ds obs ?agg]
  show ?thesis
    using assms run_worker_loop [OF assms(4), of 0 0 ?agg]
    by (simp add: GetWorkerDeploymentCondition_def run_simps Let_def)
qed

definition ex_worker_store :: store where
  "ex_worker_store = zero_store\<lparr>st_Status := zero_store_status\<lparr>ss_QueueState :=
     \<lparr>qc_LastUpdateTime = None, qc_Error = [], qc_Transports = [\<lparr>qt_Name = ''async'', qt_Count = 3\<rparr>],
      qc_UncountableTransports = []\<rparr>\<rparr>\<rparr>"

theorem worker_condition_is_worst_witness:
  "\<exists>c. run_state (GetWorkerDeploymentCondition (map_client (Some 5)) [] ex_worker_store) [] = (c, []) \<and>
     dcon_State c = DeploymentStateNotFound"
proof -
  let ?d = "WorkerDeployment [] ex_worker_store [''async'']"
  let ?ob = "((missing_condition None)\<lparr>dcon_Ready := []\<rparr>, 0 :: int32)"
  have "WorkerDeployments [] ex_worker_store = Inr [?d]"
    by (simp add: WorkerDeployments_def WorkerQueues_def ex_worker_store_def zero_store_def
        zero_store_spec_def Let_def redis_spec.defs)
  moreover have "run_state (cl_Now (map_client (Some 5))) [] = (Some 5, [])"
    by (simp add: map_client_def)
  moreover have "run_state (observe_all (map_client (Some 5)) [?d]) [] = ([?ob], [])"
    by (simp add: observe_worker_def GetDeployment_def map_client_def cluster_get_def typed_def
        notFound_def IsNotFound_def run_simps)
  ultimately show ?thesis
    using worker_condition_is_worst [of "[]" ex_worker_store "[?d]" "map_client (Some 5)" "[]" "Some 5" "[]" "[?ob]" "[]"]
    by (auto simp: missing_condition_def dest: le_antisym)
qed

text \<open>
  C26: removing obsolete worker deployments never deletes a wanted one: replacing what the client
  does on a delete of a deployment whose name is wanted changes nothing.
\<close>

theorem cleanup_keeps_wanted_workers:
  assumes "WorkerDeployments url s = Inr ds"
  shows "CleanupObsoleteWorkerDeployments
           (cl\<lparr>cl_Delete := \<lambda>o'. if m_Name (obj_meta o') \<in> set (map dep_Name ds) then bad o' else cl_Delete cl o'\<rparr>)
           url s =
         CleanupObsoleteWorkerDeployments cl url s"
  using assms
  by (auto simp: CleanupObsoleteWorkerDeployments_def ListDeployments_def Let_def
      intro!: arg_cong2 [where f = State_Monad.bind] ext cleanup_loop_cong split: sum.split)

theorem cleanup_keeps_wanted_workers_witness:
  "CleanupObsoleteWorkerDeployments
     ((map_client None)\<lparr>cl_Delete := \<lambda>o'. if m_Name (obj_meta o') \<in> {''-store-worker-async''}
        then State (\<lambda>w. (None, [])) else cl_Delete (map_client None) o'\<rparr>) [] ex_worker_store =
   CleanupObsoleteWorkerDeployments (map_client None) [] ex_worker_store"
proof -
  let ?d = "WorkerDeployment [] ex_worker_store [''async'']"
  have "WorkerDeployments [] ex_worker_store = Inr [?d]"
    by (simp add: WorkerDeployments_def WorkerQueues_def ex_worker_store_def zero_store_def
        zero_store_spec_def Let_def redis_spec.defs)
  moreover have "sanitizeQueue ''async'' = ''async''" by code_simp
  then have "dep_Name ?d = ''-store-worker-async''"
    by (simp add: builder_defs GetQueueWorkerDeploymentName_def GetWorkerDeploymentName_def
        truncateWithHash_def maxK8sNameLength_def ex_worker_store_def zero_store_def empty_meta_def)
  ultimately show ?thesis
    using cleanup_keeps_wanted_workers [where url = "[]" and s = ex_worker_store and ds = "[?d]"
        and cl = "map_client None" and bad = "\<lambda>_. State (\<lambda>w. (None, []))"]
    by simp
qed

end
