(* ===== verification/Md5.thy ===== *)
theory Md5
  imports Sha256
begin

text \<open>
  \<open>md5.Sum\<close> of the Go standard library (RFC 1321) followed by the verb \<open>%x\<close>, from which the names of
  migration jobs are made.
\<close>

section \<open>Compression\<close>

definition md5_steps :: "(int32 \<times> nat) list" where
  "md5_steps = [
     (0xd76aa478, 7), (0xe8c7b756, 12), (0x242070db, 17), (0xc1bdceee, 22),
     (0xf57c0faf, 7), (0x4787c62a, 12), (0xa8304613, 17), (0xfd469501, 22),
     (0x698098d8, 7), (0x8b44f7af, 12), (0xffff5bb1, 17), (0x895cd7be, 22),
     (0x6b901122, 7), (0xfd987193, 12), (0xa679438e, 17), (0x49b40821, 22),
     (0xf61e2562, 5), (0xc040b340, 9), (0x265e5a51, 14), (0xe9b6c7aa, 20),
     (0xd62f105d, 5), (0x02441453, 9), (0xd8a1e681, 14), (0xe7d3fbc8, 20),
     (0x21e1cde6, 5), (0xc33707d6, 9), (0xf4d50d87, 14), (0x455a14ed, 20),
     (0xa9e3e905, 5), (0xfcefa3f8, 9), (0x676f02d9, 14), (0x8d2a4c8a, 20),
     (0xfffa3942, 4), (0x8771f681, 11), (0x6d9d6122, 16), (0xfde5380c, 23),
     (0xa4beea44, 4), (0x4bdecfa9, 11), (0xf6bb4b60, 16), (0xbebfbc70, 23),
     (0x289b7ec6, 4), (0xeaa127fa, 11), (0xd4ef3085, 16), (0x04881d05, 23),
     (0xd9d4d039, 4), (0xe6db99e5, 11), (0x1fa27cf8, 16), (0xc4ac5665, 23),
     (0xf4292244, 6), (0x432aff97, 10), (0xab9423a7, 15), (0xfc93a039, 21),
     (0x655b59c3, 6), (0x8f0ccc92, 10), (0xffeff47d, 15), (0x85845dd1, 21),
     (0x6fa87e4f, 6), (0xfe2ce6e0, 10), (0xa3014314, 15), (0x4e0811a1, 21),
     (0xf7537e82, 6), (0xbd3af235, 10), (0x2ad7d2bb, 15), (0xeb86d391, 21)]"

definition md5_f :: "nat \<Rightarrow> int32 \<Rightarrow> int32 \<Rightarrow> int32 \<Rightarrow> int32" where
  "md5_f i b c d =
     (if i < 16 then (b AND c) OR (NOT b AND d)
      else if i < 32 then (d AND b) OR (NOT d AND c)
      else if i < 48 then b XOR c XOR d
      else c XOR (b OR NOT d))"

definition md5_g :: "nat \<Rightarrow> nat" where
  "md5_g i =
     (if i < 16 then i
      else if i < 32 then (5 * i + 1) mod 16
      else if i < 48 then (3 * i + 5) mod 16
      else 7 * i mod 16)"

fun md5_rounds :: "nat \<Rightarrow> (int32 \<times> nat) list \<Rightarrow> int32 list \<Rightarrow> int32 list \<Rightarrow> int32 list" where
  "md5_rounds i [] m st = st"
| "md5_rounds i ((k, r) # ks) m st =
     (case st of
        [a, b, c, d] \<Rightarrow>
          md5_rounds (Suc i) ks m
            [d, b + word_rotl r (a + md5_f i b c d + k + m ! md5_g i), b, c]
      | _ \<Rightarrow> st)"

definition md5_compress :: "int32 list \<Rightarrow> int32 list \<Rightarrow> int32 list" where
  "md5_compress st block = map2 (+) st (md5_rounds 0 md5_steps block st)"

section \<open>Padding and digest\<close>

definition le_bytes :: "nat \<Rightarrow> nat \<Rightarrow> nat list" where
  "le_bytes n v = map (\<lambda>i. v div 256 ^ i mod 256) [0..<n]"

definition md5_pad :: "nat list \<Rightarrow> nat list" where
  "md5_pad bs =
     bs @ [0x80] @ replicate ((119 - length bs mod 64) mod 64) 0 @ le_bytes 8 (8 * length bs mod 2 ^ 64)"

fun le_words :: "nat list \<Rightarrow> int32 list" where
  "le_words (a # b # c # d # bs) = be_word [d, c, b, a] # le_words bs"
| "le_words _ = []"

definition md5_Sum :: "bytes \<Rightarrow> int32 list" where
  "md5_Sum s =
     foldl md5_compress [0x67452301, 0xefcdab89, 0x98badcfe, 0x10325476]
       (blocks (le_words (md5_pad (map of_char s))))"

definition le_hex_word :: "int32 \<Rightarrow> string" where
  "le_hex_word w =
     concat (map (\<lambda>i. map (\<lambda>j. hex_lower (unat (drop_bit (8 * i + 4 * j) w AND 15))) [1, 0]) [0..<4])"

definition md5hex :: "bytes \<Rightarrow> string" where
  "md5hex s = concat (map le_hex_word (md5_Sum s))"

section \<open>Length and alphabet\<close>

lemma length_md5_rounds: "length (md5_rounds i ks m st) = length st"
  by (induction i ks m st rule: md5_rounds.induct) (auto split: list.splits)

lemma length_md5_Sum: "length (md5_Sum s) = 4"
proof -
  have "length (foldl md5_compress st bs) = length st" for st bs
    by (induction bs arbitrary: st) (auto simp: md5_compress_def length_md5_rounds)
  then show ?thesis by (simp add: md5_Sum_def)
qed

lemma length_le_hex_word: "length (le_hex_word w) = 8"
  by (simp add: le_hex_word_def upt_rec)

lemma length_md5hex: "length (md5hex s) = 32"
proof -
  have "length (concat (map le_hex_word ws)) = 8 * length ws" for ws
    by (induction ws) (auto simp: length_le_hex_word)
  then show ?thesis by (simp add: md5hex_def length_md5_Sum)
qed

lemma set_md5hex: "c \<in> set (md5hex s) \<Longrightarrow> is_hex c"
  by (auto simp: md5hex_def le_hex_word_def intro!: is_hex_hex_lower unat_and_15)

end
