(* ===== verification/Jobs.thy ===== *)
theory Jobs
  imports Workloads Md5
begin

text \<open>
  Jobs (\<open>internal/job\<close>) and the scheduled task (\<open>internal/cronjob\<close>): the setup, migration, command
  and snapshot jobs of a Store, their names, and \<open>IsJobContainerDone\<close>, which decides from the pods of
  a job whether its container has finished and with what exit code.
\<close>

section \<open>Job state\<close>

record job_state =
  jbs_ExitCode :: int
  jbs_Running :: bool

definition HasErrors :: "job_state \<Rightarrow> bool" where
  "HasErrors s \<longleftrightarrow> jbs_ExitCode s \<noteq> 0"

definition IsDone :: "job_state \<Rightarrow> bool" where
  "IsDone s \<longleftrightarrow> \<not> jbs_Running s"

definition still_running :: job_state where
  "still_running = \<lparr>jbs_ExitCode = -1, jbs_Running = True\<rparr>"

definition job_done :: job_state where
  "job_done = \<lparr>jbs_ExitCode = 0, jbs_Running = False\<rparr>"

text \<open>
  The loop over the container statuses of a pod: the state returned from inside the loop, if any,
  and the error states collected so far.
\<close>

fun status_loop ::
  "string \<Rightarrow> container_status list \<Rightarrow> job_state list \<Rightarrow> job_state option \<times> job_state list" where
  "status_loop n [] errs = (None, errs)"
| "status_loop n (c # cs) errs =
     (if cst_Name c = n then
        (case cst_Terminated c of
           None \<Rightarrow> (Some still_running, errs)
         | Some t \<Rightarrow>
             let errs' = (if ts_ExitCode t \<noteq> 0
                          then errs @ [\<lparr>jbs_ExitCode = sint (ts_ExitCode t), jbs_Running = False\<rparr>] else errs)
             in if ts_Reason t = ''Completed'' then (Some job_done, errs') else status_loop n cs errs')
      else status_loop n cs errs)"

fun pods_loop :: "string \<Rightarrow> pod list \<Rightarrow> job_state list \<Rightarrow> job_state option \<times> job_state list" where
  "pods_loop n [] errs = (None, errs)"
| "pods_loop n (p # ps) errs =
     (if p_Phase p = ''Pending'' then (Some still_running, errs)
      else case status_loop n (p_ContainerStatuses p) errs of
             (Some s, errs') \<Rightarrow> (Some s, errs')
           | (None, errs') \<Rightarrow> pods_loop n ps errs')"

text \<open>
  The loop over the containers of the job's template; the pods are listed once per container of
  that name. The selector of a job in the cluster has match labels only, as the API server sets it.
\<close>

fun containers_loop ::
  "'w client \<Rightarrow> job \<Rightarrow> string \<Rightarrow> container list \<Rightarrow> job_state list \<Rightarrow>
   ('w, (job_state option \<times> job_state list) result) state" where
  "containers_loop cl j n [] errs = State_Monad.return (Inr (None, errs))"
| "containers_loop cl j n (c # cs) errs =
     (if c_Name c = n then do {
        r \<leftarrow> ListPods cl (m_Namespace (j_Meta j)) (js_Selector (j_Spec j));
        (case r of
           Inl e \<Rightarrow> State_Monad.return (Inl (Wrap ''get pods'' e))
         | Inr pods \<Rightarrow>
             (case pods_loop n pods errs of
                (Some s, errs') \<Rightarrow> State_Monad.return (Inr (Some s, errs'))
              | (None, errs') \<Rightarrow> containers_loop cl j n cs errs')) }
      else containers_loop cl j n cs errs)"

definition job_verdict :: "job \<Rightarrow> job_state list \<Rightarrow> job_state" where
  "job_verdict j errs =
     (if 0 <s jst_Succeeded (j_Status j) then job_done
      else if length errs > 0 then errs ! (length errs - 1)
      else if 0 <s jst_Failed (j_Status j) then \<lparr>jbs_ExitCode = -404, jbs_Running = False\<rparr>
      else \<lparr>jbs_ExitCode = 0, jbs_Running = True\<rparr>)"

definition IsJobContainerDone ::
  "'w client \<Rightarrow> job option \<Rightarrow> string \<Rightarrow> ('w, job_state result) state" where
  "IsJobContainerDone cl job n =
     (case job of
        None \<Rightarrow> State_Monad.return (Inl (Errorf ''job to check is nil''))
      | Some j \<Rightarrow> do {
          r \<leftarrow> containers_loop cl j n (ps_Containers (pt_Spec (js_Template (j_Spec j)))) [];
          State_Monad.return (case r of
              Inl e \<Rightarrow> Inl e
            | Inr (Some s, errs) \<Rightarrow> Inr s
            | Inr (None, errs) \<Rightarrow> Inr (job_verdict j errs)) })"

fun delete_jobs :: "'w client \<Rightarrow> job list \<Rightarrow> ('w, goerr option) state" where
  "delete_jobs cl [] = State_Monad.return None"
| "delete_jobs cl (j # js) = do {
     e \<leftarrow> cl_Delete cl (OJob j);
     (case e of Some err \<Rightarrow> State_Monad.return (Some err) | None \<Rightarrow> delete_jobs cl js) }"

text \<open>Label sets of the operator are valid, so building the selector does not fail.\<close>

definition deleteJobsByLabel :: "'w client \<Rightarrow> string \<Rightarrow> gomap \<Rightarrow> ('w, goerr option) state" where
  "deleteJobsByLabel cl ns la = do {
     r \<leftarrow> ListJobs cl ns la;
     (case r of
        Inl e \<Rightarrow> State_Monad.return (Some (Wrap ''get jobs'' e))
      | Inr jobs \<Rightarrow> delete_jobs cl jobs) }"

section \<open>Parts shared by the job builders\<close>

definition ttlSecondsAfterFinished :: int32 where
  "ttlSecondsAfterFinished = 86400"

text \<open>The pod of a job on a container specification; service account and containers given.\<close>

definition job_pod :: "container_spec \<Rightarrow> string \<Rightarrow> container list \<Rightarrow> pod_spec" where
  "job_pod c sa containers =
     empty_pod_spec\<lparr>
       ps_ServiceAccountName := sa,
       ps_ShareProcessNamespace := Some True,
       ps_TerminationGracePeriodSeconds := Some (cs_TerminationGracePeriodSeconds c),
       ps_Volumes := cs_Volumes c,
       ps_TopologySpreadConstraints := cs_TopologySpreadConstraints c,
       ps_NodeSelector := cs_NodeSelector c,
       ps_ImagePullSecrets := cs_ImagePullSecrets c,
       ps_EnableServiceLinks := cs_EnableServiceLinks c,
       ps_RestartPolicy := ''Never'',
       ps_Containers := containers,
       ps_SecurityContext := DefaultPodSecurityContext (cs_SecurityContext c),
       ps_InitContainers := DefaultContainerSecurityContexts (cs_InitContainers c)\<rparr>"

definition job_object :: "string \<Rightarrow> string \<Rightarrow> gomap \<Rightarrow> gomap \<Rightarrow> job_spec \<Rightarrow> job" where
  "job_object name ns labels annotations spec =
     \<lparr>j_Meta = empty_meta\<lparr>m_Name := name, m_Namespace := ns, m_Labels := labels, m_Annotations := Some annotations\<rparr>,
      j_Spec = spec, j_Status = empty_job_status\<rparr>"

definition script_container :: "string \<Rightarrow> container_spec \<Rightarrow> string \<Rightarrow> env_var list \<Rightarrow> container" where
  "script_container name c script envs =
     empty_container\<lparr>
       c_Name := name,
       c_VolumeMounts := cs_VolumeMounts c,
       c_ImagePullPolicy := cs_ImagePullPolicy c,
       c_Image := cs_Image c,
       c_SecurityContext := Some RestrictedContainerSecurityContext,
       c_Command := [''sh'', ''-c''],
       c_Args := [script],
       c_Env := envs\<rparr>"

section \<open>Setup\<close>

definition CONTAINER_NAME_SETUP_JOB :: string where
  "CONTAINER_NAME_SETUP_JOB = ''shopware-setup''"

definition GetSetupJobName :: "store \<Rightarrow> string" where
  "GetSetupJobName s = st_Name s @ ''-setup''"

definition adminUsername :: "store \<Rightarrow> env_var" where
  "adminUsername s =
     (let c = sp_AdminCredentials (st_Spec s) in
      if ref_Name (cr_UsernameSecretRef c) \<noteq> []
      then env_secret ''INSTALL_ADMIN_USERNAME'' (ref_Name (cr_UsernameSecretRef c)) (ref_Key (cr_UsernameSecretRef c))
      else env_value ''INSTALL_ADMIN_USERNAME'' (cr_Username c))"

definition SetupJob :: "string \<Rightarrow> store \<Rightarrow> job" where
  "SetupJob url s =
     (let c = merged_spec s (sp_SetupJobContainer (st_Spec s));
          labels = fmupd (ShopwareKey ''store.type'') ''setup''
                     (GetDefaultContainerStoreLabels s (cm_Labels (sp_MigrationJobContainer (st_Spec s))));
          annotations = GetDefaultContainerAnnotations CONTAINER_NAME_SETUP_JOB s
                          (cm_Annotations (sp_SetupJobContainer (st_Spec s)));
          envs = MergeEnv
                   (GetEnv url s @ [env_secret ''INSTALL_ADMIN_PASSWORD'' (GetSecretName s) ''admin-password'',
                                    adminUsername s])
                   (cs_ExtraEnvs c);
          containers = DefaultContainerSecurityContexts (cs_ExtraContainers c) @
            [(script_container CONTAINER_NAME_SETUP_JOB c (sp_SetupScript (st_Spec s)) envs)
               \<lparr>c_Resources := cs_Resources c\<rparr>]
      in job_object (GetSetupJobName s) (st_Namespace s) labels annotations
           \<lparr>js_BackoffLimit = Some 3, js_TTLSecondsAfterFinished = Some ttlSecondsAfterFinished,
            js_Parallelism = None, js_Completions = None, js_Selector = fmempty,
            js_Template = \<lparr>pt_Labels = labels, pt_Annotations = Some annotations,
                           pt_Spec = job_pod c (service_account s c) containers\<rparr>\<rparr>)"

definition GetSetupJob :: "'w client \<Rightarrow> string \<Rightarrow> store \<Rightarrow> ('w, job result) state" where
  "GetSetupJob cl url s =
     (let setup = SetupJob url s in GetJob cl (m_Namespace (j_Meta setup)) (m_Name (j_Meta setup)))"

definition DeleteSetupJob :: "'w client \<Rightarrow> string \<Rightarrow> store \<Rightarrow> ('w, goerr option) state" where
  "DeleteSetupJob cl url s = do {
     r \<leftarrow> GetSetupJob cl url s;
     (case r of
        Inl e \<Rightarrow> State_Monad.return (if IsNotFound e then None else Some e)
      | Inr j \<Rightarrow> cl_Delete cl (OJob j)) }"

text \<open>The soft check, the same for setup, migration and command jobs.\<close>

definition job_completed ::
  "'w client \<Rightarrow> ('w, job result) state \<Rightarrow> string \<Rightarrow> ('w, bool result) state" where
  "job_completed cl get n = do {
     r \<leftarrow> get;
     (case r of
        Inl e \<Rightarrow> State_Monad.return (if IsNotFound e then Inr False else Inl e)
      | Inr j \<Rightarrow> do {
          st \<leftarrow> IsJobContainerDone cl (Some j) n;
          State_Monad.return (case st of Inl e \<Rightarrow> Inl e | Inr s \<Rightarrow> Inr (IsDone s)) }) }"

definition IsSetupJobCompleted :: "'w client \<Rightarrow> string \<Rightarrow> store \<Rightarrow> ('w, bool result) state" where
  "IsSetupJobCompleted cl url s = job_completed cl (GetSetupJob cl url s) CONTAINER_NAME_SETUP_JOB"

section \<open>Migration\<close>

definition MigrationJobIdentifyer :: gomap where
  "MigrationJobIdentifyer = fmupd ''type'' ''migration'' fmempty"

definition CONTAINER_NAME_MIGRATION_JOB :: string where
  "CONTAINER_NAME_MIGRATION_JOB = ''shopware-migration''"

definition GetMigrateHash :: "store \<Rightarrow> string" where
  "GetMigrateHash s = md5hex (ss_CurrentImageTag (st_Status s))"

definition MigrateJobName :: "store \<Rightarrow> string" where
  "MigrateJobName s = st_Name s @ ''-migrate-'' @ GetMigrateHash s"

definition MigrationJob :: "string \<Rightarrow> store \<Rightarrow> job" where
  "MigrationJob url s =
     (let ov = sp_MigrationJobContainer (st_Spec s);
          c = merged_spec s ov;
          labels = fmupd (ShopwareKey ''store.type'') ''migration''
                     (fmupd (ShopwareKey ''store.hash'') (GetMigrateHash s)
                       (GetDefaultContainerStoreLabels s (cm_Labels ov)));
          annotations = fmupd ''shop.shopware.com/store.newImage'' (cs_Image c)
                          (fmupd ''shop.shopware.com/store.oldImage'' (ss_CurrentImageTag (st_Status s))
                            (GetDefaultContainerAnnotations CONTAINER_NAME_MIGRATION_JOB s (cm_Annotations ov)));
          envs = MergeEnv (GetEnv url s) (cs_ExtraEnvs c);
          containers = DefaultContainerSecurityContexts (cs_ExtraContainers c) @
            [(script_container CONTAINER_NAME_MIGRATION_JOB c (sp_MigrationScript (st_Spec s)) envs)
               \<lparr>c_Resources := cs_Resources c\<rparr>]
      in job_object (MigrateJobName s) (st_Namespace s) labels annotations
           \<lparr>js_BackoffLimit = Some 3, js_TTLSecondsAfterFinished = Some ttlSecondsAfterFinished,
            js_Parallelism = None, js_Completions = None, js_Selector = fmempty,
            js_Template = \<lparr>pt_Labels = labels, pt_Annotations = Some annotations,
                           pt_Spec = job_pod c (service_account s c) containers\<rparr>\<rparr>)"

definition GetMigrationJob :: "'w client \<Rightarrow> string \<Rightarrow> store \<Rightarrow> ('w, job result) state" where
  "GetMigrationJob cl url s =
     (let mig = MigrationJob url s in GetJob cl (m_Namespace (j_Meta mig)) (m_Name (j_Meta mig)))"

definition DeleteAllMigrationJobs :: "'w client \<Rightarrow> store \<Rightarrow> ('w, goerr option) state" where
  "DeleteAllMigrationJobs cl s = deleteJobsByLabel cl (st_Namespace s) MigrationJobIdentifyer"

definition IsMigrationJobCompleted :: "'w client \<Rightarrow> string \<Rightarrow> store \<Rightarrow> ('w, bool result) state" where
  "IsMigrationJobCompleted cl url s =
     job_completed cl (GetMigrationJob cl url s) CONTAINER_NAME_MIGRATION_JOB"

section \<open>Command\<close>

definition CONTAINER_NAME_COMMAND :: string where
  "CONTAINER_NAME_COMMAND = ''shopware-command''"

definition CommandJobName :: "store_exec \<Rightarrow> string" where
  "CommandJobName ex = m_Name (e_Meta ex)"

definition getJobSpec :: "string \<Rightarrow> store \<Rightarrow> store_exec \<Rightarrow> gomap \<Rightarrow> job_spec" where
  "getJobSpec url s ex labels =
     (let c0 = st_Container s;
          c = c0\<lparr>cs_Volumes := cs_Volumes c0 @ GetDatabaseTLSVolumes s,
                 cs_VolumeMounts := cs_VolumeMounts c0 @ GetDatabaseTLSVolumeMounts s\<rparr>;
          envs = MergeEnv (GetEnv url s) (ex_ExtraEnvs (e_Spec ex));
          containers = DefaultContainerSecurityContexts (cs_ExtraContainers c) @
            [script_container CONTAINER_NAME_COMMAND c (ex_Script (e_Spec ex)) envs]
      in \<lparr>js_BackoffLimit = Some (ex_MaxRetries (e_Spec ex)),
          js_TTLSecondsAfterFinished = Some ttlSecondsAfterFinished,
          js_Parallelism = None, js_Completions = None, js_Selector = fmempty,
          js_Template = \<lparr>pt_Labels = labels, pt_Annotations = None,
                         pt_Spec = job_pod c (service_account s c) containers\<rparr>\<rparr>)"

definition CommandJob :: "string \<Rightarrow> store \<Rightarrow> store_exec \<Rightarrow> job" where
  "CommandJob url s ex0 =
     (let ex = ex0\<lparr>e_Spec := (e_Spec ex0)\<lparr>ex_Container := st_Container s\<rparr>\<rparr>;
          labels = GetDefaultStoreExecLabels s (Some (m_Labels (e_Meta ex))) (m_Name (e_Meta ex)) ''command'';
          annotations = GetDefaultContainerExecAnnotations CONTAINER_NAME_COMMAND ex
      in job_object (CommandJobName ex) (m_Namespace (e_Meta ex)) labels annotations (getJobSpec url s ex labels))"

definition CommandCronJob :: "string \<Rightarrow> store \<Rightarrow> store_exec \<Rightarrow> cron_job" where
  "CommandCronJob url s ex =
     (let labels = GetDefaultStoreExecLabels s (Some (m_Labels (e_Meta ex))) (m_Name (e_Meta ex)) ''cron_command'';
          annotations = GetDefaultContainerExecAnnotations CONTAINER_NAME_COMMAND ex;
          meta = empty_meta\<lparr>m_Name := CommandJobName ex, m_Namespace := m_Namespace (e_Meta ex),
                            m_Labels := labels, m_Annotations := Some annotations\<rparr>
      in \<lparr>cj_Meta = meta, cj_Schedule = ex_CronSchedule (e_Spec ex), cj_TimeZone = None,
          cj_ConcurrencyPolicy = [], cj_Suspend = ex_CronSuspend (e_Spec ex), cj_JobMeta = meta,
          cj_JobSpec = getJobSpec url s ex labels, cj_Status = new_cron_job_status\<rparr>)"

definition GetCommandJob :: "'w client \<Rightarrow> string \<Rightarrow> store \<Rightarrow> store_exec \<Rightarrow> ('w, job result) state" where
  "GetCommandJob cl url s ex =
     (let mig = CommandJob url s ex in GetJob cl (m_Namespace (j_Meta mig)) (m_Name (j_Meta mig)))"

definition GetCommandCronJob :: "'w client \<Rightarrow> string \<Rightarrow> store \<Rightarrow> store_exec \<Rightarrow> ('w, cron_job result) state" where
  "GetCommandCronJob cl url s ex =
     (let mig = CommandJob url s ex in GetCronJob cl (m_Namespace (j_Meta mig)) (m_Name (j_Meta mig)))"

definition IsCommandJobCompleted :: "'w client \<Rightarrow> string \<Rightarrow> store \<Rightarrow> store_exec \<Rightarrow> ('w, bool result) state" where
  "IsCommandJobCompleted cl url s ex = job_completed cl (GetCommandJob cl url s ex) CONTAINER_NAME_COMMAND"

section \<open>Snapshot\<close>

definition CONTAINER_NAME_SNAPSHOT :: string where
  "CONTAINER_NAME_SNAPSHOT = ''operator-snapshot''"

text \<open>
  \<open>StoreSnapshotSpec.GetEnv\<close>. The JSON text of the Store status is an argument, as the result of
  \<open>json.Marshal\<close> on types of the Kubernetes libraries.
\<close>

definition snapshot_GetEnv :: "(store_status \<Rightarrow> string result) \<Rightarrow> snapshot_spec \<Rightarrow> store \<Rightarrow> env_var list" where
  "snapshot_GetEnv marshal sn s =
     (let spec = st_Spec s; sec = sp_SecretName spec; t = db_TLS (sp_Database spec); auth = sn_S3BucketAuth sn;
          statusValue = (case marshal (st_Status s) of
              Inl e \<Rightarrow> ''{'' @ [CHR 0x27] @ ''error'' @ [CHR 0x27] @ '': '' @ [CHR 0x27] @ err_msg e @ [CHR 0x27] @ ''}''
            | Inr js \<Rightarrow> js)
      in [env_value ''META_STORE_STATE'' statusValue,
          env_secret ''DB_HOST'' sec ''database-host'',
          env_secret ''DB_PASSWORD'' sec ''database-password'',
          env_secret ''DB_USER'' sec ''database-user'',
          env_value ''DB_DATABASE'' (db_Name (sp_Database spec)),
          env_value ''AWS_ENDPOINT'' (ReplaceAll (s3_EndpointURL (sp_S3Storage spec)) ''https://'' []),
          env_value ''AWS_PRIVATE_BUCKET'' (s3_PrivateBucketName (sp_S3Storage spec)),
          env_value ''AWS_PUBLIC_BUCKET'' (s3_PublicBucketName (sp_S3Storage spec))] @
         (if ref_Name (ba_AccessKeyRef auth) \<noteq> []
          then [env_secret ''AWS_ACCESS_KEY_ID'' (ref_Name (ba_AccessKeyRef auth)) (ref_Key (ba_AccessKeyRef auth))]
          else []) @
         (if dtls_SecretName t \<noteq> [] then
            [env_value ''DB_SSL_CA'' DatabaseTLSCAFile] @
            (if dtls_ClientCertificate t
             then [env_value ''DB_SSL_CERT'' DatabaseTLSCertFile, env_value ''DB_SSL_KEY'' DatabaseTLSKeyFile]
             else []) @
            (if dtls_DontVerifyServerCertificate t then [env_value ''DB_SSL_DONT_VERIFY_SERVER_CERT'' ''true''] else [])
          else []) @
         (if ref_Name (ba_AccessKeyRef auth) \<noteq> []
          then [env_secret ''AWS_SECRET_ACCESS_KEY''
                  (ref_Name (ba_SecretAccessKeyRef auth)) (ref_Key (ba_SecretAccessKeyRef auth))]
          else []))"

fun is_ephemeral :: "volume_source \<Rightarrow> bool" where
  "is_ephemeral (EphemeralVolume _) = True"
| "is_ephemeral _ = False"

text \<open>The two nested loops: the mount of the first ephemeral volume that has one with a path.\<close>

fun tempdir_loop :: "volume list \<Rightarrow> volume_mount list \<Rightarrow> string option" where
  "tempdir_loop [] ms = None"
| "tempdir_loop (v # vs) ms =
     (if \<not> is_ephemeral (vol_Source v) then tempdir_loop vs ms
      else case find (\<lambda>m. vm_Name m = vol_Name v \<and> vm_MountPath m \<noteq> []) ms of
             Some m \<Rightarrow> Some (vm_MountPath m)
           | None \<Rightarrow> tempdir_loop vs ms)"

text \<open>The label arguments, in the order of \<open>sort.Strings\<close> on the keys.\<close>

definition label_args :: "gomap \<Rightarrow> string list" where
  "label_args m = concat (map (\<lambda>(k, v). [''--label'', k @ ''='' @ v]) (sorted_list_of_fmap m))"

definition SnapshotJobName :: "object_meta \<Rightarrow> string \<Rightarrow> string" where
  "SnapshotJobName meta subCommand = ''snapshot-'' @ subCommand @ ''-'' @ m_Name meta"

definition snapshotJob ::
  "(store_status \<Rightarrow> string result) \<Rightarrow> store \<Rightarrow> object_meta \<Rightarrow> snapshot_spec \<Rightarrow> string \<Rightarrow> job" where
  "snapshotJob marshal s meta sn subCommand =
     (let c = sn_Container sn;
          found = tempdir_loop (cs_Volumes c) (cs_VolumeMounts c);
          tempDirMountPath = (case found of Some p \<Rightarrow> p | None \<Rightarrow> ''/temp'');
          addDefaultTempDir = (found = None);
          vm = cs_VolumeMounts c @ GetDatabaseTLSVolumeMounts s @
            (if addDefaultTempDir
             then [\<lparr>vm_Name = ''tempdir'', vm_MountPath = tempDirMountPath, vm_ReadOnly = False, vm_rest = []\<rparr>]
             else []);
          args = [subCommand, ''--backup-file'', sn_Path sn, ''--tempdir'', tempDirMountPath] @
            label_args (m_Labels meta);
          containers = DefaultContainerSecurityContexts (cs_ExtraContainers c) @
            [empty_container\<lparr>
               c_Name := CONTAINER_NAME_SNAPSHOT,
               c_VolumeMounts := vm,
               c_ImagePullPolicy := cs_ImagePullPolicy c,
               c_Image := cs_Image c,
               c_SecurityContext := Some RestrictedContainerSecurityContext,
               c_Args := args,
               c_Env := snapshot_GetEnv marshal sn s,
               c_Resources := cs_Resources c\<rparr>];
          volumes = cs_Volumes c @ GetDatabaseTLSVolumes s @
            (if addDefaultTempDir then [\<lparr>vol_Name = ''tempdir'', vol_Source = EmptyDirVolume ''20Gi''\<rparr>] else []);
          labels = GetDefaultStoreSnapshotLabels s (Some (m_Labels meta)) (m_Name meta) subCommand;
          annotations = GetDefaultContainerSnapshotAnnotations CONTAINER_NAME_SNAPSHOT sn
      in job_object (SnapshotJobName meta subCommand) (m_Namespace meta) labels annotations
           \<lparr>js_BackoffLimit = Some (sn_MaxRetries sn), js_TTLSecondsAfterFinished = Some 60,
            js_Parallelism = None, js_Completions = None, js_Selector = fmempty,
            js_Template = \<lparr>pt_Labels = labels, pt_Annotations = Some annotations,
              pt_Spec = job_pod (c\<lparr>cs_Volumes := volumes\<rparr>) (cs_ServiceAccountName c) containers\<rparr>\<rparr>)"

definition SnapshotCreateJob :: "(store_status \<Rightarrow> string result) \<Rightarrow> store \<Rightarrow> snapshot \<Rightarrow> job" where
  "SnapshotCreateJob marshal s snap = snapshotJob marshal s (sh_Meta snap) (sh_Spec snap) ''create''"

definition SnapshotRestoreJob :: "(store_status \<Rightarrow> string result) \<Rightarrow> store \<Rightarrow> snapshot \<Rightarrow> job" where
  "SnapshotRestoreJob marshal s snap = snapshotJob marshal s (sh_Meta snap) (sh_Spec snap) ''restore''"

definition GetSnapshotCreateJob ::
  "'w client \<Rightarrow> (store_status \<Rightarrow> string result) \<Rightarrow> store \<Rightarrow> snapshot \<Rightarrow> ('w, job result) state" where
  "GetSnapshotCreateJob cl marshal s snap =
     (let mig = SnapshotCreateJob marshal s snap in GetJob cl (m_Namespace (j_Meta mig)) (m_Name (j_Meta mig)))"

definition GetSnapshotRestoreJob ::
  "'w client \<Rightarrow> (store_status \<Rightarrow> string result) \<Rightarrow> store \<Rightarrow> snapshot \<Rightarrow> ('w, job result) state" where
  "GetSnapshotRestoreJob cl marshal s snap =
     (let mig = SnapshotRestoreJob marshal s snap in GetJob cl (m_Namespace (j_Meta mig)) (m_Name (j_Meta mig)))"

definition IsSnapshotJobCompleted :: "'w client \<Rightarrow> job \<Rightarrow> ('w, bool result) state" where
  "IsSnapshotJobCompleted cl j = do {
     st \<leftarrow> IsJobContainerDone cl (Some j) CONTAINER_NAME_SNAPSHOT;
     State_Monad.return (case st of Inl e \<Rightarrow> Inl e | Inr s \<Rightarrow> Inr (IsDone s)) }"

section \<open>Scheduled task\<close>

definition CONTAINER_NAME_SCHEDULED_JOB :: string where
  "CONTAINER_NAME_SCHEDULED_JOB = ''shopware-scheduled-task''"

definition GetScheduledCronJobName :: "store \<Rightarrow> string" where
  "GetScheduledCronJobName s = st_Name s @ ''-scheduled-jobs''"

text \<open>
  \<open>ScheduledTaskJob\<close> merges into the Store it was given by value, so the rest of the function reads
  the merged container; \<open>ScheduledTaskJob_shared\<close> is what the caller's Store is afterwards.
\<close>

definition ScheduledTaskJob :: "string \<Rightarrow> store \<Rightarrow> cron_job" where
  "ScheduledTaskJob url s0 =
     (let ov = sp_SetupJobContainer (st_Spec s0);
          c = merged_spec s0 ov;
          s = set_Container c s0;
          labels0 = fmupd (ShopwareKey ''store.type'') ''scheduled-task''
                      (GetDefaultContainerStoreLabels s (cm_Labels ov));
          labels = copy_nil labels0 (sp_ScheduledTaskLabels (st_Spec s));
          annotations = GetDefaultContainerAnnotations CONTAINER_NAME_SCHEDULED_JOB s (cm_Annotations ov);
          containers = DefaultContainerSecurityContexts (cs_ExtraContainers c) @
            [(script_container CONTAINER_NAME_SCHEDULED_JOB c (stk_Command (sp_ScheduledTask (st_Spec s))) (GetEnv url s))
               \<lparr>c_Resources := cs_Resources c\<rparr>];
          meta = empty_meta\<lparr>m_Name := GetScheduledCronJobName s, m_Namespace := st_Namespace s,
                            m_Labels := labels, m_Annotations := Some annotations\<rparr>
      in \<lparr>cj_Meta = meta,
          cj_Schedule = stk_Schedule (sp_ScheduledTask (st_Spec s)),
          cj_TimeZone = Some (stk_TimeZone (sp_ScheduledTask (st_Spec s))),
          cj_ConcurrencyPolicy = ''Forbid'',
          cj_Suspend = stk_Suspend (sp_ScheduledTask (st_Spec s)),
          cj_JobMeta = meta,
          cj_JobSpec = \<lparr>js_BackoffLimit = None, js_TTLSecondsAfterFinished = None,
            js_Parallelism = Some 1, js_Completions = Some 1, js_Selector = fmempty,
            js_Template = \<lparr>pt_Labels = labels, pt_Annotations = Some annotations,
              pt_Spec = job_pod c (service_account s c) containers\<rparr>\<rparr>,
          cj_Status = new_cron_job_status\<rparr>)"

definition ScheduledTaskJob_shared :: "store \<Rightarrow> store" where
  "ScheduledTaskJob_shared s0 =
     (let ov = sp_SetupJobContainer (st_Spec s0);
          s = set_Container (merged_spec s0 ov) s0;
          annotations = GetDefaultContainerAnnotations CONTAINER_NAME_SCHEDULED_JOB s (cm_Annotations ov)
      in set_Container (annotate_shared annotations (Merge_shared (st_Container s0) ov)) s0)"

definition GetScheduledCronJob :: "'w client \<Rightarrow> string \<Rightarrow> store \<Rightarrow> ('w, cron_job result) state" where
  "GetScheduledCronJob cl url s =
     (let setup = ScheduledTaskJob url s in GetCronJob cl (m_Namespace (cj_Meta setup)) (m_Name (cj_Meta setup)))"

section \<open>A reference for IsJobContainerDone\<close>

text \<open>
  What the pods of a job say about a container, in order: a pending pod, a container that has not
  terminated, or a terminated one. The first decisive event settles the question.
\<close>

datatype job_event = Unfinished | Terminated terminated_state

definition pod_events :: "string \<Rightarrow> pod \<Rightarrow> job_event list" where
  "pod_events n p =
     (if p_Phase p = ''Pending'' then [Unfinished]
      else map (\<lambda>c. case cst_Terminated c of None \<Rightarrow> Unfinished | Some t \<Rightarrow> Terminated t)
             (filter (\<lambda>c. cst_Name c = n) (p_ContainerStatuses p)))"

definition job_events :: "string \<Rightarrow> pod list \<Rightarrow> job_event list" where
  "job_events n ps = concat (map (pod_events n) ps)"

fun decisive :: "job_event \<Rightarrow> bool" where
  "decisive Unfinished = True"
| "decisive (Terminated t) = (ts_Reason t = ''Completed'')"

fun verdict_of :: "job_event \<Rightarrow> job_state" where
  "verdict_of Unfinished = still_running"
| "verdict_of (Terminated t) = job_done"

fun exit_error :: "job_event \<Rightarrow> job_state list" where
  "exit_error Unfinished = []"
| "exit_error (Terminated t) =
     (if ts_ExitCode t \<noteq> 0 then [\<lparr>jbs_ExitCode = sint (ts_ExitCode t), jbs_Running = False\<rparr>] else [])"

definition exit_errors :: "job_event list \<Rightarrow> job_state list" where
  "exit_errors es = concat (map exit_error es)"

definition job_result :: "job \<Rightarrow> job_event list \<Rightarrow> job_state" where
  "job_result j es =
     (case find decisive es of Some e \<Rightarrow> verdict_of e | None \<Rightarrow> job_verdict j (exit_errors es))"

lemma find_append: "find P (xs @ ys) = (case find P xs of None \<Rightarrow> find P ys | Some x \<Rightarrow> Some x)"
  by (induction xs) auto

lemma exit_errors_simps [simp]:
  "exit_errors [] = []"
  "exit_errors (e # es) = exit_error e @ exit_errors es"
  "exit_errors (es @ es') = exit_errors es @ exit_errors es'"
  by (simp_all add: exit_errors_def)

abbreviation status_events :: "string \<Rightarrow> container_status list \<Rightarrow> job_event list" where
  "status_events n cs \<equiv> map (\<lambda>c. case cst_Terminated c of None \<Rightarrow> Unfinished | Some t \<Rightarrow> Terminated t)
     (filter (\<lambda>c. cst_Name c = n) cs)"

lemma status_loop_events:
  "fst (status_loop n cs errs) = map_option verdict_of (find decisive (status_events n cs)) \<and>
   (find decisive (status_events n cs) = None \<longrightarrow>
     snd (status_loop n cs errs) = errs @ exit_errors (status_events n cs))"
  by (induction cs arbitrary: errs) (auto simp: Let_def split: option.splits)

lemma job_events_Cons: "job_events n (p # ps) = pod_events n p @ job_events n ps"
  by (simp add: job_events_def)

lemma pods_loop_events:
  "fst (pods_loop n ps errs) = map_option verdict_of (find decisive (job_events n ps)) \<and>
   (find decisive (job_events n ps) = None \<longrightarrow>
     snd (pods_loop n ps errs) = errs @ exit_errors (job_events n ps))"
proof (induction ps arbitrary: errs)
  case Nil
  then show ?case by (simp add: job_events_def)
next
  case (Cons p ps)
  obtain r e where sl: "status_loop n (p_ContainerStatuses p) errs = (r, e)" by fastforce
  have st: "r = map_option verdict_of (find decisive (status_events n (p_ContainerStatuses p)))"
    "find decisive (status_events n (p_ContainerStatuses p)) = None \<Longrightarrow>
       e = errs @ exit_errors (status_events n (p_ContainerStatuses p))"
    using status_loop_events [of n "p_ContainerStatuses p" errs] sl by auto
  show ?case
    using Cons.IH [of e] st
    by (cases "find decisive (status_events n (p_ContainerStatuses p))")
      (auto simp: sl job_events_Cons pod_events_def find_append split: option.splits)
qed

lemma exit_errors_nonzero: "e \<in> set (exit_errors es) \<Longrightarrow> jbs_ExitCode e \<noteq> 0 \<and> \<not> jbs_Running e"
proof (induction es)
  case (Cons x es)
  then show ?case by (cases x) (auto simp: signed_eq_0_iff split: if_splits)
qed simp

lemma containers_loop_skip:
  "\<forall>c\<in>set cs. c_Name c \<noteq> n \<Longrightarrow> containers_loop cl j n cs errs = State_Monad.return (Inr (None, errs))"
  by (induction cs) auto

lemma containers_loop_unique:
  assumes "length (filter (\<lambda>c. c_Name c = n) cs) = 1"
  shows "containers_loop cl j n cs errs = do {
     r \<leftarrow> ListPods cl (m_Namespace (j_Meta j)) (js_Selector (j_Spec j));
     State_Monad.return (case r of
           Inl e \<Rightarrow> Inl (Wrap ''get pods'' e)
         | Inr pods \<Rightarrow> Inr (pods_loop n pods errs)) }"
  using assms
proof (induction cs)
  case (Cons c cs)
  show ?case
  proof (cases "c_Name c = n")
    case True
    with Cons.prems have skip: "containers_loop cl j (c_Name c) cs e = State_Monad.return (Inr (None, e))" for e
      by (intro containers_loop_skip) (auto simp: filter_empty_conv)
    show ?thesis
      using True by (auto simp: skip intro!: arg_cong2 [where f = State_Monad.bind] ext
          split: sum.split option.split prod.split)
  qed (use Cons in simp)
qed simp

lemma IsJobContainerDone_eq:
  assumes "length (filter (\<lambda>c. c_Name c = n) (ps_Containers (pt_Spec (js_Template (j_Spec j))))) = 1"
  shows "IsJobContainerDone cl (Some j) n = do {
     r \<leftarrow> ListPods cl (m_Namespace (j_Meta j)) (js_Selector (j_Spec j));
     State_Monad.return (case r of
         Inl e \<Rightarrow> Inl (Wrap ''get pods'' e)
       | Inr pods \<Rightarrow> Inr (job_result j (job_events n pods))) }"
proof -
  have some: "job_result j (job_events n pods) = s" if "pods_loop n pods [] = (Some s, errs)" for pods s errs
    using pods_loop_events [of n pods "[]"] that
    by (cases "find decisive (job_events n pods)") (auto simp: job_result_def)
  have none: "job_result j (job_events n pods) = job_verdict j errs" if "pods_loop n pods [] = (None, errs)" for pods errs
    using pods_loop_events [of n pods "[]"] that
    by (cases "find decisive (job_events n pods)") (auto simp: job_result_def)
  show ?thesis
    unfolding IsJobContainerDone_def option.case containers_loop_unique [OF assms] State_Monad.bind_assoc
    by (auto simp: some none intro!: arg_cong2 [where f = State_Monad.bind] ext
        split: sum.splits option.splits prod.splits)
qed


lemma job_pod_restricted:
  "(\<forall>c\<in>set cs. c_SecurityContext c \<noteq> None) \<Longrightarrow> pod_restricted (job_pod c sa cs)"
  using DefaultContainerSecurityContexts_set
  by (auto simp: pod_restricted_def job_pod_def DefaultPodSecurityContext_def)

lemma tempdir_loop_Some:
  "tempdir_loop vs ms = Some p \<Longrightarrow> \<exists>v\<in>set vs. \<exists>m\<in>set ms. vm_Name m = vol_Name v \<and> vm_MountPath m = p"
proof (induction vs)
  case (Cons v vs)
  have "m \<in> set ms \<and> vm_Name m = vol_Name v"
    if "find (\<lambda>m. vm_Name m = vol_Name v \<and> vm_MountPath m \<noteq> []) ms = Some m" for m
    using that by (auto simp: find_Some_iff)
  with Cons show ?case by (fastforce split: if_splits option.splits)
qed simp

lemma operatorEnv_SetupJobContainer:
  "operatorEnv url (s\<lparr>st_Spec := (st_Spec s)\<lparr>sp_SetupJobContainer := c\<rparr>\<rparr>) = operatorEnv url s"
proof -
  have "getAppCache (s\<lparr>st_Spec := (st_Spec s)\<lparr>sp_SetupJobContainer := c\<rparr>\<rparr>) = getAppCache s"
    "getLock (s\<lparr>st_Spec := (st_Spec s)\<lparr>sp_SetupJobContainer := c\<rparr>\<rparr>) = getLock s"
    "getOtel (s\<lparr>st_Spec := (st_Spec s)\<lparr>sp_SetupJobContainer := c\<rparr>\<rparr>) = getOtel s"
    "getBlackfire (s\<lparr>st_Spec := (st_Spec s)\<lparr>sp_SetupJobContainer := c\<rparr>\<rparr>) = getBlackfire s"
    "getTideways (s\<lparr>st_Spec := (st_Spec s)\<lparr>sp_SetupJobContainer := c\<rparr>\<rparr>) = getTideways s"
    "getStorage (s\<lparr>st_Spec := (st_Spec s)\<lparr>sp_SetupJobContainer := c\<rparr>\<rparr>) = getStorage s"
    "getWorker (s\<lparr>st_Spec := (st_Spec s)\<lparr>sp_SetupJobContainer := c\<rparr>\<rparr>) = getWorker s"
    "getOpensearch (s\<lparr>st_Spec := (st_Spec s)\<lparr>sp_SetupJobContainer := c\<rparr>\<rparr>) = getOpensearch s"
    "getFastly (s\<lparr>st_Spec := (st_Spec s)\<lparr>sp_SetupJobContainer := c\<rparr>\<rparr>) = getFastly s"
    "baseEnv url (s\<lparr>st_Spec := (st_Spec s)\<lparr>sp_SetupJobContainer := c\<rparr>\<rparr>) = baseEnv url s"
    "tlsEnv (s\<lparr>st_Spec := (st_Spec s)\<lparr>sp_SetupJobContainer := c\<rparr>\<rparr>) = tlsEnv s"
    "consentEnv (s\<lparr>st_Spec := (st_Spec s)\<lparr>sp_SetupJobContainer := c\<rparr>\<rparr>) = consentEnv s"
    "getOldSessionCache (s\<lparr>st_Spec := (st_Spec s)\<lparr>sp_SetupJobContainer := c\<rparr>\<rparr>) = getOldSessionCache s"
    "getSessionCache (s\<lparr>st_Spec := (st_Spec s)\<lparr>sp_SetupJobContainer := c\<rparr>\<rparr>) = getSessionCache s"
    unfolding env_part_defs baseEnv_def tlsEnv_def consentEnv_def getOldSessionCache_def getSessionCache_def Let_def
    by simp_all
  then show ?thesis by (simp add: operatorEnv_def)
qed

section \<open>Properties\<close>

text \<open>
  C16: for a job whose template has the container once, \<open>IsJobContainerDone\<close> is the first decisive
  event among its pods: a pending pod or an unfinished container means it is running, a container
  that terminated as completed means success. If there is none, the success counter of the job
  counts as success, then the last non-zero exit code as that error, then the failure counter as
  error -404, and otherwise the job counts as running. An error from listing the pods is passed on.
\<close>

theorem IsJobContainerDone_reference:
  assumes "length (filter (\<lambda>c. c_Name c = n) (ps_Containers (pt_Spec (js_Template (j_Spec j))))) = 1"
  shows "IsJobContainerDone cl (Some j) n = do {
     r \<leftarrow> ListPods cl (m_Namespace (j_Meta j)) (js_Selector (j_Spec j));
     State_Monad.return (case r of
         Inl e \<Rightarrow> Inl (Wrap ''get pods'' e)
       | Inr pods \<Rightarrow> Inr (job_result j (job_events n pods))) }"
  using assms by (rule IsJobContainerDone_eq)

definition ex_job :: job where
  "ex_job = job_object ''j'' ''ns'' fmempty fmempty
     \<lparr>js_BackoffLimit = None, js_TTLSecondsAfterFinished = None, js_Parallelism = None, js_Completions = None,
      js_Selector = fmempty,
      js_Template = \<lparr>pt_Labels = fmempty, pt_Annotations = None,
        pt_Spec = empty_pod_spec\<lparr>ps_Containers := [empty_container\<lparr>c_Name := ''run''\<rparr>]\<rparr>\<rparr>\<rparr>"

definition ex_pod :: pod where
  "ex_pod = \<lparr>p_Meta = empty_meta\<lparr>m_Name := ''p'', m_Namespace := ''ns''\<rparr>, p_Spec = empty_pod_spec,
     p_Phase = ''Failed'', p_Ready = False,
     p_ContainerStatuses = [\<lparr>cst_Name = ''run'', cst_Terminated = Some \<lparr>ts_ExitCode = 7, ts_Reason = ''Error''\<rparr>\<rparr>]\<rparr>"

theorem IsJobContainerDone_reference_witness:
  "fst (run_state (IsJobContainerDone (map_client None) (Some ex_job) ''run'') [OPod ex_pod]) =
     Inr \<lparr>jbs_ExitCode = 7, jbs_Running = False\<rparr>"
proof -
  have "length (filter (\<lambda>c. c_Name c = ''run'') (ps_Containers (pt_Spec (js_Template (j_Spec ex_job))))) = 1"
    by (simp add: ex_job_def job_object_def)
  note ref = IsJobContainerDone_reference [OF this, of "map_client None"]
  show ?thesis
    unfolding ref
    by (simp add: run_simps ListPods_def map_client_def typed_items_def ex_pod_def ex_job_def job_object_def
        job_result_def job_events_def pod_events_def job_verdict_def empty_job_status_def fmsubset_iff)
qed

text \<open>
  A job that the operator takes for finished without errors really did succeed: a container of
  that name terminated as completed, or the job counts a success.
\<close>

theorem job_success_is_real:
  assumes "length (filter (\<lambda>c. c_Name c = n) (ps_Containers (pt_Spec (js_Template (j_Spec j))))) = 1"
    and "run_state (ListPods cl (m_Namespace (j_Meta j)) (js_Selector (j_Spec j))) w = (Inr pods, w')"
    and "run_state (IsJobContainerDone cl (Some j) n) w = (Inr st, w'')"
    and "IsDone st" and "\<not> HasErrors st"
  shows "0 <s jst_Succeeded (j_Status j) \<or>
    (\<exists>p\<in>set pods. \<exists>c\<in>set (p_ContainerStatuses p). \<exists>t.
       cst_Name c = n \<and> cst_Terminated c = Some t \<and> ts_Reason t = ''Completed'')"
proof -
  have st: "st = job_result j (job_events n pods)"
    using assms(2,3) unfolding IsJobContainerDone_eq [OF assms(1)] by (simp add: run_simps)
  show ?thesis
  proof (cases "find decisive (job_events n pods)")
    case None
    with st assms(4,5) show ?thesis
      using exit_errors_nonzero [of _ "job_events n pods"]
      by (auto simp: job_result_def job_verdict_def IsDone_def HasErrors_def split: if_splits)
  next
    case (Some e)
    then have e: "e \<in> set (job_events n pods)" "decisive e" by (auto simp: find_Some_iff)
    from Some st assms(4) have "e \<noteq> Unfinished"
      by (auto simp: job_result_def IsDone_def still_running_def)
    then obtain t where "e = Terminated t" by (cases e) auto
    with e have "Terminated t \<in> set (job_events n pods)" "ts_Reason t = ''Completed''" by simp_all
    then show ?thesis
      by (fastforce simp: job_events_def pod_events_def split: if_splits option.splits)
  qed
qed

definition ex_done_pod :: pod where
  "ex_done_pod = ex_pod\<lparr>p_ContainerStatuses :=
     [\<lparr>cst_Name = ''run'', cst_Terminated = Some \<lparr>ts_ExitCode = 0, ts_Reason = ''Completed''\<rparr>\<rparr>]\<rparr>"

theorem job_success_is_real_witness:
  "\<exists>p\<in>{ex_done_pod}. \<exists>c\<in>set (p_ContainerStatuses p). cst_Name c = ''run''"
proof -
  have one: "length (filter (\<lambda>c. c_Name c = ''run'') (ps_Containers (pt_Spec (js_Template (j_Spec ex_job))))) = 1"
    by (simp add: ex_job_def job_object_def)
  have pods: "run_state (ListPods (map_client None) (m_Namespace (j_Meta ex_job)) (js_Selector (j_Spec ex_job)))
      [OPod ex_done_pod] = (Inr [ex_done_pod], [OPod ex_done_pod])"
    by (simp add: run_simps ListPods_def map_client_def typed_items_def ex_done_pod_def ex_pod_def ex_job_def
        job_object_def fmsubset_iff)
  have res: "run_state (IsJobContainerDone (map_client None) (Some ex_job) ''run'') [OPod ex_done_pod] =
      (Inr job_done, [OPod ex_done_pod])"
    unfolding IsJobContainerDone_eq [OF one]
    by (simp add: run_simps pods)
      (simp add: job_result_def job_events_def pod_events_def ex_done_pod_def ex_pod_def)
  show ?thesis
    using job_success_is_real [OF one pods res]
    by (auto simp: job_done_def IsDone_def HasErrors_def ex_job_def job_object_def empty_job_status_def)
qed

text \<open>
  The pods of all jobs of the operator carry a security context on every container.
\<close>

theorem jobs_restricted:
  "pod_restricted (pt_Spec (js_Template (j_Spec (SetupJob url s)))) \<and>
   pod_restricted (pt_Spec (js_Template (j_Spec (MigrationJob url s)))) \<and>
   pod_restricted (pt_Spec (js_Template (j_Spec (CommandJob url s ex)))) \<and>
   pod_restricted (pt_Spec (js_Template (cj_JobSpec (CommandCronJob url s ex)))) \<and>
   pod_restricted (pt_Spec (js_Template (j_Spec (SnapshotCreateJob marshal s snap)))) \<and>
   pod_restricted (pt_Spec (js_Template (j_Spec (SnapshotRestoreJob marshal s snap)))) \<and>
   pod_restricted (pt_Spec (js_Template (cj_JobSpec (ScheduledTaskJob url s))))"
  using DefaultContainerSecurityContexts_set
  by (auto simp: SetupJob_def MigrationJob_def CommandJob_def CommandCronJob_def getJobSpec_def
      SnapshotCreateJob_def SnapshotRestoreJob_def snapshotJob_def ScheduledTaskJob_def job_object_def
      script_container_def Let_def intro!: job_pod_restricted)

text \<open>
  The snapshot job always has a directory for its temporary files: the path it is told is the
  mount path of one of its mounts, and that mount's volume is one of the pod's volumes.
\<close>

theorem snapshot_tempdir_mounted:
  "let pod = pt_Spec (js_Template (j_Spec (snapshotJob marshal s meta sn cmd))) in
   \<exists>c m v. c = last (ps_Containers pod) \<and> m \<in> set (c_VolumeMounts c) \<and> v \<in> set (ps_Volumes pod) \<and>
    c_Args c ! 3 = ''--tempdir'' \<and> c_Args c ! 4 = vm_MountPath m \<and> vm_Name m = vol_Name v"
  (is "let pod = ?pod in _")
proof (cases "tempdir_loop (cs_Volumes (sn_Container sn)) (cs_VolumeMounts (sn_Container sn))")
  case None
  then show ?thesis
    unfolding Let_def
    by (intro exI [of _ "last (ps_Containers ?pod)"]
        exI [of _ "\<lparr>vm_Name = ''tempdir'', vm_MountPath = ''/temp'', vm_ReadOnly = False, vm_rest = []\<rparr>"]
        exI [of _ "\<lparr>vol_Name = ''tempdir'', vol_Source = EmptyDirVolume ''20Gi''\<rparr>"])
      (simp add: snapshotJob_def job_object_def job_pod_def Let_def)
next
  case (Some p)
  from tempdir_loop_Some [OF this] Some show ?thesis
    by (auto simp: snapshotJob_def job_object_def job_pod_def Let_def)
qed

text \<open>
  The labels configured for the setup job are not used: changing them changes nothing.
\<close>

theorem setup_job_ignores_own_labels:
  "SetupJob url (s\<lparr>st_Spec := (st_Spec s)\<lparr>sp_SetupJobContainer := (sp_SetupJobContainer (st_Spec s))\<lparr>cm_Labels := l\<rparr>\<rparr>\<rparr>) =
   SetupJob url s" (is "SetupJob url ?s' = _")
proof -
  have "cs_Labels (merged_spec ?s' (sp_SetupJobContainer (st_Spec ?s'))) = l'
      \<Longrightarrow> merged_spec ?s' (sp_SetupJobContainer (st_Spec ?s')) =
        (merged_spec s (sp_SetupJobContainer (st_Spec s)))\<lparr>cs_Labels := l'\<rparr>" for l'
    by (intro container_spec.equality)
      (simp_all add: merged_spec_def Merge_def GetDatabaseTLSVolumes_def GetDatabaseTLSVolumeMounts_def Let_def
        cong: option.case_cong)
  then obtain l' where m: "merged_spec ?s' (sp_SetupJobContainer (st_Spec ?s')) =
      (merged_spec s (sp_SetupJobContainer (st_Spec s)))\<lparr>cs_Labels := l'\<rparr>" by blast
  have e: "GetEnv url ?s' = GetEnv url s"
    by (simp add: GetEnv_def operatorEnv_SetupJobContainer)
  have l: "GetDefaultContainerStoreLabels ?s' = GetDefaultContainerStoreLabels s"
    "GetDefaultContainerAnnotations c ?s' = GetDefaultContainerAnnotations c s" for c
    by (auto simp: GetDefaultContainerStoreLabels_def overrideStoreLabels_def
        GetDefaultContainerAnnotations_def GetStoreLabel_def fun_eq_iff)
  show ?thesis
    unfolding SetupJob_def Let_def m e l
    by (simp add: script_container_def job_pod_def GetSetupJobName_def adminUsername_def GetSecretName_def
        service_account_def Let_def)
qed

end
