(* ===== verification/Metrics.thy ===== *)
theory Metrics
  imports Workloads
begin

text \<open>
  The gauges of a Store (\<open>internal/metrics/metrics.go\<close>). The Prometheus client is a record of the
  two calls that the code makes, setting the series with given label values and deleting the series
  that match some labels; \<open>prometheus\<close> says what these calls do to the registered series. Values are
  the integers that the code converts to \<open>float64\<close>.
\<close>

section \<open>Gauges\<close>

datatype gauge =
    StoreState | StoreCurrentImage | StoreDeploymentReplicasAvailable | StoreDeploymentReplicasDesired
  | StoreDeploymentState | StoreUsageDataConsent | StoreHPAEnabled | StoreHPAMinReplicas | StoreHPAMaxReplicas
  | StoreScheduledTaskSuspended | StoreScheduledTaskLastRunStatus | StoreQueueCount | StoreScheduledTaskLastSuccessTime

fun gauge_labels :: "gauge \<Rightarrow> string list" where
  "gauge_labels StoreState = [''store'', ''namespace'', ''state'']"
| "gauge_labels StoreCurrentImage = [''store'', ''namespace'', ''image'']"
| "gauge_labels StoreDeploymentReplicasAvailable = [''store'', ''namespace'', ''deployment_type'']"
| "gauge_labels StoreDeploymentReplicasDesired = [''store'', ''namespace'', ''deployment_type'']"
| "gauge_labels StoreDeploymentState = [''store'', ''namespace'', ''deployment_type'', ''state'']"
| "gauge_labels StoreQueueCount = [''store'', ''namespace'', ''queue'']"
| "gauge_labels _ = [''store'', ''namespace'']"

record 'w gauges =
  g_Set :: "gauge \<Rightarrow> string list \<Rightarrow> int \<Rightarrow> ('w, unit) state"
  g_DeletePartialMatch :: "gauge \<Rightarrow> (string \<times> string) list \<Rightarrow> ('w, unit) state"

definition allStates :: "app_state list" where
  "allStates = [StateWait, StateSetup, StateSetupError, StateInitializing, StateMigration, StateMigrationError, StateReady]"

definition allDeploymentStates :: "dep_state list" where
  "allDeploymentStates = [DeploymentStateUnknown, DeploymentStateError, DeploymentStateNotFound, DeploymentStateRunning, DeploymentStateScaling]"

fun dep_state_text :: "dep_state \<Rightarrow> string" where
  "dep_state_text DeploymentStateEmpty = []"
| "dep_state_text DeploymentStateUnknown = ''unknown''"
| "dep_state_text DeploymentStateError = ''error''"
| "dep_state_text DeploymentStateNotFound = ''not-found''"
| "dep_state_text DeploymentStateRunning = ''running''"
| "dep_state_text DeploymentStateScaling = ''scaling''"

fun for_each :: "('a \<Rightarrow> ('w, unit) state) \<Rightarrow> 'a list \<Rightarrow> ('w, unit) state" where
  "for_each f [] = State_Monad.return ()"
| "for_each f (x # xs) = do { _ \<leftarrow> f x; for_each f xs }"

section \<open>Operations\<close>

definition UpdateQueueMetrics :: "'w gauges \<Rightarrow> string \<Rightarrow> string \<Rightarrow> queue_transport_stats list \<Rightarrow> ('w, unit) state" where
  "UpdateQueueMetrics g ns storeName transports = do {
     _ \<leftarrow> g_DeletePartialMatch g StoreQueueCount [(''store'', storeName), (''namespace'', ns)];
     for_each (\<lambda>t. g_Set g StoreQueueCount [storeName, ns, qt_Name t] (sint (qt_Count t))) transports }"

text \<open>\<open>atoi\<close> skips what is not a digit; \<open>n\<close> is an \<open>int\<close> of 64 bits.\<close>

fun atoi_loop :: "string \<Rightarrow> int64 \<Rightarrow> int64" where
  "atoi_loop [] n = n"
| "atoi_loop (c # cs) n =
     atoi_loop cs (if byte_in 48 57 c then n * 10 + word_of_nat (of_char c - 48) else n)"

definition atoi :: "string \<Rightarrow> int64" where
  "atoi s = atoi_loop s 0"

fun fmtScan :: "string \<Rightarrow> string \<Rightarrow> int64 \<times> int64 \<Rightarrow> int64 \<times> int64" where
  "fmtScan seen [] old = old"
| "fmtScan seen (c # cs) old = (if c = CHR ''/'' then (atoi (rev seen), atoi cs) else fmtScan (c # seen) cs old)"

definition available_of :: "deployment_condition \<Rightarrow> int64" where
  "available_of cond = (if dcon_Ready cond \<noteq> [] then fst (fmtScan [] (dcon_Ready cond) (0, 0)) else 0)"

definition setDeploymentMetrics :: "'w gauges \<Rightarrow> string \<Rightarrow> string \<Rightarrow> string \<Rightarrow> deployment_condition \<Rightarrow> ('w, unit) state" where
  "setDeploymentMetrics g name ns deploymentType cond =
     (let available = available_of cond in do {
        _ \<leftarrow> g_Set g StoreDeploymentReplicasAvailable [name, ns, deploymentType] (sint available);
        _ \<leftarrow> g_Set g StoreDeploymentReplicasDesired [name, ns, deploymentType] (sint (dcon_StoreReplicas cond));
        for_each (\<lambda>s. g_Set g StoreDeploymentState [name, ns, deploymentType, dep_state_text s]
            (if dcon_State cond = s then 1 else 0)) allDeploymentStates })"

definition UpdateStoreMetrics :: "'w gauges \<Rightarrow> store \<Rightarrow> ('w, unit) state" where
  "UpdateStoreMetrics g s =
     (let name = st_Name s; ns = st_Namespace s; hpa = sp_HPA (st_Spec s) in do {
        _ \<leftarrow> for_each (\<lambda>x. g_Set g StoreState [name, ns, app_state_text x] (if ss_State (st_Status s) = x then 1 else 0)) allStates;
        _ \<leftarrow> (if ss_CurrentImageTag (st_Status s) \<noteq> [] then do {
                _ \<leftarrow> g_DeletePartialMatch g StoreCurrentImage [(''store'', name), (''namespace'', ns)];
                g_Set g StoreCurrentImage [name, ns, ss_CurrentImageTag (st_Status s)] 1 }
              else State_Monad.return ());
        _ \<leftarrow> g_Set g StoreUsageDataConsent [name, ns]
               (if co_UsageDataConsent (sp_ShopConfiguration (st_Spec s)) = ''allowed'' then 1 else 0);
        _ \<leftarrow> (if hpa_Enabled hpa then do {
                _ \<leftarrow> g_Set g StoreHPAEnabled [name, ns] 1;
                _ \<leftarrow> g_Set g StoreHPAMaxReplicas [name, ns] (sint (hpa_MaxReplicas hpa));
                g_Set g StoreHPAMinReplicas [name, ns] (case hpa_MinReplicas hpa of Some n \<Rightarrow> sint n | None \<Rightarrow> 0) }
              else do {
                _ \<leftarrow> g_Set g StoreHPAEnabled [name, ns] 0;
                _ \<leftarrow> g_Set g StoreHPAMinReplicas [name, ns] 0;
                g_Set g StoreHPAMaxReplicas [name, ns] 0 });
        _ \<leftarrow> setDeploymentMetrics g name ns ''admin'' (ss_AdminState (st_Status s));
        _ \<leftarrow> setDeploymentMetrics g name ns ''storefront'' (ss_StorefrontState (st_Status s));
        setDeploymentMetrics g name ns ''worker'' (ss_WorkerState (st_Status s)) })"

text \<open>\<open>metav1.Time.Before\<close> of two times that are there, and \<open>Unix\<close>; the zero time is the year 1.\<close>

definition time_ns :: "gotime \<Rightarrow> int" where
  "time_ns t = (case t of Some n \<Rightarrow> n | None \<Rightarrow> - 62135596800 * 1000000000)"

definition last_run_status :: "cron_job_status \<Rightarrow> int" where
  "last_run_status st =
     (let jobActive = (cjs_Active st > 0) in
      case (cjs_LastSuccessfulTime st, cjs_LastScheduleTime st) of
        (Some ok, Some sched) \<Rightarrow> if \<not> time_ns ok < time_ns sched then 1 else if jobActive then 0 else -1
      | (Some ok, None) \<Rightarrow> 1
      | (None, Some sched) \<Rightarrow> if jobActive then 0 else -1
      | (None, None) \<Rightarrow> 0)"

definition UpdateScheduledTaskMetrics :: "'w gauges \<Rightarrow> store \<Rightarrow> cron_job option \<Rightarrow> ('w, unit) state" where
  "UpdateScheduledTaskMetrics g s cronJob =
     (let name = st_Name s; ns = st_Namespace s in
      case cronJob of
        None \<Rightarrow> do {
          _ \<leftarrow> g_Set g StoreScheduledTaskSuspended [name, ns] 0;
          _ \<leftarrow> g_Set g StoreScheduledTaskLastRunStatus [name, ns] 0;
          g_Set g StoreScheduledTaskLastSuccessTime [name, ns] 0 }
      | Some c \<Rightarrow> do {
          _ \<leftarrow> g_Set g StoreScheduledTaskSuspended [name, ns] (if cj_Suspend c then 1 else 0);
          _ \<leftarrow> g_Set g StoreScheduledTaskLastRunStatus [name, ns] (last_run_status (cj_Status c));
          g_Set g StoreScheduledTaskLastSuccessTime [name, ns]
            (case cjs_LastSuccessfulTime (cj_Status c) of Some t \<Rightarrow> time_ns t div 1000000000 | None \<Rightarrow> 0) })"

definition RemoveStoreMetrics :: "'w gauges \<Rightarrow> store \<Rightarrow> ('w, unit) state" where
  "RemoveStoreMetrics g s =
     (let match = [(''store'', st_Name s), (''namespace'', st_Namespace s)] in do {
        _ \<leftarrow> g_DeletePartialMatch g StoreState match;
        _ \<leftarrow> g_DeletePartialMatch g StoreCurrentImage match;
        _ \<leftarrow> g_DeletePartialMatch g StoreDeploymentReplicasAvailable match;
        _ \<leftarrow> g_DeletePartialMatch g StoreDeploymentReplicasDesired match;
        _ \<leftarrow> g_DeletePartialMatch g StoreDeploymentState match;
        _ \<leftarrow> g_DeletePartialMatch g StoreUsageDataConsent match;
        _ \<leftarrow> g_DeletePartialMatch g StoreHPAEnabled match;
        _ \<leftarrow> g_DeletePartialMatch g StoreHPAMinReplicas match;
        _ \<leftarrow> g_DeletePartialMatch g StoreHPAMaxReplicas match;
        _ \<leftarrow> g_DeletePartialMatch g StoreScheduledTaskSuspended match;
        _ \<leftarrow> g_DeletePartialMatch g StoreScheduledTaskLastRunStatus match;
        _ \<leftarrow> g_DeletePartialMatch g StoreScheduledTaskLastSuccessTime match;
        g_DeletePartialMatch g StoreQueueCount match })"

section \<open>What the calls do\<close>

definition matches :: "gauge \<Rightarrow> (string \<times> string) list \<Rightarrow> string list \<Rightarrow> bool" where
  "matches m p ls \<longleftrightarrow> set p \<subseteq> set (zip (gauge_labels m) ls)"

text \<open>Every gauge has the Store and the namespace as its first two labels.\<close>

lemma gauge_labels_shape:
  "\<exists>r. gauge_labels m = ''store'' # ''namespace'' # r \<and> ''store'' \<notin> set r \<and> ''namespace'' \<notin> set r"
  by (cases m) auto

lemma matches_store: "matches m [(''store'', n), (''namespace'', ns)] ls \<longleftrightarrow> take 2 ls = [n, ns]"
proof -
  obtain r where r: "gauge_labels m = ''store'' # ''namespace'' # r" "''store'' \<notin> set r" "''namespace'' \<notin> set r"
    using gauge_labels_shape by blast
  show ?thesis
    by (cases ls; cases "tl ls") (use r in \<open>auto simp: matches_def dest: set_zip_leftD\<close>)
qed

type_synonym series = "gauge \<Rightarrow> string list \<Rightarrow> int option"

definition clear :: "gauge set \<Rightarrow> string \<Rightarrow> string \<Rightarrow> series \<Rightarrow> series" where
  "clear M n ns v = (\<lambda>m ls. if m \<in> M \<and> take 2 ls = [n, ns] then None else v m ls)"

lemma clear_clear: "clear M n ns (clear N n ns v) = clear (M \<union> N) n ns v"
  by (auto simp: clear_def fun_eq_iff)

lemma gauge_UNIV:
  "UNIV = {StoreQueueCount, StoreScheduledTaskLastSuccessTime, StoreScheduledTaskLastRunStatus, StoreScheduledTaskSuspended,
     StoreHPAMaxReplicas, StoreHPAMinReplicas, StoreHPAEnabled, StoreUsageDataConsent, StoreDeploymentState,
     StoreDeploymentReplicasDesired, StoreDeploymentReplicasAvailable, StoreCurrentImage, StoreState}"
  by (auto intro: gauge.exhaust)

lemma fold_other: "take 2 ls \<noteq> [n, ns] \<Longrightarrow> fold (\<lambda>x v. v((n # ns # f x) \<mapsto> h x)) xs v ls = v ls"
  by (induction xs arbitrary: v) auto

locale prometheus =
  fixes g :: "'w gauges" and val :: "'w \<Rightarrow> series"
  assumes set_val: "val (snd (run_state (g_Set g m ls x) w)) = (val w)(m := (val w m)(ls \<mapsto> x))"
    and delete_val: "val (snd (run_state (g_DeletePartialMatch g m p) w)) = (val w)(m := (\<lambda>ls. if matches m p ls then None else val w m ls))"
begin

text \<open>A computation that changes the series by a function and nothing else of them.\<close>

definition effect :: "('w, unit) state \<Rightarrow> (series \<Rightarrow> series) \<Rightarrow> bool" where
  "effect m F \<longleftrightarrow> (\<forall>w. val (snd (run_state m w)) = F (val w))"

lemma effect_return: "effect (State_Monad.return ()) (\<lambda>v. v)"
  by (simp add: effect_def run_simps)

lemma effect_bind: "effect m F \<Longrightarrow> effect n G \<Longrightarrow> effect (do { _ \<leftarrow> m; n }) (\<lambda>v. G (F v))"
  by (simp add: effect_def run_simps split: prod.split) (metis snd_conv)

lemma effect_set: "effect (g_Set g m ls x) (\<lambda>v. v(m := (v m)(ls \<mapsto> x)))"
  by (simp add: effect_def set_val)

lemma effect_delete: "effect (g_DeletePartialMatch g m p) (\<lambda>v. v(m := (\<lambda>ls. if matches m p ls then None else v m ls)))"
  by (simp add: effect_def delete_val)

lemma effect_for_each: "(\<And>x. effect (f x) (F x)) \<Longrightarrow> effect (for_each f xs) (fold F xs)"
proof (induction xs)
  case (Cons x xs)
  from effect_bind[OF Cons.prems[of x] Cons.IH[OF Cons.prems]] show ?case by (simp add: comp_def)
qed (simp add: effect_return id_def)

lemma effect_if: "(c \<Longrightarrow> effect m F) \<Longrightarrow> (\<not> c \<Longrightarrow> effect n G) \<Longrightarrow> effect (if c then m else n) (\<lambda>v. if c then F v else G v)"
  by simp

lemmas effect_intros = effect_bind effect_set effect_delete effect_for_each effect_if effect_return

lemma effectD: "effect m F \<Longrightarrow> val (snd (run_state m w)) = F (val w)"
  by (simp add: effect_def)

lemma effect_conv: "effect m F \<Longrightarrow> (\<And>v. F v = G v) \<Longrightarrow> effect m G"
  by (simp add: effect_def)

lemma effect_clear: "effect (g_DeletePartialMatch g m [(''store'', n), (''namespace'', ns)]) (clear {m} n ns)"
  by (rule effect_conv[OF effect_delete]) (auto simp: clear_def fun_eq_iff matches_store)

lemma RemoveStoreMetrics_effect: "effect (RemoveStoreMetrics g s) (clear UNIV (st_Name s) (st_Namespace s))"
  unfolding RemoveStoreMetrics_def Let_def
  by (rule effect_conv, (rule effect_bind effect_clear)+) (simp add: clear_clear gauge_UNIV insert_commute)

lemma UpdateQueueMetrics_effect:
  "effect (UpdateQueueMetrics g ns n ts) (\<lambda>v. v(StoreQueueCount := (\<lambda>ls.
     if take 2 ls = [n, ns] then map_of (rev (map (\<lambda>t. ([n, ns, qt_Name t], sint (qt_Count t))) ts)) ls
     else v StoreQueueCount ls)))"
proof -
  have sets: "fold (\<lambda>t v. v(StoreQueueCount := (v StoreQueueCount)([n, ns, qt_Name t] \<mapsto> sint (qt_Count t)))) ts v =
      v(StoreQueueCount := v StoreQueueCount ++ map_of (rev (map (\<lambda>t. ([n, ns, qt_Name t], sint (qt_Count t))) ts)))" for v
    by (induction ts arbitrary: v) (simp_all add: map_add_def fun_eq_iff split: option.split)
  have other: "map_of (rev (map (\<lambda>t. ([n, ns, qt_Name t], sint (qt_Count t))) ts)) ls = None" if "take 2 ls \<noteq> [n, ns]" for ls
    using that by (auto simp: map_of_eq_None_iff)
  show ?thesis
    unfolding UpdateQueueMetrics_def
    by (rule effect_conv, (rule effect_intros)+)
      (auto simp: fun_eq_iff sets matches_store other map_add_def split: option.split)
qed

definition deployment_effect :: "string \<Rightarrow> string \<Rightarrow> string \<Rightarrow> deployment_condition \<Rightarrow> series \<Rightarrow> series" where
  "deployment_effect n ns ty c v =
     v(StoreDeploymentReplicasAvailable := (v StoreDeploymentReplicasAvailable)([n, ns, ty] \<mapsto> sint (available_of c)),
       StoreDeploymentReplicasDesired := (v StoreDeploymentReplicasDesired)([n, ns, ty] \<mapsto> sint (dcon_StoreReplicas c)),
       StoreDeploymentState := fold (\<lambda>s v. v([n, ns, ty, dep_state_text s] \<mapsto> (if dcon_State c = s then 1 else 0)))
         allDeploymentStates (v StoreDeploymentState))"

lemma fold_one_gauge: "fold (\<lambda>x v. v(m := F x (v m))) xs v = v(m := fold F xs (v m))"
  by (induction xs arbitrary: v) simp_all

lemma setDeploymentMetrics_effect: "effect (setDeploymentMetrics g n ns ty c) (deployment_effect n ns ty c)"
  unfolding setDeploymentMetrics_def Let_def
  by (rule effect_conv, (rule effect_intros)+)
    (simp add: fun_eq_iff deployment_effect_def fold_one_gauge[where F = "\<lambda>x u. u([n, ns, ty, dep_state_text x] \<mapsto> if dcon_State c = x then 1 else 0)"])

lemma deployment_effect_available:
  "deployment_effect n ns ty c v StoreDeploymentReplicasAvailable [n, ns, ty'] =
     (if ty' = ty then Some (sint (available_of c)) else v StoreDeploymentReplicasAvailable [n, ns, ty'])"
  by (simp add: deployment_effect_def)

lemma deployment_effect_other: "take 2 ls \<noteq> [n, ns] \<Longrightarrow> deployment_effect n ns ty c v m ls = v m ls"
  by (auto simp: deployment_effect_def fold_other)

definition store_effect :: "store \<Rightarrow> series \<Rightarrow> series" where
  "store_effect s v =
     (let n = st_Name s; ns = st_Namespace s; hpa = sp_HPA (st_Spec s); tag = ss_CurrentImageTag (st_Status s) in
      v(StoreState := fold (\<lambda>x v. v([n, ns, app_state_text x] \<mapsto> (if ss_State (st_Status s) = x then 1 else 0))) allStates (v StoreState),
        StoreCurrentImage := (if tag \<noteq> [] then (\<lambda>ls. if take 2 ls = [n, ns] then None else v StoreCurrentImage ls)([n, ns, tag] \<mapsto> 1)
          else v StoreCurrentImage),
        StoreUsageDataConsent := (v StoreUsageDataConsent)([n, ns] \<mapsto>
          (if co_UsageDataConsent (sp_ShopConfiguration (st_Spec s)) = ''allowed'' then 1 else 0)),
        StoreHPAEnabled := (v StoreHPAEnabled)([n, ns] \<mapsto> (if hpa_Enabled hpa then 1 else 0)),
        StoreHPAMaxReplicas := (v StoreHPAMaxReplicas)([n, ns] \<mapsto> (if hpa_Enabled hpa then sint (hpa_MaxReplicas hpa) else 0)),
        StoreHPAMinReplicas := (v StoreHPAMinReplicas)([n, ns] \<mapsto>
          (if hpa_Enabled hpa then (case hpa_MinReplicas hpa of Some k \<Rightarrow> sint k | None \<Rightarrow> 0) else 0))))"

lemma store_effect_other: "take 2 ls \<noteq> [st_Name s, st_Namespace s] \<Longrightarrow> store_effect s v m ls = v m ls"
  by (cases m) (auto simp: store_effect_def Let_def fold_other)

lemma UpdateStoreMetrics_effect:
  "effect (UpdateStoreMetrics g s) (\<lambda>v.
     deployment_effect (st_Name s) (st_Namespace s) ''worker'' (ss_WorkerState (st_Status s))
      (deployment_effect (st_Name s) (st_Namespace s) ''storefront'' (ss_StorefrontState (st_Status s))
       (deployment_effect (st_Name s) (st_Namespace s) ''admin'' (ss_AdminState (st_Status s)) (store_effect s v))))"
  unfolding UpdateStoreMetrics_def Let_def
  apply (rule effect_conv)
   apply ((rule effect_intros setDeploymentMetrics_effect)+)
  apply (rule arg_cong[where f = "deployment_effect _ _ _ _"])+
  apply (simp add: fun_eq_iff store_effect_def Let_def matches_store
      fold_one_gauge[where F = "\<lambda>x u. u([st_Name s, st_Namespace s, app_state_text x] \<mapsto> if ss_State (st_Status s) = x then 1 else 0)"])
  done

end

definition map_gauges :: "series gauges" where
  "map_gauges = \<lparr>g_Set = (\<lambda>m ls x. State (\<lambda>v. ((), v(m := (v m)(ls \<mapsto> x))))),
     g_DeletePartialMatch = (\<lambda>m p. State (\<lambda>v. ((), v(m := (\<lambda>ls. if matches m p ls then None else v m ls)))))\<rparr>"

interpretation mg: prometheus map_gauges "\<lambda>v. v"
  by unfold_locales (simp_all add: map_gauges_def run_simps)

section \<open>The number of available replicas\<close>

lemma atoi_loop_append: "atoi_loop (xs @ ys) n = atoi_loop ys (atoi_loop xs n)"
  by (induction xs n rule: atoi_loop.induct) simp_all

lemma digit_byte: "k < 10 \<Longrightarrow> byte_in 48 57 (digit k) \<and> of_char (digit k) - 48 = k"
  by (simp add: byte_in_def of_char_digit)

lemma atoi_dec_nat: "atoi (dec_nat n) = word_of_nat n"
proof (induction n rule: dec_nat.induct)
  case (1 n)
  show ?case
  proof (cases "n < 10")
    case True
    then show ?thesis by (simp add: atoi_def dec_nat.simps[of n] digit_byte)
  next
    case False
    with 1 have "atoi_loop (dec_nat (n div 10)) 0 = word_of_nat (n div 10)" by (simp add: atoi_def)
    moreover have "word_of_nat n = word_of_nat (n div 10) * 10 + (word_of_nat (n mod 10) :: int64)"
      by (metis div_mult_mod_eq of_nat_add of_nat_mult of_nat_numeral)
    ultimately show ?thesis using False by (simp add: atoi_def dec_nat.simps[of n] atoi_loop_append digit_byte)
  qed
qed

lemma fmtScan_slash: "CHR ''/'' \<notin> set xs \<Longrightarrow> fmtScan seen (xs @ ''/'' @ ys) old = (atoi (rev seen @ xs), atoi ys)"
  by (induction xs arbitrary: seen) auto

lemma dec_nat_no_slash: "CHR ''/'' \<notin> set (dec_nat n)"
proof (induction n rule: dec_nat.induct)
  case (1 n)
  have "digit k \<noteq> CHR ''/''" if "k < 10" for k
    using digit_byte[OF that] by (auto simp: byte_in_def)
  with 1 show ?case by (cases "n < 10") (auto simp: dec_nat.simps[of n] dest: sym)
qed

lemma sint_of_int32:
  assumes "0 \<le> sint (a :: int32)"
  shows "sint (word_of_nat (nat (sint a)) :: int64) = sint a"
proof -
  obtain k where k: "sint a = int k" using assms nonneg_int_cases by blast
  then have "k < 2 ^ 31" using sint_lt[of a] by simp
  then show ?thesis by (simp add: k signed_of_nat signed_take_bit_int_eq_self)
qed

lemma fmtScan_ready_text:
  assumes "0 \<le> sint a"
  shows "sint (fst (fmtScan [] (ready_text a b) (0, 0))) = sint a"
  using assms sint_of_int32[OF assms]
  by (simp add: ready_text_def fmt_d_def Itoa_def fmtScan_slash[OF dec_nat_no_slash, simplified] atoi_dec_nat)

lemma fold_state_gauge:
  "x \<in> set allStates \<Longrightarrow>
     fold (\<lambda>x v. v([n, ns, app_state_text x] \<mapsto> (if st = x then 1 else 0 :: int))) allStates v [n, ns, app_state_text x] =
       Some (if st = x then 1 else 0)"
  by (auto simp: allStates_def)

definition deployment_types :: "store \<Rightarrow> (string \<times> deployment_condition) list" where
  "deployment_types s = [(''admin'', ss_AdminState (st_Status s)), (''storefront'', ss_StorefrontState (st_Status s)),
     (''worker'', ss_WorkerState (st_Status s))]"

definition ex_shown :: store where
  "ex_shown = zero_store\<lparr>st_Status := (st_Status zero_store)\<lparr>ss_State := StateReady, ss_CurrentImageTag := ''6.7'',
     ss_AdminState := (ss_AdminState (st_Status zero_store))\<lparr>dcon_Ready := ready_text 2 3\<rparr>\<rparr>\<rparr>"

section \<open>Properties\<close>

text \<open>
  The gauges of a Store after its status was reconciled. Exactly the series of its current state
  is 1 and those of the other states are 0; the only image shown is the current one, and there are as
  many available replicas per deployment as the status says. Series of other Stores do not change.
\<close>

theorem UpdateStoreMetrics_shows_status:
  assumes "prometheus g val" and "w' = snd (run_state (UpdateStoreMetrics g s) w)" and "n = st_Name s" and "ns = st_Namespace s"
  shows "(\<forall>x\<in>set allStates. val w' StoreState [n, ns, app_state_text x] = Some (if ss_State (st_Status s) = x then 1 else 0)) \<and>
    (ss_CurrentImageTag (st_Status s) \<noteq> [] \<longrightarrow>
      (\<forall>img. val w' StoreCurrentImage [n, ns, img] = (if img = ss_CurrentImageTag (st_Status s) then Some 1 else None))) \<and>
    (\<forall>(ty, c)\<in>set (deployment_types s). \<forall>a b. dcon_Ready c = ready_text a b \<and> 0 \<le> sint a \<longrightarrow>
      val w' StoreDeploymentReplicasAvailable [n, ns, ty] = Some (sint a)) \<and>
    (\<forall>m ls. take 2 ls \<noteq> [n, ns] \<longrightarrow> val w' m ls = val w m ls)"
proof -
  note after = prometheus.effectD[OF assms(1) prometheus.UpdateStoreMetrics_effect[OF assms(1)], of s w, folded assms(2)]
  note defs = after prometheus.deployment_effect_def[OF assms(1)] prometheus.store_effect_def[OF assms(1)] Let_def assms(3,4)
  have st: "val w' StoreState [n, ns, app_state_text x] = Some (if ss_State (st_Status s) = x then 1 else 0)" if "x \<in> set allStates" for x
    using fold_state_gauge[OF that] by (simp add: defs)
  have im: "val w' StoreCurrentImage [n, ns, img] = (if img = ss_CurrentImageTag (st_Status s) then Some 1 else None)"
    if "ss_CurrentImageTag (st_Status s) \<noteq> []" for img
    using that by (simp add: defs)
  have av: "val w' StoreDeploymentReplicasAvailable [n, ns, ty] = Some (sint a)"
    if "(ty, c) \<in> set (deployment_types s)" "dcon_Ready c = ready_text a b" "0 \<le> sint a" for ty c a b
  proof -
    have "sint (available_of c) = sint a"
      using fmtScan_ready_text[OF that(3), of b] that(2) by (simp add: available_of_def ready_text_def)
    then show ?thesis
      using that(1) unfolding after assms(3,4) prometheus.deployment_effect_available[OF assms(1)] deployment_types_def
      by (simp only: list.set insert_iff empty_iff prod.inject) (elim disjE conjE; simp)
  qed
  have ot: "val w' m ls = val w m ls" if "take 2 ls \<noteq> [n, ns]" for m ls
    using that unfolding assms(3,4) after
    by (simp add: prometheus.deployment_effect_other[OF assms(1)] prometheus.store_effect_other[OF assms(1)])
  have pairs: "case p of (ty, c) \<Rightarrow> \<forall>a b. dcon_Ready c = ready_text a b \<and> 0 \<le> sint a \<longrightarrow>
      val w' StoreDeploymentReplicasAvailable [n, ns, ty] = Some (sint a)" if "p \<in> set (deployment_types s)" for p
    using that av[of "fst p" "snd p"] unfolding case_prod_beta by simp
  show ?thesis by (rule conjI[OF ballI[OF st]]) (assumption | rule conjI impI allI ballI im pairs ot)+
qed

theorem UpdateStoreMetrics_shows_status_witness:
  "let v = snd (run_state (UpdateStoreMetrics map_gauges ex_shown) (\<lambda>_ _. None)) in
   v StoreState [[], [], ''ready''] = Some 1 \<and> v StoreState [[], [], ''waiting''] = Some 0 \<and>
   v StoreCurrentImage [[], [], ''6.7''] = Some 1 \<and> v StoreDeploymentReplicasAvailable [[], [], ''admin''] = Some 2"
proof -
  note shown = UpdateStoreMetrics_shows_status[OF mg.prometheus_axioms refl refl refl, of ex_shown "\<lambda>_ _. None"]
  have "StateReady \<in> set allStates" "StateWait \<in> set allStates" by (simp_all add: allStates_def)
  moreover have "(''admin'', ss_AdminState (st_Status ex_shown)) \<in> set (deployment_types ex_shown)" by (simp add: deployment_types_def)
  moreover have "dcon_Ready (ss_AdminState (st_Status ex_shown)) = ready_text 2 3 \<and> 0 \<le> sint (2 :: int32)" by (simp add: ex_shown_def)
  moreover have "sint (2 :: int32) = 2" by simp
  moreover have "st_Name ex_shown = []" "st_Namespace ex_shown = []" "ss_State (st_Status ex_shown) = StateReady"
    "ss_CurrentImageTag (st_Status ex_shown) = ''6.7''"
    by (simp_all add: ex_shown_def zero_store_def empty_meta_def)
  ultimately show ?thesis
    using shown[THEN conjunct1, rule_format, of StateReady] shown[THEN conjunct1, rule_format, of StateWait]
      shown[THEN conjunct2, THEN conjunct1]
      bspec[OF shown[THEN conjunct2, THEN conjunct2, THEN conjunct1], of "(''admin'', ss_AdminState (st_Status ex_shown))",
        simplified case_prod_conv, THEN spec[of _ 2], THEN spec[of _ 3]]
    by (simp add: Let_def)
qed

text \<open>
  Deleting a Store removes every series of it from all gauges, and no series of another Store.
\<close>

theorem RemoveStoreMetrics_removes_all:
  assumes "prometheus g val"
  shows "val (snd (run_state (RemoveStoreMetrics g s) w)) m ls =
    (if take 2 ls = [st_Name s, st_Namespace s] then None else val w m ls)"
  using prometheus.effectD[OF assms prometheus.RemoveStoreMetrics_effect[OF assms], of s w] by (simp add: clear_def)

theorem RemoveStoreMetrics_removes_all_witness:
  "snd (run_state (RemoveStoreMetrics map_gauges zero_store) (\<lambda>_ _. Some 1)) StoreHPAEnabled [[], []] = None \<and>
   snd (run_state (RemoveStoreMetrics map_gauges zero_store) (\<lambda>_ _. Some 1)) StoreHPAEnabled [''a'', []] = Some 1"
  unfolding RemoveStoreMetrics_removes_all[OF mg.prometheus_axioms] by (simp add: zero_store_def empty_meta_def)

text \<open>
  After the statistics of a Store's queues were read, its queue gauge has one series per queue that
  was reported, with the count reported last, and none of an earlier report; all else is unchanged.
\<close>

theorem UpdateQueueMetrics_replaces:
  assumes "prometheus g val"
  shows "val (snd (run_state (UpdateQueueMetrics g ns n ts) w)) m ls =
    (if m = StoreQueueCount \<and> take 2 ls = [n, ns]
     then map_of (rev (map (\<lambda>t. ([n, ns, qt_Name t], sint (qt_Count t))) ts)) ls else val w m ls)"
  using prometheus.effectD[OF assms prometheus.UpdateQueueMetrics_effect[OF assms], of ns n ts w] by simp

theorem UpdateQueueMetrics_replaces_witness:
  "let v = snd (run_state (UpdateQueueMetrics map_gauges ''shop'' ''s'' [\<lparr>qt_Name = ''async'', qt_Count = 5\<rparr>]) (\<lambda>_ _. Some 1)) in
   v StoreQueueCount [''s'', ''shop'', ''async''] = Some 5 \<and> v StoreQueueCount [''s'', ''shop'', ''old''] = None"
  unfolding Let_def UpdateQueueMetrics_replaces[OF mg.prometheus_axioms] by simp

end
