(* ===== verification/Url.thy ===== *)
theory Url
  imports Util Sha256
begin

text \<open>
  \<open>url.Parse\<close> of the standard library, as far as the operator and the snapshot program use it: scheme,
  host, port and path. A host with an IP literal in brackets is left to an argument, as the addresses
  that are accepted differ between versions of Go. Errors are the texts inside \<open>url.Error\<close>.
\<close>

section \<open>Characters\<close>

text \<open>The verb \<open>%q\<close> on ASCII text; bytes above 127 are kept.\<close>

definition quote_char :: "char \<Rightarrow> string" where
  "quote_char c =
     (if c = CHR 0x22 then [CHR 0x5C, CHR 0x22]
      else if c = CHR 0x5C then [CHR 0x5C, CHR 0x5C]
      else if c = CHR 0x07 then [CHR 0x5C, CHR ''a'']
      else if c = CHR 0x08 then [CHR 0x5C, CHR ''b'']
      else if c = CHR 0x0C then [CHR 0x5C, CHR ''f'']
      else if c = CHR 0x0A then [CHR 0x5C, CHR ''n'']
      else if c = CHR 0x0D then [CHR 0x5C, CHR ''r'']
      else if c = CHR 0x09 then [CHR 0x5C, CHR ''t'']
      else if c = CHR 0x0B then [CHR 0x5C, CHR ''v'']
      else if byte_in 0 31 c \<or> c = CHR 0x7F
      then [CHR 0x5C, CHR ''x'', hex_lower (of_char c div 16), hex_lower (of_char c mod 16)]
      else [c])"

definition go_quote :: "string \<Rightarrow> string" where
  "go_quote s = [CHR 0x22] @ concat (map quote_char s) @ [CHR 0x22]"

definition alpha :: "char \<Rightarrow> bool" where
  "alpha c \<longleftrightarrow> byte_in 65 90 c \<or> byte_in 97 122 c"

definition dec_digit :: "char \<Rightarrow> bool" where
  "dec_digit c \<longleftrightarrow> byte_in 48 57 c"

definition hexchar :: "char \<Rightarrow> bool" where
  "hexchar c \<longleftrightarrow> dec_digit c \<or> byte_in 65 70 c \<or> byte_in 97 102 c"

definition unhex :: "char \<Rightarrow> nat" where
  "unhex c = (if dec_digit c then of_char c - 48 else if byte_in 65 70 c then of_char c - 55 else of_char c - 87)"

definition ctl_byte :: "char \<Rightarrow> bool" where
  "ctl_byte c \<longleftrightarrow> byte_in 0 31 c \<or> c = CHR 0x7F"

text \<open>The bytes that may stand unescaped in a host, and those of user information.\<close>

definition host_char :: "char \<Rightarrow> bool" where
  "host_char c \<longleftrightarrow> unreserved c \<or> c \<in> set ''!$&()*+,;=:[]<>'' \<or> c = CHR 0x27 \<or> c = CHR 0x22"

definition userinfo_char :: "char \<Rightarrow> bool" where
  "userinfo_char c \<longleftrightarrow> unreserved c \<or> c \<in> set ''!$&()*+,;=:%@'' \<or> c = CHR 0x27"

section \<open>Texts\<close>

text \<open>\<open>strings.Cut\<close> at a byte, and the cut at the last occurrence of a byte.\<close>

definition Cut :: "string \<Rightarrow> char \<Rightarrow> string \<times> string \<times> bool" where
  "Cut s c = (takeWhile (\<lambda>x. x \<noteq> c) s, drop 1 (dropWhile (\<lambda>x. x \<noteq> c) s), c \<in> set s)"

definition CutLast :: "string \<Rightarrow> char \<Rightarrow> string \<times> string \<times> bool" where
  "CutLast s c =
     (if c \<in> set s
      then (rev (drop 1 (dropWhile (\<lambda>x. x \<noteq> c) (rev s))), rev (takeWhile (\<lambda>x. x \<noteq> c) (rev s)), True)
      else (s, [], False))"

text \<open>\<open>unescape\<close>: in a host only bytes outside ASCII and the percent sign itself may be escaped.\<close>

fun unescape :: "bool \<Rightarrow> string \<Rightarrow> string + string" where
  "unescape host [] = Inr []"
| "unescape host (c # s) =
     (if c = CHR ''%'' then
        (case s of
           a # b # t \<Rightarrow>
             if \<not> (hexchar a \<and> hexchar b) \<or> host \<and> unhex a < 8 \<and> [a, b] \<noteq> ''25''
             then Inl (''invalid URL escape '' @ go_quote [c, a, b])
             else map_sum id ((#) (char_of (unhex a * 16 + unhex b))) (unescape host t)
         | _ \<Rightarrow> Inl (''invalid URL escape '' @ go_quote (c # s)))
      else if host \<and> byte_in 0 0x7F c \<and> \<not> host_char c then Inl (''invalid character '' @ go_quote [c] @ '' in host name'')
      else map_sum id ((#) c) (unescape host s))"

definition validOptionalPort :: "string \<Rightarrow> bool" where
  "validOptionalPort p = (case p of [] \<Rightarrow> True | c # ds \<Rightarrow> c = CHR '':'' \<and> list_all dec_digit ds)"

section \<open>Parsing\<close>

record url =
  u_Scheme :: string
  u_Opaque :: string
  u_Host :: string
  u_Path :: string

text \<open>\<open>getScheme\<close> after the bytes \<open>seen\<close> (the latest first) of the text \<open>raw\<close>.\<close>

fun getScheme :: "string \<Rightarrow> string \<Rightarrow> string \<Rightarrow> string + string \<times> string" where
  "getScheme seen raw [] = Inr ([], raw)"
| "getScheme seen raw (c # s) =
     (if alpha c then getScheme (c # seen) raw s
      else if dec_digit c \<or> c = CHR ''+'' \<or> c = CHR ''-'' \<or> c = CHR ''.'' then
        (if seen = [] then Inr ([], raw) else getScheme (c # seen) raw s)
      else if c = CHR '':'' then
        (if seen = [] then Inl ''missing protocol scheme'' else Inr (rev seen, s))
      else Inr ([], raw))"

definition parseHost :: "(string \<Rightarrow> string + string) \<Rightarrow> string \<Rightarrow> string + string" where
  "parseHost ipLiteral host =
     (if CHR ''['' \<in> set host then ipLiteral host
      else case CutLast host CHR '':'' of
             (h, p, found) \<Rightarrow>
               if found \<and> \<not> validOptionalPort (CHR '':'' # p)
               then Inl (''invalid port '' @ go_quote (CHR '':'' # p) @ '' after host'')
               else unescape True host)"

definition check_userinfo :: "string \<Rightarrow> string option" where
  "check_userinfo ui =
     (if \<not> list_all userinfo_char ui then Some ''net/url: invalid userinfo''
      else case Cut ui CHR '':'' of
             (name, pass, found) \<Rightarrow>
               (case unescape False name of
                  Inl e \<Rightarrow> Some e
                | Inr _ \<Rightarrow> if found then (case unescape False pass of Inl e \<Rightarrow> Some e | Inr _ \<Rightarrow> None) else None))"

definition parseAuthority :: "(string \<Rightarrow> string + string) \<Rightarrow> string \<Rightarrow> string + string" where
  "parseAuthority ipLiteral authority =
     (case CutLast authority CHR ''@'' of
        (ui, h, found) \<Rightarrow>
          (case parseHost ipLiteral (if found then h else authority) of
             Inl e \<Rightarrow> Inl e
           | Inr host \<Rightarrow> if found then (case check_userinfo ui of Some e \<Rightarrow> Inl e | None \<Rightarrow> Inr host) else Inr host))"

definition set_path :: "url \<Rightarrow> string \<Rightarrow> string + url" where
  "set_path u p = map_sum id (\<lambda>q. u\<lparr>u_Path := q\<rparr>) (unescape False p)"

definition parse_url :: "(string \<Rightarrow> string + string) \<Rightarrow> string \<Rightarrow> string + url" where
  "parse_url ipLiteral raw =
     (if list_ex ctl_byte raw then Inl ''net/url: invalid control character in URL''
      else if raw = ''*'' then Inr \<lparr>u_Scheme = [], u_Opaque = [], u_Host = [], u_Path = ''*''\<rparr>
      else case getScheme [] raw raw of
             Inl e \<Rightarrow> Inl e
           | Inr (scheme0, rest0) \<Rightarrow>
               (let scheme = ToLower scheme0;
                    rest = fst (Cut rest0 CHR ''?'');
                    u = \<lparr>u_Scheme = scheme, u_Opaque = [], u_Host = [], u_Path = []\<rparr> in
                if take 1 rest \<noteq> ''/'' then
                  (if scheme \<noteq> [] then Inr (u\<lparr>u_Opaque := rest\<rparr>)
                   else if CHR '':'' \<in> set (fst (Cut rest CHR ''/''))
                   then Inl ''first path segment in URL cannot contain colon''
                   else set_path u rest)
                else if (scheme \<noteq> [] \<or> take 3 rest \<noteq> ''///'') \<and> take 2 rest = ''//'' then
                  (case Cut (drop 2 rest) CHR ''/'' of
                     (authority, p, found) \<Rightarrow>
                       (case parseAuthority ipLiteral authority of
                          Inl e \<Rightarrow> Inl e
                        | Inr host \<Rightarrow> set_path (u\<lparr>u_Host := host\<rparr>) (if found then CHR ''/'' # p else [])))
                else set_path u rest))"

definition url_Parse :: "(string \<Rightarrow> string + string) \<Rightarrow> string \<Rightarrow> url result" where
  "url_Parse ipLiteral rawURL =
     (let wrap = (\<lambda>e. Errorf (''parse '' @ go_quote rawURL @ '': '' @ e)) in
      case Cut rawURL CHR ''#'' of
        (u, frag, _) \<Rightarrow>
          (case parse_url ipLiteral u of
             Inl e \<Rightarrow> Inl (Errorf (''parse '' @ go_quote u @ '': '' @ e))
           | Inr url \<Rightarrow> (case unescape False frag of Inl e \<Rightarrow> Inl (wrap e) | Inr _ \<Rightarrow> Inr url)))"

definition splitHostPort :: "string \<Rightarrow> string \<times> string" where
  "splitHostPort hostPort =
     (let (host, port) = (case CutLast hostPort CHR '':'' of
            (h, p, found) \<Rightarrow> if found \<and> validOptionalPort (CHR '':'' # p) then (h, p) else (hostPort, []))
      in (if take 1 host = ''['' \<and> host \<noteq> [] \<and> last host = CHR '']'' then butlast (drop 1 host) else host, port))"

definition Hostname :: "url \<Rightarrow> string" where
  "Hostname u = fst (splitHostPort (u_Host u))"

definition Port :: "url \<Rightarrow> string" where
  "Port u = snd (splitHostPort (u_Host u))"

end
