(* ===== verification/WorkerPool.thy ===== *)
theory WorkerPool
  imports Prelude "HOL-Library.Multiset"
begin

text \<open>
  The worker pools of \<open>internal/util/s3.go\<close>: \<open>runWorkers\<close> with the goroutine that feeds its channel, as
  \<open>runDownloadWorkers\<close> and \<open>uploadBucket\<close> start it. \<open>pool_step\<close> has one rule for every step a goroutine
  can take, so a run is any interleaving of the feeder, the workers and the main goroutine. What the
  main goroutine makes of the two errors differs between the two users and is an argument.
\<close>

section \<open>Errors\<close>

text \<open>An error and whether \<open>errors.Is\<close> finds \<open>context.Canceled\<close> in its chain.\<close>

record cerr =
  ce_msg :: string
  ce_Canceled :: bool

definition Canceled :: cerr where
  "Canceled = \<lparr>ce_msg = ''context canceled'', ce_Canceled = True\<rparr>"

definition cWrap :: "string \<Rightarrow> cerr \<Rightarrow> cerr" where
  "cWrap s e = e\<lparr>ce_msg := s @ '': '' @ ce_msg e\<rparr>"

section \<open>The state\<close>

text \<open>
  \<open>Feeding\<close> until the feeder has closed the channel and left its error (or nil) for the main goroutine;
  a worker waits for an item, works on one, or has returned; the main goroutine waits for the workers,
  then for the feeder, then returns.
\<close>

datatype feeder = Feeding | Fed "cerr option"

datatype 'a worker = Idle | Busy 'a | Left

datatype mainp = WaitWorkers | WaitFeeder "cerr option" | Returned "cerr option"

record 'a pool =
  p_src :: "(cerr + 'a) list"
  p_feeder :: feeder
  p_chan :: "'a list"
  p_worker :: "nat \<Rightarrow> 'a worker"
  p_errCh :: "cerr option"
  p_done :: "'a list"
  p_parent :: bool
  p_outer :: bool
  p_inner :: bool
  p_main :: mainp

text \<open>The outer context is the one the feeder sees, the inner one that of the workers.\<close>

definition outer_done :: "'a pool \<Rightarrow> bool" where
  "outer_done z \<longleftrightarrow> p_parent z \<or> p_outer z"

definition inner_done :: "'a pool \<Rightarrow> bool" where
  "inner_done z \<longleftrightarrow> outer_done z \<or> p_inner z"

definition closed :: "'a pool \<Rightarrow> bool" where
  "closed z \<longleftrightarrow> p_feeder z \<noteq> Feeding"

text \<open>What \<open>runWorkers\<close> returns once all workers have returned.\<close>

definition workers_error :: "'a pool \<Rightarrow> cerr option" where
  "workers_error z =
     (case p_errCh z of Some e \<Rightarrow> Some e | None \<Rightarrow> if inner_done z then Some Canceled else None)"

section \<open>Steps\<close>

text \<open>
  \<open>n\<close> workers, a channel of \<open>cap\<close> items, \<open>work x e\<close> when working on \<open>x\<close> may end with \<open>e\<close>, and \<open>result\<close>
  of the workers' error, the feeder's error and whether the outer context is done.
\<close>

inductive pool_step ::
  "nat \<Rightarrow> nat \<Rightarrow> ('a \<Rightarrow> cerr option \<Rightarrow> bool) \<Rightarrow> (cerr option \<Rightarrow> cerr option \<Rightarrow> bool \<Rightarrow> cerr option) \<Rightarrow>
   'a pool \<Rightarrow> 'a pool \<Rightarrow> bool" for n cap work result where
  feed: "p_feeder z = Feeding \<Longrightarrow> p_src z = Inr x # r \<Longrightarrow> length (p_chan z) < cap \<Longrightarrow>
     pool_step n cap work result z (z\<lparr>p_src := r, p_chan := p_chan z @ [x]\<rparr>)"
| feed_error: "p_feeder z = Feeding \<Longrightarrow> p_src z = Inl e # r \<Longrightarrow>
     pool_step n cap work result z (z\<lparr>p_feeder := Fed (Some e), p_outer := True\<rparr>)"
| feed_canceled: "p_feeder z = Feeding \<Longrightarrow> p_src z = Inr x # r \<Longrightarrow> outer_done z \<Longrightarrow>
     pool_step n cap work result z (z\<lparr>p_feeder := Fed (Some Canceled)\<rparr>)"
| feed_end: "p_feeder z = Feeding \<Longrightarrow> p_src z = [] \<Longrightarrow>
     pool_step n cap work result z (z\<lparr>p_feeder := Fed None\<rparr>)"
| take_item: "i < n \<Longrightarrow> p_worker z i = Idle \<Longrightarrow> p_chan z = x # q \<Longrightarrow>
     pool_step n cap work result z (z\<lparr>p_worker := (p_worker z)(i := Busy x), p_chan := q\<rparr>)"
| leave_closed: "i < n \<Longrightarrow> p_worker z i = Idle \<Longrightarrow> p_chan z = [] \<Longrightarrow> closed z \<Longrightarrow>
     pool_step n cap work result z (z\<lparr>p_worker := (p_worker z)(i := Left)\<rparr>)"
| leave_canceled: "i < n \<Longrightarrow> p_worker z i = Idle \<Longrightarrow> inner_done z \<Longrightarrow>
     pool_step n cap work result z (z\<lparr>p_worker := (p_worker z)(i := Left)\<rparr>)"
| item_done: "i < n \<Longrightarrow> p_worker z i = Busy x \<Longrightarrow> work x None \<Longrightarrow>
     pool_step n cap work result z (z\<lparr>p_worker := (p_worker z)(i := Idle), p_done := x # p_done z\<rparr>)"
| item_failed: "i < n \<Longrightarrow> p_worker z i = Busy x \<Longrightarrow> work x (Some e) \<Longrightarrow>
     pool_step n cap work result z
       (if p_errCh z = None then z\<lparr>p_worker := (p_worker z)(i := Left), p_errCh := Some e, p_inner := True\<rparr>
        else z\<lparr>p_worker := (p_worker z)(i := Left)\<rparr>)"
| parent_canceled: "\<not> p_parent z \<Longrightarrow> pool_step n cap work result z (z\<lparr>p_parent := True\<rparr>)"
| workers_left: "p_main z = WaitWorkers \<Longrightarrow> \<forall>i<n. p_worker z i = Left \<Longrightarrow> we = workers_error z \<Longrightarrow>
     pool_step n cap work result z (z\<lparr>p_main := WaitFeeder we, p_outer := p_outer z \<or> we \<noteq> None\<rparr>)"
| return_result: "p_main z = WaitFeeder we \<Longrightarrow> p_feeder z = Fed le \<Longrightarrow>
     pool_step n cap work result z (z\<lparr>p_main := Returned (result we le (outer_done z))\<rparr>)"

inductive_cases pool_stepE: "pool_step n cap work result z z'"

definition pool_init :: "(cerr + 'a) list \<Rightarrow> 'a pool" where
  "pool_init src =
     \<lparr>p_src = src, p_feeder = Feeding, p_chan = [], p_worker = (\<lambda>_. Idle), p_errCh = None, p_done = [],
      p_parent = False, p_outer = False, p_inner = False, p_main = WaitWorkers\<rparr>"

section \<open>The users\<close>

text \<open>The end of \<open>runDownloadWorkers\<close>; at least one worker runs.\<close>

definition download_result :: "cerr option \<Rightarrow> cerr option \<Rightarrow> bool \<Rightarrow> cerr option" where
  "download_result workerErr listErr canceled =
     (case workerErr of
        Some we \<Rightarrow>
          (case listErr of
             Some le \<Rightarrow> if ce_Canceled we \<and> \<not> ce_Canceled le then Some le else Some we
           | None \<Rightarrow> Some we)
      | None \<Rightarrow> (case listErr of Some le \<Rightarrow> if \<not> ce_Canceled le then Some le else None | None \<Rightarrow> None))"

definition effectiveWorkers :: "int \<Rightarrow> nat" where
  "effectiveWorkers workers = (if workers \<le> 0 then 1 else nat workers)"

text \<open>The end of \<open>uploadBucket\<close>.\<close>

definition upload_result :: "cerr option \<Rightarrow> cerr option \<Rightarrow> bool \<Rightarrow> cerr option" where
  "upload_result err walkErr canceled =
     (case err of
        Some e \<Rightarrow> Some e
      | None \<Rightarrow>
          (case walkErr of
             Some we \<Rightarrow> if \<not> ce_Canceled we then Some (cWrap ''walking source path'' we)
                        else if canceled then Some (cWrap ''walking source path'' Canceled) else None
           | None \<Rightarrow> None))"

section \<open>Lemmas\<close>

definition oks :: "('e + 'a) list \<Rightarrow> 'a list" where
  "oks src = [x. Inr x \<leftarrow> src]"

lemma oks_simps [simp]: "oks [] = []" "oks (Inr x # r) = x # oks r" "oks (Inl e # r) = oks r" "oks (map Inr xs) = xs"
  "oks (a @ b) = oks a @ oks b"
  by (auto simp: oks_def) (induction xs, auto)

fun held :: "'a worker \<Rightarrow> 'a multiset" where
  "held (Busy x) = {#x#}"
| "held _ = {#}"

definition busy :: "nat \<Rightarrow> (nat \<Rightarrow> 'a worker) \<Rightarrow> 'a multiset" where
  "busy n w = (\<Sum>i<n. held (w i))"

lemma busy_upd:
  assumes "i < n"
  shows "busy n (w(i := b)) + held (w i) = busy n w + held b"
proof -
  have "(\<Sum>j\<in>{..<n} - {i}. held ((w(i := b)) j)) = (\<Sum>j\<in>{..<n} - {i}. held (w j))"
    by (rule sum.cong) auto
  with assms show ?thesis
    by (simp add: busy_def sum.remove [of "{..<n}" i] add_ac)
qed

definition items :: "nat \<Rightarrow> 'a pool \<Rightarrow> 'a multiset" where
  "items n z = mset (oks (p_src z)) + mset (p_chan z) + busy n (p_worker z) + mset (p_done z)"

definition complete :: "(cerr + 'a) list \<Rightarrow> 'a pool \<Rightarrow> bool" where
  "complete src z \<longleftrightarrow> src = map Inr (oks src) \<and> mset (p_done z) = mset (oks src)"

definition all_left :: "nat \<Rightarrow> 'a pool \<Rightarrow> bool" where
  "all_left n z \<longleftrightarrow> (\<forall>i<n. p_worker z i = Left)"

definition pool_inv :: "nat \<Rightarrow> (cerr + 'a) list \<Rightarrow> 'a pool \<Rightarrow> bool" where
  "pool_inv n src z \<longleftrightarrow>
     (p_errCh z = None \<longrightarrow> items n z = mset (oks src)) \<and>
     (p_errCh z \<noteq> None \<longrightarrow> p_inner z) \<and>
     (p_feeder z = Fed None \<longrightarrow> p_src z = []) \<and>
     (\<forall>e. p_feeder z = Fed (Some e) \<longrightarrow> outer_done z) \<and>
     (\<exists>p. src = map Inr p @ p_src z) \<and>
     (\<forall>i<n. p_worker z i = Left \<longrightarrow> closed z \<and> p_chan z = [] \<or> inner_done z) \<and>
     (p_main z \<noteq> WaitWorkers \<longrightarrow> all_left n z) \<and>
     (p_main z = WaitFeeder None \<longrightarrow> p_feeder z = Fed None \<and> complete src z) \<and>
     (\<forall>we. p_main z = WaitFeeder (Some we) \<longrightarrow> p_outer z)"

lemmas pool_inv_defs = pool_inv_def items_def all_left_def closed_def inner_done_def outer_done_def complete_def

lemma pool_inv_init: "pool_inv n src (pool_init src)"
  by (simp add: pool_inv_defs pool_init_def busy_def)

lemma all_left_busy: "all_left n z \<Longrightarrow> busy n (p_worker z) = {#}"
  by (simp add: busy_def all_left_def)

lemma pool_inv_active: "pool_inv n src z \<Longrightarrow> i < n \<Longrightarrow> p_worker z i \<noteq> Left \<Longrightarrow> p_main z = WaitWorkers"
  by (auto simp: pool_inv_def all_left_def)

lemma pool_inv_step:
  assumes "pool_step n cap work result z z'" and "pool_inv n src z" and "0 < n"
  shows "pool_inv n src z'"
  using assms(1)
proof cases
  case (feed x r)
  from assms(2) obtain p where "src = map Inr p @ p_src z" by (auto simp: pool_inv_def)
  with feed have "\<exists>p. src = map Inr p @ r" by (intro exI [of _ "p @ [x]"]) simp
  with assms(2) feed show ?thesis by (auto simp: pool_inv_defs)
next
  case (feed_error e r)
  with assms(2) show ?thesis by (auto simp: pool_inv_defs)
next
  case (feed_canceled x r)
  with assms(2) show ?thesis by (auto simp: pool_inv_defs)
next
  case feed_end
  with assms(2) show ?thesis by (auto simp: pool_inv_defs)
next
  case (take_item i x q)
  with assms(2) busy_upd [of i n "p_worker z" "Busy x"] show ?thesis by (auto simp: pool_inv_defs)
next
  case (leave_closed i)
  with assms(2) busy_upd [of i n "p_worker z" Left] show ?thesis by (auto simp: pool_inv_defs)
next
  case (leave_canceled i)
  with assms(2) busy_upd [of i n "p_worker z" Left] show ?thesis by (auto simp: pool_inv_defs)
next
  case (item_done i x)
  have "p_main z = WaitWorkers" using pool_inv_active [OF assms(2)] item_done by simp
  moreover have "busy n (p_worker z) = add_mset x (busy n ((p_worker z)(i := Idle)))"
    using item_done busy_upd [of i n "p_worker z" Idle] by simp
  ultimately show ?thesis using assms(2) item_done by (simp add: pool_inv_defs)
next
  case (item_failed i x e)
  have "p_main z = WaitWorkers" using pool_inv_active [OF assms(2)] item_failed by simp
  with assms(2) item_failed show ?thesis by (cases "p_errCh z") (simp_all add: pool_inv_defs)
next
  case parent_canceled
  with assms(2) show ?thesis by (auto simp: pool_inv_defs)
next
  case (workers_left we)
  have left: "all_left n z" using workers_left by (simp add: all_left_def)
  have "p_feeder z = Fed None \<and> complete src z" if "we = None"
  proof -
    from that workers_left have e: "p_errCh z = None" "\<not> inner_done z"
      by (auto simp: workers_error_def split: option.splits if_splits)
    with assms(2,3) left have "closed z" "p_chan z = []" by (auto simp: pool_inv_def all_left_def)
    moreover from this e assms(2) have f: "p_feeder z = Fed None"
      by (cases "p_feeder z") (auto simp: pool_inv_def closed_def inner_done_def)
    ultimately show ?thesis
      using assms(2) e all_left_busy [OF left] by (auto simp: pool_inv_def items_def complete_def)
  qed
  with assms(2) workers_left left show ?thesis
    by (cases we) (auto simp: pool_inv_defs)
next
  case (return_result we le)
  with assms(2) show ?thesis by (auto simp: pool_inv_defs)
qed

lemma pool_inv_reachable:
  assumes "(pool_step n cap work result)\<^sup>*\<^sup>* (pool_init src) z" and "0 < n"
  shows "pool_inv n src z"
  using assms(1) by (induction rule: rtranclp_induct) (auto simp: pool_inv_init intro: pool_inv_step [OF _ _ assms(2)])

text \<open>What a user of the pool owes: an error of the workers is never dropped.\<close>

locale pool_result =
  fixes result :: "cerr option \<Rightarrow> cerr option \<Rightarrow> bool \<Rightarrow> cerr option"
  assumes keeps_error: "result (Some e) le c \<noteq> None"
begin

lemma return_complete:
  assumes "(pool_step n cap work result)\<^sup>*\<^sup>* (pool_init src) z" and "0 < n" and "p_main z = Returned None"
  shows "complete src z"
  using assms(1,3)
proof (induction rule: rtranclp_induct)
  case base
  then show ?case by (simp add: pool_init_def)
next
  case (step y z)
  have y: "pool_inv n src y" using step.hyps(1) assms(2) by (rule pool_inv_reachable)
  have left: "p_main y \<noteq> WaitWorkers \<Longrightarrow> \<forall>i<n. p_worker y i = Left" using y by (auto simp: pool_inv_def all_left_def)
  from step.hyps(2) step.prems show ?case
  proof cases
    case (return_result we le)
    with step.prems keeps_error have "we = None" by (cases we) auto
    with y return_result show ?thesis by (auto simp: pool_inv_def complete_def)
  qed (use step.IH left in \<open>auto simp: complete_def split: if_splits\<close>)
qed

end

interpretation dl: pool_result download_result
  by unfold_locales (simp add: download_result_def split: option.split)

interpretation ul: pool_result upload_result
  by unfold_locales (simp add: upload_result_def)

fun worker_size :: "'a worker \<Rightarrow> nat" where
  "worker_size Idle = 1"
| "worker_size (Busy x) = 3"
| "worker_size Left = 0"

fun main_size :: "mainp \<Rightarrow> nat" where
  "main_size WaitWorkers = 2"
| "main_size (WaitFeeder we) = 1"
| "main_size (Returned r) = 0"

text \<open>An upper bound of the steps that are still possible.\<close>

definition steps_left :: "nat \<Rightarrow> 'a pool \<Rightarrow> nat" where
  "steps_left n z =
     4 * length (p_src z) + 3 * length (p_chan z) + (\<Sum>i<n. worker_size (p_worker z i)) +
     (if p_feeder z = Feeding then 1 else 0) + (if p_parent z then 0 else 1) + main_size (p_main z)"

lemma worker_size_upd:
  assumes "i < (n::nat)"
  shows "(\<Sum>j<n. worker_size ((w(i := b)) j)) + worker_size (w i) = (\<Sum>j<n. worker_size (w j)) + worker_size b"
proof -
  have "(\<Sum>j\<in>{..<n} - {i}. worker_size ((w(i := b)) j)) = (\<Sum>j\<in>{..<n} - {i}. worker_size (w j))"
    by (rule sum.cong) auto
  with assms sum.remove [OF finite_lessThan [of n], of i "\<lambda>j. worker_size ((w(i := b)) j)"]
    sum.remove [OF finite_lessThan [of n], of i "\<lambda>j. worker_size (w j)"]
  show ?thesis by simp
qed

lemma steps_left_less:
  assumes "pool_step n cap work result z z'"
  shows "steps_left n z' < steps_left n z"
  using assms
proof cases
  case (take_item i x q)
  with worker_size_upd [of i n "p_worker z" "Busy x"] show ?thesis by (simp add: steps_left_def)
next
  case (leave_closed i)
  with worker_size_upd [of i n "p_worker z" Left] show ?thesis by (simp add: steps_left_def)
next
  case (leave_canceled i)
  with worker_size_upd [of i n "p_worker z" Left] show ?thesis by (simp add: steps_left_def)
next
  case (item_done i x)
  with worker_size_upd [of i n "p_worker z" Idle] show ?thesis by (simp add: steps_left_def)
next
  case (item_failed i x e)
  with worker_size_upd [of i n "p_worker z" Left] show ?thesis by (simp add: steps_left_def)
qed (auto simp: steps_left_def)

lemma pool_progress:
  assumes "pool_inv n src z" and "0 < n" and "0 < cap" and "\<forall>r. p_main z \<noteq> Returned r" and "\<forall>x. \<exists>e. work x e"
  shows "\<exists>z'. pool_step n cap work result z z' \<and> p_parent z' = p_parent z"
proof -
  have feeding: ?thesis if f: "p_feeder z = Feeding" and "length (p_chan z) < cap \<or> outer_done z"
  proof (cases "p_src z")
    case Nil
    show ?thesis by (intro exI conjI) (rule feed_end [OF f Nil], simp)
  next
    case (Cons a r)
    show ?thesis
    proof (cases a)
      case (Inl e)
      show ?thesis by (intro exI conjI) (rule feed_error [OF f Cons [unfolded Inl]], simp)
    next
      case (Inr x)
      from that(2) show ?thesis
      proof
        assume "length (p_chan z) < cap"
        then show ?thesis by (intro exI conjI) (rule feed [OF f Cons [unfolded Inr]], simp_all)
      next
        assume "outer_done z"
        then show ?thesis by (intro exI conjI) (rule feed_canceled [OF f Cons [unfolded Inr]], simp_all)
      qed
    qed
  qed
  show ?thesis
  proof (cases "p_main z")
    case WaitWorkers
    show ?thesis
    proof (cases "\<forall>i<n. p_worker z i = Left")
      case True
      show ?thesis by (intro exI conjI) (rule workers_left [OF WaitWorkers True refl], simp)
    next
      case False
      then obtain i where i: "i < n" "p_worker z i \<noteq> Left" by auto
      show ?thesis
      proof (cases "p_worker z i")
        case (Busy x)
        obtain e where "work x e" using assms(5) by blast
        show ?thesis
        proof (cases e)
          case None
          with \<open>work x e\<close> show ?thesis by (intro exI conjI) (rule item_done [OF i(1) Busy], simp_all)
        next
          case (Some f)
          with \<open>work x e\<close> show ?thesis by (intro exI conjI) (rule item_failed [OF i(1) Busy], simp_all)
        qed
      next
        case Idle
        show ?thesis
        proof (cases "p_chan z")
          case (Cons x q)
          show ?thesis by (intro exI conjI) (rule take_item [OF i(1) Idle Cons], simp)
        next
          case Nil
          show ?thesis
          proof (cases "p_feeder z")
            case Feeding
            with Nil assms(3) feeding show ?thesis by simp
          next
            case (Fed le)
            then have "closed z" by (simp add: closed_def)
            then show ?thesis by (intro exI conjI) (rule leave_closed [OF i(1) Idle Nil], simp_all)
          qed
        qed
      qed (use i in simp)
    qed
  next
    case (WaitFeeder we)
    show ?thesis
    proof (cases "p_feeder z")
      case (Fed le)
      show ?thesis by (intro exI conjI) (rule return_result [OF WaitFeeder Fed], simp)
    next
      case Feeding
      with WaitFeeder assms(1) have "outer_done z" by (cases we) (auto simp: pool_inv_def outer_done_def)
      with Feeding feeding show ?thesis by blast
    qed
  next
    case (Returned r)
    with assms(4) show ?thesis by blast
  qed
qed

section \<open>Properties\<close>

text \<open>
  C8: A bucket is downloaded completely: when \<open>runDownloadWorkers\<close> returns no error, the listing had
  none and every listed object was processed exactly once, whatever the number of workers and their
  interleaving.
\<close>

theorem download_complete:
  assumes "(pool_step (effectiveWorkers batchCount) (effectiveWorkers batchCount) work download_result)\<^sup>*\<^sup>* (pool_init src) z"
    and "p_main z = Returned None"
  shows "src = map Inr (oks src) \<and> mset (p_done z) = mset (oks src)"
  using dl.return_complete [OF assms(1) _ assms(2)] by (simp add: complete_def effectiveWorkers_def split: if_splits)

text \<open>One item, one worker.\<close>

lemma one_item_run:
  assumes "result None None False = None"
  shows "\<exists>z. (pool_step 1 1 (\<lambda>x e. e = None) result)\<^sup>*\<^sup>* (pool_init [Inr x]) z \<and> p_main z = Returned None \<and> p_done z = [x]"
proof -
  let ?S = "pool_step 1 1 (\<lambda>x e. e = None) result" and ?z = "pool_init [Inr x]"
  define a where "a = ?z\<lparr>p_src := [], p_chan := [x]\<rparr>"
  define b where "b = a\<lparr>p_feeder := Fed None\<rparr>"
  define c where "c = b\<lparr>p_worker := (p_worker b)(0 := Busy x), p_chan := []\<rparr>"
  define d where "d = c\<lparr>p_worker := (p_worker c)(0 := Idle), p_done := x # p_done c\<rparr>"
  define e where "e = d\<lparr>p_worker := (p_worker d)(0 := Left)\<rparr>"
  define f where "f = e\<lparr>p_main := WaitFeeder None, p_outer := p_outer e \<or> (None :: cerr option) \<noteq> None\<rparr>"
  define g where "g = f\<lparr>p_main := Returned (result None None (outer_done f))\<rparr>"
  note ds = a_def b_def c_def d_def e_def f_def pool_init_def
  have "?S ?z a" unfolding a_def using feed [of ?z x "[]" 1 1] by (simp add: pool_init_def)
  moreover have "?S a b" unfolding b_def by (rule feed_end) (simp_all add: ds)
  moreover have "?S b c" unfolding c_def by (rule take_item) (simp_all add: ds)
  moreover have "?S c d" unfolding d_def by (rule item_done) (simp_all add: ds)
  moreover have "?S d e" unfolding e_def by (rule leave_closed) (simp_all add: ds closed_def)
  moreover have "?S e f" unfolding f_def
    by (rule workers_left) (simp_all add: ds workers_error_def inner_done_def outer_done_def)
  moreover have "?S f g" unfolding g_def by (rule return_result) (simp_all add: ds)
  ultimately have "?S\<^sup>*\<^sup>* ?z g" by (meson converse_rtranclp_into_rtranclp rtranclp.rtrancl_refl)
  moreover have "p_main g = Returned None" "p_done g = [x]"
    using assms by (simp_all add: g_def ds outer_done_def)
  ultimately show ?thesis by blast
qed

theorem download_complete_witness:
  "\<exists>z :: nat pool. p_main z = Returned None \<and> mset (p_done z) = mset (oks [Inr 7 :: cerr + nat])"
proof -
  obtain z :: "nat pool" where z: "(pool_step (effectiveWorkers 0) (effectiveWorkers 0) (\<lambda>x e. e = None) download_result)\<^sup>*\<^sup>* (pool_init [Inr 7]) z"
    "p_main z = Returned None"
    using one_item_run [of download_result 7] by (auto simp: download_result_def effectiveWorkers_def)
  from download_complete [OF this] z show ?thesis by blast
qed

text \<open>
  A bucket is restored completely: when the upload returns no error, every file found was uploaded
  exactly once.
\<close>

theorem upload_complete:
  assumes "(pool_step (effectiveWorkers workers) (effectiveWorkers workers) work upload_result)\<^sup>*\<^sup>* (pool_init src) z"
    and "p_main z = Returned None"
  shows "src = map Inr (oks src) \<and> mset (p_done z) = mset (oks src)"
  using ul.return_complete [OF assms(1) _ assms(2)] by (simp add: complete_def effectiveWorkers_def split: if_splits)

theorem upload_complete_witness:
  "\<exists>z :: nat pool. p_main z = Returned None \<and> mset (p_done z) = mset (oks [Inr 7 :: cerr + nat])"
proof -
  obtain z :: "nat pool" where z: "(pool_step (effectiveWorkers 1) (effectiveWorkers 1) (\<lambda>x e. e = None) upload_result)\<^sup>*\<^sup>* (pool_init [Inr 7]) z"
    "p_main z = Returned None"
    using one_item_run [of upload_result 7] by (auto simp: upload_result_def effectiveWorkers_def)
  from upload_complete [OF this] z show ?thesis by blast
qed

text \<open>
  C7: The pool neither deadlocks nor runs for ever: every step uses up one of a bounded number of steps,
  and as long as the main goroutine has not returned, some goroutine can go on without any help from
  outside.
\<close>

theorem pool_terminates:
  assumes "(pool_step (effectiveWorkers workers) (effectiveWorkers workers) work result)\<^sup>*\<^sup>* (pool_init src) z"
    and "\<forall>x. \<exists>e. work x e"
  shows "(\<forall>z'. pool_step (effectiveWorkers workers) (effectiveWorkers workers) work result z z' \<longrightarrow>
      steps_left (effectiveWorkers workers) z' < steps_left (effectiveWorkers workers) z) \<and>
    ((\<exists>r. p_main z = Returned r) \<or>
     (\<exists>z'. pool_step (effectiveWorkers workers) (effectiveWorkers workers) work result z z' \<and> p_parent z' = p_parent z))"
proof -
  have n: "0 < effectiveWorkers workers" by (simp add: effectiveWorkers_def)
  show ?thesis
    using steps_left_less pool_progress [OF pool_inv_reachable [OF assms(1) n] n n _ assms(2)] by blast
qed

theorem pool_terminates_witness:
  "\<exists>z'. pool_step (effectiveWorkers 4) (effectiveWorkers 4) (\<lambda>x e. e = None) download_result (pool_init [Inr (7::nat)]) z' \<and>
     steps_left (effectiveWorkers 4) z' < steps_left (effectiveWorkers 4) (pool_init [Inr (7::nat)])"
  using pool_terminates [of 4 "\<lambda>x e. e = None" download_result "[Inr (7::nat)]" "pool_init [Inr 7]"]
  by (auto simp: pool_init_def)

end
