(* ===== verification/S3.thy ===== *)
theory S3
  imports Url WorkerPool
begin

text \<open>
  The S3 helpers of \<open>internal/util/s3.go\<close>: the connection test of the wait handler, emptying a bucket,
  and copying buckets from and to the file system. The minio client is not part of the sources: its
  calls are arguments, and in the interleavings of goroutines their results are any.
\<close>

section \<open>Connection test\<close>

record 'w minio =
  mi_IPLiteral :: "string \<Rightarrow> string + string"
  mi_New :: "string \<Rightarrow> bool \<Rightarrow> goerr option"
  mi_ListBuckets :: "string \<Rightarrow> bool \<Rightarrow> string \<Rightarrow> string \<Rightarrow> ('w, string list result) state"

fun bucket_loop :: "string \<Rightarrow> string \<Rightarrow> string list \<Rightarrow> bool \<times> bool \<Rightarrow> bool \<times> bool" where
  "bucket_loop pub priv [] flags = flags"
| "bucket_loop pub priv (b # bs) (public, private) =
     bucket_loop pub priv bs (public \<or> b = pub, private \<or> b \<noteq> priv)"

definition TestS3Connection :: "'w minio \<Rightarrow> s3_storage \<Rightarrow> string \<Rightarrow> string \<Rightarrow> ('w, goerr option) state" where
  "TestS3Connection mi s accessKeyID secretAccessKey =
     (case url_Parse (mi_IPLiteral mi) (s3_EndpointURL s) of
        Inl e \<Rightarrow> State_Monad.return (Some (Wrap ''parsing url failed'' e))
      | Inr url \<Rightarrow>
          (let endpoint = Hostname url @ '':'' @ Port url; secure = (u_Scheme url = ''https'') in
           case mi_New mi endpoint secure of
             Some e \<Rightarrow> State_Monad.return (Some e)
           | None \<Rightarrow> do {
               r \<leftarrow> mi_ListBuckets mi endpoint secure accessKeyID secretAccessKey;
               State_Monad.return (case r of
                   Inl e \<Rightarrow> Some (Wrap ''listing buckets failed'' e)
                 | Inr buckets \<Rightarrow>
                     (case bucket_loop (s3_PublicBucketName s) (s3_PrivateBucketName s) buckets (False, False) of
                        (public, private) \<Rightarrow>
                          if public \<and> private then None else Some (Errorf ''public bucket is not available yet''))) }))"

section \<open>Emptying a bucket\<close>

text \<open>
  \<open>emptyBucketAsync\<close>: a goroutine lists the objects into a channel, one removes what it finds there, and
  the main goroutine waits for the first error, the end of the removal or the end of the context.
  \<open>fails\<close> is the error of removing an object. \<open>eb_result\<close> is what the function returned.
\<close>

record 'k emptying =
  eb_list :: "(cerr + 'k) list"
  eb_listing :: bool
  eb_queue :: "'k list"
  eb_err :: "cerr option"
  eb_removing :: bool
  eb_doneCh :: bool
  eb_deleted :: "'k list"
  eb_canceled :: bool
  eb_result :: "cerr option option"

inductive emptying_step :: "('k \<Rightarrow> cerr option) \<Rightarrow> 'k emptying \<Rightarrow> 'k emptying \<Rightarrow> bool" for fails where
  list_object: "eb_listing z \<Longrightarrow> eb_list z = Inr k # r \<Longrightarrow> length (eb_queue z) < 100 \<Longrightarrow>
     emptying_step fails z (z\<lparr>eb_list := r, eb_queue := eb_queue z @ [k]\<rparr>)"
| list_error: "eb_listing z \<Longrightarrow> eb_list z = Inl e # r \<Longrightarrow> eb_err z = None \<Longrightarrow>
     emptying_step fails z (z\<lparr>eb_listing := False, eb_err := Some e\<rparr>)"
| list_canceled: "eb_listing z \<Longrightarrow> eb_canceled z \<Longrightarrow> emptying_step fails z (z\<lparr>eb_listing := False\<rparr>)"
| list_end: "eb_listing z \<Longrightarrow> eb_list z = [] \<Longrightarrow> emptying_step fails z (z\<lparr>eb_listing := False\<rparr>)"
| remove_object: "eb_removing z \<Longrightarrow> eb_queue z = k # q \<Longrightarrow> fails k = None \<Longrightarrow>
     emptying_step fails z (z\<lparr>eb_queue := q, eb_deleted := k # eb_deleted z\<rparr>)"
| remove_failed: "eb_removing z \<Longrightarrow> eb_queue z = k # q \<Longrightarrow> fails k = Some e \<Longrightarrow> eb_err z = None \<Longrightarrow>
     emptying_step fails z (z\<lparr>eb_queue := q, eb_removing := False, eb_err := Some e\<rparr>)"
| remove_canceled: "eb_removing z \<Longrightarrow> eb_canceled z \<Longrightarrow> emptying_step fails z (z\<lparr>eb_removing := False\<rparr>)"
| remove_end: "eb_removing z \<Longrightarrow> \<not> eb_listing z \<Longrightarrow> eb_queue z = [] \<Longrightarrow> emptying_step fails z (z\<lparr>eb_removing := False\<rparr>)"
| close_done: "\<not> eb_removing z \<Longrightarrow> \<not> eb_doneCh z \<Longrightarrow> emptying_step fails z (z\<lparr>eb_doneCh := True\<rparr>)"
| main_error: "eb_result z = None \<Longrightarrow> eb_err z = Some e \<Longrightarrow>
     emptying_step fails z (z\<lparr>eb_result := Some (Some e), eb_err := None\<rparr>)"
| main_done: "eb_result z = None \<Longrightarrow> eb_doneCh z \<Longrightarrow> emptying_step fails z (z\<lparr>eb_result := Some None\<rparr>)"
| main_canceled: "eb_result z = None \<Longrightarrow> eb_canceled z \<Longrightarrow> emptying_step fails z (z\<lparr>eb_result := Some (Some Canceled)\<rparr>)"
| context_ends: "emptying_step fails z (z\<lparr>eb_canceled := True\<rparr>)"

definition emptying_init :: "(cerr + 'k) list \<Rightarrow> 'k emptying" where
  "emptying_init objects =
     \<lparr>eb_list = objects, eb_listing = True, eb_queue = [], eb_err = None, eb_removing = True, eb_doneCh = False,
      eb_deleted = [], eb_canceled = False, eb_result = None\<rparr>"

section \<open>Copying buckets\<close>

text \<open>\<open>errors.Join\<close> of errors that are not nil.\<close>

definition join_errors :: "cerr list \<Rightarrow> cerr option" where
  "join_errors errs =
     (if errs = [] then None
      else Some \<lparr>ce_msg = Join (map ce_msg errs) [CHR 10], ce_Canceled = list_ex ce_Canceled errs\<rparr>)"

text \<open>What two goroutines leave in the error channel: \<open>first\<close> says whose error comes first.\<close>

definition collected :: "bool \<Rightarrow> cerr option \<Rightarrow> cerr option \<Rightarrow> cerr list" where
  "collected first a b =
     (let as = (case a of Some e \<Rightarrow> [e] | None \<Rightarrow> []); bs = (case b of Some e \<Rightarrow> [e] | None \<Rightarrow> []) in
      if first then as @ bs else bs @ as)"

datatype stat_result = StatOK | StatNotExist | StatError cerr

text \<open>
  \<open>uploadBucket\<close>: \<open>emptied\<close> is the result of emptying the bucket, \<open>stat\<close> that of looking for the source
  directory, and \<open>uploaded\<close> that of the worker pool.
\<close>

definition uploadBucket :: "bool \<Rightarrow> cerr option \<Rightarrow> stat_result \<Rightarrow> cerr option \<Rightarrow> cerr option" where
  "uploadBucket emptyBeforeRestore emptied stat uploaded =
     (case (if emptyBeforeRestore then emptied else None) of
        Some e \<Rightarrow> Some e
      | None \<Rightarrow>
          (case stat of
             StatNotExist \<Rightarrow> None
           | StatError e \<Rightarrow> Some (cWrap ''failed to stat source path'' e)
           | StatOK \<Rightarrow> uploaded))"

definition RestoreFromFilesystem :: "cerr option \<Rightarrow> bool \<Rightarrow> cerr option \<Rightarrow> cerr option \<Rightarrow> cerr option" where
  "RestoreFromFilesystem clientErr first public private =
     (case clientErr of
        Some e \<Rightarrow> Some e
      | None \<Rightarrow> join_errors (collected first (map_option (cWrap ''error uploading to public bucket'') public)
                   (map_option (cWrap ''error uploading to private bucket'') private)))"

definition CopyToFilesystem ::
  "(string \<Rightarrow> string + string) \<Rightarrow> (string \<Rightarrow> bool \<Rightarrow> cerr option) \<Rightarrow> bool \<Rightarrow> cerr option \<Rightarrow> cerr option \<Rightarrow> s3_storage \<Rightarrow> cerr option" where
  "CopyToFilesystem ipLiteral new first public private s =
     (case url_Parse ipLiteral (s3_EndpointURL s) of
        Inl e \<Rightarrow> Some \<lparr>ce_msg = ''parsing url failed: '' @ err_msg e, ce_Canceled = False\<rparr>
      | Inr url \<Rightarrow>
          (case new (Hostname url @ '':'' @ Port url) (u_Scheme url = ''https'') of
             Some e \<Rightarrow> Some e
           | None \<Rightarrow> join_errors (collected first (map_option (cWrap ''error downloading public bucket'') public)
                        (map_option (cWrap ''error downloading private bucket'') private))))"

text \<open>
  \<open>downloadBucket\<close> once the objects are listed: one goroutine per object; 30 at a time hold a token of the
  semaphore, and a failed one sends its error into a channel of 30 before it gives the token back. One
  that waits for a token returns when the context ends. The main goroutine reads the channel only after
  all of them have returned.
\<close>

datatype fetcher = NotStarted | Downloading | SendingError | Skipped | Gone bool

record downloads =
  dl_fetcher :: "nat \<Rightarrow> fetcher"
  dl_errors :: nat
  dl_tokens :: nat
  dl_canceled :: bool

definition download_workers :: nat where
  "download_workers = 30"

inductive downloads_step :: "nat \<Rightarrow> (nat \<Rightarrow> bool) \<Rightarrow> downloads \<Rightarrow> downloads \<Rightarrow> bool" for n fails where
  start: "i < n \<Longrightarrow> dl_fetcher z i = NotStarted \<Longrightarrow> dl_tokens z < download_workers \<Longrightarrow>
     downloads_step n fails z (z\<lparr>dl_fetcher := (dl_fetcher z)(i := Downloading), dl_tokens := Suc (dl_tokens z)\<rparr>)"
| success: "i < n \<Longrightarrow> dl_fetcher z i = Downloading \<Longrightarrow> \<not> fails i \<Longrightarrow>
     downloads_step n fails z (z\<lparr>dl_fetcher := (dl_fetcher z)(i := Gone True), dl_tokens := dl_tokens z - 1\<rparr>)"
| failure: "i < n \<Longrightarrow> dl_fetcher z i = Downloading \<Longrightarrow> fails i \<Longrightarrow>
     downloads_step n fails z (z\<lparr>dl_fetcher := (dl_fetcher z)(i := SendingError)\<rparr>)"
| send: "i < n \<Longrightarrow> dl_fetcher z i = SendingError \<Longrightarrow> dl_errors z < download_workers \<Longrightarrow>
     downloads_step n fails z (z\<lparr>dl_fetcher := (dl_fetcher z)(i := Gone False), dl_errors := Suc (dl_errors z),
       dl_tokens := dl_tokens z - 1\<rparr>)"
| skip: "i < n \<Longrightarrow> dl_fetcher z i = NotStarted \<Longrightarrow> dl_canceled z \<Longrightarrow>
     downloads_step n fails z (z\<lparr>dl_fetcher := (dl_fetcher z)(i := Skipped)\<rparr>)"
| cancel: "downloads_step n fails z (z\<lparr>dl_canceled := True\<rparr>)"

definition downloads_init :: downloads where
  "downloads_init = \<lparr>dl_fetcher = (\<lambda>_. NotStarted), dl_errors = 0, dl_tokens = 0, dl_canceled = False\<rparr>"

definition downloads_finished :: "nat \<Rightarrow> downloads \<Rightarrow> bool" where
  "downloads_finished n z \<longleftrightarrow> (\<forall>i<n. dl_fetcher z i = Skipped \<or> (\<exists>ok. dl_fetcher z i = Gone ok))"

section \<open>Lemmas\<close>

lemma bucket_loop_result:
  "bucket_loop pub priv bs (p, q) = (p \<or> pub \<in> set bs, q \<or> (\<exists>b\<in>set bs. b \<noteq> priv))"
  by (induction bs arbitrary: p q) auto

text \<open>No failure so far: what was listed is deleted, queued or still to be listed.\<close>

definition emptying_inv :: "(cerr + 'k) list \<Rightarrow> 'k emptying \<Rightarrow> bool" where
  "emptying_inv objects z \<longleftrightarrow>
     (eb_err z = None \<and> (eb_result z = None \<or> eb_result z = Some None) \<and> \<not> eb_canceled z \<longrightarrow>
        mset (oks (eb_list z)) + mset (eb_queue z) + mset (eb_deleted z) = mset (oks objects) \<and>
        (\<exists>p. objects = map Inr p @ eb_list z) \<and>
        (\<not> eb_listing z \<longrightarrow> eb_list z = []) \<and>
        (\<not> eb_removing z \<longrightarrow> \<not> eb_listing z \<and> eb_queue z = [])) \<and>
     (eb_doneCh z \<longrightarrow> \<not> eb_removing z) \<and>
     (eb_result z = Some None \<longrightarrow> eb_doneCh z)"

lemma emptying_inv_step:
  assumes "emptying_step fails z z'" and "emptying_inv objects z"
  shows "emptying_inv objects z'"
  using assms(1)
proof cases
  case (list_object k r)
  have "\<exists>p. objects = map Inr p @ r" if "\<exists>p. objects = map Inr p @ eb_list z"
  proof -
    from that obtain p where "objects = map Inr p @ eb_list z" by blast
    with list_object show ?thesis by (intro exI [of _ "p @ [k]"]) simp
  qed
  with assms(2) list_object show ?thesis by (auto simp: emptying_inv_def)
qed (use assms(2) in \<open>auto simp: emptying_inv_def\<close>)

lemma emptying_inv_reachable:
  "(emptying_step fails)\<^sup>*\<^sup>* (emptying_init objects) z \<Longrightarrow> emptying_inv objects z"
proof (induction rule: rtranclp_induct)
  case base
  show ?case by (simp add: emptying_inv_def emptying_init_def)
qed (rule emptying_inv_step)

definition downloads_inv :: "nat \<Rightarrow> (nat \<Rightarrow> bool) \<Rightarrow> downloads \<Rightarrow> bool" where
  "downloads_inv n fails z \<longleftrightarrow>
     dl_errors z = card {i. i < n \<and> dl_fetcher z i = Gone False} \<and> dl_errors z \<le> download_workers \<and>
     (\<forall>i<n. dl_fetcher z i = Gone True \<longrightarrow> \<not> fails i) \<and> (\<forall>i<n. dl_fetcher z i = Skipped \<longrightarrow> dl_canceled z)"

lemma downloads_inv_step:
  assumes "downloads_step n fails z z'" and "downloads_inv n fails z"
  shows "downloads_inv n fails z'"
  using assms(1)
proof cases
  case (send i)
  have "{j. j < n \<and> ((dl_fetcher z)(i := Gone False)) j = Gone False} = insert i {j. j < n \<and> dl_fetcher z j = Gone False}"
    using send by auto
  with assms(2) send show ?thesis by (simp add: downloads_inv_def)
next
  case (start i)
  then have "{j. j < n \<and> ((dl_fetcher z)(i := Downloading)) j = Gone False} = {j. j < n \<and> dl_fetcher z j = Gone False}" by auto
  with assms(2) start show ?thesis by (simp add: downloads_inv_def)
next
  case (success i)
  then have "{j. j < n \<and> ((dl_fetcher z)(i := Gone True)) j = Gone False} = {j. j < n \<and> dl_fetcher z j = Gone False}" by auto
  with assms(2) success show ?thesis by (simp add: downloads_inv_def)
next
  case (failure i)
  then have "{j. j < n \<and> ((dl_fetcher z)(i := SendingError)) j = Gone False} = {j. j < n \<and> dl_fetcher z j = Gone False}" by auto
  with assms(2) failure show ?thesis by (simp add: downloads_inv_def)
next
  case (skip i)
  then have "{j. j < n \<and> ((dl_fetcher z)(i := Skipped)) j = Gone False} = {j. j < n \<and> dl_fetcher z j = Gone False}" by auto
  with assms(2) skip show ?thesis by (simp add: downloads_inv_def)
next
  case cancel
  with assms(2) show ?thesis by (simp add: downloads_inv_def)
qed

lemma downloads_inv_reachable: "(downloads_step n fails)\<^sup>*\<^sup>* downloads_init z \<Longrightarrow> downloads_inv n fails z"
proof (induction rule: rtranclp_induct)
  case base
  show ?case by (simp add: downloads_inv_def downloads_init_def)
qed (rule downloads_inv_step)

section \<open>Properties\<close>

text \<open>
  The connection test passes exactly when the public bucket is among the listed buckets and some listed
  bucket is not the private one. So it does not see that the private bucket is missing, and it fails
  for a Store that has one bucket for both.
\<close>

theorem TestS3Connection_passes_iff:
  assumes "url_Parse (mi_IPLiteral mi) (s3_EndpointURL s) = Inr url"
    and "mi_New mi (Hostname url @ '':'' @ Port url) (u_Scheme url = ''https'') = None"
    and "run_state (mi_ListBuckets mi (Hostname url @ '':'' @ Port url) (u_Scheme url = ''https'') key secret) w = (Inr buckets, w')"
  shows "run_state (TestS3Connection mi s key secret) w =
    (if s3_PublicBucketName s \<in> set buckets \<and> (\<exists>b\<in>set buckets. b \<noteq> s3_PrivateBucketName s) then None
     else Some (Errorf ''public bucket is not available yet''), w')"
  using assms by (simp add: TestS3Connection_def Let_def run_simps bucket_loop_result)

definition ex_minio :: "unit minio" where
  "ex_minio = \<lparr>mi_IPLiteral = Inl, mi_New = (\<lambda>_ _. None), mi_ListBuckets = (\<lambda>_ _ _ _. State_Monad.return (Inr [''public'']))\<rparr>"

definition ex_s3 :: s3_storage where
  "ex_s3 = \<lparr>s3_EndpointURL = ''https://s3.example.com:443'', s3_PrivateBucketName = ''private'', s3_PublicBucketName = ''public'',
     s3_Region = [], s3_AccessKeyRef = \<lparr>ref_Name = [], ref_Key = []\<rparr>, s3_SecretAccessKeyRef = \<lparr>ref_Name = [], ref_Key = []\<rparr>\<rparr>"

text \<open>The private bucket is missing, and the test passes.\<close>

theorem TestS3Connection_passes_iff_witness:
  "run_state (TestS3Connection ex_minio ex_s3 [] []) () = (None, ())"
proof -
  have u: "url_Parse (mi_IPLiteral ex_minio) (s3_EndpointURL ex_s3) =
      Inr \<lparr>u_Scheme = ''https'', u_Opaque = [], u_Host = ''s3.example.com:443'', u_Path = []\<rparr>"
    by code_simp
  show ?thesis
    using TestS3Connection_passes_iff [OF u, of "[]" "[]" "()" "[''public'']" "()"]
    by (simp add: ex_minio_def ex_s3_def run_simps)
qed

text \<open>
  C39: Emptying a bucket: when the function reports success, the context has not ended and no error is left
  in the channel, every object was listed and deleted.
\<close>

theorem emptying_complete:
  assumes "(emptying_step fails)\<^sup>*\<^sup>* (emptying_init objects) z"
    and "eb_result z = Some None" and "\<not> eb_canceled z" and "eb_err z = None"
  shows "objects = map Inr (oks objects) \<and> mset (eb_deleted z) = mset (oks objects)"
  using emptying_inv_reachable [OF assms(1)] assms(2-4) by (auto simp: emptying_inv_def)

theorem emptying_complete_witness:
  "\<exists>z :: nat emptying. eb_result z = Some None \<and> mset (eb_deleted z) = mset (oks [Inr 1 :: cerr + nat])"
proof -
  let ?S = "emptying_step (\<lambda>_ :: nat. None)" and ?z = "emptying_init [Inr (1::nat)]"
  define a where "a = ?z\<lparr>eb_list := [], eb_queue := eb_queue ?z @ [1]\<rparr>"
  define b where "b = a\<lparr>eb_queue := [], eb_deleted := 1 # eb_deleted a\<rparr>"
  define c where "c = b\<lparr>eb_listing := False\<rparr>"
  define d where "d = c\<lparr>eb_removing := False\<rparr>"
  define e where "e = d\<lparr>eb_doneCh := True\<rparr>"
  define f where "f = e\<lparr>eb_result := Some None\<rparr>"
  note ds = a_def b_def c_def d_def e_def f_def emptying_init_def
  have "?S ?z a" unfolding a_def by (rule list_object) (simp_all add: ds)
  moreover have "?S a b" unfolding b_def by (rule remove_object) (simp_all add: ds)
  moreover have "?S b c" unfolding c_def by (rule list_end) (simp_all add: ds)
  moreover have "?S c d" unfolding d_def by (rule remove_end) (simp_all add: ds)
  moreover have "?S d e" unfolding e_def by (rule close_done) (simp_all add: ds)
  moreover have "?S e f" unfolding f_def by (rule main_done) (simp_all add: ds)
  ultimately have r: "?S\<^sup>*\<^sup>* ?z f" by (meson converse_rtranclp_into_rtranclp rtranclp.rtrancl_refl)
  have "mset (eb_deleted f) = mset (oks [Inr 1 :: cerr + nat])"
    using emptying_complete [OF r] by (simp add: ds)
  moreover have "eb_result f = Some None" by (simp add: ds)
  ultimately show ?thesis by blast
qed

text \<open>
  The condition on the channel is needed: the removal that fails also closes the channel that signals
  the end, and the main goroutine may pick that one. Success is then reported although nothing was
  deleted, and the upload goes on with a bucket that is not empty.
\<close>

theorem emptying_may_hide_failure:
  assumes "fails k = Some e"
  shows "\<exists>z. (emptying_step fails)\<^sup>*\<^sup>* (emptying_init [Inr k]) z \<and> eb_result z = Some None \<and> eb_deleted z = [] \<and>
    \<not> eb_canceled z \<and> eb_err z = Some e"
proof -
  let ?z = "emptying_init [Inr k]"
  define a where "a = ?z\<lparr>eb_list := [], eb_queue := eb_queue ?z @ [k]\<rparr>"
  define b where "b = a\<lparr>eb_queue := [], eb_removing := False, eb_err := Some e\<rparr>"
  define c where "c = b\<lparr>eb_doneCh := True\<rparr>"
  define d where "d = c\<lparr>eb_result := Some None\<rparr>"
  note ds = a_def b_def c_def d_def emptying_init_def
  have "emptying_step fails ?z a" unfolding a_def by (rule list_object) (simp_all add: ds)
  moreover have "emptying_step fails a b" unfolding b_def using assms by (intro remove_failed) (simp_all add: ds)
  moreover have "emptying_step fails b c" unfolding c_def by (rule close_done) (simp_all add: ds)
  moreover have "emptying_step fails c d" unfolding d_def by (rule main_done) (simp_all add: ds)
  ultimately have "(emptying_step fails)\<^sup>*\<^sup>* ?z d" by (meson converse_rtranclp_into_rtranclp rtranclp.rtrancl_refl)
  then show ?thesis by (intro exI [of _ d]) (simp add: ds)
qed

theorem emptying_may_hide_failure_witness:
  "\<exists>z. (emptying_step (\<lambda>_ :: nat. Some Canceled))\<^sup>*\<^sup>* (emptying_init [Inr 1]) z \<and> eb_result z = Some None \<and> eb_deleted z = []"
  using emptying_may_hide_failure [of "\<lambda>_ :: nat. Some Canceled" 1 Canceled] by auto

text \<open>
  A bucket is only ever copied to the file system when at most 30 downloads fail: with more failures the
  goroutines wait for room in the error channel and the main goroutine waits for them, until the
  context ends.
\<close>

theorem many_failures_hang:
  assumes "(downloads_step n fails)\<^sup>*\<^sup>* downloads_init z" and "downloads_finished n z" and "\<not> dl_canceled z"
  shows "card {i. i < n \<and> fails i} \<le> download_workers"
proof -
  have i: "downloads_inv n fails z" by (rule downloads_inv_reachable [OF assms(1)])
  have "{i. i < n \<and> fails i} \<subseteq> {i. i < n \<and> dl_fetcher z i = Gone False}"
    using i assms(2,3) by (auto simp: downloads_inv_def downloads_finished_def) (metis (full_types))
  then have "card {i. i < n \<and> fails i} \<le> card {i. i < n \<and> dl_fetcher z i = Gone False}"
    by (intro card_mono) auto
  with i show ?thesis by (simp add: downloads_inv_def)
qed

theorem many_failures_hang_witness:
  "\<exists>z. (downloads_step 1 (\<lambda>_. True))\<^sup>*\<^sup>* downloads_init z \<and> downloads_finished 1 z \<and> card {i :: nat. i < 1 \<and> True} \<le> download_workers"
proof -
  let ?S = "downloads_step 1 (\<lambda>_. True)"
  define a where "a = downloads_init\<lparr>dl_fetcher := (dl_fetcher downloads_init)(0 := Downloading), dl_tokens := Suc (dl_tokens downloads_init)\<rparr>"
  define b where "b = a\<lparr>dl_fetcher := (dl_fetcher a)(0 := SendingError)\<rparr>"
  define c where "c = b\<lparr>dl_fetcher := (dl_fetcher b)(0 := Gone False), dl_errors := Suc (dl_errors b), dl_tokens := dl_tokens b - 1\<rparr>"
  note ds = a_def b_def c_def downloads_init_def download_workers_def
  have "?S downloads_init a" unfolding a_def by (rule start) (simp_all add: ds)
  moreover have "?S a b" unfolding b_def by (rule failure) (simp_all add: ds)
  moreover have "?S b c" unfolding c_def by (rule send) (simp_all add: ds)
  ultimately have r: "?S\<^sup>*\<^sup>* downloads_init c" by (meson converse_rtranclp_into_rtranclp rtranclp.rtrancl_refl)
  moreover have f: "downloads_finished 1 c" by (simp add: ds downloads_finished_def) blast
  moreover have "\<not> dl_canceled c" by (simp add: ds)
  ultimately show ?thesis using many_failures_hang [OF r f] by blast
qed

end
