(* ===== verification/StoreStates.thy ===== *)
theory StoreStates
  imports Jobs Metrics S3
begin

text \<open>
  The state handlers of a Store (\<open>internal/manager/{wait,setup,initializing,migration,ready}\<close>) with
  \<open>Base\<close> of \<open>internal/manager/base\<close> and the database settings they check (\<open>GetDBSpec\<close> and
  \<open>TestSQLConnection\<close> of \<open>internal/util/db.go\<close>). A handler reads the cluster, may write the status
  of the Store, and returns the next state; the condition that the Go code adds in a deferred
  function is added when the handler returns.
\<close>

section \<open>Base\<close>

record tls_config =
  tls_RootCAs :: bytes
  tls_InsecureSkipVerify :: bool
  tls_Certificate :: "(bytes \<times> bytes) option"

record mysql_config =
  my_User :: string
  my_Passwd :: string
  my_Net :: string
  my_Addr :: string
  my_DBName :: string
  my_TLS :: "tls_config option"

text \<open>The outcome of opening a connection and pinging: a MySQL error has a number.\<close>

datatype ping_result = PingOK | PingMySQL nat goerr | PingError goerr

record event_data =
  evt_Message :: string
  evt_Condition :: store_condition
  evt_DeployedImage :: string
  evt_Labels :: gomap
  evt_KindType :: string

text \<open>
  \<open>Base\<close> holds the client and the operator's settings; the other fields stand for calls into
  libraries: event recorder and handlers, certificate parsing, the MySQL driver, the S3 client,
  \<open>ExecInPod\<close> and the Prometheus gauges.
\<close>

record 'w base =
  b_Client :: "'w client"
  b_OperatorServiceURL :: string
  b_DisableServiceChecks :: bool
  b_EnableKeda :: bool
  b_HasClientset :: bool
  b_OperatorMetricsURL :: string
  b_Recorder :: "(store \<Rightarrow> string \<Rightarrow> string \<Rightarrow> ('w, unit) state) option"
  b_EventHandlers :: "(event_data \<Rightarrow> ('w, goerr option) state) list"
  b_AppendCertsFromPEM :: "bytes \<Rightarrow> bool"
  b_X509KeyPair :: "bytes \<Rightarrow> bytes \<Rightarrow> goerr option"
  b_Ping :: "mysql_config \<Rightarrow> ('w, ping_result) state"
  b_Minio :: "'w minio"
  b_ExecInPod :: "string \<Rightarrow> string \<Rightarrow> string \<Rightarrow> string list \<Rightarrow> ('w, string \<times> string \<times> goerr option) state"
  b_Gauges :: "'w gauges"

definition Eventf :: "'w base \<Rightarrow> store \<Rightarrow> string \<Rightarrow> string \<Rightarrow> ('w, unit) state" where
  "Eventf b s reason msg =
     (case b_Recorder b of None \<Rightarrow> State_Monad.return () | Some r \<Rightarrow> r s reason msg)"

abbreviation set_State :: "app_state \<Rightarrow> store \<Rightarrow> store" where
  "set_State x \<equiv> update_Status (\<lambda>st. st\<lparr>ss_State := x\<rparr>)"

abbreviation set_CurrentImageTag :: "string \<Rightarrow> store \<Rightarrow> store" where
  "set_CurrentImageTag x \<equiv> update_Status (\<lambda>st. st\<lparr>ss_CurrentImageTag := x\<rparr>)"

definition add_condition :: "store_condition \<Rightarrow> store \<Rightarrow> store" where
  "add_condition c = update_Status (\<lambda>st. st\<lparr>ss_Conditions := AddCondition (ss_Conditions st) c\<rparr>)"

definition refreshDeploymentStates :: "'w base \<Rightarrow> store \<Rightarrow> ('w, dep_state list \<times> store) state" where
  "refreshDeploymentStates b s = do {
     a \<leftarrow> GetAdminDeploymentCondition (b_Client b) (b_OperatorServiceURL b) s;
     let s = update_Status (\<lambda>st. st\<lparr>ss_AdminState := a\<rparr>) s;
     w \<leftarrow> GetWorkerDeploymentCondition (b_Client b) (b_OperatorServiceURL b) s;
     let s = update_Status (\<lambda>st. st\<lparr>ss_WorkerState := w\<rparr>) s;
     f \<leftarrow> GetStorefrontDeploymentCondition (b_Client b) (b_OperatorServiceURL b) s;
     let s = update_Status (\<lambda>st. st\<lparr>ss_StorefrontState := f\<rparr>) s;
     State_Monad.return ([dcon_State a, dcon_State w, dcon_State f], s) }"

definition AllDeploymentsRunning :: "'w base \<Rightarrow> store \<Rightarrow> ('w, bool \<times> store) state" where
  "AllDeploymentsRunning b s = do {
     (states, s) \<leftarrow> refreshDeploymentStates b s;
     State_Monad.return (list_all (\<lambda>x. x = DeploymentStateRunning) states, s) }"

definition AllDeploymentsAvailable :: "'w base \<Rightarrow> store \<Rightarrow> ('w, bool \<times> store) state" where
  "AllDeploymentsAvailable b s = do {
     (states, s) \<leftarrow> refreshDeploymentStates b s;
     State_Monad.return
       (list_all (\<lambda>x. x = DeploymentStateRunning \<or> x = DeploymentStateScaling) states, s) }"

section \<open>Database settings\<close>

text \<open>Reading a key of the data of a secret; a nil map has no keys.\<close>

definition secret_data :: "secret \<Rightarrow> string \<Rightarrow> bytes option" where
  "secret_data s k = (case s_Data s of None \<Rightarrow> None | Some m \<Rightarrow> fmlookup m k)"

definition nonempty_data :: "secret \<Rightarrow> string \<Rightarrow> bytes option" where
  "nonempty_data s k = (case secret_data s k of Some (c # cs) \<Rightarrow> Some (c # cs) | _ \<Rightarrow> None)"

definition db_tls_part :: "resolved_db \<Rightarrow> string \<Rightarrow> secret \<Rightarrow> resolved_db result" where
  "db_tls_part spec name sec =
     (let missing = (\<lambda>k. Inl (Errorf (k @ '' key not found in database tls secret '' @ name))) in
      case nonempty_data sec ''ca.crt'' of
        None \<Rightarrow> missing ''ca.crt''
      | Some ca \<Rightarrow>
          (let spec = spec\<lparr>rdb_TLSCA := ca\<rparr> in
           if rdb_TLSClientCertificate spec then
             (case nonempty_data sec ''tls.crt'' of
                None \<Rightarrow> missing ''tls.crt''
              | Some crt \<Rightarrow>
                  (case nonempty_data sec ''tls.key'' of
                     None \<Rightarrow> missing ''tls.key''
                   | Some key \<Rightarrow> Inr (spec\<lparr>rdb_TLSCert := crt, rdb_TLSKey := key\<rparr>)))
           else Inr spec))"

definition base_db_spec :: "store \<Rightarrow> string \<Rightarrow> bytes \<Rightarrow> resolved_db" where
  "base_db_spec s dbHost password =
     (let d = sp_Database (st_Spec s) in
      \<lparr>rdb_Host = dbHost, rdb_Password = password, rdb_User = db_User d, rdb_Port = db_Port d,
       rdb_Name = db_Name d, rdb_Version = db_Version d, rdb_Options = db_Options d,
       rdb_TLSCA = [], rdb_TLSCert = [], rdb_TLSKey = [],
       rdb_TLSClientCertificate = dtls_ClientCertificate (db_TLS d),
       rdb_TLSDontVerifyServerCertificate = dtls_DontVerifyServerCertificate (db_TLS d)\<rparr>)"

definition db_host :: "'w client \<Rightarrow> store \<Rightarrow> ('w, string result) state" where
  "db_host cl s =
     (let d = sp_Database (st_Spec s) in
      if ref_Name (db_HostRef d) \<noteq> [] then do {
        r \<leftarrow> GetSecret cl (st_Namespace s) (ref_Name (db_HostRef d));
        State_Monad.return (case r of
            Inl e \<Rightarrow> Inl e
          | Inr sec \<Rightarrow> Inr (case secret_data sec (ref_Key (db_HostRef d)) of None \<Rightarrow> [] | Some h \<Rightarrow> h)) }
      else State_Monad.return (Inr (db_Host d)))"

definition GetDBSpec :: "'w client \<Rightarrow> store \<Rightarrow> ('w, resolved_db result) state" where
  "GetDBSpec cl s =
     (let d = sp_Database (st_Spec s); ref = db_PasswordSecretRef d; tls = dtls_SecretName (db_TLS d) in do {
        h \<leftarrow> db_host cl s;
        (case h of
           Inl e \<Rightarrow> State_Monad.return (Inl e)
         | Inr dbHost \<Rightarrow> do {
             r \<leftarrow> GetSecret cl (st_Namespace s) (ref_Name ref);
             (case r of
                Inl e \<Rightarrow> State_Monad.return (Inl e)
              | Inr dbSecret \<Rightarrow>
                  (case secret_data dbSecret (ref_Key ref) of
                     None \<Rightarrow> State_Monad.return (Inl (Errorf
                       (''password key '' @ ref_Key ref @ '' not found in secret '' @ ref_Name ref)))
                   | Some password \<Rightarrow>
                       (let spec = base_db_spec s dbHost password;
                            tlsRequired = (tls \<noteq> [] \<or> RequiresTLSSecret d) in
                        if \<not> tlsRequired then State_Monad.return (Inr spec)
                        else if tls = [] then State_Monad.return (Inl (Errorf
                          ''database tls secretName is required when sslMode is REQUIRED''))
                        else do {
                          t \<leftarrow> GetSecret cl (st_Namespace s) tls;
                          State_Monad.return (case t of
                              Inl e \<Rightarrow> Inl (Wrap ''get database tls secret'' e)
                            | Inr tlsSecret \<Rightarrow> db_tls_part spec tls tlsSecret) }))) }) })"

definition databaseTLSConfig :: "'w base \<Rightarrow> resolved_db \<Rightarrow> tls_config result" where
  "databaseTLSConfig b d =
     (if \<not> b_AppendCertsFromPEM b (rdb_TLSCA d) then Inl (Errorf ''parse database TLS CA certificate'')
      else
        let config = \<lparr>tls_RootCAs = rdb_TLSCA d,
                      tls_InsecureSkipVerify = rdb_TLSDontVerifyServerCertificate d, tls_Certificate = None\<rparr>
        in if \<not> rdb_TLSClientCertificate d then Inr config
           else case b_X509KeyPair b (rdb_TLSCert d) (rdb_TLSKey d) of
                  Some e \<Rightarrow> Inl (Wrap ''parse database TLS client certificate'' e)
                | None \<Rightarrow> Inr (config\<lparr>tls_Certificate := Some (rdb_TLSCert d, rdb_TLSKey d)\<rparr>))"

text \<open>\<open>net.JoinHostPort\<close>: a host with a colon is put in brackets.\<close>

definition JoinHostPort :: "string \<Rightarrow> string \<Rightarrow> string" where
  "JoinHostPort host port =
     (if CHR '':'' \<in> set host then ''['' @ host @ '']:'' @ port else host @ '':'' @ port)"

definition TestSQLConnection :: "'w base \<Rightarrow> resolved_db \<Rightarrow> ('w, goerr option) state" where
  "TestSQLConnection b d =
     (let port = (if rdb_Port d = 0 then 3306 else rdb_Port d);
          config = \<lparr>my_User = rdb_User d, my_Passwd = rdb_Password d, my_Net = ''tcp'',
                    my_Addr = JoinHostPort (rdb_Host d) (fmt_d port), my_DBName = rdb_Name d, my_TLS = None\<rparr>;
          connect = (\<lambda>config. do {
            r \<leftarrow> b_Ping b config;
            State_Monad.return (case r of
                PingOK \<Rightarrow> None
              | PingMySQL n e \<Rightarrow> if n = 1049 then None else Some e
              | PingError e \<Rightarrow> Some e) })
      in if length (rdb_TLSCA d) > 0 then
           (case databaseTLSConfig b d of
              Inl e \<Rightarrow> State_Monad.return (Some e)
            | Inr tls \<Rightarrow> connect (config\<lparr>my_TLS := Some tls\<rparr>))
         else connect config)"

section \<open>Wait\<close>

text \<open>
  Each check starts from a condition of type \<open>waiting\<close> with a message, ends it as an error with a
  reason or as ready, and adds it to the history. A check is given as its result: the reason for
  waiting or the reason for being ready.
\<close>

definition new_condition :: "app_state \<Rightarrow> gotime \<Rightarrow> string \<Rightarrow> store_condition" where
  "new_condition t now msg =
     \<lparr>con_Type = app_state_text t, con_LastTransitionTime = None, con_LastUpdateTime = now,
      con_Message = msg, con_Reason = [], con_Status = []\<rparr>"

definition finish_check :: "'w client \<Rightarrow> store_condition \<Rightarrow> store \<Rightarrow> string + string \<Rightarrow> ('w, app_state \<times> store) state" where
  "finish_check cl con s r =
     (case r of
        Inl reason \<Rightarrow> State_Monad.return
          (StateWait, add_condition (con\<lparr>con_Reason := reason, con_Status := ''Error''\<rparr>) s)
      | Inr reason \<Rightarrow> do {
          now \<leftarrow> cl_Now cl;
          State_Monad.return (StateSetup, add_condition
            (con\<lparr>con_LastTransitionTime := now, con_Status := ''Ready'', con_Reason := reason\<rparr>) s) })"

definition checkDatabaseServices :: "'w base \<Rightarrow> store \<Rightarrow> ('w, app_state \<times> store) state" where
  "checkDatabaseServices b s =
     (let cl = b_Client b in do {
        now \<leftarrow> cl_Now cl;
        let con = new_condition StateWait now ''Waiting for database connection'';
        r \<leftarrow> GetDBSpec cl s;
        (case r of
           Inl e \<Rightarrow> finish_check cl con s (Inl (err_msg e))
         | Inr dbSpec \<Rightarrow> do {
             e \<leftarrow> TestSQLConnection b dbSpec;
             finish_check cl con s (case e of
                 Some err \<Rightarrow> Inl (err_msg err)
               | None \<Rightarrow> Inr ''Database ping passed'') }) })"

text \<open>
  A secret that has to exist and to hold a key: the texts for a missing secret and a missing key,
  or the data. The S3 check reads through \<open>k8s.GetSecret\<close>, which wraps every error with the name.
\<close>

definition quote_key :: "string \<Rightarrow> secret_ref \<Rightarrow> string" where
  "quote_key what ref =
     what @ '' doesn'' @ [CHR 0x27] @ ''t contain the specified key '' @ [CHR 0x27] @ ref_Key ref @ [CHR 0x27] @
     '' in the secret '' @ [CHR 0x27] @ ref_Name ref @ [CHR 0x27]"

definition check_secret ::
  "'w client \<Rightarrow> store \<Rightarrow> secret_ref \<Rightarrow> string option \<Rightarrow> string \<Rightarrow> ('w, string + bytes) state" where
  "check_secret cl s ref notFoundText what = do {
     r \<leftarrow> GetSecret cl (st_Namespace s) (ref_Name ref);
     State_Monad.return (case r of
         Inl e \<Rightarrow> (case notFoundText of
                     Some t \<Rightarrow> if IsNotFound e then Inl t else Inl (err_msg e)
                   | None \<Rightarrow> Inl (err_msg (Wrap (''get '' @ st_Namespace s @ ''/'' @ ref_Name ref) e)))
       | Inr sec \<Rightarrow> (case secret_data sec (ref_Key ref) of
                       None \<Rightarrow> Inl (quote_key what ref)
                     | Some v \<Rightarrow> Inr v)) }"

definition checkFastlyRef :: "'w base \<Rightarrow> store \<Rightarrow> ('w, app_state \<times> store) state" where
  "checkFastlyRef b s =
     (let cl = b_Client b; f = co_Fastly (sp_ShopConfiguration (st_Spec s)) in do {
        now \<leftarrow> cl_Now cl;
        let con = new_condition StateWait now ''Waiting for fastly secret'';
        r1 \<leftarrow> check_secret cl s (fa_ServiceRef f) (Some ''Fastly serviceRef secret does not exist'') ''The ServiceKeyRef'';
        (case r1 of
           Inl t \<Rightarrow> finish_check cl con s (Inl t)
         | Inr _ \<Rightarrow> do {
             r2 \<leftarrow> check_secret cl s (fa_TokenRef f) (Some ''Fastly tokenRef secret does not exist'') ''The TokenKeyRef'';
             finish_check cl con s (case r2 of
                 Inl t \<Rightarrow> Inl t
               | Inr _ \<Rightarrow> Inr ''Fastly ServiceRef/TokenRef present'') }) })"

definition checkOpensearch :: "'w base \<Rightarrow> store \<Rightarrow> ('w, app_state \<times> store) state" where
  "checkOpensearch b s =
     (let cl = b_Client b in do {
        now \<leftarrow> cl_Now cl;
        let con = new_condition StateWait now ''Waiting for Opensearch ref'';
        r \<leftarrow> check_secret cl s (os_PasswordSecretRef (sp_Opensearch (st_Spec s)))
              (Some ''OpensearchRef secret does not exist'') ''The SecretKeyRef'';
        finish_check cl con s (case r of Inl t \<Rightarrow> Inl t | Inr _ \<Rightarrow> Inr ''OpensearchRef is present'') })"

definition checkS3Services :: "'w base \<Rightarrow> store \<Rightarrow> ('w, app_state \<times> store) state" where
  "checkS3Services b s =
     (let cl = b_Client b; t = sp_S3Storage (st_Spec s) in do {
        now \<leftarrow> cl_Now cl;
        let con = new_condition StateWait now ''Waiting for s3 connection'';
        r1 \<leftarrow> check_secret cl s (s3_SecretAccessKeyRef t) None ''The SecretAccessKeyRef'';
        (case r1 of
           Inl x \<Rightarrow> finish_check cl con s (Inl x)
         | Inr secretAccessKey \<Rightarrow> do {
             r2 \<leftarrow> check_secret cl s (s3_AccessKeyRef t) None ''The AccessKeyRef'';
             (case r2 of
                Inl x \<Rightarrow> finish_check cl con s (Inl x)
              | Inr accessKey \<Rightarrow> do {
                  e \<leftarrow> TestS3Connection (b_Minio b) t accessKey secretAccessKey;
                  finish_check cl con s (case e of
                      Some err \<Rightarrow> Inl (err_msg err)
                    | None \<Rightarrow> Inr ''S3 connection test passed'') }) }) })"

text \<open>One optional check of the handler: its state replaces the next one unless it is setup.\<close>

definition run_check ::
  "bool \<Rightarrow> (store \<Rightarrow> ('w, app_state \<times> store) state) \<Rightarrow> app_state \<times> store \<Rightarrow> ('w, app_state \<times> store) state" where
  "run_check enabled check ns =
     (if enabled then do {
        (st, s) \<leftarrow> check (snd ns);
        State_Monad.return (if st \<noteq> StateSetup then st else fst ns, s) }
      else State_Monad.return ns)"

definition wait_StateHandler :: "'w base \<Rightarrow> store \<Rightarrow> ('w, app_state \<times> store) state" where
  "wait_StateHandler b s =
     (let spec = st_Spec s; f = co_Fastly (sp_ShopConfiguration spec) in
      if b_DisableServiceChecks b \<or> sp_DisableChecks spec then State_Monad.return (StateSetup, s)
      else if IsState s [StateEmpty] then State_Monad.return (StateWait, s)
      else do {
        ns \<leftarrow> run_check (\<not> sp_DisableDatabaseCheck spec) (checkDatabaseServices b) (StateSetup, s);
        ns \<leftarrow> run_check (\<not> sp_DisableS3Check spec \<and> ref_Key (s3_AccessKeyRef (sp_S3Storage spec)) \<noteq> [])
                (checkS3Services b) ns;
        ns \<leftarrow> run_check (\<not> sp_DisableFastlyCheck spec \<and> ref_Name (fa_ServiceRef f) \<noteq> [] \<and>
                  ref_Key (fa_ServiceRef f) \<noteq> []) (checkFastlyRef b) ns;
        run_check (\<not> sp_DisableOpensearchCheck spec \<and> os_Enabled (sp_Opensearch spec)) (checkOpensearch b) ns })"

section \<open>Setup\<close>

definition setup_StateHandler :: "'w base \<Rightarrow> store \<Rightarrow> ('w, app_state \<times> store) state" where
  "setup_StateHandler b s =
     (let cl = b_Client b in do {
        now \<leftarrow> cl_Now cl;
        let con = new_condition StateSetup now ''Waiting for setup job to finish'';
        r \<leftarrow> GetSetupJob cl (b_OperatorServiceURL b) s;
        (case r of
           Inl e \<Rightarrow> State_Monad.return (StateSetup, add_condition
             (if IsNotFound e then con else con\<lparr>con_Reason := err_msg e, con_Status := ''Error''\<rparr>) s)
         | Inr setup \<Rightarrow> do {
             js \<leftarrow> IsJobContainerDone cl (Some setup) CONTAINER_NAME_SETUP_JOB;
             (case js of
                Inl e \<Rightarrow> State_Monad.return (StateSetup, add_condition
                  (con\<lparr>con_Reason := err_msg e, con_Status := ''Error''\<rparr>) s)
              | Inr st \<Rightarrow>
                  if IsDone st \<and> HasErrors st then do {
                    now \<leftarrow> cl_Now cl;
                    State_Monad.return (StateSetupError, add_condition
                      (con\<lparr>con_Message := ''Setup is Done but has Errors. Check logs for more details'',
                           con_Reason := ''Exit code: '' @ Itoa (jbs_ExitCode st), con_Status := ''Error'',
                           con_Type := app_state_text StateSetupError, con_LastTransitionTime := now\<rparr>) s) }
                  else if IsDone st \<and> \<not> HasErrors st then do {
                    now \<leftarrow> cl_Now cl;
                    State_Monad.return (StateInitializing, add_condition
                      (con\<lparr>con_Message := ''Setup finished'', con_Status := ''Ready'',
                           con_LastTransitionTime := now\<rparr>) s) }
                  else State_Monad.return (StateSetup, add_condition
                    (con\<lparr>con_Message :=
                       ''Waiting for setup job to finish (Notice sidecars are counted). Active jobs: '' @
                       fmt_d (jst_Active (j_Status setup)) @ '', Failed jobs: '' @
                       fmt_d (jst_Failed (j_Status setup))\<rparr>) s)) }) })"

section \<open>Initializing\<close>

definition initializing_StateHandler :: "'w base \<Rightarrow> store \<Rightarrow> ('w, app_state \<times> store) state" where
  "initializing_StateHandler b s =
     (let cl = b_Client b in do {
        now \<leftarrow> cl_Now cl;
        let con = new_condition StateInitializing now ''Waiting for deployments to get ready'';
        let s = set_CurrentImageTag (cs_Image (st_Container s)) s;
        (running, s) \<leftarrow> AllDeploymentsRunning b s;
        if \<not> running then State_Monad.return (StateInitializing, add_condition con s)
        else do {
          now \<leftarrow> cl_Now cl;
          State_Monad.return (StateReady, add_condition
            (con\<lparr>con_Message := ''Initialization finished'', con_Status := ''Ready'',
                 con_LastTransitionTime := now\<rparr>) s) } })"

section \<open>Migration\<close>

text \<open>\<open>time.Duration.String\<close> of a duration rounded to seconds (halves away from zero).\<close>

definition duration_text :: "int \<Rightarrow> string" where
  "duration_text ns =
     (let secs = round_div ns 1000000000; u = nat \<bar>secs\<bar>;
          sign = (if secs < 0 then ''-'' else [])
      in sign @
         (if u < 60 then dec_nat u @ ''s''
          else if u < 3600 then dec_nat (u div 60) @ ''m'' @ dec_nat (u mod 60) @ ''s''
          else dec_nat (u div 3600) @ ''h'' @ dec_nat (u div 60 mod 60) @ ''m'' @ dec_nat (u mod 60) @ ''s''))"

definition time_or_zero :: "gotime \<Rightarrow> int" where
  "time_or_zero t = (case t of None \<Rightarrow> 0 | Some n \<Rightarrow> n)"

definition migrationDuration :: "'w client \<Rightarrow> job \<Rightarrow> ('w, string) state" where
  "migrationDuration cl j =
     (case jst_StartTime (j_Status j) of
        None \<Rightarrow> State_Monad.return []
      | Some start \<Rightarrow> do {
          now \<leftarrow> cl_Now cl;
          let end' = (case jst_CompletionTime (j_Status j) of Some c \<Rightarrow> c | None \<Rightarrow> time_or_zero now);
          State_Monad.return ('' (Duration '' @ duration_text (end' - start) @ '')'') })"

definition migration_StateHandler :: "'w base \<Rightarrow> store \<Rightarrow> ('w, app_state \<times> store) state" where
  "migration_StateHandler b s =
     (let cl = b_Client b in do {
        now \<leftarrow> cl_Now cl;
        let con = new_condition StateMigration now ''Waiting for migration job to finish'';
        r \<leftarrow> GetMigrationJob cl (b_OperatorServiceURL b) s;
        (case r of
           Inl e \<Rightarrow> State_Monad.return (StateMigration, add_condition
             (if IsNotFound e then con else con\<lparr>con_Reason := err_msg e, con_Status := ''Error''\<rparr>) s)
         | Inr mig \<Rightarrow> do {
             js \<leftarrow> IsJobContainerDone cl (Some mig) CONTAINER_NAME_MIGRATION_JOB;
             (case js of
                Inl e \<Rightarrow> State_Monad.return (StateMigration, add_condition
                  (con\<lparr>con_Reason := err_msg e, con_Status := ''Error''\<rparr>) s)
              | Inr st \<Rightarrow>
                  if IsDone st \<and> HasErrors st then do {
                    d \<leftarrow> migrationDuration cl mig;
                    now \<leftarrow> cl_Now cl;
                    State_Monad.return (StateMigrationError, add_condition
                      (con\<lparr>con_Message := ''Migration is Done but has Errors. Check logs for more details.'' @ d,
                           con_Reason := ''Exit code: '' @ Itoa (jbs_ExitCode st), con_Status := ''Error'',
                           con_Type := app_state_text StateMigrationError, con_LastTransitionTime := now\<rparr>) s) }
                  else if IsDone st \<and> \<not> HasErrors st then do {
                    d \<leftarrow> migrationDuration cl mig;
                    now \<leftarrow> cl_Now cl;
                    _ \<leftarrow> Eventf b s ''Finish Migration''
                      (''Migration in Store '' @ st_Namespace s @ ''/'' @ st_Name s @ '' finished. From tag '' @
                       ss_CurrentImageTag (st_Status s) @ '' to '' @ cs_Image (st_Container s) @ '' '');
                    State_Monad.return (StateInitializing, add_condition
                      (con\<lparr>con_Message := ''Migration finished.'' @ d, con_Status := ''Ready'',
                           con_LastTransitionTime := now\<rparr>)
                      (set_CurrentImageTag (cs_Image (st_Container s)) s)) }
                  else State_Monad.return (StateMigration, add_condition
                    (con\<lparr>con_Message :=
                       ''Waiting for migration job to finish. Active jobs: '' @
                       fmt_d (jst_Active (j_Status mig)) @ '', Failed jobs: '' @
                       fmt_d (jst_Failed (j_Status mig))\<rparr>) s)) }) })"

section \<open>Ready\<close>

definition ready_StateHandler :: "'w base \<Rightarrow> store \<Rightarrow> ('w, app_state \<times> store) state" where
  "ready_StateHandler b s =
     (let cl = b_Client b in do {
        now \<leftarrow> cl_Now cl;
        let con = new_condition StateReady now ''Store is running waiting for image updates to migrate'';
        r \<leftarrow> GetStoreDeploymentImage cl (b_OperatorServiceURL b) s;
        (case r of
           Inl e \<Rightarrow>
             if IsNotFound e then State_Monad.return (StateInitializing, add_condition con s)
             else State_Monad.return (StateReady, add_condition
               (con\<lparr>con_Status := ''Error'', con_Reason := ''get deployment: '' @ err_msg e\<rparr>) s)
         | Inr currentImage \<Rightarrow>
             (let s = set_CurrentImageTag currentImage s in
              if currentImage \<noteq> cs_Image (st_Container s) then do {
                now \<leftarrow> cl_Now cl;
                State_Monad.return (StateMigration, add_condition
                  (con\<lparr>con_Reason := ''Detected image change, switch to migration'', con_Status := ''Ready'',
                       con_LastTransitionTime := now\<rparr>) s) }
              else do {
                (available, s) \<leftarrow> AllDeploymentsAvailable b s;
                if \<not> available then State_Monad.return (StateInitializing, add_condition
                  (con\<lparr>con_Reason := ''Deployments are not running anymore''\<rparr>) s)
                else State_Monad.return (StateReady, add_condition (con\<lparr>con_Status := ''Ready''\<rparr>) s) })) })"

section \<open>What a handler may change\<close>

text \<open>
  A handler writes the status only: metadata and specification stay, the state is left to the
  caller, and the history is extended by conditions.
\<close>

definition status_only :: "store \<Rightarrow> store \<Rightarrow> bool" where
  "status_only s s' \<longleftrightarrow> st_Meta s' = st_Meta s \<and> st_Spec s' = st_Spec s \<and>
     ss_State (st_Status s') = ss_State (st_Status s) \<and>
     ss_QueueState (st_Status s') = ss_QueueState (st_Status s) \<and>
     (\<exists>cs. ss_Conditions (st_Status s') = foldl AddCondition (ss_Conditions (st_Status s)) cs)"

lemma status_only_refl [intro, simp]: "status_only s s"
  unfolding status_only_def by (auto intro: exI [of _ "[]"])

lemma status_only_trans: "status_only s t \<Longrightarrow> status_only t u \<Longrightarrow> status_only s u"
  unfolding status_only_def by (metis foldl_append)

lemma status_only_add [intro, simp]: "status_only s t \<Longrightarrow> status_only s (add_condition c t)"
  unfolding status_only_def add_condition_def
  by (auto, metis foldl_Cons foldl_Nil foldl_append)

lemma status_only_update [intro, simp]:
  "status_only s t \<Longrightarrow> status_only s (set_CurrentImageTag x t)"
  "status_only s t \<Longrightarrow> status_only s (update_Status (\<lambda>st. st\<lparr>ss_AdminState := c\<rparr>) t)"
  "status_only s t \<Longrightarrow> status_only s (update_Status (\<lambda>st. st\<lparr>ss_WorkerState := c\<rparr>) t)"
  "status_only s t \<Longrightarrow> status_only s (update_Status (\<lambda>st. st\<lparr>ss_StorefrontState := c\<rparr>) t)"
  by (auto simp: status_only_def)

definition handler_ok :: "app_state set \<Rightarrow> store \<Rightarrow> app_state \<times> store \<Rightarrow> bool" where
  "handler_ok T s r \<longleftrightarrow> fst r \<in> T \<and> status_only s (snd r)"

lemma handler_ok_pair [simp]: "handler_ok T s (n, s') \<longleftrightarrow> n \<in> T \<and> status_only s s'"
  by (simp add: handler_ok_def)

lemma refresh_keeps: "status_only s t \<Longrightarrow> holds (\<lambda>r. status_only s (snd r)) (refreshDeploymentStates b t)"
  unfolding refreshDeploymentStates_def by (auto intro!: holds_intros simp: Let_def)

lemma running_keeps: "status_only s t \<Longrightarrow> holds (\<lambda>r. status_only s (snd r)) (AllDeploymentsRunning b t)"
  unfolding AllDeploymentsRunning_def by (erule holds_bindI [OF refresh_keeps]) (auto split: prod.split)

lemma available_keeps: "status_only s t \<Longrightarrow> holds (\<lambda>r. status_only s (snd r)) (AllDeploymentsAvailable b t)"
  unfolding AllDeploymentsAvailable_def by (erule holds_bindI [OF refresh_keeps]) (auto split: prod.split)

section \<open>The five handlers\<close>

lemma finish_check_ok: "holds (handler_ok {StateWait, StateSetup} s) (finish_check cl con s r)"
  unfolding finish_check_def by (auto intro!: holds_intros)

lemma checks_ok:
  "holds (handler_ok {StateWait, StateSetup} s) (checkDatabaseServices b s)"
  "holds (handler_ok {StateWait, StateSetup} s) (checkS3Services b s)"
  "holds (handler_ok {StateWait, StateSetup} s) (checkFastlyRef b s)"
  "holds (handler_ok {StateWait, StateSetup} s) (checkOpensearch b s)"
  unfolding checkDatabaseServices_def checkS3Services_def checkFastlyRef_def checkOpensearch_def Let_def
  by (intro holds_intros finish_check_ok)+

lemma run_check_ok:
  assumes "\<And>s. holds (handler_ok {StateWait, StateSetup} s) (check s)"
    and "handler_ok {StateWait, StateSetup} s ns"
  shows "holds (handler_ok {StateWait, StateSetup} s) (run_check e check ns)"
  unfolding run_check_def using assms(2)
  by (auto intro!: holds_ifI holds_bindI [OF assms(1)] simp: handler_ok_def
      dest: status_only_trans split: prod.split)

lemma wait_ok: "holds (handler_ok {StateWait, StateSetup} s) (wait_StateHandler b s)"
  unfolding wait_StateHandler_def Let_def
  by (intro holds_ifI holds_bindI [OF run_check_ok] run_check_ok checks_ok holds_returnI) auto

lemma setup_ok: "holds (handler_ok {StateSetup, StateSetupError, StateInitializing} s) (setup_StateHandler b s)"
  unfolding setup_StateHandler_def Let_def by (auto intro!: holds_intros)

lemma initializing_ok: "holds (handler_ok {StateInitializing, StateReady} s) (initializing_StateHandler b s)"
  unfolding initializing_StateHandler_def Let_def
  by (rule holds_bind_any, rule holds_bindI [OF running_keeps [OF status_only_update(1) [OF status_only_refl]]])
    (auto intro!: holds_intros split: prod.split)

lemma migration_ok:
  "holds (handler_ok {StateMigration, StateMigrationError, StateInitializing} s) (migration_StateHandler b s)"
  unfolding migration_StateHandler_def Let_def by (auto intro!: holds_intros)

lemma ready_ok: "holds (handler_ok {StateReady, StateInitializing, StateMigration} s) (ready_StateHandler b s)"
  unfolding ready_StateHandler_def Let_def
  by (rule holds_bind_any, rule holds_bind_any,
      intro holds_sumI holds_ifI holds_bindI [OF available_keeps [OF status_only_update(1) [OF status_only_refl]]])
    (auto intro!: holds_intros split: prod.split)


section \<open>The contract of a state manager\<close>

text \<open>
  What \<open>StoreStateManager\<close> relies on: the next state is one of the manager's targets, and the
  handler only writes the status, where it keeps the state and extends the history by conditions.
\<close>

locale state_manager =
  fixes handler :: "store \<Rightarrow> ('w, app_state \<times> store) state"
    and targets :: "app_state set"
  assumes next_in_targets: "holds (\<lambda>r. fst r \<in> targets) (handler s)"
    and writes_status_only: "holds (\<lambda>r. status_only s (snd r)) (handler s)"
begin

definition transition :: "store \<Rightarrow> ('w, store) state" where
  "transition s = do { (n, s') \<leftarrow> handler s; State_Monad.return (set_State n s') }"

lemma transition_run:
  "run_state (transition s) w = (s', w') \<Longrightarrow>
     \<exists>n t. run_state (handler s) w = ((n, t), w') \<and> s' = set_State n t \<and> n \<in> targets \<and> status_only s t"
  using holdsD [OF next_in_targets [of s]] holdsD [OF writes_status_only [of s]]
  by (fastforce simp: transition_def run_simps split: prod.splits)

lemma transition_state: "run_state (transition s) w = (s', w') \<Longrightarrow> ss_State (st_Status s') \<in> targets"
  by (auto dest!: transition_run)

lemma transition_keeps:
  "run_state (transition s) w = (s', w') \<Longrightarrow> st_Meta s' = st_Meta s \<and> st_Spec s' = st_Spec s"
  by (auto dest!: transition_run simp: status_only_def)

lemma transition_history:
  assumes "run_state (transition s) w = (s', w')"
    and "store_conditions.well_formed (ss_Conditions (st_Status s))"
  shows "store_conditions.well_formed (ss_Conditions (st_Status s'))"
  using assms transition_run [OF assms(1)]
  by (auto simp: status_only_def store_conditions.well_formed_foldl)

end

lemma state_managerI: "(\<And>s. holds (handler_ok T s) (h s)) \<Longrightarrow> state_manager h T"
  by unfold_locales (auto simp: handler_ok_def holds_def)

interpretation wait_mgr: state_manager "wait_StateHandler b" "{StateWait, StateSetup}" for b
  by (intro state_managerI wait_ok)

interpretation setup_mgr: state_manager "setup_StateHandler b" "{StateSetup, StateSetupError, StateInitializing}" for b
  by (intro state_managerI setup_ok)

interpretation initializing_mgr: state_manager "initializing_StateHandler b" "{StateInitializing, StateReady}" for b
  by (intro state_managerI initializing_ok)

interpretation migration_mgr:
  state_manager "migration_StateHandler b" "{StateMigration, StateMigrationError, StateInitializing}" for b
  by (intro state_managerI migration_ok)

interpretation ready_mgr: state_manager "ready_StateHandler b" "{StateReady, StateInitializing, StateMigration}" for b
  by (intro state_managerI ready_ok)

section \<open>Properties\<close>

text \<open>
  The setup is only left for the initialization when the setup job was found and its container
  has finished without errors, and only marked as failed when it has finished with errors. In any
  other case (job missing, an API error, still running) the Store stays in setup.
\<close>

theorem setup_outcome:
  "case run_state (setup_StateHandler b s) w of ((n, s'), w') \<Rightarrow>
    n = StateSetup \<or>
    (\<exists>j st w1 w2 w3. run_state (GetSetupJob (b_Client b) (b_OperatorServiceURL b) s) w1 = (Inr j, w2) \<and>
       run_state (IsJobContainerDone (b_Client b) (Some j) CONTAINER_NAME_SETUP_JOB) w2 = (Inr st, w3) \<and>
       IsDone st \<and> n = (if HasErrors st then StateSetupError else StateInitializing))"
  by (auto simp: setup_StateHandler_def Let_def run_simps split: prod.splits sum.splits if_splits) blast+

text \<open>
  C13: likewise for the migration; and when a migration has finished without errors the current
  image of the Store becomes the image of its specification, which it does not otherwise.
\<close>

theorem migration_outcome:
  "case run_state (migration_StateHandler b s) w of ((n, s'), w') \<Rightarrow>
    (n = StateMigration \<or>
    (\<exists>j st w1 w2 w3. run_state (GetMigrationJob (b_Client b) (b_OperatorServiceURL b) s) w1 = (Inr j, w2) \<and>
       run_state (IsJobContainerDone (b_Client b) (Some j) CONTAINER_NAME_MIGRATION_JOB) w2 = (Inr st, w3) \<and>
       IsDone st \<and> n = (if HasErrors st then StateMigrationError else StateInitializing))) \<and>
    ss_CurrentImageTag (st_Status s') =
      (if n = StateInitializing then cs_Image (st_Container s) else ss_CurrentImageTag (st_Status s))"
  by (auto simp: migration_StateHandler_def add_condition_def Let_def run_simps
      split: prod.splits sum.splits if_splits) blast+

lemma available_tag:
  "holds (\<lambda>r. ss_CurrentImageTag (st_Status (snd r)) = ss_CurrentImageTag (st_Status t)) (AllDeploymentsAvailable b t)"
  unfolding AllDeploymentsAvailable_def refreshDeploymentStates_def by (auto intro!: holds_intros simp: Let_def)

text \<open>
  C12: a Store that is ready goes to migration exactly when the image of the storefront container in
  the cluster differs from the image of the specification; a missing deployment sends it back to
  the initialization, any other error of the lookup leaves it ready, and the image found becomes
  the current image.
\<close>

theorem ready_outcome:
  "case run_state (cl_Now (b_Client b)) w of (now, w1) \<Rightarrow>
   case run_state (GetStoreDeploymentImage (b_Client b) (b_OperatorServiceURL b) s) w1 of (r, w2) \<Rightarrow>
   case run_state (ready_StateHandler b s) w of ((n, s'), w') \<Rightarrow>
   case r of
      Inl e \<Rightarrow> n = (if IsNotFound e then StateInitializing else StateReady) \<and>
        ss_CurrentImageTag (st_Status s') = ss_CurrentImageTag (st_Status s)
    | Inr img \<Rightarrow> (n = StateMigration \<longleftrightarrow> img \<noteq> cs_Image (st_Container s)) \<and>
        ss_CurrentImageTag (st_Status s') = img"
  using holdsD [OF available_tag]
  by (fastforce simp: ready_StateHandler_def add_condition_def Let_def run_simps
      split: prod.splits sum.splits if_splits)

text \<open>
  A Store becomes ready from the initialization exactly when the admin, worker and storefront
  deployments were all found running, and the status then records these three conditions. The
  current image is set to the image of the specification in any case.
\<close>

theorem initializing_outcome:
  "case run_state (initializing_StateHandler b s) w of ((n, s'), w') \<Rightarrow>
    ss_CurrentImageTag (st_Status s') = cs_Image (st_Container s) \<and>
    n = (if dcon_State (ss_AdminState (st_Status s')) = DeploymentStateRunning \<and>
            dcon_State (ss_WorkerState (st_Status s')) = DeploymentStateRunning \<and>
            dcon_State (ss_StorefrontState (st_Status s')) = DeploymentStateRunning
         then StateReady else StateInitializing)"
  by (auto simp: initializing_StateHandler_def AllDeploymentsRunning_def refreshDeploymentStates_def
      add_condition_def Let_def run_simps split: prod.splits if_splits)

section \<open>The checks of the wait state\<close>

definition wait_checks :: "'w base \<Rightarrow> store \<Rightarrow> (bool \<times> (store \<Rightarrow> ('w, app_state \<times> store) state)) list" where
  "wait_checks b s =
     (let spec = st_Spec s; f = co_Fastly (sp_ShopConfiguration spec) in
      [(\<not> sp_DisableDatabaseCheck spec, checkDatabaseServices b),
       (\<not> sp_DisableS3Check spec \<and> ref_Key (s3_AccessKeyRef (sp_S3Storage spec)) \<noteq> [], checkS3Services b),
       (\<not> sp_DisableFastlyCheck spec \<and> ref_Name (fa_ServiceRef f) \<noteq> [] \<and> ref_Key (fa_ServiceRef f) \<noteq> [],
        checkFastlyRef b),
       (\<not> sp_DisableOpensearchCheck spec \<and> os_Enabled (sp_Opensearch spec), checkOpensearch b)])"

fun run_checks ::
  "(bool \<times> (store \<Rightarrow> ('w, app_state \<times> store) state)) list \<Rightarrow> app_state \<times> store \<Rightarrow> ('w, app_state \<times> store) state" where
  "run_checks [] ns = State_Monad.return ns"
| "run_checks ((e, c) # cs) ns = do { ns' \<leftarrow> run_check e c ns; run_checks cs ns' }"

lemma run_checks_fun:
  "run_checks [] = State_Monad.return"
  "run_checks ((e, c) # cs) = (\<lambda>ns. do { ns' \<leftarrow> run_check e c ns; run_checks cs ns' })"
  by (auto simp: fun_eq_iff)

lemma wait_run_checks:
  assumes "\<not> b_DisableServiceChecks b" "\<not> sp_DisableChecks (st_Spec s)" "ss_State (st_Status s) \<noteq> StateEmpty"
  shows "wait_StateHandler b s = run_checks (wait_checks b s) (StateSetup, s)"
  using assms by (simp add: wait_StateHandler_def wait_checks_def IsState_def Let_def run_checks_fun del: run_checks.simps)

abbreviation fails_on :: "store \<Rightarrow> (store \<Rightarrow> ('w, app_state \<times> store) state) \<Rightarrow> bool" where
  "fails_on s c \<equiv> \<forall>t. status_only s t \<longrightarrow> holds (\<lambda>r. fst r = StateWait) (c t)"

abbreviation passes_on :: "store \<Rightarrow> (store \<Rightarrow> ('w, app_state \<times> store) state) \<Rightarrow> bool" where
  "passes_on s c \<equiv> \<forall>t. status_only s t \<longrightarrow> holds (\<lambda>r. fst r = StateSetup) (c t)"

lemma wait_checks_ok: "(e, c) \<in> set (wait_checks b s) \<Longrightarrow> holds (handler_ok {StateWait, StateSetup} t) (c t)"
  by (auto simp: wait_checks_def Let_def checks_ok)

text \<open>One check: what it does to the state collected so far.\<close>

lemma run_check_step:
  assumes "\<And>t. holds (handler_ok {StateWait, StateSetup} t) (c t)" and "handler_ok {StateWait, StateSetup} s ns"
  shows "holds (\<lambda>r. handler_ok {StateWait, StateSetup} s r \<and>
      (fst ns = StateWait \<or> e \<and> fails_on s c \<longrightarrow> fst r = StateWait) \<and>
      (fst ns = StateSetup \<and> (e \<longrightarrow> passes_on s c) \<longrightarrow> fst r = StateSetup)) (run_check e c ns)"
proof (cases e)
  case True
  have so: "status_only s (snd ns)" using assms(2) by (simp add: handler_ok_def)
  have fail: "fst (fst (run_state (c (snd ns)) w)) = StateWait" if "fails_on s c" for w
    using that so by (auto simp: holds_def)
  have pass: "fst (fst (run_state (c (snd ns)) w)) = StateSetup" if "passes_on s c" for w
    using that so by (auto simp: holds_def)
  have ok: "handler_ok {StateWait, StateSetup} (snd ns) (fst (run_state (c (snd ns)) w))" for w
    using assms(1) [of "snd ns"] by (simp add: holds_def)
  show ?thesis
  proof (rule holdsI)
    fix w
    obtain st t w' where r: "run_state (c (snd ns)) w = ((st, t), w')" by (metis surj_pair)
    have "fst (run_state (run_check e c ns) w) = (if st \<noteq> StateSetup then st else fst ns, t)"
      using True r by (simp add: run_check_def run_simps)
    then show "handler_ok {StateWait, StateSetup} s (fst (run_state (run_check e c ns) w)) \<and>
      (fst ns = StateWait \<or> e \<and> fails_on s c \<longrightarrow> fst (fst (run_state (run_check e c ns) w)) = StateWait) \<and>
      (fst ns = StateSetup \<and> (e \<longrightarrow> passes_on s c) \<longrightarrow> fst (fst (run_state (run_check e c ns) w)) = StateSetup)"
      using assms(2) ok [of w] fail [of w] pass [of w] r True status_only_trans [OF so, of t]
      by (auto simp: handler_ok_def)
  qed
qed (use assms(2) in \<open>simp add: run_check_def\<close>)

lemma run_checks_result:
  assumes "\<forall>(e, c)\<in>set cs. \<forall>t. holds (handler_ok {StateWait, StateSetup} t) (c t)"
    and "handler_ok {StateWait, StateSetup} s ns"
  shows "holds (\<lambda>r. (fst ns = StateWait \<or> (\<exists>(e, c)\<in>set cs. e \<and> fails_on s c) \<longrightarrow> fst r = StateWait) \<and>
      (fst ns = StateSetup \<and> (\<forall>(e, c)\<in>set cs. e \<longrightarrow> passes_on s c) \<longrightarrow> fst r = StateSetup)) (run_checks cs ns)"
  using assms
proof (induction cs arbitrary: ns)
  case (Cons ec cs)
  obtain e c where ec: "ec = (e, c)" by fastforce
  have step: "holds (\<lambda>r. handler_ok {StateWait, StateSetup} s r \<and>
      (fst ns = StateWait \<or> e \<and> fails_on s c \<longrightarrow> fst r = StateWait) \<and>
      (fst ns = StateSetup \<and> (e \<longrightarrow> passes_on s c) \<longrightarrow> fst r = StateSetup)) (run_check e c ns)"
    using Cons.prems ec by (intro run_check_step) auto
  show ?case
    unfolding ec run_checks.simps
  proof (rule holds_bindI [OF step])
    fix r
    assume r: "handler_ok {StateWait, StateSetup} s r \<and>
      (fst ns = StateWait \<or> e \<and> fails_on s c \<longrightarrow> fst r = StateWait) \<and>
      (fst ns = StateSetup \<and> (e \<longrightarrow> passes_on s c) \<longrightarrow> fst r = StateSetup)"
    show "holds (\<lambda>r. (fst ns = StateWait \<or> (\<exists>(e, c)\<in>set ((e, c) # cs). e \<and> fails_on s c) \<longrightarrow> fst r = StateWait) \<and>
      (fst ns = StateSetup \<and> (\<forall>(e, c)\<in>set ((e, c) # cs). e \<longrightarrow> passes_on s c) \<longrightarrow> fst r = StateSetup))
      (run_checks cs r)"
      by (rule holds_mono [OF Cons.IH [of r]]) (use Cons.prems r in \<open>auto split: prod.splits\<close>)
  qed
qed auto



text \<open>A client whose reads give the same answer for all objects of a kind, and a base on it.\<close>

definition const_client :: "(kind \<Rightarrow> kobj result) \<Rightarrow> unit client" where
  "const_client r =
     \<lparr>cl_Get = (\<lambda>k ns n. State_Monad.return (r k)),
      cl_List = (\<lambda>k ns l. State_Monad.return (Inr [])),
      cl_ListAll = (\<lambda>k. State_Monad.return (Inr [])),
      cl_Create = (\<lambda>o'. State_Monad.return None),
      cl_Update = (\<lambda>o'. State_Monad.return None),
      cl_Patch = (\<lambda>old o'. State_Monad.return None),
      cl_Delete = (\<lambda>o'. State_Monad.return None),
      cl_StatusUpdate = (\<lambda>o'. State_Monad.return None),
      cl_Now = State_Monad.return (Some 0), cl_Sleep = State_Monad.return (), cl_GetNil = (\<lambda>ns n. State_Monad.return None), cl_Marshal = (\<lambda>_. Inr []),
      cl_SetControllerReference = (\<lambda>owner o'. Inr o'), cl_RetryOnConflict = (\<lambda>m. m)\<rparr>"

definition const_base :: "(kind \<Rightarrow> kobj result) \<Rightarrow> unit base" where
  "const_base r =
     \<lparr>b_Client = const_client r, b_OperatorServiceURL = [], b_DisableServiceChecks = False, b_EnableKeda = False,
      b_HasClientset = False, b_OperatorMetricsURL = [], b_Recorder = None, b_EventHandlers = [],
      b_AppendCertsFromPEM = (\<lambda>_. True), b_X509KeyPair = (\<lambda>_ _. None),
      b_Ping = (\<lambda>_. State_Monad.return PingOK),
      b_Minio = \<lparr>mi_IPLiteral = Inl, mi_New = (\<lambda>_ _. None), mi_ListBuckets = (\<lambda>_ _ _ _. State_Monad.return (Inr []))\<rparr>,
      b_ExecInPod = (\<lambda>_ _ _ _. State_Monad.return ([], [], None)),
      b_Gauges = \<lparr>g_Set = (\<lambda>_ _ _. State_Monad.return ()), g_DeletePartialMatch = (\<lambda>_ _. State_Monad.return ())\<rparr>\<rparr>"

definition ex_waiting_store :: store where
  "ex_waiting_store = set_State StateWait zero_store"


section \<open>An override of the storefront image\<close>

lemma image_loop_append:
  "\<forall>c\<in>set cs. c_Name c \<noteq> DEPLOYMENT_STOREFRONT_CONTAINER_NAME \<Longrightarrow> image_loop (cs @ ds) = image_loop ds"
  by (induction cs) auto

lemma names_DefaultContainerSecurityContexts:
  "c_Name ` set (DefaultContainerSecurityContexts cs) = c_Name ` set cs"
proof -
  have "map c_Name (DefaultContainerSecurityContexts cs) = map c_Name cs"
    by (simp add: DefaultContainerSecurityContexts_def)
  then show ?thesis by (metis set_map)
qed

lemma storefront_image:
  assumes "DEPLOYMENT_STOREFRONT_CONTAINER_NAME \<notin> c_Name ` set (cs_ExtraContainers
      (merged_spec s (sp_StorefrontDeploymentContainer (st_Spec s))))"
  shows "image_loop (ps_Containers (dep_pod (StorefrontDeployment url s))) =
    Inr (cs_Image (merged_spec s (sp_StorefrontDeploymentContainer (st_Spec s))))"
proof -
  have "\<forall>c\<in>set (DefaultContainerSecurityContexts (cs_ExtraContainers
      (merged_spec s (sp_StorefrontDeploymentContainer (st_Spec s))))). c_Name c \<noteq> DEPLOYMENT_STOREFRONT_CONTAINER_NAME"
    using assms names_DefaultContainerSecurityContexts by (metis imageI)
  then show ?thesis
    by (simp add: StorefrontDeployment_def deployment_object_def Let_def image_loop_append)
qed

text \<open>
  A Store whose storefront override names another image than the container never settles: while
  the cluster runs exactly the storefront deployment the operator builds, the ready handler sends
  the Store to migration every time.
\<close>

theorem storefront_image_override_livelock:
  assumes "cm_Image (sp_StorefrontDeploymentContainer (st_Spec s)) \<noteq> []"
    and "cm_Image (sp_StorefrontDeploymentContainer (st_Spec s)) \<noteq> cs_Image (st_Container s)"
    and "DEPLOYMENT_STOREFRONT_CONTAINER_NAME \<notin> c_Name ` set (cs_ExtraContainers
           (merged_spec s (sp_StorefrontDeploymentContainer (st_Spec s))))"
    and "holds (\<lambda>r. \<exists>d. r = Inr d \<and>
           ps_Containers (dep_pod d) = ps_Containers (dep_pod (StorefrontDeployment (b_OperatorServiceURL b) s)))
         (GetDeployment (b_Client b) (st_Namespace s) (GetStorefrontDeploymentName s))"
  shows "holds (\<lambda>r. fst r = StateMigration) (ready_StateHandler b s)"
proof -
  have img: "cs_Image (merged_spec s (sp_StorefrontDeploymentContainer (st_Spec s))) =
      cm_Image (sp_StorefrontDeploymentContainer (st_Spec s))"
    using assms(1) by (simp add: merged_spec_def Merge_def override_str_def Let_def)
  have found: "holds (\<lambda>r. r = Inr (cm_Image (sp_StorefrontDeploymentContainer (st_Spec s))))
      (GetStoreDeploymentImage (b_Client b) (b_OperatorServiceURL b) s)"
    unfolding GetStoreDeploymentImage_def Let_def
    using assms(4) storefront_image [OF assms(3), of "b_OperatorServiceURL b"] img
    by (intro holds_bindI [where Q = "\<lambda>r. \<exists>d. r = Inr d \<and>
          ps_Containers (dep_pod d) = ps_Containers (dep_pod (StorefrontDeployment (b_OperatorServiceURL b) s))"])
      (auto simp: StorefrontDeployment_def deployment_object_def Let_def)
  show ?thesis
    unfolding ready_StateHandler_def Let_def
    by (rule holds_bind_any, rule holds_bindI [OF found]) (use assms(2) in \<open>auto intro!: holds_intros\<close>)
qed

definition ex_override_store :: store where
  "ex_override_store = zero_store\<lparr>st_Spec := zero_store_spec\<lparr>
     sp_Container := zero_container_spec\<lparr>cs_Image := ''shop:1''\<rparr>,
     sp_StorefrontDeploymentContainer := zero_merge_spec\<lparr>cm_Image := ''shop:2''\<rparr>\<rparr>\<rparr>"

theorem storefront_image_override_livelock_witness:
  "holds (\<lambda>r. fst r = StateMigration)
     (ready_StateHandler (const_base (\<lambda>_. Inr (ODeployment (StorefrontDeployment [] ex_override_store)))) ex_override_store)"
  by (rule storefront_image_override_livelock)
    (simp_all add: ex_override_store_def zero_merge_spec_def merged_spec_def Merge_def override_nil_def
      zero_container_spec_def Let_def const_base_def const_client_def GetDeployment_def typed_def)

end
