(* ===== verification/StoreSecret.thy ===== *)
theory StoreSecret
  imports StoreStates
begin

text \<open>
  The secret of a Store (\<open>internal/secret/secret.go\<close>): application secret, administrator password,
  JWT key pair, database and Opensearch URLs and Fastly credentials. Random numbers, RSA keys and
  certificates come from the crypto packages and are parameters; base64 and PEM are written out.
  Proved: what the secret contains, that generated values never change once they are stored, and
  the shape of generated passwords.
\<close>

section \<open>Validation\<close>

definition secretRefProvided :: "secret_ref \<Rightarrow> bool" where
  "secretRefProvided ref \<longleftrightarrow> ref_Name ref \<noteq> [] \<or> ref_Key ref \<noteq> []"

definition secretRefComplete :: "secret_ref \<Rightarrow> bool" where
  "secretRefComplete ref \<longleftrightarrow> ref_Name ref \<noteq> [] \<and> ref_Key ref \<noteq> []"

definition invalidSecretRef :: "secret_ref \<Rightarrow> bool" where
  "invalidSecretRef ref \<longleftrightarrow> secretRefProvided ref \<and> \<not> secretRefComplete ref"

definition validateStoreSecret :: "store \<Rightarrow> goerr option" where
  "validateStoreSecret s =
     (let spec = st_Spec s; d = sp_Database spec; o' = sp_Opensearch spec; a = sp_AdminCredentials spec;
          f = co_Fastly (sp_ShopConfiguration spec) in
      if db_Host d = [] \<and> ref_Name (db_HostRef d) = [] then
        Some (Errorf (''database host is empty for store '' @ st_Name s @ ''. Either set host or a hostRef''))
      else if os_Enabled o' \<and> (ref_Name (os_PasswordSecretRef o') = [] \<or> ref_Key (os_PasswordSecretRef o') = []) then
        Some (Errorf (''opensearch is enabled but passwordSecretRef key or name is empty for store '' @ st_Name s))
      else if invalidSecretRef (cr_UsernameSecretRef a) then
        Some (Errorf (''admin usernameSecretRef key or name is empty for store '' @ st_Name s))
      else if cr_Username a = [] \<and> \<not> secretRefComplete (cr_UsernameSecretRef a) then
        Some (Errorf (''admin username or a complete usernameSecretRef is required for store '' @ st_Name s))
      else if invalidSecretRef (cr_PasswordSecretRef a) then
        Some (Errorf (''admin passwordSecretRef key or name is empty for store '' @ st_Name s))
      else if secretRefProvided (fa_ServiceRef f) \<and> \<not> secretRefComplete (fa_TokenRef f) then
        Some (Errorf (''fastly apiTokenSecretRef key or name is empty for store '' @ st_Name s @
          ''. Unset the fastlyServiceID or provide a secret''))
      else None)"

section \<open>Generated values\<close>

text \<open>
  \<open>rand.Int\<close>; \<open>rsa.GenerateKey\<close> and \<open>x509.MarshalPKCS1PrivateKey\<close> of its result, so a key is
  represented by its encoding; and \<open>x509.CreateCertificate\<close> with the key on a fixed template.
\<close>

record 'w crypto =
  cy_RandInt :: "int \<Rightarrow> ('w, int result) state"
  cy_GenerateKey :: "nat \<Rightarrow> ('w, bytes result) state"
  cy_CreateCertificate :: "bytes \<Rightarrow> ('w, bytes result) state"

definition passSymbols :: string where
  "passSymbols = ''ABCDEFGHIJKLMNOPQRSTUVWXYZ'' @ ''abcdefghijklmnopqrstuvwxyz'' @ ''0123456789''"

definition rsaKeySize :: nat where
  "rsaKeySize = 2024"

fun generatePass :: "'w crypto \<Rightarrow> nat \<Rightarrow> ('w, bytes result) state" where
  "generatePass cy 0 = State_Monad.return (Inr [])"
| "generatePass cy (Suc long) = do {
     r \<leftarrow> cy_RandInt cy (int (length passSymbols));
     (case r of
        Inl e \<Rightarrow> State_Monad.return (Inl (Wrap ''get rand int'' e))
      | Inr i \<Rightarrow> do {
          rest \<leftarrow> generatePass cy long;
          State_Monad.return (case rest of Inl e \<Rightarrow> Inl e | Inr b \<Rightarrow> Inr (passSymbols ! nat i # b)) }) }"

text \<open>\<open>base64.StdEncoding\<close> and \<open>pem.EncodeToMemory\<close> for a block without headers.\<close>

definition base64_alphabet :: string where
  "base64_alphabet = ''ABCDEFGHIJKLMNOPQRSTUVWXYZ'' @ ''abcdefghijklmnopqrstuvwxyz'' @ ''0123456789+/''"

definition base64_char :: "nat \<Rightarrow> char" where
  "base64_char n = base64_alphabet ! (n mod 64)"

fun base64 :: "bytes \<Rightarrow> string" where
  "base64 [] = []"
| "base64 [a] =
     (let n = of_char a * 16 in [base64_char (n div 64), base64_char n, CHR ''='', CHR ''=''])"
| "base64 [a, b] =
     (let n = (of_char a * 256 + of_char b) * 4 in
      [base64_char (n div 4096), base64_char (n div 64), base64_char n, CHR ''=''])"
| "base64 (a # b # c # cs) =
     (let n = (of_char a * 256 + of_char b) * 256 + of_char c in
      [base64_char (n div 262144), base64_char (n div 4096), base64_char (n div 64), base64_char n] @ base64 cs)"

fun lines64 :: "string \<Rightarrow> string" where
  "lines64 [] = []"
| "lines64 (c # cs) = take 64 (c # cs) @ [CHR 10] @ lines64 (drop 63 cs)"

definition pem :: "string \<Rightarrow> bytes \<Rightarrow> bytes" where
  "pem t b = ''-----BEGIN '' @ t @ ''-----'' @ [CHR 10] @ lines64 (base64 b) @ ''-----END '' @ t @ ''-----'' @ [CHR 10]"

definition encodePrivateKeyToPEM :: "bytes \<Rightarrow> bytes" where
  "encodePrivateKeyToPEM key = pem ''RSA PRIVATE KEY'' key"

definition generatePublicKey :: "'w crypto \<Rightarrow> bytes \<Rightarrow> ('w, bytes result) state" where
  "generatePublicKey cy key = do {
     r \<leftarrow> cy_CreateCertificate cy key;
     State_Monad.return (case r of Inl e \<Rightarrow> Inl e | Inr der \<Rightarrow> Inr (pem ''CERTIFICATE'' der)) }"

definition generatePrivatePublicKey :: "'w crypto \<Rightarrow> nat \<Rightarrow> ('w, (bytes \<times> bytes) result) state" where
  "generatePrivatePublicKey cy keyLength = do {
     k \<leftarrow> cy_GenerateKey cy keyLength;
     (case k of
        Inl e \<Rightarrow> State_Monad.return (Inl e)
      | Inr rsaKey \<Rightarrow> do {
          p \<leftarrow> generatePublicKey cy rsaKey;
          State_Monad.return (case p of
              Inl e \<Rightarrow> Inl (Errorf (''unable to generate public key: '' @ err_msg e))
            | Inr rsaPubKey \<Rightarrow> Inr (encodePrivateKeyToPEM rsaKey, rsaPubKey)) }) }"

section \<open>Filling the secret\<close>

text \<open>The steps of \<open>GenerateStoreSecret\<close> on the data of the secret, in the order of the code.\<close>

type_synonym data = "(string, bytes) fmap"

definition app_secret_step :: "'w crypto \<Rightarrow> data \<Rightarrow> ('w, data result) state" where
  "app_secret_step cy d =
     (if fmlookup d ''app-secret'' \<noteq> None then State_Monad.return (Inr d)
      else do {
        r \<leftarrow> generatePass cy 128;
        State_Monad.return (case r of
            Inl e \<Rightarrow> Inl (Wrap ''generate app secret'' e)
          | Inr pass \<Rightarrow> Inr (fmupd ''app-secret'' pass d)) })"

definition admin_password_step :: "'w crypto \<Rightarrow> store \<Rightarrow> bytes \<Rightarrow> data \<Rightarrow> ('w, data result) state" where
  "admin_password_step cy s adminPassword d =
     (let a = sp_AdminCredentials (st_Spec s) in
      if secretRefComplete (cr_PasswordSecretRef a) then State_Monad.return (Inr (fmupd ''admin-password'' adminPassword d))
      else if fmlookup d ''admin-password'' \<noteq> None then State_Monad.return (Inr d)
      else if cr_Password a \<noteq> [] then State_Monad.return (Inr (fmupd ''admin-password'' (cr_Password a) d))
      else do {
        r \<leftarrow> generatePass cy 20;
        State_Monad.return (case r of
            Inl e \<Rightarrow> Inl (Wrap ''generate admin secret'' e)
          | Inr admin \<Rightarrow> Inr (fmupd ''admin-password'' admin d)) })"

definition jwt_step :: "'w crypto \<Rightarrow> data \<Rightarrow> ('w, data result) state" where
  "jwt_step cy d =
     (if fmlookup d ''jwt-private-key'' \<noteq> None then State_Monad.return (Inr d)
      else do {
        r \<leftarrow> generatePrivatePublicKey cy rsaKeySize;
        State_Monad.return (case r of
            Inl e \<Rightarrow> Inl (Wrap ''create jwt keys'' e)
          | Inr (privateKey, publicKey) \<Rightarrow>
              Inr (fmupd ''jwt-public-key'' (base64 publicKey) (fmupd ''jwt-private-key'' (base64 privateKey) d))) })"

definition url_step :: "store \<Rightarrow> resolved_db \<Rightarrow> bytes \<Rightarrow> data \<Rightarrow> data" where
  "url_step s dbSpec opensearchPassword d =
     (let d = fmupd ''database-password'' (QueryEscape (rdb_Password dbSpec)) d;
          d = fmupd ''database-user'' (rdb_User dbSpec) d;
          d = fmupd ''database-host'' (rdb_Host dbSpec) d;
          d = fmupd ''database-url'' (GenerateDatabaseURLForShopware dbSpec) d in
      if os_Enabled (sp_Opensearch (st_Spec s))
      then fmupd ''opensearch-url'' (GenerateOpensearchURLForShopware (sp_Opensearch (st_Spec s)) opensearchPassword) d
      else fmdrop ''opensearch-url'' d)"

definition fastly_step :: "bytes \<Rightarrow> bytes \<Rightarrow> data \<Rightarrow> data" where
  "fastly_step fastlyServiceID fastlyToken d =
     (if length fastlyServiceID > 0 \<and> length fastlyToken > 0
      then fmupd ''fastly-service-id'' fastlyServiceID (fmupd ''fastly-token'' fastlyToken d) else d)"

definition GenerateStoreSecret ::
  "'w crypto \<Rightarrow> store \<Rightarrow> secret \<Rightarrow> resolved_db \<Rightarrow> bytes \<Rightarrow> bytes \<Rightarrow> bytes \<Rightarrow> bytes \<Rightarrow> ('w, secret result) state" where
  "GenerateStoreSecret cy s sec dbSpec opensearchPassword fastlyServiceID fastlyToken adminPassword = do {
     r1 \<leftarrow> app_secret_step cy (case s_Data sec of None \<Rightarrow> fmempty | Some d \<Rightarrow> d);
     (case r1 of
        Inl e \<Rightarrow> State_Monad.return (Inl e)
      | Inr d1 \<Rightarrow> do {
          r2 \<leftarrow> admin_password_step cy s adminPassword d1;
          (case r2 of
             Inl e \<Rightarrow> State_Monad.return (Inl e)
           | Inr d2 \<Rightarrow> do {
               r3 \<leftarrow> jwt_step cy d2;
               State_Monad.return (case r3 of
                   Inl e \<Rightarrow> Inl e
                 | Inr d3 \<Rightarrow> Inr (sec\<lparr>s_Data := Some (fastly_step fastlyServiceID fastlyToken
                     (url_step s dbSpec opensearchPassword d3))\<rparr>)) }) }) }"

section \<open>Reading what is referenced\<close>

definition getSecretValue :: "'w client \<Rightarrow> store \<Rightarrow> secret_ref \<Rightarrow> string \<Rightarrow> ('w, bytes result) state" where
  "getSecretValue cl s ref description = do {
     r \<leftarrow> GetSecret cl (st_Namespace s) (ref_Name ref);
     State_Monad.return (case r of
         Inl e \<Rightarrow> if IsNotFound e then Inl (Wrap (''can't find '' @ description @ '' secret '' @ ref_Name ref) e)
                   else Inl (Wrap (''can't read '' @ description @ '' secret '' @ ref_Name ref) e)
       | Inr sec \<Rightarrow>
           (case secret_data sec (ref_Key ref) of
              None \<Rightarrow> Inl (Errorf (description @ '' secret '' @ ref_Name ref @ '' does not contain key '' @ ref_Key ref))
            | Some value \<Rightarrow> Inr value)) }"

text \<open>
  The Opensearch and Fastly secrets: a missing secret is also recorded as an event, a missing key is
  an empty value.
\<close>

definition read_referenced ::
  "'w base \<Rightarrow> store \<Rightarrow> bool \<Rightarrow> secret_ref \<Rightarrow> string \<Rightarrow> string \<Rightarrow> ('w, bytes result) state" where
  "read_referenced b s enabled ref reason what =
     (if \<not> enabled then State_Monad.return (Inr [])
      else do {
        r \<leftarrow> GetSecret (b_Client b) (st_Namespace s) (ref_Name ref);
        (case r of
           Inl e \<Rightarrow>
             if IsNotFound e then do {
               _ \<leftarrow> Eventf b s reason (''Missing '' @ what @ '' secret for Store '' @ st_Name s @ '' in namespace '' @ st_Namespace s);
               State_Monad.return (Inl (Wrap (''can't find '' @ what @ '' secret'') e)) }
             else State_Monad.return (Inl (Wrap (''can't read '' @ what @ '' secret'') e))
         | Inr sec \<Rightarrow> State_Monad.return (Inr (case secret_data sec (ref_Key ref) of None \<Rightarrow> [] | Some v \<Rightarrow> v))) })"

definition read_admin_password :: "'w base \<Rightarrow> store \<Rightarrow> ('w, bytes result) state" where
  "read_admin_password b s =
     (let ref = cr_PasswordSecretRef (sp_AdminCredentials (st_Spec s)) in
      if ref_Name ref \<noteq> [] then getSecretValue (b_Client b) s ref ''Admin credentials''
      else State_Monad.return (Inr []))"

definition read_db_spec :: "'w base \<Rightarrow> store \<Rightarrow> ('w, resolved_db result) state" where
  "read_db_spec b s = do {
     r \<leftarrow> GetDBSpec (b_Client b) s;
     (case r of
        Inl e \<Rightarrow>
          if IsNotFound e then do {
            _ \<leftarrow> Eventf b s ''DB secret not found''
              (''Missing database secret for Store '' @ st_Name s @ '' in namespace '' @ st_Namespace s @ '': '' @ err_msg e);
            State_Monad.return (Inl (Wrap ''can't find database secret'' e)) }
          else State_Monad.return (Inl (Wrap ''can't read database secret'' e))
      | Inr d \<Rightarrow> State_Monad.return (Inr d)) }"

definition empty_secret :: secret where
  "empty_secret = \<lparr>s_Meta = empty_meta, s_Data = None, s_StringData = None\<rparr>"

definition read_store_secret :: "'w client \<Rightarrow> store \<Rightarrow> ('w, secret result) state" where
  "read_store_secret cl s = do {
     r \<leftarrow> GetSecret cl (st_Namespace s) (GetSecretName s);
     State_Monad.return (case r of
         Inl e \<Rightarrow> if IsNotFound e then Inr empty_secret else Inl (Wrap ''get store secret'' e)
       | Inr sec \<Rightarrow> Inr sec) }"

text \<open>A computation that goes on with the value, or returns the error.\<close>

definition on_success :: "('w, 'a result) state \<Rightarrow> ('a \<Rightarrow> ('w, 'b result) state) \<Rightarrow> ('w, 'b result) state" where
  "on_success m f = do { r \<leftarrow> m; (case r of Inl e \<Rightarrow> State_Monad.return (Inl e) | Inr x \<Rightarrow> f x) }"

definition EnsureStoreSecret :: "'w base \<Rightarrow> 'w crypto \<Rightarrow> store \<Rightarrow> ('w, secret result) state" where
  "EnsureStoreSecret b cy s =
     (let o' = sp_Opensearch (st_Spec s); f = co_Fastly (sp_ShopConfiguration (st_Spec s)) in
      case validateStoreSecret s of
        Some e \<Rightarrow> State_Monad.return (Inl e)
      | None \<Rightarrow>
          on_success (read_referenced b s (os_Enabled o') (os_PasswordSecretRef o') ''Opensearch secret not found'' ''opensearch'')
            (\<lambda>opensearchPassword.
          on_success (read_admin_password b s) (\<lambda>adminPassword.
          on_success (read_referenced b s (secretRefComplete (fa_TokenRef f)) (fa_TokenRef f) ''Fastly secret not found'' ''Fastly'')
            (\<lambda>fastlyToken.
          on_success (read_referenced b s (secretRefComplete (fa_ServiceRef f)) (fa_ServiceRef f) ''Fastly secret not found'' ''Fastly'')
            (\<lambda>fastlyServiceID.
          on_success (read_db_spec b s) (\<lambda>dbSpec.
          on_success (read_store_secret (b_Client b) s) (\<lambda>sec. do {
            r \<leftarrow> GenerateStoreSecret cy s sec dbSpec opensearchPassword fastlyServiceID fastlyToken adminPassword;
            State_Monad.return (case r of
                Inl e \<Rightarrow> Inl (Wrap ''fill store secret'' e)
              | Inr sec \<Rightarrow> Inr (sec\<lparr>s_Meta := (s_Meta sec)\<lparr>m_Name := GetSecretName s, m_Namespace := st_Namespace s\<rparr>\<rparr>)) })))))))"

text \<open>What the documentation of \<open>rand.Int\<close> promises.\<close>

definition rand_ok :: "'w crypto \<Rightarrow> bool" where
  "rand_ok cy \<longleftrightarrow> (\<forall>m w i. 0 < m \<and> fst (run_state (cy_RandInt cy m) w) = Inr i \<longrightarrow> 0 \<le> i \<and> i < m)"

definition ex_crypto :: "unit crypto" where
  "ex_crypto = \<lparr>cy_RandInt = (\<lambda>m. State_Monad.return (Inr (m - 1))),
     cy_GenerateKey = (\<lambda>n. State_Monad.return (Inr ''key'')),
     cy_CreateCertificate = (\<lambda>k. State_Monad.return (Inr ''cert''))\<rparr>"

definition ex_db :: resolved_db where
  "ex_db = base_db_spec zero_store ''db'' ''pw''"

definition ex_data :: data where
  "ex_data = fmap_of_list [(''app-secret'', ''x''), (''fastly-token'', ''t'')]"

definition ex_ref :: secret_ref where
  "ex_ref = \<lparr>ref_Name = ''n'', ref_Key = ''k''\<rparr>"

definition ex_ref_store :: store where
  "ex_ref_store = zero_store\<lparr>st_Spec := zero_store_spec\<lparr>
     sp_Database := (sp_Database zero_store_spec)\<lparr>db_Host := ''db'', db_PasswordSecretRef := ex_ref\<rparr>,
     sp_AdminCredentials := (sp_AdminCredentials zero_store_spec)\<lparr>cr_Username := ''admin'', cr_PasswordSecretRef := ex_ref\<rparr>\<rparr>\<rparr>"

definition ex_secret_base :: "unit base" where
  "ex_secret_base = const_base (\<lambda>_. Inr (OSecret (empty_secret\<lparr>s_Data := Some (fmap_of_list [(''k'', ''pw'')])\<rparr>)))"

definition secret_map :: "secret \<Rightarrow> data" where
  "secret_map sec = (case s_Data sec of None \<Rightarrow> fmempty | Some d \<Rightarrow> d)"

section \<open>The steps\<close>

named_theorems secret_steps

lemma fmupd_same: "fmlookup m k = Some v \<Longrightarrow> fmupd k v m = m"
  by (intro fmap_ext) auto

lemma app_secret_step_Inr [secret_steps]:
  assumes "run_state (app_secret_step cy d) w = (Inr d', w')"
  shows "fmlookup d' k = (if k = ''app-secret'' \<and> fmlookup d k = None then fmlookup d' k else fmlookup d k)"
    and "fmlookup d' ''app-secret'' \<noteq> None"
  using assms by (auto simp: app_secret_step_def run_simps split: if_splits prod.splits sum.splits)

lemma admin_password_step_Inr [secret_steps]:
  assumes "run_state (admin_password_step cy s p d) w = (Inr d', w')"
  shows "k \<noteq> ''admin-password'' \<Longrightarrow> fmlookup d' k = fmlookup d k"
    and "fmlookup d' ''admin-password'' \<noteq> None"
    and "secretRefComplete (cr_PasswordSecretRef (sp_AdminCredentials (st_Spec s))) \<Longrightarrow> fmlookup d' ''admin-password'' = Some p"
    and "\<not> secretRefComplete (cr_PasswordSecretRef (sp_AdminCredentials (st_Spec s))) \<Longrightarrow>
      fmlookup d ''admin-password'' = Some v \<Longrightarrow> fmlookup d' ''admin-password'' = Some v"
  using assms by (auto simp: admin_password_step_def run_simps Let_def split: if_splits prod.splits sum.splits)

lemma jwt_step_Inr [secret_steps]:
  assumes "run_state (jwt_step cy d) w = (Inr d', w')"
  shows "k \<noteq> ''jwt-private-key'' \<Longrightarrow> k \<noteq> ''jwt-public-key'' \<Longrightarrow> fmlookup d' k = fmlookup d k"
    and "fmlookup d' ''jwt-private-key'' \<noteq> None"
    and "fmlookup d ''jwt-private-key'' \<noteq> None \<Longrightarrow> d' = d"
  using assms by (auto simp: jwt_step_def run_simps split: if_splits prod.splits sum.splits)

lemma url_step_lookup:
  "fmlookup (url_step s db p d) k =
     (if k = ''database-password'' then Some (QueryEscape (rdb_Password db))
      else if k = ''database-user'' then Some (rdb_User db)
      else if k = ''database-host'' then Some (rdb_Host db)
      else if k = ''database-url'' then Some (GenerateDatabaseURLForShopware db)
      else if k = ''opensearch-url'' then
        if os_Enabled (sp_Opensearch (st_Spec s)) then Some (GenerateOpensearchURLForShopware (sp_Opensearch (st_Spec s)) p) else None
      else fmlookup d k)"
  by (simp add: url_step_def Let_def)

lemma fastly_step_lookup:
  "fmlookup (fastly_step i t d) k =
     (if i \<noteq> [] \<and> t \<noteq> [] \<and> k = ''fastly-service-id'' then Some i
      else if i \<noteq> [] \<and> t \<noteq> [] \<and> k = ''fastly-token'' then Some t else fmlookup d k)"
  by (simp add: fastly_step_def)

text \<open>The later steps leave the generated values alone.\<close>

lemma stored_keys:
  "fmlookup (fastly_step i t (url_step s db p d)) ''app-secret'' = fmlookup d ''app-secret''"
  "fmlookup (fastly_step i t (url_step s db p d)) ''admin-password'' = fmlookup d ''admin-password''"
  "fmlookup (fastly_step i t (url_step s db p d)) ''jwt-private-key'' = fmlookup d ''jwt-private-key''"
  "fmlookup (fastly_step i t (url_step s db p d)) ''jwt-public-key'' = fmlookup d ''jwt-public-key''"
  unfolding fastly_step_lookup url_step_lookup by simp_all

lemma on_success_Inr:
  assumes "run_state (on_success m f) w = (Inr x, w')"
  obtains a w1 where "run_state m w = (Inr a, w1)" "run_state (f a) w1 = (Inr x, w')"
  using assms by (auto simp: on_success_def run_simps split: prod.splits sum.splits)

lemma GenerateStoreSecret_steps:
  assumes "run_state (GenerateStoreSecret cy s sec db op fi ft ap) w = (Inr sec', w')"
  obtains d1 d2 d3 w1 w2 where
    "run_state (app_secret_step cy (secret_map sec)) w = (Inr d1, w1)"
    "run_state (admin_password_step cy s ap d1) w1 = (Inr d2, w2)"
    "run_state (jwt_step cy d2) w2 = (Inr d3, w')"
    "sec' = sec\<lparr>s_Data := Some (fastly_step fi ft (url_step s db op d3))\<rparr>"
  using assms unfolding GenerateStoreSecret_def secret_map_def run_simps
  by (auto split: prod.splits sum.splits)

lemma ex_generatePass: "\<exists>p. run_state (generatePass ex_crypto n) () = (Inr p, ())"
  by (induction n) (auto simp: run_simps ex_crypto_def)

lemma ex_GenerateStoreSecret:
  "\<exists>sec'. run_state (GenerateStoreSecret ex_crypto s sec db op fi ft ap) () = (Inr sec', ())"
proof -
  have "\<exists>d'. run_state (app_secret_step ex_crypto d) () = (Inr d', ())" for d
    using ex_generatePass[of 128] by (auto simp: app_secret_step_def run_simps simp del: generatePass.simps)
  moreover have "\<exists>d'. run_state (admin_password_step ex_crypto s ap d) () = (Inr d', ())" for d
    using ex_generatePass[of 20] by (auto simp: admin_password_step_def Let_def run_simps simp del: generatePass.simps)
  moreover have "\<exists>d'. run_state (jwt_step ex_crypto d) () = (Inr d', ())" for d
    by (auto simp: jwt_step_def run_simps generatePrivatePublicKey_def generatePublicKey_def ex_crypto_def)
  ultimately obtain d1 d2 d3 where
    "run_state (app_secret_step ex_crypto (case s_Data sec of None \<Rightarrow> fmempty | Some d \<Rightarrow> d)) () = (Inr d1, ())"
    "run_state (admin_password_step ex_crypto s ap d1) () = (Inr d2, ())"
    "run_state (jwt_step ex_crypto d2) () = (Inr d3, ())" by meson
  then show ?thesis unfolding GenerateStoreSecret_def by (simp add: run_simps)
qed

section \<open>Properties\<close>

text \<open>
  C18: Filling the secret is idempotent: a secret that was filled is left exactly as it is when it is
  filled again for the same Store and the same referenced values, without using the source of random
  numbers at all; so an unchanged Store never rotates its secrets.
\<close>

theorem GenerateStoreSecret_idempotent:
  assumes "run_state (GenerateStoreSecret cy s sec db op fi ft ap) w = (Inr sec', w')"
  shows "run_state (GenerateStoreSecret cy2 s sec' db op fi ft ap) v = (Inr sec', v)"
proof -
  obtain d1 d2 d3 w1 w2 where steps:
    "run_state (app_secret_step cy (secret_map sec)) w = (Inr d1, w1)"
    "run_state (admin_password_step cy s ap d1) w1 = (Inr d2, w2)"
    "run_state (jwt_step cy d2) w2 = (Inr d3, w')"
    and sec': "sec' = sec\<lparr>s_Data := Some (fastly_step fi ft (url_step s db op d3))\<rparr>"
    using assms by (rule GenerateStoreSecret_steps)
  let ?d = "fastly_step fi ft (url_step s db op d3)"
  have app: "fmlookup ?d ''app-secret'' \<noteq> None"
    using app_secret_step_Inr(2)[OF steps(1)] admin_password_step_Inr(1)[OF steps(2), of "''app-secret''"]
      jwt_step_Inr(1)[OF steps(3), of "''app-secret''"] by (simp add: stored_keys)
  have admin: "fmlookup ?d ''admin-password'' = fmlookup d2 ''admin-password''"
    using jwt_step_Inr(1)[OF steps(3), of "''admin-password''"] by (simp add: stored_keys)
  have jwt: "fmlookup ?d ''jwt-private-key'' \<noteq> None"
    using jwt_step_Inr(2)[OF steps(3)] by (simp add: stored_keys)
  have "admin_password_step cy2 s ap ?d = State_Monad.return (Inr ?d)"
    using admin admin_password_step_Inr(2,3)[OF steps(2)]
    by (cases "secretRefComplete (cr_PasswordSecretRef (sp_AdminCredentials (st_Spec s)))")
      (simp_all add: admin_password_step_def Let_def fmupd_same)
  moreover have "url_step s db op ?d = ?d"
    by (rule fmap_ext) (simp add: url_step_lookup fastly_step_lookup)
  moreover have "fastly_step fi ft ?d = ?d"
    by (rule fmap_ext) (simp add: fastly_step_lookup)
  ultimately show ?thesis
    using app jwt unfolding GenerateStoreSecret_def sec'
    by (simp add: app_secret_step_def jwt_step_def run_simps)
qed

theorem GenerateStoreSecret_idempotent_witness:
  "\<exists>sec'. run_state (GenerateStoreSecret ex_crypto zero_store empty_secret ex_db [] [] [] []) () = (Inr sec', ()) \<and>
     run_state (GenerateStoreSecret ex_crypto zero_store sec' ex_db [] [] [] []) () = (Inr sec', ())"
proof -
  obtain sec' where first: "run_state (GenerateStoreSecret ex_crypto zero_store empty_secret ex_db [] [] [] []) () = (Inr sec', ())"
    using ex_GenerateStoreSecret by blast
  then show ?thesis using GenerateStoreSecret_idempotent[OF first, of ex_crypto "()"] by (intro exI conjI)
qed



text \<open>
  A generated password has the requested length and consists of letters and digits, for every
  source of random numbers that keeps to the given bound.
\<close>

theorem generatePass_shape:
  assumes "rand_ok cy" and "run_state (generatePass cy n) w = (Inr p, w')"
  shows "length p = n \<and> set p \<subseteq> set passSymbols"
  using assms(2)
proof (induction n arbitrary: p w w')
  case (Suc n)
  have pos: "length passSymbols > 0" by (simp add: passSymbols_def)
  obtain i w1 q where q: "run_state (cy_RandInt cy (int (length passSymbols))) w = (Inr i, w1)"
      "run_state (generatePass cy n) w1 = (Inr q, w')" "p = passSymbols ! nat i # q"
    using Suc.prems by (auto simp: run_simps split: prod.splits sum.splits)
  then have "0 \<le> i \<and> i < int (length passSymbols)"
    using assms(1) pos unfolding rand_ok_def by (metis fst_conv of_nat_0_less_iff)
  then show ?case using Suc.IH[OF q(2)] q(3) by (auto intro: nth_mem)
qed (simp add: run_simps)

theorem generatePass_shape_witness:
  "\<exists>p. run_state (generatePass ex_crypto 2) () = (Inr p, ()) \<and> length p = 2 \<and> set p \<subseteq> set passSymbols"
proof -
  have ok: "rand_ok ex_crypto" by (simp add: rand_ok_def ex_crypto_def run_simps)
  obtain p where p: "run_state (generatePass ex_crypto 2) () = (Inr p, ())"
    using ex_generatePass[of 2] by blast
  show ?thesis using generatePass_shape[OF ok p] p by blast
qed

text \<open>
  When the Store refers to a secret for the administrator's password, a secret is only built
  with the value that was read under that reference (a missing secret or key is an error), and it
  has the name and the namespace of the Store's secret.
\<close>

theorem EnsureStoreSecret_admin_ref:
  assumes "run_state (EnsureStoreSecret b cy s) w = (Inr sec, w')"
    and "ref_Name (cr_PasswordSecretRef (sp_AdminCredentials (st_Spec s))) \<noteq> []"
  shows "\<exists>v w1 w2. run_state (getSecretValue (b_Client b) s (cr_PasswordSecretRef (sp_AdminCredentials (st_Spec s)))
       ''Admin credentials'') w1 = (Inr v, w2) \<and> fmlookup (secret_map sec) ''admin-password'' = Some v \<and>
     m_Name (s_Meta sec) = GetSecretName s \<and> m_Namespace (s_Meta sec) = st_Namespace s"
proof -
  let ?ref = "cr_PasswordSecretRef (sp_AdminCredentials (st_Spec s))"
  have valid: "validateStoreSecret s = None" using assms(1) by (auto simp: EnsureStoreSecret_def Let_def run_simps split: option.splits)
  then have complete: "secretRefComplete ?ref" using assms(2)
    by (auto simp: validateStoreSecret_def Let_def invalidSecretRef_def secretRefProvided_def split: if_splits)
  obtain v w1 w2 op fi ft db sec0 w3 w4 sec1 where
    v: "run_state (read_admin_password b s) w1 = (Inr v, w2)" and
    gen: "run_state (GenerateStoreSecret cy s sec0 db op fi ft v) w3 = (Inr sec1, w4)" and
    sec: "sec = sec1\<lparr>s_Meta := (s_Meta sec1)\<lparr>m_Name := GetSecretName s, m_Namespace := st_Namespace s\<rparr>\<rparr>"
    using assms(1) unfolding EnsureStoreSecret_def valid option.case Let_def
    by (auto simp: run_simps elim!: on_success_Inr split: prod.splits sum.splits)
  obtain d1 d2 d3 w5 w6 where steps:
    "run_state (admin_password_step cy s v d1) w5 = (Inr d2, w6)"
    "run_state (jwt_step cy d2) w6 = (Inr d3, w4)"
    "sec1 = sec0\<lparr>s_Data := Some (fastly_step fi ft (url_step s db op d3))\<rparr>"
    using gen by (rule GenerateStoreSecret_steps)
  have "fmlookup (secret_map sec) ''admin-password'' = Some v"
    using admin_password_step_Inr(3)[OF steps(1) complete] jwt_step_Inr(1)[OF steps(2), of "''admin-password''"]
    by (simp add: sec steps(3) secret_map_def stored_keys)
  then show ?thesis using v assms(2) sec by (auto simp: read_admin_password_def Let_def)
qed

theorem EnsureStoreSecret_admin_ref_witness:
  "\<exists>sec. run_state (EnsureStoreSecret ex_secret_base ex_crypto ex_ref_store) () = (Inr sec, ()) \<and>
     fmlookup (secret_map sec) ''admin-password'' = Some ''pw''"
proof -
  have run: "run_state (GetSecret (b_Client ex_secret_base) ns n) () =
      (Inr (empty_secret\<lparr>s_Data := Some (fmap_of_list [(''k'', ''pw'')])\<rparr>), ())" for ns n
    by (simp add: GetSecret_def ex_secret_base_def const_base_def const_client_def run_simps typed_def)
  note defs = ex_ref_store_def zero_store_def zero_store_spec_def ex_ref_def no_ref_def
  have reads: "run_state (read_admin_password ex_secret_base ex_ref_store) () = (Inr ''pw'', ())"
    "run_state (read_db_spec ex_secret_base ex_ref_store) () = (Inr (base_db_spec ex_ref_store ''db'' ''pw''), ())"
    "run_state (read_store_secret (b_Client ex_secret_base) ex_ref_store) () =
       (Inr (empty_secret\<lparr>s_Data := Some (fmap_of_list [(''k'', ''pw'')])\<rparr>), ())"
    "validateStoreSecret ex_ref_store = None"
    by (simp_all add: read_admin_password_def getSecretValue_def read_db_spec_def GetDBSpec_def db_host_def
        read_store_secret_def run run_simps Let_def secret_data_def RequiresTLSSecret_def
        validateStoreSecret_def invalidSecretRef_def secretRefComplete_def secretRefProvided_def EqualFold_def ToLower_def defs)
  have off: "run_state (read_referenced ex_secret_base ex_ref_store False ref r n) () = (Inr [], ())" for ref r n
    by (simp add: read_referenced_def run_simps)
  obtain sec1 where gen: "run_state (GenerateStoreSecret ex_crypto ex_ref_store (empty_secret\<lparr>s_Data := Some (fmap_of_list [(''k'', ''pw'')])\<rparr>)
      (base_db_spec ex_ref_store ''db'' ''pw'') [] [] [] ''pw'') () = (Inr sec1, ())" using ex_GenerateStoreSecret by blast
  have "\<not> os_Enabled (sp_Opensearch (st_Spec ex_ref_store))"
    "\<not> secretRefComplete (fa_TokenRef (co_Fastly (sp_ShopConfiguration (st_Spec ex_ref_store))))"
    "\<not> secretRefComplete (fa_ServiceRef (co_Fastly (sp_ShopConfiguration (st_Spec ex_ref_store))))"
    by (simp_all add: secretRefComplete_def defs)
  then obtain sec where sec: "run_state (EnsureStoreSecret ex_secret_base ex_crypto ex_ref_store) () = (Inr sec, ())"
    using gen by (simp add: EnsureStoreSecret_def Let_def on_success_def run_simps reads off)
  have ref: "cr_PasswordSecretRef (sp_AdminCredentials (st_Spec ex_ref_store)) = ex_ref" by (simp add: defs)
  have "run_state (getSecretValue (b_Client ex_secret_base) ex_ref_store ex_ref n) w = (Inr ''pw'', w)" for n w
    by (simp add: getSecretValue_def run run_simps secret_data_def ex_ref_def)
  then show ?thesis
    using EnsureStoreSecret_admin_ref[OF sec, unfolded ref] sec by (auto simp: ex_ref_def)
qed

end
