(* ===== verification/Utf8.thy ===== *)
theory Utf8
  imports Prelude
begin

text \<open>
  Shortening and trimming texts (\<open>internal/util/truncate.go\<close>) with what it uses of Go's UTF-8 support: the byte
  ranges of valid encodings, \<open>strings.ToValidUTF8\<close> and \<open>utf8.RuneStart\<close>. Strings are byte lists.
\<close>

section \<open>Encodings\<close>

definition cont :: "char \<Rightarrow> bool" where
  "cont c \<longleftrightarrow> byte_in 0x80 0xBF c"

text \<open>The length of the valid encoding at the head of a text, if there is one.\<close>

fun rune_len :: "string \<Rightarrow> nat option" where
  "rune_len [] = None"
| "rune_len (a # s) =
     (if byte_in 0 0x7F a then Some 1
      else if byte_in 0xC2 0xDF a then
        (case s of b # _ \<Rightarrow> if cont b then Some 2 else None | _ \<Rightarrow> None)
      else if byte_in 0xE0 0xEF a then
        (case s of b # c # _ \<Rightarrow>
           if (if a = CHR 0xE0 then byte_in 0xA0 0xBF b else if a = CHR 0xED then byte_in 0x80 0x9F b else cont b)
              \<and> cont c then Some 3 else None
         | _ \<Rightarrow> None)
      else if byte_in 0xF0 0xF4 a then
        (case s of b # c # d # _ \<Rightarrow>
           if (if a = CHR 0xF0 then byte_in 0x90 0xBF b else if a = CHR 0xF4 then byte_in 0x80 0x8F b else cont b)
              \<and> cont c \<and> cont d then Some 4 else None
         | _ \<Rightarrow> None)
      else None)"

definition RuneStart :: "char \<Rightarrow> bool" where
  "RuneStart c \<longleftrightarrow> \<not> cont c"

text \<open>The replacement character in UTF-8.\<close>

definition RuneError :: string where
  "RuneError = [CHR 0xEF, CHR 0xBF, CHR 0xBD]"

text \<open>\<open>ToValidUTF8\<close>: each run of invalid bytes becomes one replacement.\<close>

fun to_valid :: "bool \<Rightarrow> string \<Rightarrow> string \<Rightarrow> string" where
  "to_valid bad rep [] = []"
| "to_valid bad rep (c # s) =
     (case rune_len (c # s) of
        Some n \<Rightarrow> take n (c # s) @ to_valid False rep (drop (n - 1) s)
      | None \<Rightarrow> (if bad then [] else rep) @ to_valid True rep s)"

definition ToValidUTF8 :: "string \<Rightarrow> string \<Rightarrow> string" where
  "ToValidUTF8 s rep = to_valid False rep s"

section \<open>White space\<close>

text \<open>The encodings of the characters with the property White_Space.\<close>

definition spaces :: "string list" where
  "spaces =
     map (\<lambda>c. [c]) [CHR 9, CHR 10, CHR 11, CHR 12, CHR 13, CHR 32] @
     [[CHR 0xC2, CHR 0x85], [CHR 0xC2, CHR 0xA0], [CHR 0xE1, CHR 0x9A, CHR 0x80]] @
     map (\<lambda>c. [CHR 0xE2, CHR 0x80, c])
       [CHR 0x80, CHR 0x81, CHR 0x82, CHR 0x83, CHR 0x84, CHR 0x85, CHR 0x86, CHR 0x87, CHR 0x88, CHR 0x89,
        CHR 0x8A, CHR 0xA8, CHR 0xA9, CHR 0xAF] @
     [[CHR 0xE2, CHR 0x81, CHR 0x9F], [CHR 0xE3, CHR 0x80, CHR 0x80]]"

text \<open>All texts of the list that stand in front are removed.\<close>

function strip :: "string list \<Rightarrow> string \<Rightarrow> string" where
  "strip ps s =
     (case find (\<lambda>p. p \<noteq> [] \<and> take (length p) s = p) ps of
        None \<Rightarrow> s
      | Some p \<Rightarrow> strip ps (drop (length p) s))"
  by pat_completeness auto

termination
proof (relation "measure (\<lambda>(ps, s). length s)", goal_cases)
  case (2 ps s p)
  then have "p \<noteq> []" "take (length p) s = p" by (auto simp: find_Some_iff)
  then show ?case by (cases s) auto
qed auto

declare strip.simps [simp del]

text \<open>\<open>strings.TrimSpace\<close> and \<open>bytes.TrimSpace\<close>.\<close>

definition TrimSpace :: "string \<Rightarrow> string" where
  "TrimSpace s = rev (strip (map rev spaces) (rev (strip spaces s)))"

section \<open>Truncate\<close>

fun cut_loop :: "string \<Rightarrow> nat \<Rightarrow> nat" where
  "cut_loop s 0 = 0"
| "cut_loop s (Suc n) = (if \<not> RuneStart (s ! Suc n) then cut_loop s n else Suc n)"

definition Truncate :: "string \<Rightarrow> int \<Rightarrow> string" where
  "Truncate s0 limit =
     (let s = ToValidUTF8 s0 RuneError; n = nat (max limit 0) in
      if length s \<le> n then s else take (cut_loop s n) s @ ''...'')"

section \<open>Valid texts\<close>

inductive valid_utf8 :: "string \<Rightarrow> bool" where
  valid_Nil: "valid_utf8 []"
| valid_Cons: "rune_len s = Some n \<Longrightarrow> valid_utf8 (drop n s) \<Longrightarrow> valid_utf8 s"

lemma rune_len_bounds: "rune_len s = Some n \<Longrightarrow> 0 < n \<and> n \<le> length s"
  by (cases s) (auto split: if_splits list.splits)

text \<open>All bytes of an encoding but the first are continuation bytes, and it is self-contained.\<close>

lemma rune_len_cont: "rune_len s = Some n \<Longrightarrow> 0 < i \<Longrightarrow> i < n \<Longrightarrow> cont (s ! i)"
  by (cases s)
    (auto split: if_splits list.splits simp: less_Suc_eq numeral_eq_Suc cont_def byte_in_def)

lemma rune_len_start: "rune_len s = Some n \<Longrightarrow> RuneStart (s ! 0)"
  by (cases s) (auto split: if_splits list.splits simp: RuneStart_def cont_def byte_in_def)

lemma rune_len_take:
  assumes "rune_len s = Some n" and "n \<le> m"
  shows "rune_len (take m s) = Some n"
  using assms
  by (cases s; cases m) (auto split: if_splits list.splits simp: take_Cons split: nat.splits)

lemma rune_len_append: "rune_len s = Some n \<Longrightarrow> rune_len (s @ t) = Some n"
  by (cases s) (auto split: if_splits list.splits)

lemma valid_append: "valid_utf8 s \<Longrightarrow> valid_utf8 t \<Longrightarrow> valid_utf8 (s @ t)"
proof (induction rule: valid_utf8.induct)
  case (valid_Cons s n)
  then show ?case
    using rune_len_bounds [of s n] by (intro valid_utf8.valid_Cons [of "s @ t" n] rune_len_append) auto
qed simp

lemma valid_rune: "rune_len s = Some n \<Longrightarrow> valid_utf8 (take n s)"
  using rune_len_take [of s n n] by (intro valid_Cons [of "take n s" n]) (auto intro: valid_Nil)

lemma valid_take:
  "valid_utf8 s \<Longrightarrow> k < length s \<Longrightarrow> RuneStart (s ! k) \<Longrightarrow> valid_utf8 (take k s)"
proof (induction arbitrary: k rule: valid_utf8.induct)
  case (valid_Cons s n)
  note b = rune_len_bounds [OF valid_Cons.hyps(1)]
  consider "k = 0" | "0 < k" "k < n" | "n \<le> k" by linarith
  then show ?case
  proof cases
    case 1
    then show ?thesis by (simp add: valid_Nil)
  next
    case 2
    with valid_Cons.prems rune_len_cont [OF valid_Cons.hyps(1)] show ?thesis by (simp add: RuneStart_def)
  next
    case 3
    then have "valid_utf8 (take (k - n) (drop n s))"
      using valid_Cons.prems b by (intro valid_Cons.IH) (auto simp: nth_drop)
    with 3 show ?thesis
      by (intro valid_utf8.valid_Cons [of "take k s" n] rune_len_take [OF valid_Cons.hyps(1)]) (auto simp: drop_take)
  qed
qed simp

lemma valid_ascii: "\<forall>c\<in>set s. byte_in 0 0x7F c \<Longrightarrow> valid_utf8 s"
  by (induction s) (auto intro: valid_Nil valid_Cons [of _ 1])

lemma valid_to_valid: "valid_utf8 rep \<Longrightarrow> valid_utf8 (to_valid bad rep s)"
proof (induction bad rep s rule: to_valid.induct)
  case (2 bad rep c s)
  then show ?case
    by (auto simp del: rune_len.simps split: option.split intro!: valid_append valid_rune valid_Nil)
qed (simp add: valid_Nil)

lemma valid_RuneError: "valid_utf8 RuneError"
  by (rule valid_Cons [of _ 3]) (auto simp: RuneError_def cont_def byte_in_def intro: valid_Nil)

lemma valid_dots: "valid_utf8 ''...''"
  by (rule valid_Cons [of _ 1], simp add: byte_in_def, simp)
    (rule valid_Cons [of _ 1], simp add: byte_in_def, simp, rule valid_Cons [of _ 1],
      auto simp: byte_in_def intro: valid_Nil)

lemma cut_loop_le: "cut_loop s n \<le> n"
  by (induction s n rule: cut_loop.induct) auto

lemma cut_loop_start: "cut_loop s n = 0 \<or> RuneStart (s ! cut_loop s n)"
  by (induction s n rule: cut_loop.induct) auto

section \<open>Properties\<close>


end
