(* ===== verification/Json.thy ===== *)
theory Json
  imports Utf8
begin

text \<open>
  What the operator uses of \<open>encoding/json\<close>: the syntax check with its limit of nesting, values with
  the raw text of every member of an object (\<open>json.RawMessage\<close>), strings with escapes, and the
  decoding into integers, strings, slices and structs. Texts are byte lists. A syntax error is None;
  the sources only ask whether decoding failed, never how.
\<close>

section \<open>Values\<close>

text \<open>A member is its key, the raw text of its value and the value.\<close>

datatype json =
    JNull
  | JBool bool
  | JNum string
  | JStr string
  | JArr "json list"
  | JObj "(string \<times> string \<times> json) list"

definition maxNestingDepth :: nat where
  "maxNestingDepth = 10000"

section \<open>Lexical elements\<close>

definition json_space :: "char \<Rightarrow> bool" where
  "json_space c \<longleftrightarrow> c = CHR '' '' \<or> c = CHR 9 \<or> c = CHR 10 \<or> c = CHR 13"

abbreviation jws :: "string \<Rightarrow> string" where
  "jws s \<equiv> dropWhile json_space s"

definition is_digit :: "char \<Rightarrow> bool" where
  "is_digit c \<longleftrightarrow> byte_in 48 57 c"

definition hex_byte :: "char \<Rightarrow> bool" where
  "hex_byte c \<longleftrightarrow> byte_in 48 57 c \<or> byte_in 65 70 c \<or> byte_in 97 102 c"

definition simple_escape :: "char \<Rightarrow> bool" where
  "simple_escape c \<longleftrightarrow> c \<in> set [CHR 0x22, CHR 0x5C, CHR ''/'', CHR ''b'', CHR ''f'', CHR ''n'', CHR ''r'', CHR ''t'']"

text \<open>The raw body of a string literal up to its closing quote, and the rest after it.\<close>

fun lex_str :: "string \<Rightarrow> (string \<times> string) option" where
  "lex_str [] = None"
| "lex_str (c # s) =
     (if c = CHR 0x22 then Some ([], s)
      else if c = CHR 0x5C then
        (case s of
           e # t \<Rightarrow>
             if simple_escape e then map_option (apfst (\<lambda>b. c # e # b)) (lex_str t)
             else if e = CHR ''u'' then
               (case t of
                  h1 # h2 # h3 # h4 # u \<Rightarrow>
                    if hex_byte h1 \<and> hex_byte h2 \<and> hex_byte h3 \<and> hex_byte h4
                    then map_option (apfst (\<lambda>b. c # e # h1 # h2 # h3 # h4 # b)) (lex_str u) else None
                | _ \<Rightarrow> None)
             else None
         | [] \<Rightarrow> None)
      else if byte_in 0 0x1F c then None
      else map_option (apfst ((#) c)) (lex_str s))"

text \<open>A number: the optional sign, the integer part, the fraction and the exponent.\<close>

definition digits1 :: "string \<Rightarrow> (string \<times> string) option" where
  "digits1 s = (if takeWhile is_digit s = [] then None else Some (takeWhile is_digit s, dropWhile is_digit s))"

definition lex_int :: "string \<Rightarrow> (string \<times> string) option" where
  "lex_int s = (case s of [] \<Rightarrow> None | c # t \<Rightarrow> if c = CHR ''0'' then Some ([c], t) else digits1 s)"

definition lex_frac :: "string \<Rightarrow> (string \<times> string) option" where
  "lex_frac s =
     (case s of
        c # t \<Rightarrow> if c = CHR ''.'' then map_option (apfst ((#) c)) (digits1 t) else Some ([], s)
      | [] \<Rightarrow> Some ([], s))"

definition lex_exp :: "string \<Rightarrow> (string \<times> string) option" where
  "lex_exp s =
     (case s of
        c # t \<Rightarrow>
          if c = CHR ''e'' \<or> c = CHR ''E'' then
            (case t of
               g # u \<Rightarrow> if g = CHR ''+'' \<or> g = CHR ''-'' then map_option (apfst (\<lambda>d. c # g # d)) (digits1 u)
                        else map_option (apfst ((#) c)) (digits1 t)
             | [] \<Rightarrow> None)
          else Some ([], s)
      | [] \<Rightarrow> Some ([], s))"

definition lex_num :: "string \<Rightarrow> (string \<times> string) option" where
  "lex_num s =
     (let (sg, t) = (case s of c # u \<Rightarrow> if c = CHR ''-'' then ([c], u) else ([], s) | [] \<Rightarrow> ([], s)) in
      case lex_int t of
        None \<Rightarrow> None
      | Some (i, u) \<Rightarrow>
          (case lex_frac u of
             None \<Rightarrow> None
           | Some (f, v) \<Rightarrow> (case lex_exp v of None \<Rightarrow> None | Some (e, r) \<Rightarrow> Some (sg @ i @ f @ e, r))))"

text \<open>\<open>unquote\<close>: the text a string literal stands for.\<close>

definition hex_val :: "char \<Rightarrow> nat" where
  "hex_val c = (if byte_in 48 57 c then of_char c - 48 else if byte_in 65 70 c then of_char c - 55 else of_char c - 87)"

definition getu4 :: "string \<Rightarrow> nat option" where
  "getu4 s =
     (case s of
        b # e # h1 # h2 # h3 # h4 # _ \<Rightarrow>
          if b = CHR 0x5C \<and> e = CHR ''u'' \<and> hex_byte h1 \<and> hex_byte h2 \<and> hex_byte h3 \<and> hex_byte h4
          then Some (((hex_val h1 * 16 + hex_val h2) * 16 + hex_val h3) * 16 + hex_val h4) else None
      | _ \<Rightarrow> None)"

text \<open>\<open>utf8.EncodeRune\<close>.\<close>

definition EncodeRune :: "nat \<Rightarrow> string" where
  "EncodeRune r =
     (if r < 0x80 then [char_of r]
      else if r < 0x800 then [char_of (0xC0 + r div 64), char_of (0x80 + r mod 64)]
      else if 0x110000 \<le> r \<or> 0xD800 \<le> r \<and> r < 0xE000 then RuneError
      else if r < 0x10000 then
        [char_of (0xE0 + r div 4096), char_of (0x80 + r div 64 mod 64), char_of (0x80 + r mod 64)]
      else [char_of (0xF0 + r div 262144), char_of (0x80 + r div 4096 mod 64),
            char_of (0x80 + r div 64 mod 64), char_of (0x80 + r mod 64)])"

text \<open>\<open>utf16.DecodeRune\<close> of a surrogate pair, None for the replacement character.\<close>

definition utf16_DecodeRune :: "nat \<Rightarrow> nat option \<Rightarrow> nat option" where
  "utf16_DecodeRune r1 r2 =
     (case r2 of
        Some q \<Rightarrow> if 0xD800 \<le> r1 \<and> r1 < 0xDC00 \<and> 0xDC00 \<le> q \<and> q < 0xE000
                  then Some ((r1 - 0xD800) * 1024 + (q - 0xDC00) + 0x10000) else None
      | None \<Rightarrow> None)"

definition escape_char :: "char \<Rightarrow> char" where
  "escape_char e =
     (if e = CHR ''b'' then CHR 8 else if e = CHR ''f'' then CHR 12 else if e = CHR ''n'' then CHR 10
      else if e = CHR ''r'' then CHR 13 else if e = CHR ''t'' then CHR 9 else e)"

fun unquote :: "string \<Rightarrow> string" where
  "unquote [] = []"
| "unquote (c # s) =
     (if c = CHR 0x5C then
        (case getu4 (c # s) of
           Some r \<Rightarrow>
             if 0xD800 \<le> r \<and> r < 0xE000 then
               (case utf16_DecodeRune r (getu4 (drop 5 s)) of
                  Some d \<Rightarrow> EncodeRune d @ unquote (drop 11 s)
                | None \<Rightarrow> RuneError @ unquote (drop 5 s))
             else EncodeRune r @ unquote (drop 5 s)
         | None \<Rightarrow> (case s of e # t \<Rightarrow> escape_char e # unquote t | [] \<Rightarrow> []))
      else (case rune_len (c # s) of
              Some n \<Rightarrow> take n (c # s) @ unquote (drop (n - 1) s)
            | None \<Rightarrow> RuneError @ unquote s))"

section \<open>Parsing\<close>

definition lit :: "string \<Rightarrow> json \<Rightarrow> string \<Rightarrow> (json \<times> string) option" where
  "lit w v s = (if take (length w) s = w then Some (v, drop (length w) s) else None)"

lemma ws_le: "length (jws s) \<le> length s"
  by (rule length_dropWhile_le)

lemma map_apfst_Some:
  "map_option (apfst f) m = Some (b, r) \<longleftrightarrow> (\<exists>a. m = Some (a, r) \<and> b = f a)"
  by (cases m) auto

text \<open>A literal either ends at once or starts with a unit (a byte or an escape) and goes on after it.\<close>

lemma lex_str_step:
  assumes "lex_str (c # s) = Some (b, r)" and "c \<noteq> CHR 0x22"
  obtains p t b' where "c # s = p @ t" "p \<noteq> []" "lex_str t = Some (b', r)" "b = p @ b'"
proof (cases "c = CHR 0x5C")
  case False
  with assms obtain b' where "lex_str s = Some (b', r)" "b = c # b'"
    by (auto simp: map_apfst_Some split: if_splits)
  then show ?thesis by (intro that [of "[c]"]) auto
next
  case True
  with assms obtain e t where s: "s = e # t" by (cases s) auto
  show ?thesis
  proof (cases "simple_escape e")
    case True
    with s assms \<open>c = CHR 0x5C\<close> obtain b' where "lex_str t = Some (b', r)" "b = c # e # b'"
      by (auto simp: map_apfst_Some)
    with s show ?thesis by (intro that [of "[c, e]"]) auto
  next
    case False
    with s assms \<open>c = CHR 0x5C\<close> have u: "e = CHR ''u''" by (simp split: if_splits)
    with False s assms \<open>c = CHR 0x5C\<close> obtain h1 h2 h3 h4 v where t: "t = [h1, h2, h3, h4] @ v"
      by (auto split: list.splits)
    with False u s assms \<open>c = CHR 0x5C\<close> obtain b' where "lex_str v = Some (b', r)" "b = [c, e, h1, h2, h3, h4] @ b'"
      by (auto simp: map_apfst_Some split: if_splits)
    with s t show ?thesis by (intro that [of "[c, e, h1, h2, h3, h4]"]) auto
  qed
qed

lemma lex_str_split: "lex_str s = Some (b, r) \<Longrightarrow> s = b @ CHR 0x22 # r"
proof (induction s arbitrary: b rule: length_induct)
  case (1 s)
  then obtain c u where s: "s = c # u" by (cases s) auto
  show ?case
  proof (cases "c = CHR 0x22")
    case True
    with s 1 show ?thesis by simp
  next
    case False
    from 1(2) [unfolded s] False obtain p t b' where
      *: "c # u = p @ t" "p \<noteq> []" "lex_str t = Some (b', r)" "b = p @ b'" by (rule lex_str_step)
    then have "length t < length s" unfolding s by simp
    with * s 1(1) show ?thesis by auto
  qed
qed

lemma lex_str_less: "lex_str s = Some (b, r) \<Longrightarrow> length r < length s"
  by (drule lex_str_split) simp

lemma ws_Cons_less: "jws s = c # t \<Longrightarrow> length t < length s"
  using ws_le [of s] by simp

text \<open>
  \<open>d\<close> is the number of containers that may still be opened. The tests of the lengths always hold
  (\<open>parse_consumes\<close>); they make the recursion visibly decreasing.
\<close>

function (sequential) parse_value :: "nat \<Rightarrow> string \<Rightarrow> (json \<times> string) option"
  and parse_elems :: "nat \<Rightarrow> string \<Rightarrow> (json list \<times> string) option"
  and parse_members :: "nat \<Rightarrow> string \<Rightarrow> ((string \<times> string \<times> json) list \<times> string) option" where
  "parse_value d s =
     (case s of
        [] \<Rightarrow> None
      | c # t \<Rightarrow>
          if json_space c then parse_value d t
          else if c = CHR ''{'' then
            (if d = 0 then None
             else case jws t of
                    [] \<Rightarrow> None
                  | x # r \<Rightarrow> if x = CHR ''}'' then Some (JObj [], r)
                             else map_option (apfst JObj) (parse_members (d - 1) t))
          else if c = CHR ''['' then
            (if d = 0 then None
             else case jws t of
                    [] \<Rightarrow> None
                  | x # r \<Rightarrow> if x = CHR '']'' then Some (JArr [], r)
                             else map_option (apfst JArr) (parse_elems (d - 1) t))
          else if c = CHR 0x22 then map_option (apfst (\<lambda>b. JStr (unquote b))) (lex_str t)
          else if c = CHR ''t'' then lit ''true'' (JBool True) s
          else if c = CHR ''f'' then lit ''false'' (JBool False) s
          else if c = CHR ''n'' then lit ''null'' JNull s
          else map_option (apfst JNum) (lex_num s))"
| "parse_elems d s =
     (case parse_value d s of
        None \<Rightarrow> None
      | Some (v, r) \<Rightarrow>
          (case jws r of
             [] \<Rightarrow> None
           | c # u \<Rightarrow>
               if c = CHR '']'' then Some ([v], u)
               else if c = CHR '','' \<and> length u < length s then map_option (apfst ((#) v)) (parse_elems d u)
               else None))"
| "parse_members d s =
     (case jws s of
        [] \<Rightarrow> None
      | q # k \<Rightarrow>
          if q \<noteq> CHR 0x22 then None
          else (case lex_str k of
                  None \<Rightarrow> None
                | Some (b, t) \<Rightarrow>
                    (case jws t of
                       [] \<Rightarrow> None
                     | c # u \<Rightarrow>
                         if c \<noteq> CHR '':'' then None
                         else (case parse_value d (jws u) of
                                 None \<Rightarrow> None
                               | Some (v, r) \<Rightarrow>
                                   (let m = (unquote b, take (length (jws u) - length r) (jws u), v) in
                                    case jws r of
                                      [] \<Rightarrow> None
                                    | e # w \<Rightarrow>
                                        if e = CHR ''}'' then Some ([m], w)
                                        else if e = CHR '','' \<and> length w < length s
                                        then map_option (apfst ((#) m)) (parse_members d w)
                                        else None)))))"
  by pat_completeness auto

termination
proof (relation "measures [\<lambda>x. case x of Inl (d, s) \<Rightarrow> length s | Inr (Inl (d, s)) \<Rightarrow> length s | Inr (Inr (d, s)) \<Rightarrow> length s,
                           \<lambda>x. case x of Inl _ \<Rightarrow> 0 | _ \<Rightarrow> 1]", goal_cases)
qed (auto dest!: lex_str_less ws_Cons_less simp: le_less_trans [OF ws_le])

declare parse_value.simps [simp del] parse_elems.simps [simp del] parse_members.simps [simp del]

section \<open>Decoding\<close>

text \<open>\<open>checkValid\<close>: one value with white space around it.\<close>

definition json_of :: "string \<Rightarrow> json option" where
  "json_of s = (case parse_value maxNestingDepth s of Some (v, r) \<Rightarrow> if jws r = [] then Some v else None | None \<Rightarrow> None)"

text \<open>
  A decoder stores a value into a variable: it maps the value and the variable's old content to the
  new content, and None is a type error (the whole \<open>Unmarshal\<close> then fails). null leaves a variable
  that is neither a pointer nor a slice nor a map as it is.
\<close>

type_synonym 'a decoder = "json \<Rightarrow> 'a \<Rightarrow> 'a option"

definition Unmarshal :: "'a decoder \<Rightarrow> string \<Rightarrow> 'a \<Rightarrow> 'a option" where
  "Unmarshal dec s old = (case json_of s of None \<Rightarrow> None | Some v \<Rightarrow> dec v old)"

text \<open>\<open>strconv.ParseInt (s, 10, 64)\<close> on the text of a number.\<close>

definition ParseInt64 :: "string \<Rightarrow> int64 option" where
  "ParseInt64 s =
     (let (neg, ds) = (case s of c # t \<Rightarrow> if c = CHR ''-'' then (True, t) else (False, s) | [] \<Rightarrow> (False, s)) in
      if ds = [] \<or> \<not> list_all is_digit ds then None
      else let n = int (undec 0 ds) in
        if neg then (if n \<le> 2 ^ 63 then Some (word_of_int (- n)) else None)
        else (if n < 2 ^ 63 then Some (word_of_int n) else None))"

definition dec_string :: "string decoder" where
  "dec_string v old = (case v of JStr s \<Rightarrow> Some s | JNull \<Rightarrow> Some old | _ \<Rightarrow> None)"

definition dec_int64 :: "int64 decoder" where
  "dec_int64 v old = (case v of JNum s \<Rightarrow> ParseInt64 s | JNull \<Rightarrow> Some old | _ \<Rightarrow> None)"

definition dec_ptr :: "'a \<Rightarrow> 'a decoder \<Rightarrow> 'a option decoder" where
  "dec_ptr zero dec v old =
     (if v = JNull then Some None
      else map_option Some (dec v (case old of None \<Rightarrow> zero | Some x \<Rightarrow> x)))"

fun dec_list :: "'a \<Rightarrow> 'a decoder \<Rightarrow> json list \<Rightarrow> 'a list option" where
  "dec_list zero dec [] = Some []"
| "dec_list zero dec (v # vs) =
     (case dec v zero of
        None \<Rightarrow> None
      | Some x \<Rightarrow> map_option ((#) x) (dec_list zero dec vs))"

definition dec_slice :: "'a \<Rightarrow> 'a decoder \<Rightarrow> 'a list decoder" where
  "dec_slice zero dec v old =
     (case v of JArr vs \<Rightarrow> dec_list zero dec vs | JNull \<Rightarrow> Some [] | _ \<Rightarrow> None)"

text \<open>Objects: \<open>step\<close> stores one member, given its key, its raw text and its value.\<close>

fun dec_members :: "(string \<Rightarrow> string \<Rightarrow> json \<Rightarrow> 'a \<Rightarrow> 'a option) \<Rightarrow> (string \<times> string \<times> json) list \<Rightarrow> 'a \<Rightarrow> 'a option" where
  "dec_members step [] x = Some x"
| "dec_members step ((k, raw, v) # ms) x =
     (case step k raw v x of None \<Rightarrow> None | Some y \<Rightarrow> dec_members step ms y)"

definition dec_map :: "'a \<Rightarrow> 'a decoder \<Rightarrow> (string, 'a) fmap decoder" where
  "dec_map zero dec v old =
     (case v of
        JObj ms \<Rightarrow> dec_members (\<lambda>k raw w m. map_option (\<lambda>x. fmupd k x m) (dec w zero)) ms old
      | JNull \<Rightarrow> Some fmempty
      | _ \<Rightarrow> None)"

text \<open>\<open>map[string]json.RawMessage\<close>, which keeps the raw text of every member, null too.\<close>

definition dec_raw_map :: "(string, string) fmap decoder" where
  "dec_raw_map v old =
     (case v of
        JObj ms \<Rightarrow> dec_members (\<lambda>k raw w m. Some (fmupd k raw m)) ms old
      | JNull \<Rightarrow> Some fmempty
      | _ \<Rightarrow> None)"

text \<open>
  \<open>foldName\<close> on UTF-8 text: ASCII letters become capitals, and so do the two other characters whose
  simple case folding is an ASCII letter (the long s and the Kelvin sign). Other characters stay, as
  the names of fields are ASCII.
\<close>

fun fold_name :: "string \<Rightarrow> string" where
  "fold_name [] = []"
| "fold_name (c # s) =
     (if c = CHR 0xC5 \<and> take 1 s = [CHR 0xBF] then CHR ''S'' # fold_name (drop 1 s)
      else if c = CHR 0xE2 \<and> take 2 s = [CHR 0x84, CHR 0xAA] then CHR ''K'' # fold_name (drop 2 s)
      else (if byte_in 97 122 c then char_of (of_char c - (32::nat)) else c) # fold_name s)"

text \<open>The field a key is decoded into: the one with that name, else one that differs only in case.\<close>

definition find_field :: "string list \<Rightarrow> string \<Rightarrow> string option" where
  "find_field names k =
     (if k \<in> set names then Some k else find (\<lambda>n. fold_name n = fold_name k) names)"

text \<open>\<open>store f raw v\<close> stores a value into the field \<open>f\<close>; unknown members are skipped.\<close>

definition dec_struct :: "string list \<Rightarrow> (string \<Rightarrow> string \<Rightarrow> json \<Rightarrow> 'a \<Rightarrow> 'a option) \<Rightarrow> 'a decoder" where
  "dec_struct names step v old =
     (case v of
        JObj ms \<Rightarrow>
          dec_members (\<lambda>k raw w x. case find_field names k of None \<Rightarrow> Some x | Some f \<Rightarrow> step f raw w x) ms old
      | JNull \<Rightarrow> Some old
      | _ \<Rightarrow> None)"

section \<open>What parsing consumes\<close>

lemma lit_split: "lit w v s = Some (x, r) \<Longrightarrow> s = w @ r \<and> x = v"
  by (auto simp: lit_def split: if_splits) (metis append_take_drop_id)

lemma digits1_split: "digits1 s = Some (d, r) \<Longrightarrow> s = d @ r \<and> d \<noteq> []"
  by (auto simp: digits1_def split: if_splits)

lemma lex_int_split: "lex_int s = Some (i, r) \<Longrightarrow> s = i @ r \<and> i \<noteq> []"
  by (auto simp: lex_int_def dest!: digits1_split split: if_splits list.splits)

lemma lex_frac_split: "lex_frac s = Some (f, r) \<Longrightarrow> s = f @ r"
  by (auto simp: lex_frac_def map_apfst_Some dest!: digits1_split split: if_splits list.splits)

lemma lex_exp_split: "lex_exp s = Some (e, r) \<Longrightarrow> s = e @ r"
  by (auto simp: lex_exp_def map_apfst_Some dest!: digits1_split split: if_splits list.splits)

lemma lex_num_split: "lex_num s = Some (n, r) \<Longrightarrow> s = n @ r \<and> n \<noteq> []"
  by (auto simp: lex_num_def dest!: lex_int_split lex_frac_split lex_exp_split split: if_splits list.splits option.splits)

lemma ws_split: "jws s = x \<Longrightarrow> s = takeWhile json_space s @ x"
  by auto

lemma parse_members_inv:
  assumes "parse_members d s = Some (ms, r)"
  obtains k b t u v q e w where "jws s = CHR 0x22 # k" "lex_str k = Some (b, t)" "jws t = CHR '':'' # u"
    "parse_value d (jws u) = Some (v, q)" "jws q = e # w"
    "e = CHR ''}'' \<and> w = r \<and> ms = [(unquote b, take (length (jws u) - length q) (jws u), v)] \<or>
     e = CHR '','' \<and> length w < length s \<and>
       (\<exists>ms'. parse_members d w = Some (ms', r) \<and> ms = (unquote b, take (length (jws u) - length q) (jws u), v) # ms')"
proof -
  note pm = parse_members.simps [of d s]
  from assms obtain k where k: "jws s = CHR 0x22 # k" by (auto simp: pm split: list.splits if_splits)
  from assms k obtain b t where b: "lex_str k = Some (b, t)" by (auto simp: pm split: option.splits)
  from assms k b obtain u where u: "jws t = CHR '':'' # u" by (auto simp: pm split: list.splits if_splits)
  from assms k b u obtain v q where v: "parse_value d (jws u) = Some (v, q)" by (auto simp: pm split: option.splits)
  from assms k b u v obtain e w where e: "jws q = e # w" by (auto simp: pm Let_def split: list.splits)
  from assms k b u v e show thesis
    by (intro that [OF k b u v e]) (auto simp: pm Let_def map_apfst_Some split: if_splits)
qed

text \<open>What is left is a proper suffix of the text, and an object ends with its brace.\<close>

lemma parse_consumes:
  "parse_value d s = Some (v, r) \<Longrightarrow> \<exists>p. s = p @ r \<and> p \<noteq> [] \<and> (\<forall>ms. v = JObj ms \<longrightarrow> last p = CHR ''}'')"
  "parse_elems d s = Some (vs, r) \<Longrightarrow> \<exists>p. s = p @ CHR '']'' # r"
  "parse_members d s = Some (ms, r) \<Longrightarrow> \<exists>p. s = p @ CHR ''}'' # r"
proof (induction d s and d s and d s arbitrary: v r and vs r and ms r
    rule: parse_value_parse_elems_parse_members.induct)
  case (1 d s)
  then obtain c t where s: "s = c # t" by (cases s) (auto simp: parse_value.simps)
  note prem = "1.prems" [unfolded s parse_value.simps [of d "c # t"] list.case]
  consider "json_space c" | "\<not> json_space c" "c = CHR ''{''" | "\<not> json_space c" "c = CHR ''[''"
    | "\<not> json_space c" "c \<noteq> CHR ''{''" "c \<noteq> CHR ''[''" by blast
  then show ?case
  proof cases
    case 1
    then obtain p where "t = p @ r" "p \<noteq> []" "\<forall>ms. v = JObj ms \<longrightarrow> last p = CHR ''}''"
      using "1.IH"(1) [OF s] prem by auto
    with s show ?thesis by (intro exI [of _ "c # p"]) auto
  next
    case 2
    then obtain x u where x: "d \<noteq> 0" "jws t = x # u" using prem by (auto split: list.splits if_splits)
    show ?thesis
    proof (cases "x = CHR ''}''")
      case True
      with 2 prem x have "u = r" by simp
      with s x True show ?thesis
        by (intro exI [of _ "c # takeWhile json_space t @ [x]"]) (simp, metis takeWhile_dropWhile_id)
    next
      case False
      with 2 prem x obtain ms' where "parse_members (d - 1) t = Some (ms', r)" by (auto simp: map_apfst_Some)
      from "1.IH"(2) [OF s 2 x False this] obtain p where "t = p @ CHR ''}'' # r" by auto
      with s show ?thesis by (intro exI [of _ "c # p @ [CHR ''}'']"]) auto
    qed
  next
    case 3
    then obtain x u where x: "d \<noteq> 0" "jws t = x # u" using prem by (auto split: list.splits if_splits)
    show ?thesis
    proof (cases "x = CHR '']''")
      case True
      with 3 prem x have "u = r" "v = JArr []" by auto
      with s x True show ?thesis
        by (intro exI [of _ "c # takeWhile json_space t @ [x]"]) (simp, metis takeWhile_dropWhile_id)
    next
      case False
      with 3 prem x obtain vs' where *: "parse_elems (d - 1) t = Some (vs', r)" "v = JArr vs'"
        by (auto simp: map_apfst_Some)
      from 3 have "c \<noteq> CHR ''{''" by simp
      from "1.IH"(3) [OF s 3(1) this 3(2) x False *(1)] obtain p where "t = p @ CHR '']'' # r" by auto
      with s * show ?thesis by (intro exI [of _ "c # p @ [CHR '']'']"]) auto
    qed
  next
    case 4
    show ?thesis
      using prem 4 s
      by (auto simp: map_apfst_Some split: if_splits dest!: lit_split lex_str_split lex_num_split)
  qed
next
  case (2 d s)
  then obtain w q where v: "parse_value d s = Some (w, q)" by (auto simp: parse_elems.simps [of d s] split: option.splits)
  from "2.IH"(1) [OF this] obtain p where p: "s = p @ q" by auto
  from 2(3) v obtain c u where c: "jws q = c # u" by (auto simp: parse_elems.simps [of d s] split: list.splits)
  then have q: "q = takeWhile json_space q @ c # u" by (metis takeWhile_dropWhile_id)
  show ?case
  proof (cases "c = CHR '']''")
    case True
    with 2(3) v c have "u = r" by (auto simp: parse_elems.simps [of d s])
    with True p q show ?thesis by (metis append.assoc)
  next
    case False
    with 2(3) v c obtain vs' where *: "c = CHR '',''" "length u < length s" "parse_elems d u = Some (vs', r)"
      by (auto simp: parse_elems.simps [of d s] map_apfst_Some split: if_splits)
    from "2.IH"(2) [OF v refl c False conjI [OF *(1,2)] *(3)] obtain p' where "u = p' @ CHR '']'' # r" by auto
    with p q show ?thesis by (metis append.assoc append_Cons)
  qed
next
  case (3 d s)
  from "3.prems" obtain k b t u v q e w where *: "jws s = CHR 0x22 # k" "lex_str k = Some (b, t)" "jws t = CHR '':'' # u"
    "parse_value d (jws u) = Some (v, q)" "jws q = e # w"
    and fin: "e = CHR ''}'' \<and> w = r \<and> ms = [(unquote b, take (length (jws u) - length q) (jws u), v)] \<or>
     e = CHR '','' \<and> length w < length s \<and>
       (\<exists>ms'. parse_members d w = Some (ms', r) \<and> ms = (unquote b, take (length (jws u) - length q) (jws u), v) # ms')"
    by (rule parse_members_inv)
  from "3.IH"(1) [OF *(1) _ *(2) refl *(3) _ *(4)] obtain p where p: "jws u = p @ q" by auto
  have u: "u = takeWhile json_space u @ p @ q" using p by (metis takeWhile_dropWhile_id)
  have q: "q = takeWhile json_space q @ e # w" using *(5) by (metis takeWhile_dropWhile_id)
  have t: "t = takeWhile json_space t @ CHR '':'' # u" using *(3) by (metis takeWhile_dropWhile_id)
  have s: "s = takeWhile json_space s @ CHR 0x22 # k" using *(1) by (metis takeWhile_dropWhile_id)
  have "\<exists>p. s = p @ e # w"
    using s lex_str_split [OF *(2)] t u q by (metis append.assoc append_Cons)
  moreover have "\<exists>p'. w = p' @ CHR ''}'' # r" if "e = CHR '',''"
    using "3.IH"(2) [OF *(1) _ *(2) refl *(3) _ *(4) refl refl *(5)] fin that by auto
  ultimately show ?case using fin by (metis append.assoc append_Cons)
qed

section \<open>Text after a value\<close>

text \<open>Only a number can go on when its text does; every other value is complete with its last byte.\<close>

definition open_ended :: "json \<Rightarrow> bool" where
  "open_ended v \<longleftrightarrow> (\<exists>n. v = JNum n)"

lemma ws_append: "jws s \<noteq> [] \<Longrightarrow> jws (s @ x) = jws s @ x"
  by (induction s) auto

lemma ws_append_Cons: "jws s = c # t \<Longrightarrow> jws (s @ x) = c # t @ x"
  by (metis append_Cons list.distinct(1) ws_append)

lemma lex_str_append: "lex_str s = Some (b, r) \<Longrightarrow> lex_str (s @ x) = Some (b, r @ x)"
proof (induction s arbitrary: b rule: lex_str.induct)
  case (2 c s)
  show ?case
  proof (cases "c = CHR 0x5C")
    case False
    with 2 show ?thesis by (auto simp: map_apfst_Some split: if_splits)
  next
    case True
    with "2.prems" obtain e t where s: "s = e # t" by (cases s) auto
    show ?thesis
    proof (cases "simple_escape e")
      case True
      with s 2(1) [OF _ \<open>c = _\<close> s] "2.prems" \<open>c = _\<close> show ?thesis by (auto simp: map_apfst_Some)
    next
      case False
      with s "2.prems" \<open>c = _\<close> have e: "e = CHR ''u''" by (simp split: if_splits)
      with False s "2.prems" \<open>c = _\<close> obtain h1 h2 h3 h4 v where t: "t = h1 # h2 # h3 # h4 # v"
        by (auto split: list.splits)
      with 2(2) [OF _ \<open>c = _\<close> s False e t refl refl refl] False e s "2.prems" \<open>c = _\<close> show ?thesis
        by (auto simp: map_apfst_Some split: if_splits)
    qed
  qed
qed simp

lemma lit_append: "lit w v s = Some (y, r) \<Longrightarrow> lit w v (s @ x) = Some (y, r @ x)"
  by (auto simp: lit_def split: if_splits dest: arg_cong [where f = length])

lemma digits1_append: "digits1 s = Some (d, r) \<Longrightarrow> r \<noteq> [] \<Longrightarrow> digits1 (s @ x) = Some (d, r @ x)"
  by (induction s arbitrary: d r) (auto simp: digits1_def split: if_splits)

lemma lex_int_append: "lex_int s = Some (i, r) \<Longrightarrow> r \<noteq> [] \<Longrightarrow> lex_int (s @ x) = Some (i, r @ x)"
  using digits1_append [of s i r x] by (auto simp: lex_int_def split: if_splits list.splits)

lemma lex_frac_append: "lex_frac s = Some (f, r) \<Longrightarrow> r \<noteq> [] \<Longrightarrow> lex_frac (s @ x) = Some (f, r @ x)"
  by (auto simp: lex_frac_def map_apfst_Some digits1_append split: if_splits list.splits)

lemma lex_exp_append: "lex_exp s = Some (e, r) \<Longrightarrow> r \<noteq> [] \<Longrightarrow> lex_exp (s @ x) = Some (e, r @ x)"
  using digits1_append by (fastforce simp: lex_exp_def map_apfst_Some split: if_splits list.splits)

lemma lex_num_append: "lex_num s = Some (n, r) \<Longrightarrow> r \<noteq> [] \<Longrightarrow> lex_num (s @ x) = Some (n, r @ x)"
proof -
  assume n: "lex_num s = Some (n, r)" and r: "r \<noteq> []"
  define sg t where "sg = (if take 1 s = ''-'' then ''-'' else [])" and "t = (if take 1 s = ''-'' then drop 1 s else s)"
  have st: "(case s of c # u \<Rightarrow> if c = CHR ''-'' then ([c], u) else ([], s) | [] \<Rightarrow> ([], s)) = (sg, t)"
    by (auto simp: sg_def t_def split: list.splits)
  from n obtain i u f v e where l: "lex_int t = Some (i, u)" "lex_frac u = Some (f, v)" "lex_exp v = Some (e, r)" "n = sg @ i @ f @ e"
    by (auto simp: lex_num_def st split: option.splits)
  have v: "v \<noteq> []" using lex_exp_split [OF l(3)] r by simp
  have u: "u \<noteq> []" using lex_frac_split [OF l(2)] v by simp
  have "t \<noteq> []" using lex_int_split [OF l(1)] by auto
  then have "(case s @ x of c # u \<Rightarrow> if c = CHR ''-'' then ([c], u) else ([], s @ x) | [] \<Rightarrow> ([], s @ x)) = (sg, t @ x)"
    by (cases s) (auto simp: sg_def t_def)
  then show ?thesis
    using lex_int_append [OF l(1) u] lex_frac_append [OF l(2) v] lex_exp_append [OF l(3) r] l(4)
    by (simp add: lex_num_def)
qed

lemma parse_append:
  "parse_value d s = Some (v, r) \<Longrightarrow> r \<noteq> [] \<or> \<not> open_ended v \<Longrightarrow> parse_value d (s @ x) = Some (v, r @ x)"
  "parse_elems d s = Some (vs, r) \<Longrightarrow> parse_elems d (s @ x) = Some (vs, r @ x)"
  "parse_members d s = Some (ms, r) \<Longrightarrow> parse_members d (s @ x) = Some (ms, r @ x)"
proof (induction d s and d s and d s arbitrary: v r and vs r and ms r
    rule: parse_value_parse_elems_parse_members.induct)
  case (1 d s)
  then obtain c t where s: "s = c # t" by (cases s) (auto simp: parse_value.simps)
  note prem = "1.prems"(1) [unfolded s parse_value.simps [of d "c # t"] list.case]
  consider "json_space c" | "\<not> json_space c" "c = CHR ''{''" | "\<not> json_space c" "c = CHR ''[''"
    | "\<not> json_space c" "c \<noteq> CHR ''{''" "c \<noteq> CHR ''[''" by blast
  then show ?case
  proof cases
    case 1
    then have "parse_value d (t @ x) = Some (v, r @ x)"
      using "1.IH"(1) [OF s] prem "1.prems"(2) by auto
    with s 1 show ?thesis by (simp add: parse_value.simps [of d "a # t @ x" for a])
  next
    case 2
    then obtain y u where y: "d \<noteq> 0" "jws t = y # u" using prem by (auto split: list.splits if_splits)
    then have wx: "jws (t @ x) = y # u @ x" by (simp add: ws_append)
    show ?thesis
    proof (cases "y = CHR ''}''")
      case True
      with 2 prem s y wx show ?thesis by (simp add: parse_value.simps [of d "a # t @ x" for a])
    next
      case False
      with 2 prem y obtain ms' where *: "parse_members (d - 1) t = Some (ms', r)" "v = JObj ms'"
        by (auto simp: map_apfst_Some)
      from "1.IH"(2) [OF s 2 y False *(1)] have "parse_members (d - 1) (t @ x) = Some (ms', r @ x)" .
      with 2 s y wx False * show ?thesis by (simp add: parse_value.simps [of d "a # t @ x" for a])
    qed
  next
    case 3
    then obtain y u where y: "d \<noteq> 0" "jws t = y # u" using prem by (auto split: list.splits if_splits)
    then have wx: "jws (t @ x) = y # u @ x" by (simp add: ws_append)
    from 3 have c: "c \<noteq> CHR ''{''" by simp
    show ?thesis
    proof (cases "y = CHR '']''")
      case True
      with 3 prem s y wx show ?thesis by (simp add: parse_value.simps [of d "a # t @ x" for a])
    next
      case False
      with 3 prem y obtain vs' where *: "parse_elems (d - 1) t = Some (vs', r)" "v = JArr vs'"
        by (auto simp: map_apfst_Some)
      from "1.IH"(3) [OF s 3(1) c 3(2) y False *(1)] have "parse_elems (d - 1) (t @ x) = Some (vs', r @ x)" .
      with 3 s y wx False * show ?thesis by (simp add: parse_value.simps [of d "a # t @ x" for a])
    qed
  next
    case 4
    note pv = parse_value.simps [of d "a # t @ x" for a]
    consider "c = CHR 0x22" | "c \<in> {CHR ''t'', CHR ''f'', CHR ''n''}" | "c \<notin> {CHR 0x22, CHR ''t'', CHR ''f'', CHR ''n''}"
      by blast
    then show ?thesis
    proof cases
      case 1
      with prem 4 s show ?thesis by (auto simp: pv map_apfst_Some lex_str_append)
    next
      case 2
      with prem 4 lit_append [of _ _ s v r x] s show ?thesis by (auto simp: pv)
    next
      case 3
      with prem 4 lex_num_append [of s _ r x] s "1.prems"(2) show ?thesis
        by (auto simp: pv map_apfst_Some open_ended_def)
    qed
  qed
next
  case (2 d s)
  then obtain w q where v: "parse_value d s = Some (w, q)" by (auto simp: parse_elems.simps [of d s] split: option.splits)
  from 2(3) v obtain c u where c: "jws q = c # u" by (auto simp: parse_elems.simps [of d s] split: list.splits)
  then have "q \<noteq> []" by auto
  with v "2.IH"(1) [OF v] have "parse_value d (s @ x) = Some (w, q @ x)" by simp
  moreover from c have "jws (q @ x) = c # u @ x" by (simp add: ws_append)
  ultimately show ?case
    using 2(3) v c "2.IH"(2) [OF v refl c]
    by (auto simp: parse_elems.simps [of d s] parse_elems.simps [of d "s @ x"] map_apfst_Some split: if_splits)
next
  case (3 d s)
  from "3.prems" obtain k b t u v q e w where *: "jws s = CHR 0x22 # k" "lex_str k = Some (b, t)" "jws t = CHR '':'' # u"
    "parse_value d (jws u) = Some (v, q)" "jws q = e # w"
    and fin: "e = CHR ''}'' \<and> w = r \<and> ms = [(unquote b, take (length (jws u) - length q) (jws u), v)] \<or>
     e = CHR '','' \<and> length w < length s \<and>
       (\<exists>ms'. parse_members d w = Some (ms', r) \<and> ms = (unquote b, take (length (jws u) - length q) (jws u), v) # ms')"
    by (rule parse_members_inv)
  have q: "q \<noteq> []" using *(5) by auto
  with "3.IH"(1) [OF *(1) _ *(2) refl *(3) _ *(4)] have pv: "parse_value d (jws u @ x) = Some (v, q @ x)" by simp
  from parse_consumes(1) [OF *(4)] obtain p where p: "jws u = p @ q" "p \<noteq> []" by blast
  then have le: "length q \<le> length (jws u)" by simp
  have w: "jws (s @ x) = CHR 0x22 # k @ x" "jws (t @ x) = CHR '':'' # u @ x" "jws (u @ x) = jws u @ x" "jws (q @ x) = e # w @ x"
    using ws_append_Cons [OF *(1)] ws_append_Cons [OF *(3)] ws_append_Cons [OF *(5)] ws_append [of u x] p
    by (simp_all del: dropWhile_eq_Nil_conv)
  have "take (length (jws u @ x) - length (q @ x)) (jws u @ x) = take (length (jws u) - length q) (jws u)"
    using le by simp
  moreover have "parse_members d (w @ x) = Some (ms', r @ x)" if "e = CHR '',''" "parse_members d w = Some (ms', r)" "length w < length s" for ms'
    using "3.IH"(2) [OF *(1) _ *(2) refl *(3) _ *(4) refl refl *(5)] that by auto
  ultimately show ?case
    using fin pv w lex_str_append [OF *(2), of x]
    by (auto simp: parse_members.simps [of d "s @ x"] Let_def)
qed

section \<open>Printed values\<close>

text \<open>
  A printer for the values the round-trip lemmas speak of, without white space: integers, strings,
  arrays and objects. \<open>ast\<close> is the value that parsing its text gives.
\<close>

datatype jv = VInt int | VStr string | VArr "jv list" | VObj "(string \<times> jv) list"

definition hex_digit :: "nat \<Rightarrow> char" where
  "hex_digit n = char_of (if n < 10 then 48 + n else 87 + n)"

definition enc_char :: "char \<Rightarrow> string" where
  "enc_char c =
     (if c = CHR 0x22 \<or> c = CHR 0x5C then [CHR 0x5C, c]
      else if byte_in 0 0x1F c then
        [CHR 0x5C, CHR ''u'', CHR ''0'', CHR ''0'', hex_digit (of_char c div 16), hex_digit (of_char c mod 16)]
      else [c])"

definition enc_str :: "string \<Rightarrow> string" where
  "enc_str s = concat (map enc_char s)"

definition quoted :: "string \<Rightarrow> string" where
  "quoted s = CHR 0x22 # enc_str s @ [CHR 0x22]"

fun render :: "jv \<Rightarrow> string" where
  "render (VInt i) = Itoa i"
| "render (VStr s) = quoted s"
| "render (VArr vs) = CHR ''['' # Join (map render vs) '','' @ '']''"
| "render (VObj ms) = CHR ''{'' # Join (map (\<lambda>(k, v). quoted k @ '':'' @ render v) ms) '','' @ ''}''"

fun ast :: "jv \<Rightarrow> json" where
  "ast (VInt i) = JNum (Itoa i)"
| "ast (VStr s) = JStr s"
| "ast (VArr vs) = JArr (map ast vs)"
| "ast (VObj ms) = JObj (map (\<lambda>(k, v). (k, render v, ast v)) ms)"

fun jv_depth :: "jv \<Rightarrow> nat" where
  "jv_depth (VInt i) = 0"
| "jv_depth (VStr s) = 0"
| "jv_depth (VArr vs) = Suc (Max (insert 0 (jv_depth ` set vs)))"
| "jv_depth (VObj ms) = Suc (Max (insert 0 ((\<lambda>(k, v). jv_depth v) ` set ms)))"

fun jv_texts :: "jv \<Rightarrow> string set" where
  "jv_texts (VInt i) = {}"
| "jv_texts (VStr s) = {s}"
| "jv_texts (VArr vs) = (\<Union>v\<in>set vs. jv_texts v)"
| "jv_texts (VObj ms) = (\<Union>(k, v)\<in>set ms. insert k (jv_texts v))"

lemma hex_digit_hex: "n < 16 \<Longrightarrow> hex_byte (hex_digit n) \<and> hex_val (hex_digit n) = n"
  by (auto simp: hex_byte_def hex_digit_def hex_val_def byte_in_def)

lemma enc_char_cases:
  obtains (escaped) "c = CHR 0x22 \<or> c = CHR 0x5C" "enc_char c = [CHR 0x5C, c]"
  | (control) h1 h2 where "byte_in 0 0x1F c" "enc_char c = [CHR 0x5C, CHR ''u'', CHR ''0'', CHR ''0'', h1, h2]" "hex_byte h1" "hex_byte h2"
      "hex_val h1 * 16 + hex_val h2 = of_char c"
  | (plain) "c \<noteq> CHR 0x22" "c \<noteq> CHR 0x5C" "\<not> byte_in 0 0x1F c" "enc_char c = [c]"
proof -
  have "c = CHR 0x22 \<or> c = CHR 0x5C \<Longrightarrow> thesis" using escaped by (auto simp: enc_char_def)
  moreover have thesis if "byte_in 0 0x1F c" "c \<noteq> CHR 0x22" "c \<noteq> CHR 0x5C"
  proof -
    from that have "of_char c div 16 < (16::nat)" by (simp add: byte_in_def)
    with that show thesis
      using hex_digit_hex [of "of_char c div 16"] hex_digit_hex [of "of_char c mod 16"]
      by (intro control [of "hex_digit (of_char c div 16)" "hex_digit (of_char c mod 16)"]) (auto simp: enc_char_def)
  qed
  moreover have thesis if "\<not> byte_in 0 0x1F c" "c \<noteq> CHR 0x22" "c \<noteq> CHR 0x5C"
    using that by (intro plain) (auto simp: enc_char_def)
  ultimately show thesis by blast
qed

lemma is_hex_0: "hex_byte CHR ''0''" "hex_val CHR ''0'' = 0"
  by (auto simp: hex_byte_def hex_val_def byte_in_def)

lemma lex_str_enc_char: "lex_str (enc_char c @ s) = map_option (apfst ((@) (enc_char c))) (lex_str s)"
proof (cases c rule: enc_char_cases)
  case escaped
  then show ?thesis by (auto simp: simple_escape_def fun_eq_iff intro!: arg_cong2 [where f = map_option])
next
  case control
  then show ?thesis by (auto simp: simple_escape_def is_hex_0 intro!: arg_cong2 [where f = map_option])
next
  case plain
  then show ?thesis by (auto intro!: arg_cong2 [where f = map_option])
qed

lemma lex_str_enc: "lex_str (enc_str s @ CHR 0x22 # r) = Some (enc_str s, r)"
  by (induction s) (simp_all add: enc_str_def lex_str_enc_char del: lex_str.simps(2), simp)

lemma EncodeRune_ascii: "r < 128 \<Longrightarrow> EncodeRune r = [char_of r]"
  by (simp add: EncodeRune_def)

lemma unquote_enc_char: "byte_in 0 0x7F c \<Longrightarrow> unquote (enc_char c @ s) = c # unquote s"
proof (cases c rule: enc_char_cases)
  case escaped
  then have "getu4 (CHR 0x5C # c # s) = None" by (auto simp: getu4_def split: list.splits)
  with escaped show ?thesis by (auto simp: escape_char_def)
next
  case (control h1 h2)
  then have "getu4 (enc_char c @ s) = Some (of_char c)" "of_char c < (128::nat)"
    by (auto simp: getu4_def is_hex_0 byte_in_def)
  with control show ?thesis by (simp add: EncodeRune_ascii)
qed simp

lemma unquote_rune:
  assumes "rune_len t = Some (length t)" and "hd t \<noteq> CHR 0x5C"
  shows "unquote (t @ y) = t @ unquote y"
proof (cases t)
  case Nil
  with assms show ?thesis by simp
next
  case (Cons c u)
  then have "rune_len (c # u @ y) = Some (length t)" using rune_len_append [OF assms(1), of y] by simp
  with Cons assms(2) show ?thesis by (simp del: rune_len.simps)
qed

definition high_byte :: "char \<Rightarrow> bool" where
  "high_byte c \<longleftrightarrow> byte_in 0x80 0xFF c"

lemma enc_str_append: "enc_str (s @ t) = enc_str s @ enc_str t"
  by (simp add: enc_str_def)

lemma enc_str_high: "\<forall>c\<in>set s. high_byte c \<Longrightarrow> enc_str s = s"
  by (induction s) (auto simp: enc_str_def enc_char_def high_byte_def byte_in_def)

lemma rune_high: "rune_len s = Some n \<Longrightarrow> \<not> byte_in 0 0x7F (hd s) \<Longrightarrow> \<forall>c\<in>set (take n s). high_byte c"
  by (cases s) (auto simp: high_byte_def byte_in_def cont_def split: if_splits list.splits)

lemma unquote_enc: "valid_utf8 s \<Longrightarrow> unquote (enc_str s) = s"
proof (induction rule: valid_utf8.induct)
  case (valid_Cons s n)
  note b = rune_len_bounds [OF valid_Cons.hyps(1)]
  show ?case
  proof (cases "byte_in 0 0x7F (hd s)")
    case True
    with valid_Cons.hyps(1) b obtain c t where s: "s = c # t" "n = 1" by (cases s) auto
    with True valid_Cons.IH show ?thesis by (simp add: enc_str_def unquote_enc_char)
  next
    case False
    have h: "\<forall>c\<in>set (take n s). high_byte c" by (rule rune_high [OF valid_Cons.hyps(1) False])
    then have e: "enc_str s = take n s @ enc_str (drop n s)"
      by (metis append_take_drop_id enc_str_append enc_str_high)
    have "rune_len (take n s) = Some (length (take n s))"
      using rune_len_take [OF valid_Cons.hyps(1), of n] b by simp
    moreover have "hd (take n s) \<noteq> CHR 0x5C" using h b by (cases s; cases n) (auto simp: high_byte_def byte_in_def)
    ultimately show ?thesis using valid_Cons.IH e by (simp add: unquote_rune)
  qed
qed (simp add: enc_str_def)

lemma parse_quoted: "valid_utf8 s \<Longrightarrow> parse_value d (quoted s @ r) = Some (JStr s, r)"
  by (simp add: parse_value.simps quoted_def json_space_def lex_str_enc unquote_enc)

text \<open>What may follow a number.\<close>

definition ends_number :: "string \<Rightarrow> bool" where
  "ends_number r \<longleftrightarrow> r = [] \<or> \<not> is_digit (hd r) \<and> hd r \<noteq> CHR ''.'' \<and> hd r \<noteq> CHR ''e'' \<and> hd r \<noteq> CHR ''E''"

lemma digit_is_digit: "n < 10 \<Longrightarrow> is_digit (digit n)"
  by (simp add: is_digit_def byte_in_def of_char_digit)

lemma digit_0: "digit 0 = CHR ''0''"
  by code_simp

lemma dec_nat_digits: "list_all is_digit (dec_nat n)"
  by (induction n rule: dec_nat.induct) (subst dec_nat.simps, simp add: digit_is_digit)

lemma dec_nat_hd: "hd (dec_nat n) = CHR ''0'' \<Longrightarrow> n = 0"
proof (induction n rule: dec_nat.induct)
  case (1 n)
  show ?case
  proof (cases "n < 10")
    case True
    with 1(2) have "of_char (digit n) = (48::nat)" by (simp add: dec_nat.simps [of n])
    with True show ?thesis by (simp add: of_char_digit)
  next
    case False
    with 1(2) have "hd (dec_nat (n div 10)) = CHR ''0''"
      by (simp add: dec_nat.simps [of n] dec_nat_nonempty)
    with 1(1) False show ?thesis by simp
  qed
qed

lemma lex_int_dec_nat:
  assumes "ends_number r"
  shows "lex_int (dec_nat n @ r) = Some (dec_nat n, r)"
proof (cases "n = 0")
  case True
  then show ?thesis by (simp add: dec_nat.simps [of 0] lex_int_def digit_0)
next
  case False
  then obtain c t where c: "dec_nat n = c # t" "c \<noteq> CHR ''0''" using dec_nat_hd [of n] dec_nat_nonempty [of n] by (cases "dec_nat n") auto
  have t: "takeWhile is_digit (dec_nat n @ r) = dec_nat n" "dropWhile is_digit (dec_nat n @ r) = r"
    using dec_nat_digits [of n] assms
    by (auto simp: takeWhile_append2 dropWhile_append2 list_all_iff ends_number_def takeWhile_eq_Nil_iff, cases r, auto)
  from c t show ?thesis by (simp add: lex_int_def digits1_def)
qed

lemma lex_num_Itoa:
  assumes "ends_number r"
  shows "lex_num (Itoa i @ r) = Some (Itoa i, r)"
proof -
  have e: "lex_frac r = Some ([], r)" "lex_exp r = Some ([], r)"
    using assms by (auto simp: lex_frac_def lex_exp_def ends_number_def split: list.splits)
  have "hd (dec_nat n) \<noteq> CHR ''-''" for n
    using dec_nat_no_minus [of n] dec_nat_nonempty [of n] by (metis hd_in_set)
  then have "(case dec_nat n @ r of c # u \<Rightarrow> if c = CHR ''-'' then ([c], u) else ([], dec_nat n @ r) | [] \<Rightarrow> ([], dec_nat n @ r)) =
      ([], dec_nat n @ r)" for n
    using dec_nat_nonempty [of n] by (cases "dec_nat n") (auto, metis list.sel(1))
  then show ?thesis using e lex_int_dec_nat [OF assms] by (simp add: lex_num_def Itoa_def)
qed

lemma ParseInt64_Itoa: "- (2 ^ 63) \<le> i \<Longrightarrow> i < 2 ^ 63 \<Longrightarrow> ParseInt64 (Itoa i) = Some (word_of_int i)"
proof -
  assume i: "- (2 ^ 63) \<le> i" "i < 2 ^ 63"
  have "hd (dec_nat n) \<noteq> CHR ''-''" for n
    using dec_nat_no_minus [of n] dec_nat_nonempty [of n] by (metis hd_in_set)
  then have "(case dec_nat n of c # t \<Rightarrow> if c = CHR ''-'' then (True, t) else (False, dec_nat n) | [] \<Rightarrow> (False, dec_nat n)) =
      (False, dec_nat n)" for n
    using dec_nat_nonempty [of n] by (cases "dec_nat n") (auto, metis list.sel(1))
  then show ?thesis
    using i by (simp add: ParseInt64_def Itoa_def dec_nat_nonempty dec_nat_digits undec_dec_nat Let_def)
qed

lemma Itoa_hd: "\<exists>c t. Itoa i = c # t \<and> (c = CHR ''-'' \<or> is_digit c)"
proof -
  have "\<exists>c t. dec_nat n = c # t \<and> is_digit c" for n
    using dec_nat_digits [of n] dec_nat_nonempty [of n] by (cases "dec_nat n") auto
  then show ?thesis by (auto simp: Itoa_def) blast
qed

lemma render_hd: "\<exists>c t. render v = c # t \<and> \<not> json_space c \<and> c \<noteq> CHR '']'' \<and> c \<noteq> CHR ''}''"
proof (cases v)
  case (VInt i)
  with Itoa_hd [of i] show ?thesis by (auto simp: json_space_def is_digit_def byte_in_def)
qed (auto simp: quoted_def json_space_def)

lemma ws_render: "jws (render v @ x) = render v @ x"
  using render_hd [of v] by auto

lemma parse_Itoa: "ends_number r \<Longrightarrow> parse_value d (Itoa i @ r) = Some (JNum (Itoa i), r)"
proof -
  assume r: "ends_number r"
  obtain c t where c: "Itoa i = c # t" "c = CHR ''-'' \<or> is_digit c" using Itoa_hd by blast
  have "c \<notin> {CHR '' '', CHR 9, CHR 10, CHR 13, CHR ''{'', CHR ''['', CHR 0x22, CHR ''t'', CHR ''f'', CHR ''n''}"
    using c(2) by (auto simp: is_digit_def byte_in_def)
  then have "parse_value d (c # t @ r) = map_option (apfst JNum) (lex_num (c # t @ r))"
    by (simp add: parse_value.simps [of d "c # t @ r"] json_space_def)
  with c lex_num_Itoa [OF r, of i] show ?thesis by simp
qed

lemma Join_Cons: "Join (s # ss) sep = s @ (if ss = [] then [] else sep @ Join ss sep)"
  by (cases ss) auto

lemma ends_number_simps [simp]: "ends_number (CHR '','' # r)" "ends_number (CHR '']'' # r)" "ends_number (CHR ''}'' # r)"
  by (auto simp: ends_number_def is_digit_def byte_in_def)

lemma parse_elems_render:
  assumes "vs \<noteq> []" and "\<And>v r. v \<in> set vs \<Longrightarrow> ends_number r \<Longrightarrow> parse_value d (render v @ r) = Some (ast v, r)"
  shows "parse_elems d (Join (map render vs) '','' @ CHR '']'' # r) = Some (map ast vs, r)"
  using assms
proof (induction vs)
  case (Cons v vs)
  have v: "parse_value d (render v @ x) = Some (ast v, x)" if "ends_number x" for x
    using Cons.prems(2) [of v] that by simp
  have IH: "vs \<noteq> [] \<Longrightarrow> parse_elems d (Join (map render vs) '','' @ CHR '']'' # r) = Some (map ast vs, r)"
    using Cons.IH Cons.prems(2) by (meson list.set_intros(2))
  show ?case
    using IH
    by (cases "vs = []")
      (simp_all add: parse_elems.simps [of d "render v @ x" for x] Join_Cons json_space_def v)
qed simp

lemma parse_members_render:
  assumes "ms \<noteq> []" and "\<And>k v r. (k, v) \<in> set ms \<Longrightarrow> ends_number r \<Longrightarrow> parse_value d (render v @ r) = Some (ast v, r)"
    and "\<And>k v. (k, v) \<in> set ms \<Longrightarrow> valid_utf8 k"
  shows "parse_members d (Join (map (\<lambda>(k, v). quoted k @ '':'' @ render v) ms) '','' @ CHR ''}'' # r) =
      Some (map (\<lambda>(k, v). (k, render v, ast v)) ms, r)"
  using assms
proof (induction ms)
  case (Cons m ms)
  obtain k v where m: "m = (k, v)" by (cases m)
  have v: "parse_value d (render v @ x) = Some (ast v, x)" if "ends_number x" for x
    using Cons.prems(2) [of k v] m that by simp
  have k: "unquote (enc_str k) = k" using Cons.prems(3) [of k v] m by (simp add: unquote_enc)
  have IH: "ms \<noteq> [] \<Longrightarrow> parse_members d (Join (map (\<lambda>(k, v). quoted k @ '':'' @ render v) ms) '','' @ CHR ''}'' # r) =
      Some (map (\<lambda>(k, v). (k, render v, ast v)) ms, r)"
    using Cons.IH Cons.prems(2,3) by (meson list.set_intros(2))
  show ?case
    using IH
    by (cases "ms = []")
      (simp_all add: parse_members.simps [of d "CHR 0x22 # x" for x] Join_Cons m quoted_def json_space_def lex_str_enc
        ws_render v k Let_def)
qed simp

lemma parse_render:
  "jv_depth v \<le> d \<Longrightarrow> \<forall>s\<in>jv_texts v. valid_utf8 s \<Longrightarrow> ends_number r \<Longrightarrow> parse_value d (render v @ r) = Some (ast v, r)"
proof (induction v arbitrary: d r)
  case (VInt i)
  then show ?case by (simp add: parse_Itoa)
next
  case (VStr s)
  then show ?case by (simp add: parse_quoted)
next
  case (VArr vs)
  then obtain e where d: "d = Suc e" by (cases d) auto
  show ?case
  proof (cases vs)
    case Nil
    with d show ?thesis by (simp add: parse_value.simps json_space_def)
  next
    case (Cons v vs')
    from render_hd [of v] obtain c t where c: "render v = c # t" "\<not> json_space c" "c \<noteq> CHR '']''" by blast
    have "parse_elems e (Join (map render vs) '','' @ CHR '']'' # r) = Some (map ast vs, r)"
    proof (rule parse_elems_render)
      show "vs \<noteq> []" using Cons by simp
      fix x y assume x: "x \<in> set vs" and y: "ends_number y"
      from VArr.prems(1) d x have "jv_depth x \<le> e" by simp
      moreover from VArr.prems(2) x have "\<forall>s\<in>jv_texts x. valid_utf8 s" by auto
      ultimately show "parse_value e (render x @ y) = Some (ast x, y)" using VArr.IH [OF x] y by simp
    qed
    with Cons c d show ?thesis
      by (simp add: parse_value.simps [of _ "CHR ''['' # x" for x] json_space_def Join_Cons)
  qed
next
  case (VObj ms)
  then obtain e where d: "d = Suc e" by (cases d) auto
  show ?case
  proof (cases ms)
    case Nil
    with d show ?thesis by (simp add: parse_value.simps json_space_def)
  next
    case (Cons m ms')
    have "parse_members e (Join (map (\<lambda>(k, v). quoted k @ '':'' @ render v) ms) '','' @ CHR ''}'' # r) =
        Some (map (\<lambda>(k, v). (k, render v, ast v)) ms, r)"
    proof (rule parse_members_render)
      show "ms \<noteq> []" using Cons by simp
      fix k x assume x: "(k, x) \<in> set ms"
      then have m: "(k, x) \<in> set ms" "x \<in> Basic_BNFs.snds (k, x)" by auto
      from VObj.prems(1) d x have dx: "jv_depth x \<le> e" by auto
      from VObj.prems(2) x have t: "\<forall>s\<in>jv_texts x. valid_utf8 s" "valid_utf8 k" by auto
      show "valid_utf8 k" by (fact t(2))
      fix y assume "ends_number y"
      with VObj.IH [OF m dx t(1)] show "parse_value e (render x @ y) = Some (ast x, y)" by simp
    qed
    with Cons d show ?thesis
      by (cases m) (simp add: parse_value.simps [of _ "CHR ''{'' # x" for x] json_space_def Join_Cons quoted_def)
  qed
qed

lemma json_of_render:
  "jv_depth v \<le> maxNestingDepth \<Longrightarrow> \<forall>s\<in>jv_texts v. valid_utf8 s \<Longrightarrow> json_of (render v) = Some (ast v)"
  using parse_render [of v maxNestingDepth "[]"] by (simp add: json_of_def ends_number_def)

end
