(* ===== verification/MessengerStats.thy ===== *)
theory MessengerStats
  imports Json StoreTypes
begin

text \<open>
  Reading the output of \<open>messenger:stats\<close> (\<open>internal/deployment/queue.go\<close>): the stats document is
  searched among log records and other text and decoded in the shapes that Symfony versions print.
\<close>

section \<open>Finding the document\<close>

record stats_wrapper =
  sw_Transports :: string
  sw_UncountableTransports :: "string list"

text \<open>The probe of \<open>hasTransports\<close> has the field transports only; an absent raw message is empty.\<close>

definition hasTransports :: "string \<Rightarrow> bool" where
  "hasTransports document =
     (case Unmarshal (dec_struct [''transports''] (\<lambda>f raw v x. Some raw)) document [] of
        Some t \<Rightarrow> 0 < length t
      | None \<Rightarrow> False)"

text \<open>
  The search over \<open>raw[offset:]\<close>: the text from the next brace is decoded; a text that is not JSON is
  skipped by one byte, a document without transports as a whole. None stands for reaching the end.
\<close>

function extract_loop :: "string \<Rightarrow> string option" where
  "extract_loop s =
     (case dropWhile (\<lambda>c. c \<noteq> CHR ''{'') s of
        [] \<Rightarrow> None
      | b # t \<Rightarrow>
          (case parse_value maxNestingDepth (b # t) of
             None \<Rightarrow> extract_loop t
           | Some (v, r) \<Rightarrow>
               (let document = take (length (b # t) - length r) (b # t) in
                if hasTransports document then Some document
                else if length r < length s then extract_loop r else None)))"
  by pat_completeness auto

termination
proof (relation "measure length", goal_cases)
  case (2 s b t)
  then show ?case using length_dropWhile_le [of "\<lambda>c. c \<noteq> CHR ''{''" s] by simp
qed auto

declare extract_loop.simps [simp del]

definition extractStatsDocument :: "string \<Rightarrow> string" where
  "extractStatsDocument raw = (case extract_loop raw of Some document \<Rightarrow> document | None \<Rightarrow> raw)"

section \<open>Decoding it\<close>

definition dec_wrapper :: "stats_wrapper decoder" where
  "dec_wrapper =
     dec_struct [''transports'', ''uncountable_transports'']
       (\<lambda>f raw v x. if f = ''transports'' then Some (x\<lparr>sw_Transports := raw\<rparr>)
          else map_option (\<lambda>us. x\<lparr>sw_UncountableTransports := us\<rparr>)
                 (dec_slice [] dec_string v (sw_UncountableTransports x)))"

record stats_item =
  si_Name :: string
  si_Transport :: string
  si_Count :: "int64 option"
  si_Size :: "int64 option"

definition zero_item :: stats_item where
  "zero_item = \<lparr>si_Name = [], si_Transport = [], si_Count = None, si_Size = None\<rparr>"

definition dec_item :: "stats_item decoder" where
  "dec_item =
     dec_struct [''name'', ''transport'', ''count'', ''size'']
       (\<lambda>f raw v x.
          if f = ''name'' then map_option (\<lambda>n. x\<lparr>si_Name := n\<rparr>) (dec_string v (si_Name x))
          else if f = ''transport'' then map_option (\<lambda>n. x\<lparr>si_Transport := n\<rparr>) (dec_string v (si_Transport x))
          else if f = ''count'' then map_option (\<lambda>n. x\<lparr>si_Count := n\<rparr>) (dec_ptr 0 dec_int64 v (si_Count x))
          else map_option (\<lambda>n. x\<lparr>si_Size := n\<rparr>) (dec_ptr 0 dec_int64 v (si_Size x)))"

record stats_object =
  so_Count :: "int64 option"
  so_Size :: "int64 option"

definition zero_object :: stats_object where
  "zero_object = \<lparr>so_Count = None, so_Size = None\<rparr>"

definition dec_object :: "stats_object decoder" where
  "dec_object =
     dec_struct [''count'', ''size'']
       (\<lambda>f raw v x.
          if f = ''count'' then map_option (\<lambda>n. x\<lparr>so_Count := n\<rparr>) (dec_ptr 0 dec_int64 v (so_Count x))
          else map_option (\<lambda>n. x\<lparr>so_Size := n\<rparr>) (dec_ptr 0 dec_int64 v (so_Size x)))"

definition count_or_size :: "int64 option \<Rightarrow> int64 option \<Rightarrow> int64" where
  "count_or_size count sz =
     (case count of Some c \<Rightarrow> c | None \<Rightarrow> (case sz of Some c \<Rightarrow> c | None \<Rightarrow> 0))"

definition item_stats :: "stats_item \<Rightarrow> queue_transport_stats" where
  "item_stats item =
     \<lparr>qt_Name = (if si_Name item = [] then si_Transport item else si_Name item),
      qt_Count = count_or_size (si_Count item) (si_Size item)\<rparr>"

text \<open>The three shapes, tried in turn: a list, a map to objects, a map to numbers.\<close>

definition parse_list :: "string \<Rightarrow> queue_transport_stats list option" where
  "parse_list raw = map_option (map item_stats) (Unmarshal (dec_slice zero_item dec_item) raw [])"

definition parse_objects :: "string \<Rightarrow> queue_transport_stats list option" where
  "parse_objects raw =
     map_option (\<lambda>m. map (\<lambda>(k, x). \<lparr>qt_Name = k, qt_Count = count_or_size (so_Count x) (so_Size x)\<rparr>) (sorted_list_of_fmap m))
       (Unmarshal (dec_map zero_object dec_object) raw fmempty)"

definition parse_counts :: "string \<Rightarrow> queue_transport_stats list option" where
  "parse_counts raw =
     map_option (\<lambda>m. map (\<lambda>(k, c). \<lparr>qt_Name = k, qt_Count = c\<rparr>) (sorted_list_of_fmap m))
       (Unmarshal (dec_map 0 dec_int64) raw fmempty)"

definition parse_shapes :: "string \<Rightarrow> string list \<Rightarrow> (queue_transport_stats list \<times> string list) result" where
  "parse_shapes raw uncountable =
     (case parse_list raw of
        Some stats \<Rightarrow> Inr (stats, uncountable)
      | None \<Rightarrow>
          (case parse_objects raw of
             Some stats \<Rightarrow> Inr (stats, uncountable)
           | None \<Rightarrow>
               (case parse_counts raw of
                  Some stats \<Rightarrow> Inr (stats, uncountable)
                | None \<Rightarrow>
                    Inl (Errorf (''unexpected messenger:stats output, no known json shape: '' @ Truncate raw 500)))))"

definition parseMessengerStats :: "string \<Rightarrow> (queue_transport_stats list \<times> string list) result" where
  "parseMessengerStats raw0 =
     (let raw1 = TrimSpace raw0 in
      if length raw1 = 0 then Inl (Errorf ''empty messenger:stats output'')
      else
        let raw = extractStatsDocument raw1 in
        case Unmarshal dec_wrapper raw \<lparr>sw_Transports = [], sw_UncountableTransports = []\<rparr> of
          Some w \<Rightarrow>
            if 0 < length (sw_Transports w) then parse_shapes (sw_Transports w) (sw_UncountableTransports w)
            else parse_shapes raw []
        | None \<Rightarrow> parse_shapes raw [])"

section \<open>Lemmas\<close>

text \<open>Trimming stops at a byte that no space contains; what is removed consists of spaces.\<close>

lemma strip_stops:
  assumes "\<forall>p\<in>set ps. b \<notin> set p"
  shows "\<exists>p a'. a = p @ a' \<and> b \<notin> set p \<and> strip ps (a @ b # x) = a' @ b # x"
proof (induction a rule: length_induct)
  case (1 a)
  show ?case
  proof (cases "find (\<lambda>p. p \<noteq> [] \<and> take (length p) (a @ b # x) = p) ps")
    case None
    then show ?thesis by (intro exI [of _ "[]"] exI [of _ a]) (simp add: strip.simps [of ps "a @ b # x"])
  next
    case (Some p)
    then have p: "p \<noteq> []" "take (length p) (a @ b # x) = p" "p \<in> set ps"
      by (auto simp: find_Some_iff)
    then have nb: "b \<notin> set p" using assms by auto
    have "length p \<le> length a"
    proof (rule ccontr)
      assume "\<not> length p \<le> length a"
      then have "b \<in> set (take (length p) (a @ b # x))" by (cases "length p - length a") (auto)
      with p nb show False by simp
    qed
    with p have a: "a = p @ drop (length p) a" by (metis append_take_drop_id take_append take_eq_Nil diff_is_0_eq' append_Nil2)
    have "length (drop (length p) a) < length a" using p(1) \<open>length p \<le> length a\<close> by (cases p; cases a) auto
    with 1 obtain q a' where q: "drop (length p) a = q @ a'" "b \<notin> set q"
      "strip ps (drop (length p) a @ b # x) = a' @ b # x" by blast
    have "drop (length p) (a @ b # x) = drop (length p) a @ b # x" using \<open>length p \<le> length a\<close> by simp
    with Some q have "strip ps (a @ b # x) = a' @ b # x" by (simp add: strip.simps [of ps "a @ b # x"])
    with a q nb show ?thesis by (intro exI [of _ "p @ q"] exI [of _ a']) auto
  qed
qed

lemma TrimSpace_around:
  obtains p n' q' where "n = p @ n'" "CHR ''{'' \<notin> set p"
    "TrimSpace (n @ CHR ''{'' # m @ CHR ''}'' # q) = n' @ CHR ''{'' # m @ CHR ''}'' # q'"
proof -
  have s: "\<forall>p\<in>set spaces. CHR ''{'' \<notin> set p" "\<forall>p\<in>set (map rev spaces). CHR ''}'' \<notin> set p"
    by (auto simp: spaces_def)
  obtain p n' where l: "n = p @ n'" "CHR ''{'' \<notin> set p"
    "strip spaces (n @ CHR ''{'' # m @ CHR ''}'' # q) = n' @ CHR ''{'' # m @ CHR ''}'' # q"
    using strip_stops [OF s(1), of n "m @ CHR ''}'' # q"] by auto
  obtain r a where r: "strip (map rev spaces) (rev q @ CHR ''}'' # rev (n' @ CHR ''{'' # m)) = a @ CHR ''}'' # rev (n' @ CHR ''{'' # m)"
    using strip_stops [OF s(2), of "rev q" "rev (n' @ CHR ''{'' # m)"] by blast
  have "TrimSpace (n @ CHR ''{'' # m @ CHR ''}'' # q) = n' @ CHR ''{'' # m @ CHR ''}'' # rev a"
    using r by (simp add: TrimSpace_def l(3))
  with l(1,2) show thesis by (rule that)
qed

section \<open>Noise\<close>

text \<open>A text that is one JSON object, from its first brace to its last.\<close>

definition is_object :: "string \<Rightarrow> bool" where
  "is_object s \<longleftrightarrow>
     take 1 s = ''{'' \<and> (case parse_value maxNestingDepth s of Some (v, r) \<Rightarrow> r = [] | None \<Rightarrow> False)"

text \<open>
  What may stand before the stats document: any bytes but an opening brace, whole JSON objects without
  transports, and opening braces after which no JSON object can go on.
\<close>

inductive noise :: "string \<Rightarrow> bool" where
  noise_Nil: "noise []"
| noise_byte: "c \<noteq> CHR ''{'' \<Longrightarrow> noise n \<Longrightarrow> noise (c # n)"
| noise_record: "is_object doc \<Longrightarrow> \<not> hasTransports doc \<Longrightarrow> noise n \<Longrightarrow> noise (doc @ n)"
| noise_brace: "\<not> json_space c \<Longrightarrow> c \<noteq> CHR 0x22 \<Longrightarrow> c \<noteq> CHR ''}'' \<Longrightarrow> noise (c # n) \<Longrightarrow> noise (CHR ''{'' # c # n)"

lemma is_object_shape:
  assumes "is_object s"
  obtains m ms where "s = CHR ''{'' # m @ ''}''" "parse_value maxNestingDepth s = Some (JObj ms, [])"
proof -
  from assms obtain t where t: "s = CHR ''{'' # t" by (cases s) (auto simp: is_object_def)
  from assms obtain v where v: "parse_value maxNestingDepth s = Some (v, [])"
    by (auto simp: is_object_def split: option.splits)
  then obtain ms where ms: "v = JObj ms"
    by (auto simp: t parse_value.simps [of _ "CHR ''{'' # t"] json_space_def map_apfst_Some split: list.splits if_splits)
  from parse_consumes(1) [OF v] ms have "last s = CHR ''}''" "s \<noteq> []" by auto
  with t have "t \<noteq> []" by auto
  then have "s = CHR ''{'' # butlast t @ ''}''" using t \<open>last s = _\<close> by (metis append_butlast_last_id last_ConsR)
  with v ms show thesis by (intro that) auto
qed

lemma parse_object: "is_object s \<Longrightarrow> \<exists>ms. parse_value maxNestingDepth (s @ x) = Some (JObj ms, x)"
  by (erule is_object_shape) (auto dest: parse_append(1) [where x = x] simp: open_ended_def)

lemma noise_drop: "noise (p @ n) \<Longrightarrow> CHR ''{'' \<notin> set p \<Longrightarrow> noise n"
proof (induction p)
  case (Cons c p)
  from Cons.prems(1) have "noise (p @ n)"
    using Cons.prems(2)
  proof cases
    case (noise_record doc m)
    with Cons.prems(2) show ?thesis by (auto elim!: is_object_shape)
  qed auto
  with Cons show ?case by simp
qed simp

lemma extract_byte:
  assumes "c \<noteq> CHR ''{''"
  shows "extract_loop (c # s) = extract_loop s"
proof (cases "dropWhile (\<lambda>c. c \<noteq> CHR ''{'') s")
  case Nil
  with assms show ?thesis
    by (simp add: extract_loop.simps [of "c # s"] extract_loop.simps [of s] del: dropWhile_eq_Nil_conv)
next
  case (Cons b t)
  then have l: "length t < length s" using length_dropWhile_le [of "\<lambda>c. c \<noteq> CHR ''{''" s] by simp
  have "length r < length s" if "parse_value maxNestingDepth (b # t) = Some (v, r)" for v r
    using parse_consumes(1) [OF that] l by (auto simp: Cons_eq_append_conv)
  with assms Cons show ?thesis
    by (cases "parse_value maxNestingDepth (b # t)")
      (auto simp: extract_loop.simps [of "c # s"] extract_loop.simps [of s] Let_def less_SucI)
qed

lemma extract_object:
  assumes "is_object doc"
  shows "extract_loop (doc @ x) = (if hasTransports doc then Some doc else extract_loop x)"
proof -
  from parse_object [OF assms] obtain ms where p: "parse_value maxNestingDepth (doc @ x) = Some (JObj ms, x)" by blast
  from assms obtain m where "doc = CHR ''{'' # m" by (auto elim: is_object_shape)
  with p show ?thesis by (simp add: extract_loop.simps [of "CHR ''{'' # m @ x"] Let_def)
qed

lemma extract_noise: "noise n \<Longrightarrow> extract_loop (n @ x) = extract_loop x"
proof (induction rule: noise.induct)
  case (noise_brace c n)
  then have "parse_value maxNestingDepth (CHR ''{'' # c # n @ x) = None"
    by (simp add: parse_value.simps [of _ "CHR ''{'' # y" for y] parse_members.simps [of _ "c # y" for y] json_space_def)
  with noise_brace show ?case by (simp add: extract_loop.simps [of "CHR ''{'' # y" for y])
qed (auto simp: extract_byte extract_object)

text \<open>With the document found, only it counts.\<close>

lemma parse_found:
  assumes "noise n" and "is_object doc" and "hasTransports doc"
  shows "parseMessengerStats (n @ doc @ q) =
     (case Unmarshal dec_wrapper doc \<lparr>sw_Transports = [], sw_UncountableTransports = []\<rparr> of
        Some w \<Rightarrow>
          if 0 < length (sw_Transports w) then parse_shapes (sw_Transports w) (sw_UncountableTransports w)
          else parse_shapes doc []
      | None \<Rightarrow> parse_shapes doc [])"
proof -
  from assms(2) obtain m where doc: "doc = CHR ''{'' # m @ ''}''" by (auto elim: is_object_shape)
  then have ne: "doc \<noteq> []" by simp
  obtain p n' q' where t: "n = p @ n'" "CHR ''{'' \<notin> set p" "TrimSpace (n @ doc @ q) = n' @ doc @ q'"
    by (rule TrimSpace_around [of n m q]) (auto simp: doc)
  then have "noise n'" using assms(1) noise_drop by blast
  then have "extractStatsDocument (n' @ doc @ q') = doc"
    using assms(2,3) by (simp add: extractStatsDocument_def extract_noise extract_object)
  then show ?thesis by (simp add: parseMessengerStats_def t(3) ne)
qed

text \<open>The document that Symfony prints for given statistics.\<close>

definition stats_doc :: "queue_transport_stats list \<Rightarrow> string list \<Rightarrow> jv" where
  "stats_doc ts us =
     VObj [(''transports'', VObj (map (\<lambda>t. (qt_Name t, VObj [(''count'', VInt (sint (qt_Count t)))])) ts)),
           (''uncountable_transports'', VArr (map VStr us))]"

lemma valid_names: "valid_utf8 ''transports''" "valid_utf8 ''uncountable_transports''" "valid_utf8 ''count''"
  by (rule valid_ascii, simp add: byte_in_def)+

lemma depth_le: "finite A \<Longrightarrow> \<forall>x\<in>A. x \<le> n \<Longrightarrow> Max (insert (0::nat) A) \<le> n"
  by simp

lemma json_of_stats_doc:
  assumes "\<forall>t\<in>set ts. valid_utf8 (qt_Name t)" and "\<forall>u\<in>set us. valid_utf8 u"
  shows "json_of (render (stats_doc ts us)) = Some (ast (stats_doc ts us))"
    "json_of (render (VObj (map (\<lambda>t. (qt_Name t, VObj [(''count'', VInt (sint (qt_Count t)))])) ts))) =
       Some (ast (VObj (map (\<lambda>t. (qt_Name t, VObj [(''count'', VInt (sint (qt_Count t)))])) ts)))"
  using assms
  by (intro json_of_render; auto simp: stats_doc_def valid_names maxNestingDepth_def)+

lemma dec_list_strings: "dec_list [] dec_string (map (ast \<circ> VStr) us) = Some us"
  by (induction us) (auto simp: dec_string_def)

lemma dec_count: "dec_object (ast (VObj [(''count'', VInt (sint c))])) zero_object = Some \<lparr>so_Count = Some c, so_Size = None\<rparr>"
proof -
  have "ParseInt64 (Itoa (sint c)) = Some c"
    using ParseInt64_Itoa [of "sint c"] sint_ge [of c] sint_lt [of c] by simp
  then show ?thesis
    by (simp add: dec_object_def dec_struct_def find_field_def dec_ptr_def dec_int64_def zero_object_def)
qed

definition counts_map :: "queue_transport_stats list \<Rightarrow> (string, stats_object) fmap \<Rightarrow> (string, stats_object) fmap" where
  "counts_map ts m = fold (\<lambda>t. fmupd (qt_Name t) \<lparr>so_Count = Some (qt_Count t), so_Size = None\<rparr>) ts m"

lemma dec_counts:
  "dec_members (\<lambda>k raw w m. map_option (\<lambda>x. fmupd k x m) (dec_object w zero_object))
     (map (\<lambda>t. (qt_Name t, raw t, ast (VObj [(''count'', VInt (sint (qt_Count t)))]))) ts) m = Some (counts_map ts m)"
  by (induction ts arbitrary: m) (simp_all add: counts_map_def dec_count del: ast.simps)

lemma counts_map_lookup:
  "distinct (map qt_Name ts) \<Longrightarrow> t \<in> set ts \<Longrightarrow>
     fmlookup (counts_map ts m) (qt_Name t) = Some \<lparr>so_Count = Some (qt_Count t), so_Size = None\<rparr>"
proof (induction ts arbitrary: m)
  case (Cons u ts)
  have o: "k \<notin> qt_Name ` set ts \<Longrightarrow> fmlookup (counts_map ts m) k = fmlookup m k" for k m
    by (induction ts arbitrary: m) (auto simp: counts_map_def)
  have "counts_map (u # ts) m = counts_map ts (fmupd (qt_Name u) \<lparr>so_Count = Some (qt_Count u), so_Size = None\<rparr> m)"
    by (simp add: counts_map_def)
  with Cons o [of "qt_Name u"] show ?case by auto
qed simp

lemma counts_map_dom: "fmdom' (counts_map ts m) = qt_Name ` set ts \<union> fmdom' m"
  by (induction ts arbitrary: m) (auto simp: counts_map_def)

lemma sorted_counts:
  assumes "distinct (map qt_Name ts)"
  shows "map (\<lambda>(k, x). \<lparr>qt_Name = k, qt_Count = count_or_size (so_Count x) (so_Size x)\<rparr>) (sorted_list_of_fmap (counts_map ts fmempty)) =
      sort_key qt_Name ts"
proof -
  have "sorted_list_of_fset (fmdom (counts_map ts fmempty)) = sort (map qt_Name ts)"
    using counts_map_dom [of ts fmempty] assms
    by (simp add: sorted_list_of_fset.rep_eq fmdom'_alt_def sorted_list_of_set_sort_remdups distinct_remdups_id
        flip: set_map)
  also have "\<dots> = map qt_Name (sort_key qt_Name ts)"
    using assms by (intro sorted_distinct_set_unique) (simp_all add: distinct_map)
  finally have "map (\<lambda>(k, x). \<lparr>qt_Name = k, qt_Count = count_or_size (so_Count x) (so_Size x)\<rparr>) (sorted_list_of_fmap (counts_map ts fmempty)) =
      map (\<lambda>t. \<lparr>qt_Name = qt_Name t, qt_Count = qt_Count t\<rparr>) (sort_key qt_Name ts)"
    using counts_map_lookup [OF assms, of _ fmempty] by (auto simp: sorted_list_of_fmap_def count_or_size_def)
  also have "\<dots> = sort_key qt_Name ts" by (rule map_idI) simp
  finally show ?thesis .
qed

lemma stats_doc_object:
  assumes "\<forall>t\<in>set ts. valid_utf8 (qt_Name t)" and "\<forall>u\<in>set us. valid_utf8 u"
  shows "is_object (render (stats_doc ts us))" "hasTransports (render (stats_doc ts us))"
proof -
  have "parse_value maxNestingDepth (render (stats_doc ts us) @ []) = Some (ast (stats_doc ts us), [])"
    using assms by (intro parse_render) (auto simp: stats_doc_def valid_names maxNestingDepth_def ends_number_def)
  then show "is_object (render (stats_doc ts us))" by (simp add: is_object_def) (simp add: stats_doc_def)
  show "hasTransports (render (stats_doc ts us))"
    using json_of_stats_doc(1) [OF assms]
    by (simp add: hasTransports_def Unmarshal_def)
      (simp add: stats_doc_def dec_struct_def find_field_def)
qed

lemma parse_shapes_counts:
  assumes "distinct (map qt_Name ts)" and "\<forall>t\<in>set ts. valid_utf8 (qt_Name t)"
  shows "parse_shapes (render (VObj (map (\<lambda>t. (qt_Name t, VObj [(''count'', VInt (sint (qt_Count t)))])) ts))) us =
    Inr (sort_key qt_Name ts, us)"
proof -
  have j: "json_of (render (VObj (map (\<lambda>t. (qt_Name t, VObj [(''count'', VInt (sint (qt_Count t)))])) ts))) =
      Some (JObj (map (\<lambda>t. (qt_Name t, render (VObj [(''count'', VInt (sint (qt_Count t)))]),
              ast (VObj [(''count'', VInt (sint (qt_Count t)))]))) ts))"
    using json_of_stats_doc(2) [OF assms(2), of "[]"] by (simp add: comp_def)
  show ?thesis
    using sorted_counts [OF assms(1)]
    by (simp add: parse_shapes_def parse_list_def parse_objects_def Unmarshal_def j dec_slice_def dec_map_def dec_counts
        del: render.simps ast.simps)
qed

section \<open>Properties\<close>

text \<open>
  The statistics are found whatever stands around them: log records, warnings and other text before
  the stats document, and anything after it, do not change the result.
\<close>

theorem noise_is_ignored:
  assumes "noise n" and "is_object doc" and "hasTransports doc"
  shows "parseMessengerStats (n @ doc @ q) = parseMessengerStats doc"
  using parse_found [OF assms] parse_found [OF noise_Nil assms(2,3), of "[]"] by simp

text \<open>
  C23: Printing and parsing: the statistics of the document that \<open>messenger:stats\<close> prints are read back
  exactly, in the order of the names and with the transports that cannot be counted, whatever log
  records and text stand around the document.
\<close>

theorem stats_roundtrip:
  assumes "distinct (map qt_Name ts)" and "\<forall>t\<in>set ts. valid_utf8 (qt_Name t)" and "\<forall>u\<in>set us. valid_utf8 u"
    and "noise n"
  shows "parseMessengerStats (n @ render (stats_doc ts us) @ q) = Inr (sort_key qt_Name ts, us)"
proof -
  let ?ts = "VObj (map (\<lambda>t. (qt_Name t, VObj [(''count'', VInt (sint (qt_Count t)))])) ts)"
  have "Unmarshal dec_wrapper (render (stats_doc ts us)) \<lparr>sw_Transports = [], sw_UncountableTransports = []\<rparr> =
      Some \<lparr>sw_Transports = render ?ts, sw_UncountableTransports = us\<rparr>"
    using json_of_stats_doc(1) [OF assms(2,3)] dec_list_strings [of us]
    by (simp add: Unmarshal_def)
      (simp add: stats_doc_def dec_wrapper_def dec_struct_def find_field_def dec_slice_def comp_def)
  moreover have "0 < length (render ?ts)" by simp
  ultimately show ?thesis
    using parse_found [OF assms(4) stats_doc_object [OF assms(2,3)], of q] parse_shapes_counts [OF assms(1,2), of us]
    by (simp del: render.simps)
qed

text \<open>A warning, a log record and then the document.\<close>

definition ex_quote :: string where
  "ex_quote = [CHR 0x22]"

definition ex_noise :: string where
  "ex_noise = ''PHP Warning: {odd} {'' @ ex_quote @ ''level'' @ ex_quote @ '':200}'' @ [CHR 10]"

definition ex_stats :: "queue_transport_stats list" where
  "ex_stats = [\<lparr>qt_Name = ''low'', qt_Count = 3\<rparr>, \<lparr>qt_Name = ''async'', qt_Count = -1\<rparr>]"

lemma noise_bytes: "CHR ''{'' \<notin> set p \<Longrightarrow> noise n \<Longrightarrow> noise (p @ n)"
  by (induction p) (auto intro: noise_byte)

lemma ex_noise_noise: "noise ex_noise"
proof -
  let ?r = "''{'' @ ex_quote @ ''level'' @ ex_quote @ '':200}''"
  have "is_object ?r" "\<not> hasTransports ?r" by code_simp+
  then have "noise (?r @ [CHR 10])" by (intro noise_record noise_byte noise_Nil) auto
  then have "noise (''odd} '' @ ?r @ [CHR 10])" by (rule noise_bytes [rotated]) auto
  then have "noise (''{odd} '' @ ?r @ [CHR 10])"
    using noise_brace [of "CHR ''o''" "''dd} '' @ ?r @ [CHR 10]"] by (simp add: json_space_def)
  then have "noise (''PHP Warning: '' @ ''{odd} '' @ ?r @ [CHR 10])" by (rule noise_bytes [rotated]) auto
  then show ?thesis by (simp add: ex_noise_def)
qed

theorem stats_roundtrip_witness:
  "parseMessengerStats (ex_noise @ render (stats_doc ex_stats [''webhook'']) @ ''trailing {'') =
     Inr ([\<lparr>qt_Name = ''async'', qt_Count = -1\<rparr>, \<lparr>qt_Name = ''low'', qt_Count = 3\<rparr>], [''webhook''])"
proof -
  have "distinct (map qt_Name ex_stats)" by (simp add: ex_stats_def)
  moreover have "\<forall>t\<in>set ex_stats. valid_utf8 (qt_Name t)" "\<forall>u\<in>set [''webhook'']. valid_utf8 u"
    by (auto simp: ex_stats_def byte_in_def intro!: valid_ascii)
  moreover have "sort_key qt_Name ex_stats = [\<lparr>qt_Name = ''async'', qt_Count = -1\<rparr>, \<lparr>qt_Name = ''low'', qt_Count = 3\<rparr>]"
    by code_simp
  ultimately show ?thesis
    using stats_roundtrip [of ex_stats "[''webhook'']" ex_noise "''trailing {''"] ex_noise_noise by simp
qed

theorem noise_is_ignored_witness:
  "parseMessengerStats (ex_noise @ render (stats_doc ex_stats []) @ ''bye'') = parseMessengerStats (render (stats_doc ex_stats []))"
proof -
  have v: "\<forall>t\<in>set ex_stats. valid_utf8 (qt_Name t)" "\<forall>u\<in>set []. valid_utf8 u"
    by (auto simp: ex_stats_def byte_in_def intro!: valid_ascii)
  show ?thesis by (rule noise_is_ignored [OF ex_noise_noise stats_doc_object [OF v]])
qed

end
