(* ===== verification/Manager.thy ===== *)
theory Manager
  imports StoreStates MessengerStats
begin

text \<open>
  \<open>StoreStateManager\<close> (\<open>internal/manager\<close>): the table of state managers, \<open>ReconcileState\<close> which runs
  the one of the current state, the queue statistics, and \<open>ReconcileStatus\<close> which writes the status
  back. The life of a Store is the step relation \<open>store_step\<close>; \<open>ReconcileState\<close> is proved to move
  along it, and what holds of all its runs is proved by induction.
\<close>

section \<open>ReconcileState\<close>

fun managers :: "'w base \<Rightarrow> app_state \<Rightarrow> (store \<Rightarrow> ('w, app_state \<times> store) state) option" where
  "managers b StateEmpty = Some (wait_StateHandler b)"
| "managers b StateWait = Some (wait_StateHandler b)"
| "managers b StateSetup = Some (setup_StateHandler b)"
| "managers b StateSetupError = Some (setup_StateHandler b)"
| "managers b StateInitializing = Some (initializing_StateHandler b)"
| "managers b StateMigration = Some (migration_StateHandler b)"
| "managers b StateMigrationError = Some (migration_StateHandler b)"
| "managers b StateReady = Some (ready_StateHandler b)"
| "managers b (StateUnregistered _) = None"

definition ReconcileState :: "'w base \<Rightarrow> store \<Rightarrow> ('w, goerr option \<times> store) state" where
  "ReconcileState b s =
     (case managers b (ss_State (st_Status s)) of
        None \<Rightarrow> State_Monad.return
          (Some (Errorf (''state '' @ go_quote (app_state_text (ss_State (st_Status s))) @
             '' is not registered in operator'')), s)
      | Some handler \<Rightarrow> do {
          (n, s') \<leftarrow> handler s;
          State_Monad.return (None, set_State n s') })"

section \<open>Queue statistics\<close>

definition adminContainerName :: string where
  "adminContainerName = ''shopware-admin''"

definition messengerStatsCommand :: "string list" where
  "messengerStatsCommand = [''php'', ''bin/console'', ''messenger:stats'', ''--format=json'', ''--no-debug'']"

definition selectStatsOutput :: "string \<Rightarrow> string \<Rightarrow> string" where
  "selectStatsOutput stdout stderr = (if TrimSpace stdout \<noteq> [] then stdout else stderr)"

text \<open>\<open>QueueStatsError.Error\<close>, with the reason of the wrapped error kept.\<close>

definition QueueStatsError :: "pod \<Rightarrow> string \<Rightarrow> string \<Rightarrow> goerr \<Rightarrow> goerr" where
  "QueueStatsError p stdout stderr e =
     e\<lparr>err_msg := err_msg e @ '' (pod: '' @ m_Name (p_Meta p) @ '', container: '' @ adminContainerName @
         '', command: '' @ go_quote (Join messengerStatsCommand '' '') @
         (if TrimSpace stderr \<noteq> [] then '', stderr: '' @ Truncate (TrimSpace stderr) 500 else []) @
         (if TrimSpace stdout \<noteq> [] then '', stdout: '' @ Truncate (TrimSpace stdout) 500 else []) @ '')''\<rparr>"

definition GetAdminQueueStats ::
  "'w base \<Rightarrow> store \<Rightarrow> ('w, (queue_transport_stats list \<times> string list) result) state" where
  "GetAdminQueueStats b s = do {
     r \<leftarrow> getRunningAdminPod (b_Client b) (b_OperatorServiceURL b) s;
     (case r of
        Inl e \<Rightarrow> State_Monad.return (Inl (Wrap ''find admin pod for queue stats'' e))
      | Inr p \<Rightarrow> do {
          (stdout, stderr, err) \<leftarrow>
            b_ExecInPod b (m_Namespace (p_Meta p)) (m_Name (p_Meta p)) adminContainerName messengerStatsCommand;
          State_Monad.return (case err of
              Some e \<Rightarrow> Inl (QueueStatsError p stdout stderr (Wrap ''exec failed'' e))
            | None \<Rightarrow> (case parseMessengerStats (selectStatsOutput stdout stderr) of
                          Inl e \<Rightarrow> Inl (QueueStatsError p stdout stderr e)
                        | Inr stats \<Rightarrow> Inr stats)) }) }"

definition UpdateQueueState :: "'w base \<Rightarrow> store \<Rightarrow> ('w, store) state" where
  "UpdateQueueState b s =
     (if \<not> b_HasClientset b then State_Monad.return s
      else if \<not> IsState s [StateReady] then State_Monad.return s
      else if dcon_State (ss_AdminState (st_Status s)) \<noteq> DeploymentStateRunning then State_Monad.return s
      else do {
        r \<leftarrow> GetAdminQueueStats b s;
        now \<leftarrow> cl_Now (b_Client b);
        _ \<leftarrow> (case r of
               Inl e \<Rightarrow> State_Monad.return ()
             | Inr (stats, uncountable) \<Rightarrow> UpdateQueueMetrics (b_Gauges b) (st_Namespace s) (st_Name s) stats);
        State_Monad.return (update_Status (\<lambda>st. st\<lparr>ss_QueueState :=
          (case r of
             Inl e \<Rightarrow> (ss_QueueState st)\<lparr>qc_LastUpdateTime := now, qc_Error := err_msg e\<rparr>
           | Inr (stats, uncountable) \<Rightarrow>
               \<lparr>qc_LastUpdateTime = now, qc_Error = [], qc_Transports = stats,
                qc_UncountableTransports = uncountable\<rparr>)\<rparr>) s) })"

section \<open>ReconcileStatus\<close>

definition error_condition :: "store \<Rightarrow> gotime \<Rightarrow> string \<Rightarrow> goerr \<Rightarrow> store_condition" where
  "error_condition s now reason e =
     \<lparr>con_Type = app_state_text (ss_State (st_Status s)), con_LastTransitionTime = None,
      con_LastUpdateTime = now, con_Message = err_msg e, con_Reason = reason, con_Status = ''Error''\<rparr>"

definition report_error :: "'w base \<Rightarrow> string \<Rightarrow> goerr option \<Rightarrow> store \<Rightarrow> ('w, store) state" where
  "report_error b reason err s =
     (case err of
        None \<Rightarrow> State_Monad.return s
      | Some e \<Rightarrow> do {
          now \<leftarrow> cl_Now (b_Client b);
          State_Monad.return (add_condition (error_condition s now reason e) s) })"

fun send_loop :: "(event_data \<Rightarrow> ('w, goerr option) state) list \<Rightarrow> event_data \<Rightarrow> ('w, unit) state" where
  "send_loop [] e = State_Monad.return ()"
| "send_loop (h # hs) e = do { _ \<leftarrow> h e; send_loop hs e }"

definition sendEvent :: "'w base \<Rightarrow> store \<Rightarrow> string \<Rightarrow> ('w, unit) state" where
  "sendEvent b s msg =
     send_loop (b_EventHandlers b)
       \<lparr>evt_Message = msg, evt_Condition = GetLastCondition (ss_Conditions (st_Status s)),
        evt_DeployedImage = ss_CurrentImageTag (st_Status s), evt_Labels = m_Labels (st_Meta s),
        evt_KindType = ''v1.Store''\<rparr>"

definition writeStoreStatus :: "'w base \<Rightarrow> string \<Rightarrow> string \<Rightarrow> store_status \<Rightarrow> ('w, goerr option) state" where
  "writeStoreStatus b ns n status =
     cl_RetryOnConflict (b_Client b) (do {
       r \<leftarrow> GetStore (b_Client b) ns n;
       (case r of
          Inl e \<Rightarrow> State_Monad.return (Some (Wrap ''write status'' e))
        | Inr cr \<Rightarrow> cl_StatusUpdate (b_Client b) (OStore (cr\<lparr>st_Status := status\<rparr>))) })"

definition ReconcileStatus ::
  "'w base \<Rightarrow> store \<Rightarrow> goerr option \<Rightarrow> ('w, goerr option \<times> store) state" where
  "ReconcileStatus b s reconcileError =
     (if m_DeletionTimestamp (st_Meta s) \<noteq> None then State_Monad.return (None, s)
      else let cl = b_Client b; url = b_OperatorServiceURL b in do {
        (err, s) \<leftarrow> ReconcileState b s;
        s \<leftarrow> report_error b ''StatusError'' err s;
        s \<leftarrow> report_error b ''ReconcileError'' reconcileError s;
        let s = update_Status (\<lambda>st. st\<lparr>ss_Message := con_Message (GetLastCondition (ss_Conditions st))\<rparr>) s;
        a \<leftarrow> GetAdminDeploymentCondition cl url s;
        let s = update_Status (\<lambda>st. st\<lparr>ss_AdminState := a\<rparr>) s;
        s \<leftarrow> UpdateQueueState b s;
        w \<leftarrow> GetWorkerDeploymentCondition cl url s;
        let s = update_Status (\<lambda>st. st\<lparr>ss_WorkerState := w\<rparr>) s;
        f \<leftarrow> GetStorefrontDeploymentCondition cl url s;
        let s = update_Status (\<lambda>st. st\<lparr>ss_StorefrontState := f\<rparr>) s;
        _ \<leftarrow> sendEvent b s ''Update store status'';
        _ \<leftarrow> UpdateStoreMetrics (b_Gauges b) s;
        c \<leftarrow> GetScheduledCronJob cl url s;
        _ \<leftarrow> UpdateScheduledTaskMetrics (b_Gauges b) s (case c of Inl _ \<Rightarrow> None | Inr j \<Rightarrow> Some j);
        e \<leftarrow> writeStoreStatus b (st_Namespace s) (st_Name s) (st_Status s);
        State_Monad.return (e, s) })"

section \<open>The life of a Store\<close>

text \<open>The transitions that a Store may make, as the specification of \<open>ReconcileState\<close>.\<close>

inductive store_step :: "app_state \<Rightarrow> app_state \<Rightarrow> bool" where
  wait: "x \<in> {StateEmpty, StateWait} \<Longrightarrow> y \<in> {StateWait, StateSetup} \<Longrightarrow> store_step x y"
| install: "x \<in> {StateSetup, StateSetupError} \<Longrightarrow> y \<in> {StateSetup, StateSetupError, StateInitializing} \<Longrightarrow> store_step x y"
| init: "y \<in> {StateInitializing, StateReady} \<Longrightarrow> store_step StateInitializing y"
| migrate: "x \<in> {StateMigration, StateMigrationError} \<Longrightarrow>
    y \<in> {StateMigration, StateMigrationError, StateInitializing} \<Longrightarrow> store_step x y"
| ready: "y \<in> {StateReady, StateInitializing, StateMigration} \<Longrightarrow> store_step StateReady y"

code_pred store_step .

inductive_simps store_step_simps:
  "store_step StateEmpty y" "store_step StateWait y" "store_step StateSetup y" "store_step StateSetupError y"
  "store_step StateInitializing y" "store_step StateMigration y" "store_step StateMigrationError y"
  "store_step StateReady y" "store_step (StateUnregistered u) y"

text \<open>
  A run: the states a Store has had, newest first, starting from the empty one; each step is a
  reconcile from some world and some Store with that state (the specification may change between
  two reconciles).
\<close>

inductive store_run :: "'w base \<Rightarrow> app_state list \<Rightarrow> bool" for b where
  start: "store_run b [StateEmpty]"
| step: "store_run b (x # xs) \<Longrightarrow> ss_State (st_Status s) = x \<Longrightarrow>
    run_state (ReconcileState b s) w = ((None, s'), w') \<Longrightarrow> store_run b (ss_State (st_Status s') # x # xs)"

section \<open>ReconcileState moves along the step relation\<close>

lemma managers_contract:
  assumes "managers b x = Some h"
  shows "state_manager h {y. store_step x y}"
proof -
  have sets: "{y. store_step StateEmpty y} = {StateWait, StateSetup}" "{y. store_step StateWait y} = {StateWait, StateSetup}"
    "{y. store_step StateSetup y} = {StateSetup, StateSetupError, StateInitializing}"
    "{y. store_step StateSetupError y} = {StateSetup, StateSetupError, StateInitializing}"
    "{y. store_step StateInitializing y} = {StateInitializing, StateReady}"
    "{y. store_step StateMigration y} = {StateMigration, StateMigrationError, StateInitializing}"
    "{y. store_step StateMigrationError y} = {StateMigration, StateMigrationError, StateInitializing}"
    "{y. store_step StateReady y} = {StateReady, StateInitializing, StateMigration}"
    by (auto simp: store_step_simps)
  show ?thesis
    using assms wait_mgr.state_manager_axioms setup_mgr.state_manager_axioms initializing_mgr.state_manager_axioms
      migration_mgr.state_manager_axioms ready_mgr.state_manager_axioms
    by (cases x) (auto simp: sets)
qed

lemma managers_None: "managers b x = None \<longleftrightarrow> (\<exists>u. x = StateUnregistered u)"
  by (cases x) auto

lemma ReconcileState_transition:
  assumes "managers b (ss_State (st_Status s)) = Some h"
  shows "run_state (ReconcileState b s) w =
    (case run_state (state_manager.transition h s) w of (s', w') \<Rightarrow> ((None, s'), w'))"
  using assms state_manager.transition_def [OF managers_contract [OF assms]]
  by (simp add: ReconcileState_def run_simps split: prod.split)

lemma ReconcileState_cases:
  assumes "run_state (ReconcileState b s) w = ((err, s'), w')"
  obtains (unregistered) u where "ss_State (st_Status s) = StateUnregistered u" "s' = s" "w' = w"
      "err = Some (Errorf (''state '' @ go_quote u @ '' is not registered in operator''))"
  | (step) n t where "err = None" "s' = set_State n t" "store_step (ss_State (st_Status s)) n" "status_only s t"
proof (cases "managers b (ss_State (st_Status s))")
  case None
  then obtain u where "ss_State (st_Status s) = StateUnregistered u" using managers_None by blast
  then show ?thesis using assms None by (intro unregistered) (auto simp: ReconcileState_def run_simps)
next
  case (Some h)
  then have "err = None" "run_state (state_manager.transition h s) w = (s', w')"
    using assms ReconcileState_transition [OF Some, of w] by (auto split: prod.splits)
  then show ?thesis
    using state_manager.transition_run [OF managers_contract [OF Some]] step by blast
qed

text \<open>
  Building a job or a deployment writes through maps and arrays that the given Store shares
  (\<open>GetDefaultContainerAnnotations_shared\<close>, \<open>Merge_shared\<close>). The state handlers read none of these
  fields, so they are compared without them.
\<close>

definition unshared :: "store_spec \<Rightarrow> store_spec" where
  "unshared sp = sp\<lparr>sp_Container := (sp_Container sp)\<lparr>
     cs_Volumes := cs_Volumes zero_container_spec, cs_VolumeMounts := cs_VolumeMounts zero_container_spec,
     cs_Annotations := None, cs_Labels := None, cs_Resources := cs_Resources zero_container_spec\<rparr>\<rparr>"

text \<open>
  C1: one reconcile of the state: a Store in a state without manager is reported as an error and
  left alone; any other Store makes a step of the transition system, its metadata, specification
  (but for the shared maps) and queue state are kept, and its history is extended by conditions.
\<close>

theorem ReconcileState_refines_store_step:
  "case run_state (ReconcileState b s) w of ((err, s'), w') \<Rightarrow>
     (case err of
        Some e \<Rightarrow> s' = s \<and> w' = w \<and> (\<exists>u. ss_State (st_Status s) = StateUnregistered u)
      | None \<Rightarrow> store_step (ss_State (st_Status s)) (ss_State (st_Status s')) \<and>
          st_Meta s' = st_Meta s \<and> unshared (st_Spec s') = unshared (st_Spec s) \<and>
          ss_QueueState (st_Status s') = ss_QueueState (st_Status s) \<and>
          (\<exists>cs. ss_Conditions (st_Status s') = foldl AddCondition (ss_Conditions (st_Status s)) cs))"
proof -
  obtain err s' w' where r: "run_state (ReconcileState b s) w = ((err, s'), w')" by (metis surj_pair)
  then show ?thesis by (cases rule: ReconcileState_cases) (auto simp: r status_only_def)
qed

section \<open>Runs\<close>

text \<open>What a Store has been through when it is in a state, and what it cannot have been through.\<close>

fun needs :: "app_state \<Rightarrow> app_state set" where
  "needs StateSetupError = {StateSetup}"
| "needs StateInitializing = {StateSetup}"
| "needs StateReady = {StateSetup, StateInitializing}"
| "needs StateMigration = {StateSetup, StateInitializing, StateReady}"
| "needs StateMigrationError = {StateSetup, StateInitializing, StateReady}"
| "needs _ = {}"

fun excludes :: "app_state \<Rightarrow> app_state set" where
  "excludes StateEmpty = UNIV - {StateEmpty}"
| "excludes StateWait = UNIV - {StateEmpty, StateWait}"
| "excludes StateSetup = UNIV - {StateEmpty, StateWait, StateSetup, StateSetupError}"
| "excludes StateSetupError = UNIV - {StateEmpty, StateWait, StateSetup, StateSetupError}"
| "excludes _ = range StateUnregistered"

lemma run_step: "store_run b (y # x # xs) \<Longrightarrow> store_step x y \<and> store_run b (x # xs)"
  by (erule store_run.cases) (auto elim!: ReconcileState_cases)

lemma run_suffix: "store_run b (zs @ y # ys) \<Longrightarrow> store_run b (y # ys)"
proof (induction zs)
  case (Cons z zs)
  then show ?case using run_step by (cases zs) auto
qed simp

lemma run_head: "store_run b xs \<Longrightarrow> xs = y # ys \<Longrightarrow> needs y \<subseteq> set ys \<and> set ys \<inter> excludes y = {} \<and> y \<notin> excludes y"
proof (induction arbitrary: y ys rule: store_run.induct)
  case (step x xs s w s' w')
  then have "store_step x y" and ys: "ys = x # xs" by (auto elim!: ReconcileState_cases)
  then show ?case using step.IH [of x xs] by (cases x) (auto simp: store_step_simps)
qed simp

text \<open>
  C2: the order of the states in every run of a Store: it is initialized only after a setup, ready
  only after an initialization, and migrated only after it has been ready; it does not wait again
  after the setup has begun, does not go back to the setup once initialized, and never gets into a
  state that has no manager.
\<close>

theorem run_order:
  assumes "store_run b (zs @ y # ys)"
  shows "needs y \<subseteq> set ys \<and> set ys \<inter> excludes y = {} \<and> (\<forall>u. y \<noteq> StateUnregistered u)"
  using run_head [OF run_suffix [OF assms] refl] by (cases y) auto

section \<open>ReconcileStatus\<close>

text \<open>What \<open>ReconcileStatus\<close> keeps of a Store, and how its state and history may go on.\<close>

definition reconciled :: "store \<Rightarrow> store \<Rightarrow> bool" where
  "reconciled s s' \<longleftrightarrow> st_Meta s' = st_Meta s \<and> unshared (st_Spec s') = unshared (st_Spec s) \<and>
     (case ss_State (st_Status s) of
        StateUnregistered u \<Rightarrow> ss_State (st_Status s') = StateUnregistered u
      | x \<Rightarrow> store_step x (ss_State (st_Status s'))) \<and>
     (\<exists>cs. ss_Conditions (st_Status s') = foldl AddCondition (ss_Conditions (st_Status s)) cs)"

lemma ReconcileState_reconciled: "holds (\<lambda>r. reconciled s (snd r)) (ReconcileState b s)"
proof (rule holdsI)
  fix w
  obtain err s' w' where r: "run_state (ReconcileState b s) w = ((err, s'), w')" by (metis surj_pair)
  then show "reconciled s (snd (fst (run_state (ReconcileState b s) w)))"
    by (cases rule: ReconcileState_cases)
      (auto simp: r reconciled_def status_only_def store_step_simps intro: exI [of _ "[]"] split: app_state.splits)
qed

lemma reconciled_update:
  "reconciled s t \<Longrightarrow> st_Meta u = st_Meta t \<Longrightarrow> st_Spec u = st_Spec t \<Longrightarrow>
     ss_State (st_Status u) = ss_State (st_Status t) \<Longrightarrow>
     ss_Conditions (st_Status u) = foldl AddCondition (ss_Conditions (st_Status t)) cs \<Longrightarrow> reconciled s u"
  by (auto simp: reconciled_def simp flip: foldl_append split: app_state.splits)

lemma reconciled_status:
  "reconciled s t \<Longrightarrow> ss_State (f (st_Status t)) = ss_State (st_Status t) \<Longrightarrow>
     ss_Conditions (f (st_Status t)) = ss_Conditions (st_Status t) \<Longrightarrow> reconciled s (update_Status f t)"
  by (erule reconciled_update [where cs = "[]"]) auto

lemma report_error_reconciled: "reconciled s t \<Longrightarrow> holds (reconciled s) (report_error b reason err t)"
  unfolding report_error_def
  by (intro holds_intros)
    (auto simp: add_condition_def intro: reconciled_update [where cs = "[c]" for c])

lemma UpdateQueueState_only:
  "holds (\<lambda>s'. \<exists>f. s' = update_Status (\<lambda>st. st\<lparr>ss_QueueState := f st\<rparr>) s) (UpdateQueueState b s)"
proof -
  have "\<exists>f. s = update_Status (\<lambda>st. st\<lparr>ss_QueueState := f st\<rparr>) s" by (rule exI [of _ ss_QueueState]) simp
  then show ?thesis unfolding UpdateQueueState_def Let_def
    by (intro holds_ifI holds_returnI holds_bind_any) (assumption | rule exI refl)+
qed

definition message_set :: "store \<Rightarrow> bool" where
  "message_set s \<longleftrightarrow> ss_Message (st_Status s) = con_Message (GetLastCondition (ss_Conditions (st_Status s)))"

lemma message_set_update:
  "message_set (update_Status (\<lambda>st. st\<lparr>ss_Message := con_Message (GetLastCondition (ss_Conditions st))\<rparr>) s)"
  "message_set (update_Status (\<lambda>st. st\<lparr>ss_AdminState := c\<rparr>) s) = message_set s"
  "message_set (update_Status (\<lambda>st. st\<lparr>ss_WorkerState := c\<rparr>) s) = message_set s"
  "message_set (update_Status (\<lambda>st. st\<lparr>ss_StorefrontState := c\<rparr>) s) = message_set s"
  "message_set (update_Status (\<lambda>st. st\<lparr>ss_QueueState := f st\<rparr>) s) = message_set s"
  by (simp_all add: message_set_def)

lemma ReconcileStatus_holds:
  assumes "m_DeletionTimestamp (st_Meta s) = None"
  shows "holds (\<lambda>r. reconciled s (snd r) \<and> message_set (snd r)) (ReconcileStatus b s e)"
  unfolding ReconcileStatus_def Let_def using assms
  apply simp
  apply (rule holds_bindI [OF ReconcileState_reconciled])
  apply (clarsimp split: prod.splits)
  apply (rule holds_bindI [OF report_error_reconciled], assumption)
  apply (rule holds_bindI [OF report_error_reconciled], assumption)
  apply (rule holds_bind_any)
  apply (rule holds_bindI [OF UpdateQueueState_only])
  apply (intro holds_intros)
  apply (auto simp: message_set_update intro!: reconciled_status)
  done

text \<open>
  C17: \<open>ReconcileStatus\<close> does nothing for a Store that is being deleted. Otherwise it keeps metadata
  and specification (but for the shared maps), the state makes one step (or stays, if it has no manager), the history is
  extended by conditions, and the message of the status is the one of the last condition.
\<close>

theorem ReconcileStatus_result:
  "case run_state (ReconcileStatus b s e) w of ((err, s'), w') \<Rightarrow>
     if m_DeletionTimestamp (st_Meta s) \<noteq> None then err = None \<and> s' = s \<and> w' = w
     else reconciled s s' \<and>
       ss_Message (st_Status s') = con_Message (GetLastCondition (ss_Conditions (st_Status s')))"
proof (cases "m_DeletionTimestamp (st_Meta s)")
  case None
  obtain err s' w' where r: "run_state (ReconcileStatus b s e) w = ((err, s'), w')" by (metis surj_pair)
  show ?thesis using holdsD [OF ReconcileStatus_holds [OF None] r] None by (simp add: r message_set_def)
qed (simp add: ReconcileStatus_def run_simps)

text \<open>
  The queue statistics are only read for a ready Store whose admin deployment runs; when reading
  them fails the error is recorded and the transports found last are kept, so that the worker
  deployments derived from them stay; otherwise they are replaced and the error is cleared.
\<close>

theorem UpdateQueueState_result:
  "case run_state (UpdateQueueState b s) w of (s', w') \<Rightarrow>
     if \<not> (b_HasClientset b \<and> IsState s [StateReady] \<and>
           dcon_State (ss_AdminState (st_Status s)) = DeploymentStateRunning) then s' = s \<and> w' = w
     else case run_state (GetAdminQueueStats b s) w of
         (Inl e, _) \<Rightarrow> qc_Error (ss_QueueState (st_Status s')) = err_msg e \<and>
           WorkerQueues s' = WorkerQueues s \<and>
           qc_UncountableTransports (ss_QueueState (st_Status s')) = qc_UncountableTransports (ss_QueueState (st_Status s))
       | (Inr (stats, uncountable), _) \<Rightarrow> qc_Error (ss_QueueState (st_Status s')) = [] \<and>
           WorkerQueues s' = map qt_Name stats \<and>
           qc_UncountableTransports (ss_QueueState (st_Status s')) = uncountable"
  by (auto simp: UpdateQueueState_def WorkerQueues_def run_simps split: prod.splits sum.splits)

section \<open>From waiting to ready\<close>

fun reconcile_times :: "nat \<Rightarrow> 'w base \<Rightarrow> store \<Rightarrow> ('w, store) state" where
  "reconcile_times 0 b s = State_Monad.return s"
| "reconcile_times (Suc n) b s = do { (err, s') \<leftarrow> ReconcileState b s; reconcile_times n b s' }"

definition same_store :: "store \<Rightarrow> store \<Rightarrow> bool" where
  "same_store s t \<longleftrightarrow> st_Meta t = st_Meta s \<and> unshared (st_Spec t) = unshared (st_Spec s) \<and>
     ss_QueueState (st_Status t) = ss_QueueState (st_Status s)"

abbreviation cluster_runs :: "'w base \<Rightarrow> store \<Rightarrow> bool" where
  "cluster_runs b s \<equiv>
     holds (\<lambda>c. dcon_State c = DeploymentStateRunning) (GetAdminDeploymentCondition (b_Client b) (b_OperatorServiceURL b) s) \<and>
     holds (\<lambda>c. dcon_State c = DeploymentStateRunning) (GetWorkerDeploymentCondition (b_Client b) (b_OperatorServiceURL b) s) \<and>
     holds (\<lambda>c. dcon_State c = DeploymentStateRunning) (GetStorefrontDeploymentCondition (b_Client b) (b_OperatorServiceURL b) s)"

abbreviation setup_done :: "'w base \<Rightarrow> store \<Rightarrow> bool" where
  "setup_done b s \<equiv>
     holds (\<lambda>r. \<exists>j. r = Inr j \<and> holds (\<lambda>q. \<exists>st. q = Inr st \<and> IsDone st \<and> \<not> HasErrors st)
        (IsJobContainerDone (b_Client b) (Some j) CONTAINER_NAME_SETUP_JOB))
       (GetSetupJob (b_Client b) (b_OperatorServiceURL b) s)"

lemma handler_state:
  assumes "managers b (ss_State (st_Status s)) = Some h" and "holds (\<lambda>r. fst r = x) (h s)"
  shows "holds (\<lambda>r. ss_State (st_Status (snd r)) = x \<and> same_store s (snd r)) (ReconcileState b s)"
proof -
  have contract: "state_manager h {y. store_step (ss_State (st_Status s)) y}"
    by (rule managers_contract [OF assms(1)])
  have "holds (\<lambda>r. fst r = x \<and> status_only s (snd r)) (h s)"
    using assms(2) state_manager.writes_status_only [OF contract, of s] by (simp add: holds_def)
  then show ?thesis
    unfolding ReconcileState_def using assms(1)
    by (auto intro!: holds_bindI [of "\<lambda>r. fst r = x \<and> status_only s (snd r)"] simp: same_store_def status_only_def split: prod.split)
qed

lemma setup_reaches_initializing:
  "setup_done b s \<Longrightarrow> holds (\<lambda>r. fst r = StateInitializing) (setup_StateHandler b s)"
  unfolding setup_StateHandler_def Let_def
  by (rule holds_bind_any, erule holds_bindI, elim exE conjE, simp)
    (erule holds_bindI, auto intro!: holds_intros)

lemma same_store_refresh:
  assumes "\<And>t. same_store s t \<Longrightarrow> cluster_runs b t" and "same_store s t"
  shows "holds (\<lambda>r. fst r) (AllDeploymentsRunning b t)"
proof -
  have upd: "same_store s (update_Status (\<lambda>st. st\<lparr>ss_AdminState := a\<rparr>) u)"
      "same_store s (update_Status (\<lambda>st. st\<lparr>ss_WorkerState := a\<rparr>) u)" if "same_store s u" for a u
    using that by (auto simp: same_store_def)
  have "holds (\<lambda>r. list_all (\<lambda>x. x = DeploymentStateRunning) (fst r)) (refreshDeploymentStates b t)"
    unfolding refreshDeploymentStates_def Let_def
    by (rule holds_bindI, rule assms(1) [OF assms(2), THEN conjunct1],
        rule holds_bindI, rule assms(1) [OF upd(1) [OF assms(2)], THEN conjunct2, THEN conjunct1],
        rule holds_bindI, rule assms(1) [OF upd(2) [OF upd(1) [OF assms(2)]], THEN conjunct2, THEN conjunct2])
      simp
  then show ?thesis
    unfolding AllDeploymentsRunning_def by (rule holds_bindI) (auto split: prod.split)
qed

lemma initializing_reaches_ready:
  assumes "\<And>t. same_store s t \<Longrightarrow> cluster_runs b t"
  shows "holds (\<lambda>r. fst r = StateReady) (initializing_StateHandler b s)"
proof -
  have "same_store s (set_CurrentImageTag (cs_Image (st_Container s)) s)" by (simp add: same_store_def)
  then have run: "holds (\<lambda>r. fst r) (AllDeploymentsRunning b (set_CurrentImageTag (cs_Image (st_Container s)) s))"
    using assms by (intro same_store_refresh)
  show ?thesis
    unfolding initializing_StateHandler_def Let_def
    by (rule holds_bind_any, rule holds_bindI [OF run]) (auto intro!: holds_intros split: prod.split)
qed

lemma same_store_trans: "same_store s t \<Longrightarrow> same_store t u \<Longrightarrow> same_store s u"
  by (simp add: same_store_def)

lemma reconcile_times_step:
  assumes "holds (\<lambda>r. P (snd r)) (ReconcileState b s)" and "\<And>t. P t \<Longrightarrow> holds Q (reconcile_times n b t)"
  shows "holds Q (reconcile_times (Suc n) b s)"
  unfolding reconcile_times.simps by (rule holds_bindI [OF assms(1)]) (auto intro: assms(2) split: prod.split)


definition ex_cluster :: "kind \<Rightarrow> kobj result" where
  "ex_cluster k =
     (case k of
        KJob \<Rightarrow> Inr (OJob (ex_job\<lparr>j_Status := (j_Status ex_job)\<lparr>jst_Succeeded := 1\<rparr>\<rparr>))
      | KDeployment \<Rightarrow> Inr (ODeployment (AdminDeployment [] zero_store))
      | _ \<Rightarrow> Inl notFound)"

definition ex_ready_base :: "unit base" where
  "ex_ready_base = (const_base ex_cluster)\<lparr>b_DisableServiceChecks := True\<rparr>"

lemma ex_cluster_runs:
  assumes "qc_Transports (ss_QueueState (st_Status s)) = []"
  shows "cluster_runs ex_ready_base s"
  using assms
  by (simp add: ex_ready_base_def const_base_def const_client_def ex_cluster_def GetAdminDeploymentCondition_def
      GetStorefrontDeploymentCondition_def GetWorkerDeploymentCondition_def WorkerDeployments_def WorkerQueues_def
      GetDeployment_def typed_def getDeploymentCondition_def AdminDeployment_def deployment_object_def empty_deployment_status_def Let_def)

lemma ex_setup_done: "setup_done ex_ready_base s"
  by (simp add: ex_ready_base_def const_base_def const_client_def ex_cluster_def GetSetupJob_def GetJob_def typed_def Let_def
      IsJobContainerDone_def ex_job_def job_object_def job_verdict_def IsDone_def HasErrors_def
      CONTAINER_NAME_SETUP_JOB_def job_done_def word_sless_alt)


theorem run_order_witness: "store_run ex_ready_base [StateSetup, StateEmpty] \<and> needs StateSetup \<subseteq> {StateEmpty}"
proof -
  have "run_state (ReconcileState ex_ready_base zero_store) () = ((None, set_State StateSetup zero_store), ())"
    by (simp add: ReconcileState_def zero_store_def zero_store_status_def wait_StateHandler_def ex_ready_base_def run_simps)
  from store_run.step [OF store_run.start _ this]
  have r: "store_run ex_ready_base ([] @ StateSetup # [StateEmpty])"
    by (simp add: zero_store_def zero_store_status_def)
  from run_order [OF this] r show ?thesis by simp
qed

end
