(* ===== verification/Ensure.thy ===== *)
theory Ensure
  imports Jobs
begin

text \<open>
  Applying objects to the cluster (\<open>internal/k8s/utils.go\<close>): an object carries the hash of its
  specification as an annotation; it is created when missing and patched when the hash, its labels
  or its annotations differ, except that a job is deleted and created again. The functions work on
  the object they are given, so they return it as well. Proved: an applied object is unchanged for
  the next reconcile (for every API server that returns what was written), what happens to jobs, and
  which values a logged difference of secrets can contain.
\<close>

section \<open>Hash and metadata\<close>

definition lastConfigHashAnnotation :: string where
  "lastConfigHashAnnotation = ''shopware.com/last-config-hash''"

definition ignoredAnnotations :: "string list" where
  "ignoredAnnotations = [''deployment.kubernetes.io/revision'']"

fun set_meta :: "object_meta \<Rightarrow> kobj \<Rightarrow> kobj" where
  "set_meta m (ODeployment x) = ODeployment (x\<lparr>d_Meta := m\<rparr>)"
| "set_meta m (OJob x) = OJob (x\<lparr>j_Meta := m\<rparr>)"
| "set_meta m (OCronJob x) = OCronJob (x\<lparr>cj_Meta := m\<rparr>)"
| "set_meta m (OPod x) = OPod (x\<lparr>p_Meta := m\<rparr>)"
| "set_meta m (OSecret x) = OSecret (x\<lparr>s_Meta := m\<rparr>)"
| "set_meta m (OScaledObject x) = OScaledObject (x\<lparr>so_Meta := m\<rparr>)"
| "set_meta m (OService x) = OService (x\<lparr>sv_Meta := m\<rparr>)"
| "set_meta m (OPDB x) = OPDB (x\<lparr>pdb_Meta := m\<rparr>)"
| "set_meta m (OHPA x) = OHPA (x\<lparr>hp_Meta := m\<rparr>)"
| "set_meta m (OIngress x) = OIngress (x\<lparr>ing_Meta := m\<rparr>)"
| "set_meta m (OHTTPRoute x) = OHTTPRoute (x\<lparr>hr_Meta := m\<rparr>)"
| "set_meta m (OStore x) = OStore (x\<lparr>st_Meta := m\<rparr>)"
| "set_meta m (OStoreExec x) = OStoreExec (x\<lparr>e_Meta := m\<rparr>)"
| "set_meta m (OStoreDebugInstance x) = OStoreDebugInstance (x\<lparr>dbi_Meta := m\<rparr>)"
| "set_meta m (OStoreSnapshotCreate x) = OStoreSnapshotCreate (x\<lparr>sh_Meta := m\<rparr>)"
| "set_meta m (OStoreSnapshotRestore x) = OStoreSnapshotRestore (x\<lparr>sh_Meta := m\<rparr>)"

text \<open>
  The builders put one and the same map into the metadata of a deployment, job or cron job and into
  the metadata of its templates, so writing an annotation of the object writes it there, too. (The
  template of a command job has no annotations.) An object without annotations gets a new map.
\<close>

definition write_template :: "(gomap \<Rightarrow> gomap) \<Rightarrow> pod_template \<Rightarrow> pod_template" where
  "write_template f t = t\<lparr>pt_Annotations := map_option f (pt_Annotations t)\<rparr>"

fun write_shared :: "(gomap \<Rightarrow> gomap) \<Rightarrow> kobj \<Rightarrow> kobj" where
  "write_shared f (ODeployment x) =
     ODeployment (x\<lparr>d_Spec := (d_Spec x)\<lparr>ds_Template := write_template f (ds_Template (d_Spec x))\<rparr>\<rparr>)"
| "write_shared f (OJob x) = OJob (x\<lparr>j_Spec := (j_Spec x)\<lparr>js_Template := write_template f (js_Template (j_Spec x))\<rparr>\<rparr>)"
| "write_shared f (OCronJob x) = OCronJob (x\<lparr>
     cj_JobMeta := (cj_JobMeta x)\<lparr>m_Annotations := map_option f (m_Annotations (cj_JobMeta x))\<rparr>,
     cj_JobSpec := (cj_JobSpec x)\<lparr>js_Template := write_template f (js_Template (cj_JobSpec x))\<rparr>\<rparr>)"
| "write_shared f x = x"

definition write_annotations :: "(gomap \<Rightarrow> gomap) \<Rightarrow> kobj \<Rightarrow> kobj" where
  "write_annotations f x =
     (case m_Annotations (obj_meta x) of
        None \<Rightarrow> set_meta ((obj_meta x)\<lparr>m_Annotations := Some (f fmempty)\<rparr>) x
      | Some a \<Rightarrow> write_shared f (set_meta ((obj_meta x)\<lparr>m_Annotations := Some (f a)\<rparr>) x))"

definition annotations_of :: "kobj \<Rightarrow> gomap" where
  "annotations_of x = (case m_Annotations (obj_meta x) of None \<Rightarrow> fmempty | Some a \<Rightarrow> a)"

fun extractRelevantData :: "kobj \<Rightarrow> hash_data" where
  "extractRelevantData (ODeployment x) = HDeployment (d_Spec x)"
| "extractRelevantData (OService x) = HService (sv_Spec x)"
| "extractRelevantData (OSecret x) = HSecret (s_Data x) (s_StringData x)"
| "extractRelevantData (OScaledObject x) = HSpecOf (OScaledObject (x\<lparr>so_Meta := empty_meta\<rparr>))"
| "extractRelevantData (OHPA x) = HSpecOf (OHPA (x\<lparr>hp_Meta := empty_meta\<rparr>))"
| "extractRelevantData (OJob x) = HJob (j_Spec x)"
| "extractRelevantData (OCronJob x) = HSpecOf (OCronJob (x\<lparr>cj_Meta := empty_meta, cj_Status := new_cron_job_status\<rparr>))"
| "extractRelevantData (OPDB x) = HSpecOf (OPDB (x\<lparr>pdb_Meta := empty_meta\<rparr>))"
| "extractRelevantData (OIngress x) = HSpecOf (OIngress (x\<lparr>ing_Meta := empty_meta\<rparr>))"
| "extractRelevantData (OHTTPRoute x) = HSpecOf (OHTTPRoute (x\<lparr>hr_Meta := empty_meta\<rparr>))"
| "extractRelevantData x = HObject x"

definition ObjectHash :: "'w client \<Rightarrow> kobj \<Rightarrow> string result" where
  "ObjectHash cl x =
     (case cl_Marshal cl (extractRelevantData x) of Inl e \<Rightarrow> Inl e | Inr data \<Rightarrow> Inr (md5hex data))"

definition diffKeys :: "string \<Rightarrow> gomap \<Rightarrow> gomap \<Rightarrow> string list" where
  "diffKeys p old new =
     sort (map (\<lambda>(k, v). p @ '':'' @ k) (filter (\<lambda>(k, v). fmlookup old k \<noteq> Some v) (sorted_list_of_fmap new)) @
           map (\<lambda>(k, v). p @ '':'' @ k) (filter (\<lambda>(k, v). fmlookup new k = None) (sorted_list_of_fmap old)))"

definition filteredAnnotations :: "kobj \<Rightarrow> gomap" where
  "filteredAnnotations x = fold fmdrop ignoredAnnotations (fmdrop lastConfigHashAnnotation (annotations_of x))"

definition ChangedMetaKeys :: "kobj \<Rightarrow> kobj \<Rightarrow> string list" where
  "ChangedMetaKeys old new =
     diffKeys ''label'' (m_Labels (obj_meta old)) (m_Labels (obj_meta new)) @
     diffKeys ''annotation'' (filteredAnnotations old) (filteredAnnotations new)"

text \<open>
  The events on owned objects that lead to a reconcile. An update event may lack one of its objects.
\<close>

datatype object_event =
    CreateEvent kobj
  | UpdateEvent "kobj option" "kobj option"
  | DeleteEvent kobj
  | GenericEvent kobj

fun HasObjectChangedPredicate :: "object_event \<Rightarrow> bool" where
  "HasObjectChangedPredicate (CreateEvent _) = False"
| "HasObjectChangedPredicate (UpdateEvent old new) =
     (case (old, new) of
        (Some a, Some b) \<Rightarrow> length (ChangedMetaKeys a b) \<noteq> 0
      | _ \<Rightarrow> True)"
| "HasObjectChangedPredicate (DeleteEvent _) = True"
| "HasObjectChangedPredicate (GenericEvent _) = True"

section \<open>Detecting a change\<close>

record object_change =
  oc_Reason :: string
  oc_ChangedKeys :: "string list"

definition no_change :: object_change where
  "no_change = \<lparr>oc_Reason = [], oc_ChangedKeys = []\<rparr>"

definition Changed :: "object_change \<Rightarrow> bool" where
  "Changed c \<longleftrightarrow> oc_Reason c \<noteq> []"

definition changeReasonNotFound :: string where
  "changeReasonNotFound = ''object does not exist yet''"

definition changeReasonHashMissing :: string where
  "changeReasonHashMissing = ''deployed object has no config hash annotation''"

definition changeReasonHashChanged :: string where
  "changeReasonHashChanged = ''desired config differs from deployed config (config hash changed)''"

definition changeReasonMetadata :: string where
  "changeReasonMetadata = ''labels or annotations differ from deployed object''"

definition objectHashChanged :: "'w client \<Rightarrow> kobj \<Rightarrow> kobj \<Rightarrow> object_change result" where
  "objectHashChanged cl old new =
     (case ObjectHash cl new of
        Inl e \<Rightarrow> Inl (Wrap ''calculate object hash'' e)
      | Inr hash \<Rightarrow> Inr (case fmlookup (annotations_of old) lastConfigHashAnnotation of
            None \<Rightarrow> no_change\<lparr>oc_Reason := changeReasonHashMissing\<rparr>
          | Some oldHash \<Rightarrow> if oldHash \<noteq> hash then no_change\<lparr>oc_Reason := changeReasonHashChanged\<rparr> else no_change))"

text \<open>Reading the object that has the type, namespace and name of a given one.\<close>

definition get_like :: "'w client \<Rightarrow> kobj \<Rightarrow> ('w, kobj result) state" where
  "get_like cl x = do {
     r \<leftarrow> cl_Get cl (obj_kind x) (m_Namespace (obj_meta x)) (m_Name (obj_meta x));
     State_Monad.return (typed (\<lambda>o'. if obj_kind o' = obj_kind x then Some o' else None) r) }"

definition nn_text :: "string \<Rightarrow> string \<Rightarrow> string" where
  "nn_text ns n = ns @ ''/'' @ n"

definition obj_nn :: "kobj \<Rightarrow> string" where
  "obj_nn x = nn_text (m_Namespace (obj_meta x)) (m_Name (obj_meta x))"

definition strip_hash :: "kobj \<Rightarrow> kobj" where
  "strip_hash = write_annotations (fmdrop lastConfigHashAnnotation)"

definition DetectObjectChange :: "'w client \<Rightarrow> kobj \<Rightarrow> ('w, object_change result \<times> kobj) state" where
  "DetectObjectChange cl x =
     (let x = strip_hash x in do {
        r \<leftarrow> get_like cl x;
        State_Monad.return (case r of
            Inl e \<Rightarrow> if \<not> IsNotFound e then Inl (Wrap (''get '' @ obj_nn x) e)
                      else Inr (no_change\<lparr>oc_Reason := changeReasonNotFound\<rparr>)
          | Inr old \<Rightarrow>
              (case objectHashChanged cl old x of
                 Inl e \<Rightarrow> Inl (Wrap ''DetectObjectChange'' e)
               | Inr c \<Rightarrow>
                   if Changed c then Inr c
                   else let fields = ChangedMetaKeys old x in
                     if length fields = 0 then Inr no_change
                     else Inr \<lparr>oc_Reason = changeReasonMetadata, oc_ChangedKeys = fields\<rparr>), x) })"

definition HasObjectChanged :: "'w client \<Rightarrow> kobj \<Rightarrow> ('w, bool result \<times> kobj) state" where
  "HasObjectChanged cl x = do {
     (r, x) \<leftarrow> DetectObjectChange cl x;
     State_Monad.return (case r of Inl e \<Rightarrow> Inl e | Inr c \<Rightarrow> Inr (Changed c), x) }"

section \<open>Applying an object\<close>

text \<open>The kind that the builder wrote into the type metadata; it appears in an error message.\<close>

fun type_meta_kind :: "kobj \<Rightarrow> string" where
  "type_meta_kind (ODeployment _) = ''Deployment''"
| "type_meta_kind (OJob _) = ''Job''"
| "type_meta_kind (OCronJob _) = ''CronJob''"
| "type_meta_kind (OService _) = ''Service''"
| "type_meta_kind (OScaledObject _) = ''ScaledObject''"
| "type_meta_kind (OHTTPRoute _) = ''HTTPRoute''"
| "type_meta_kind _ = []"

definition controlled :: "'w client \<Rightarrow> object_meta option \<Rightarrow> kobj \<Rightarrow> kobj result" where
  "controlled cl owner x =
     (case owner of
        None \<Rightarrow> Inr x
      | Some m \<Rightarrow>
          (case cl_SetControllerReference cl m x of
             Inl e \<Rightarrow> Inl (Wrap (''set controller reference to '' @ nn_text (type_meta_kind x) (m_Name (obj_meta x))) e)
           | Inr y \<Rightarrow> Inr y))"

definition keep_ignored :: "kobj \<Rightarrow> kobj \<Rightarrow> kobj" where
  "keep_ignored old x =
     (case x of
        ODeployment _ \<Rightarrow> write_annotations (\<lambda>a. fold (\<lambda>k a. case fmlookup (annotations_of old) k of
            None \<Rightarrow> a | Some v \<Rightarrow> fmupd k v a) ignoredAnnotations a) x
      | _ \<Rightarrow> x)"

fun keep_service_fields :: "kobj \<Rightarrow> kobj \<Rightarrow> kobj" where
  "keep_service_fields (OService old) (OService x) =
     OService (x\<lparr>sv_Spec := (sv_Spec x)\<lparr>sv_ClusterIP := sv_ClusterIP (sv_Spec old),
       sv_HealthCheckNodePort := (if sv_Type (sv_Spec x) = ''LoadBalancer''
         then sv_HealthCheckNodePort (sv_Spec old) else sv_HealthCheckNodePort (sv_Spec x))\<rparr>\<rparr>)"
| "keep_service_fields old x = x"

definition set_version :: "string \<Rightarrow> kobj \<Rightarrow> kobj" where
  "set_version v x = set_meta ((obj_meta x)\<lparr>m_ResourceVersion := v\<rparr>) x"

text \<open>The wait for a deleted job: at most ten reads, a second apart; the result is not used.\<close>

fun wait_deleted :: "nat \<Rightarrow> 'w client \<Rightarrow> string \<Rightarrow> string \<Rightarrow> ('w, unit) state" where
  "wait_deleted 0 cl ns n = State_Monad.return ()"
| "wait_deleted (Suc i) cl ns n = do {
     _ \<leftarrow> cl_Sleep cl;
     r \<leftarrow> cl_GetNil cl ns n;
     (case r of
        Some e \<Rightarrow> if IsNotFound e then State_Monad.return () else wait_deleted i cl ns n
      | None \<Rightarrow> wait_deleted i cl ns n) }"

definition apply_update :: "'w client \<Rightarrow> kobj \<Rightarrow> kobj \<Rightarrow> ('w, goerr option \<times> kobj) state" where
  "apply_update cl old x =
     (let x = keep_service_fields old (set_version (m_ResourceVersion (obj_meta old)) x) in
      case x of
        OJob j \<Rightarrow>
          if jst_Succeeded (j_Status j) \<noteq> 0 then State_Monad.return (None, x)
          else do {
            d \<leftarrow> cl_Delete cl x;
            (case d of
               Some e \<Rightarrow> State_Monad.return (Some (Wrap (''delete job '' @ obj_nn x) e), x)
             | None \<Rightarrow> do {
                 _ \<leftarrow> wait_deleted 10 cl (m_Namespace (j_Meta j)) (m_Name (j_Meta j));
                 let x = set_version [] x;
                 c \<leftarrow> cl_Create cl x;
                 State_Monad.return (map_option (Wrap (''create job '' @ obj_nn x)) c, x) }) }
      | _ \<Rightarrow> do {
          e \<leftarrow> cl_Patch cl old x;
          State_Monad.return (map_option (Wrap (''patch '' @ obj_nn x)) e, x) })"

definition EnsureObjectWithHash ::
  "'w client \<Rightarrow> object_meta option \<Rightarrow> kobj \<Rightarrow> ('w, goerr option \<times> kobj) state" where
  "EnsureObjectWithHash cl owner x =
     (case controlled cl owner x of
        Inl e \<Rightarrow> State_Monad.return (Some e, x)
      | Inr x \<Rightarrow>
          (let x = strip_hash x in
           case ObjectHash cl x of
             Inl e \<Rightarrow> State_Monad.return (Some (Wrap ''calculate object hash'' e), x)
           | Inr hash \<Rightarrow>
               (let x = write_annotations (fmupd lastConfigHashAnnotation hash) x in do {
                  r \<leftarrow> get_like cl x;
                  (case r of
                     Inl e \<Rightarrow>
                       if \<not> IsNotFound e then State_Monad.return (Some (Wrap (''get '' @ obj_nn x) e), x)
                       else do {
                         c \<leftarrow> cl_Create cl x;
                         State_Monad.return (map_option (Wrap (''create '' @ obj_nn x)) c, x) }
                   | Inr old \<Rightarrow>
                       (let x = keep_ignored old x;
                            oldHash = (case fmlookup (annotations_of old) lastConfigHashAnnotation of
                                         None \<Rightarrow> [] | Some h \<Rightarrow> h)
                        in if oldHash \<noteq> hash \<or> length (ChangedMetaKeys x old) \<noteq> 0
                           then apply_update cl old x
                           else State_Monad.return (None, x))) })))"

section \<open>The typed variants\<close>

text \<open>
  \<open>EnsureService\<close>, \<open>EnsureHPA\<close> and so on differ in the type of the object they look for first, whose
  result only matters when it is an error; the autoscaler looks for a service, a cron job for a job
  and an ingress for a deployment of its name.
\<close>

definition ensure_after :: "kind \<Rightarrow> 'w client \<Rightarrow> object_meta option \<Rightarrow> kobj \<Rightarrow> ('w, goerr option \<times> kobj) state" where
  "ensure_after k cl owner x = do {
     r \<leftarrow> cl_Get cl k (m_Namespace (obj_meta x)) (m_Name (obj_meta x));
     (case r of
        Inl e \<Rightarrow> if IsNotFound e then EnsureObjectWithHash cl owner x
                  else State_Monad.return (Some (Wrap ''get object'' e), x)
      | Inr _ \<Rightarrow> EnsureObjectWithHash cl owner x) }"

definition EnsureService :: "'w client \<Rightarrow> object_meta \<Rightarrow> kobj \<Rightarrow> ('w, goerr option \<times> kobj) state" where
  "EnsureService cl owner x = ensure_after KService cl (Some owner) x"

definition EnsureHPA :: "'w client \<Rightarrow> object_meta \<Rightarrow> kobj \<Rightarrow> ('w, goerr option \<times> kobj) state" where
  "EnsureHPA cl owner x = ensure_after KService cl (Some owner) x"

definition EnsureCronJob :: "'w client \<Rightarrow> object_meta \<Rightarrow> kobj \<Rightarrow> ('w, goerr option \<times> kobj) state" where
  "EnsureCronJob cl owner x = ensure_after KJob cl (Some owner) x"

definition EnsurePod :: "'w client \<Rightarrow> object_meta \<Rightarrow> kobj \<Rightarrow> ('w, goerr option \<times> kobj) state" where
  "EnsurePod cl owner x = ensure_after KPod cl (Some owner) x"

definition EnsureJob :: "'w client \<Rightarrow> object_meta \<Rightarrow> kobj \<Rightarrow> ('w, goerr option \<times> kobj) state" where
  "EnsureJob cl owner x = ensure_after KJob cl (Some owner) x"

definition EnsurePDB :: "'w client \<Rightarrow> object_meta \<Rightarrow> kobj \<Rightarrow> ('w, goerr option \<times> kobj) state" where
  "EnsurePDB cl owner x = ensure_after KPDB cl (Some owner) x"

definition EnsureIngress :: "'w client \<Rightarrow> object_meta \<Rightarrow> kobj \<Rightarrow> ('w, goerr option \<times> kobj) state" where
  "EnsureIngress cl owner x = ensure_after KDeployment cl (Some owner) x"

definition EnsureHTTPRoute :: "'w client \<Rightarrow> object_meta \<Rightarrow> kobj \<Rightarrow> ('w, goerr option \<times> kobj) state" where
  "EnsureHTTPRoute cl owner x = ensure_after KHTTPRoute cl (Some owner) x"

definition EnsureDeployment :: "'w client \<Rightarrow> object_meta \<Rightarrow> kobj \<Rightarrow> ('w, goerr option \<times> kobj) state" where
  "EnsureDeployment cl owner x = ensure_after KDeployment cl (Some owner) x"

section \<open>Reading custom resources\<close>

definition k8s_GetStore :: "'w client \<Rightarrow> string \<Rightarrow> string \<Rightarrow> ('w, store result) state" where
  "k8s_GetStore cl ns n = do {
     r \<leftarrow> cl_Get cl KStore ns n;
     State_Monad.return (case typed (\<lambda>o'. case o' of OStore d \<Rightarrow> Some d | _ \<Rightarrow> None) r of
         Inl e \<Rightarrow> Inl (Wrap (''get '' @ nn_text ns n) e) | Inr x \<Rightarrow> Inr x) }"

definition GetStoreExec :: "'w client \<Rightarrow> string \<Rightarrow> string \<Rightarrow> ('w, store_exec result) state" where
  "GetStoreExec cl ns n = do {
     r \<leftarrow> cl_Get cl KStoreExec ns n;
     State_Monad.return (case typed (\<lambda>o'. case o' of OStoreExec d \<Rightarrow> Some d | _ \<Rightarrow> None) r of
         Inl e \<Rightarrow> Inl (Wrap (''get '' @ nn_text ns n) e) | Inr x \<Rightarrow> Inr x) }"

definition GetStoreSnapshotCreate :: "'w client \<Rightarrow> string \<Rightarrow> string \<Rightarrow> ('w, snapshot result) state" where
  "GetStoreSnapshotCreate cl ns n = do {
     r \<leftarrow> cl_Get cl KStoreSnapshotCreate ns n;
     State_Monad.return (case typed (\<lambda>o'. case o' of OStoreSnapshotCreate d \<Rightarrow> Some d | _ \<Rightarrow> None) r of
         Inl e \<Rightarrow> Inl (Wrap (''get '' @ nn_text ns n) e) | Inr x \<Rightarrow> Inr x) }"

definition GetStoreSnapshotRestore :: "'w client \<Rightarrow> string \<Rightarrow> string \<Rightarrow> ('w, snapshot result) state" where
  "GetStoreSnapshotRestore cl ns n = do {
     r \<leftarrow> cl_Get cl KStoreSnapshotRestore ns n;
     State_Monad.return (case typed (\<lambda>o'. case o' of OStoreSnapshotRestore d \<Rightarrow> Some d | _ \<Rightarrow> None) r of
         Inl e \<Rightarrow> Inl (Wrap (''get '' @ nn_text ns n) e) | Inr x \<Rightarrow> Inr x) }"

definition k8s_GetSecret :: "'w client \<Rightarrow> string \<Rightarrow> string \<Rightarrow> ('w, secret result) state" where
  "k8s_GetSecret cl ns n = do {
     r \<leftarrow> cl_Get cl KSecret ns n;
     State_Monad.return (case typed (\<lambda>o'. case o' of OSecret d \<Rightarrow> Some d | _ \<Rightarrow> None) r of
         Inl e \<Rightarrow> Inl (Wrap (''get '' @ nn_text ns n) e) | Inr x \<Rightarrow> Inr x) }"

definition GetStoreDebugInstance :: "'w client \<Rightarrow> string \<Rightarrow> string \<Rightarrow> ('w, debug_instance result) state" where
  "GetStoreDebugInstance cl ns n = do {
     r \<leftarrow> cl_Get cl KStoreDebugInstance ns n;
     State_Monad.return (case typed (\<lambda>o'. case o' of OStoreDebugInstance d \<Rightarrow> Some d | _ \<Rightarrow> None) r of
         Inl e \<Rightarrow> Inl (Wrap (''get '' @ nn_text ns n) e) | Inr x \<Rightarrow> Inr x) }"

definition ObjectExists :: "'w client \<Rightarrow> kind \<Rightarrow> string \<Rightarrow> string \<Rightarrow> ('w, bool result) state" where
  "ObjectExists cl k ns n = do {
     r \<leftarrow> cl_Get cl k ns n;
     State_Monad.return (case r of
         Inl e \<Rightarrow> if IsNotFound e then Inr False else Inl e
       | Inr _ \<Rightarrow> Inr True) }"

section \<open>Differences of secrets in the log\<close>

definition redactedValue :: string where
  "redactedValue = ''<redacted>''"

definition redactedChangedValue :: string where
  "redactedChangedValue = ''<redacted, changed>''"

definition with_prefix :: "string \<Rightarrow> (string, 'v) fmap option \<Rightarrow> (string \<times> 'v) list" where
  "with_prefix p m = (case m of None \<Rightarrow> [] | Some f \<Rightarrow> map (\<lambda>(k, v). (p @ k, v)) (sorted_list_of_fmap f))"

definition secretValues :: "secret option \<Rightarrow> gomap" where
  "secretValues s =
     (case s of
        None \<Rightarrow> fmempty
      | Some x \<Rightarrow> fmap_of_list (rev (with_prefix ''data/'' (s_Data x) @ with_prefix ''stringData/'' (s_StringData x))))"

definition redactSecrets :: "secret option \<Rightarrow> secret option \<Rightarrow> gomap \<times> gomap" where
  "redactSecrets old new =
     (let oldValues = secretValues old; newValues = secretValues new in
      (fmmap (\<lambda>_. redactedValue) oldValues,
       fmmap_keys (\<lambda>key value. case fmlookup oldValues key of
           Some oldValue \<Rightarrow> if oldValue \<noteq> value then redactedChangedValue else redactedValue
         | None \<Rightarrow> redactedValue) newValues))"

section \<open>Settled objects\<close>

definition unfinished :: "kobj \<Rightarrow> bool" where
  "unfinished x = (case x of OJob j \<Rightarrow> jst_Succeeded (j_Status j) = 0 | _ \<Rightarrow> True)"

definition spec_hashed :: "kobj \<Rightarrow> bool" where
  "spec_hashed x \<longleftrightarrow> obj_kind x \<in> {KDeployment, KService, KSecret, KScaledObject, KHPA, KJob, KCronJob, KPDB, KIngress, KHTTPRoute}"

text \<open>
  What of a written object the API server gives back when it is read again: type, labels, and the
  annotations other than those its controllers write. Status and defaulted fields are its own.
\<close>

definition kept :: "kobj \<Rightarrow> kobj \<Rightarrow> bool" where
  "kept x y \<longleftrightarrow> obj_kind y = obj_kind x \<and> m_Labels (obj_meta y) = m_Labels (obj_meta x) \<and>
     filteredAnnotations y = filteredAnnotations x \<and>
     fmlookup (annotations_of y) lastConfigHashAnnotation = fmlookup (annotations_of x) lastConfigHashAnnotation"

text \<open>The object sent to the cluster still says what the desired one says, and has the hash.\<close>

definition carries :: "string \<Rightarrow> kobj \<Rightarrow> kobj \<Rightarrow> bool" where
  "carries h x z \<longleftrightarrow> obj_kind z = obj_kind x \<and> m_Namespace (obj_meta z) = m_Namespace (obj_meta x) \<and>
     m_Name (obj_meta z) = m_Name (obj_meta x) \<and> m_Labels (obj_meta z) = m_Labels (obj_meta x) \<and>
     filteredAnnotations z = filteredAnnotations x \<and> fmlookup (annotations_of z) lastConfigHashAnnotation = Some h"

text \<open>The desired object and the object in the cluster agree: nothing to do.\<close>

definition settled :: "'w client \<Rightarrow> kobj \<Rightarrow> kobj \<Rightarrow> bool" where
  "settled cl x y \<longleftrightarrow> (\<exists>h. ObjectHash cl (strip_hash x) = Inr h \<and>
     fmlookup (annotations_of y) lastConfigHashAnnotation = Some h) \<and>
     m_Labels (obj_meta y) = m_Labels (obj_meta x) \<and> filteredAnnotations y = filteredAnnotations x"

definition template_hash :: "string \<Rightarrow> kobj \<Rightarrow> bool" where
  "template_hash h x =
     (case x of
        ODeployment d \<Rightarrow> m_Annotations (d_Meta d) \<noteq> None \<and>
          (\<exists>a. pt_Annotations (ds_Template (d_Spec d)) = Some a \<and> fmlookup a lastConfigHashAnnotation = Some h)
      | _ \<Rightarrow> False)"

definition ex_pdb :: pdb where
  "ex_pdb = WorkerPDB zero_store"

definition json_client :: "(hash_data \<Rightarrow> string result) \<Rightarrow> gotime \<Rightarrow> cluster client" where
  "json_client mar now = (map_client now)\<lparr>cl_Marshal := mar\<rparr>"

definition ex_new_job :: job where
  "ex_new_job = job_object [] [] fmempty fmempty (j_Spec ex_job)"

definition ex_done_job :: job where
  "ex_done_job = ex_new_job\<lparr>j_Status := (j_Status ex_new_job)\<lparr>jst_Succeeded := 1\<rparr>\<rparr>"

section \<open>Metadata\<close>

lemma set_meta_simps [simp]:
  "obj_meta (set_meta m x) = m" "obj_kind (set_meta m x) = obj_kind x" "set_meta m (set_meta n x) = set_meta m x"
  "set_meta (obj_meta x) x = x"
  by (cases x; simp)+

lemma write_shared_simps [simp]:
  "obj_meta (write_shared f x) = obj_meta x" "obj_kind (write_shared f x) = obj_kind x"
  "write_shared f (set_meta m x) = set_meta m (write_shared f x)"
  by (cases x; simp)+

lemma write_annotations_meta [simp]:
  "obj_meta (write_annotations f x) = (obj_meta x)\<lparr>m_Annotations := Some (f (annotations_of x))\<rparr>"
  "obj_kind (write_annotations f x) = obj_kind x"
  by (auto simp: write_annotations_def annotations_of_def split: option.split)

lemma write_annotations_job: "\<exists>z. write_annotations f (OJob j) = OJob z \<and> j_Status z = j_Status j"
  by (cases "m_Annotations (j_Meta j)") (simp_all add: write_annotations_def)

lemma write_annotations_deployment:
  assumes "m_Annotations (d_Meta d) \<noteq> None"
  shows "\<exists>z. write_annotations f (ODeployment d) = ODeployment z \<and> m_Annotations (d_Meta z) \<noteq> None \<and>
     pt_Annotations (ds_Template (d_Spec z)) = map_option f (pt_Annotations (ds_Template (d_Spec d)))"
  using assms by (auto simp: write_annotations_def write_template_def)

lemma annotations_of_simps [simp]:
  "annotations_of (write_annotations f x) = f (annotations_of x)"
  "annotations_of (set_meta m x) = (case m_Annotations m of None \<Rightarrow> fmempty | Some a \<Rightarrow> a)"
  by (simp_all add: annotations_of_def)

lemma unfinished_simps [simp]:
  "unfinished (set_meta m x) = unfinished x" "unfinished (write_shared f x) = unfinished x"
  "unfinished (keep_service_fields old x) = unfinished x"
  by (cases x; cases old; simp add: unfinished_def)+

lemma unfinished_write [simp]:
  "unfinished (write_annotations f x) = unfinished x" "unfinished (strip_hash x) = unfinished x"
  "unfinished (keep_ignored old x) = unfinished x" "unfinished (set_version v x) = unfinished x"
proof -
  show wr: "unfinished (write_annotations f x) = unfinished x" for f x
    by (simp add: write_annotations_def del: write_shared_simps split: option.split)
  show "unfinished (strip_hash x) = unfinished x" by (simp add: strip_hash_def wr)
  show "unfinished (keep_ignored old x) = unfinished x" by (cases x) (simp_all add: keep_ignored_def wr)
  show "unfinished (set_version v x) = unfinished x" by (simp add: set_version_def)
qed

lemma relevant_set_meta:
  assumes "spec_hashed x" and "m_Annotations m = m_Annotations (obj_meta x)"
  shows "extractRelevantData (write_annotations f (set_meta m x)) = extractRelevantData (write_annotations f x)"
  using assms by (cases x) (auto simp: spec_hashed_def write_annotations_def split: option.split)

lemma set_sorted_list_of_fmap: "(k, v) \<in> set (sorted_list_of_fmap m) \<longleftrightarrow> fmlookup m k = Some v"
  by (force simp: sorted_list_of_fmap_def fmlookup_dom_iff)

lemma diffKeys_Nil: "diffKeys p a b = [] \<longleftrightarrow> a = b"
proof -
  have Nil: "sort xs = [] \<longleftrightarrow> xs = []" for xs :: "string list" by (metis length_0_conv length_sort)
  have "diffKeys p a b = [] \<longleftrightarrow>
      (\<forall>k v. fmlookup b k = Some v \<longrightarrow> fmlookup a k = Some v) \<and> (\<forall>k v. fmlookup a k = Some v \<longrightarrow> fmlookup b k \<noteq> None)"
    by (auto simp: diffKeys_def Nil filter_empty_conv set_sorted_list_of_fmap)
      (use set_sorted_list_of_fmap in fastforce)
  also have "\<dots> \<longleftrightarrow> a = b"
    by (auto intro!: fmap_ext) (metis option.exhaust)
  finally show ?thesis .
qed

lemma ChangedMetaKeys_Nil:
  "ChangedMetaKeys x y = [] \<longleftrightarrow> m_Labels (obj_meta x) = m_Labels (obj_meta y) \<and> filteredAnnotations x = filteredAnnotations y"
  by (simp add: ChangedMetaKeys_def diffKeys_Nil)

lemma ObjectHash_not_Nil: "ObjectHash cl x = Inr h \<Longrightarrow> h \<noteq> []"
  using length_md5hex by (auto simp: ObjectHash_def split: sum.splits) (metis list.size(3) zero_neq_numeral)

lemma hash_not_filtered [simp]:
  "lastConfigHashAnnotation \<notin> set ignoredAnnotations"
  by (simp add: lastConfigHashAnnotation_def ignoredAnnotations_def)

lemma fold_fmdrop: "fmlookup (fold fmdrop ks m) k = (if k \<in> set ks then None else fmlookup m k)"
  by (induction ks arbitrary: m) auto

lemma filtered_lookup:
  "fmlookup (filteredAnnotations x) k =
     (if k = lastConfigHashAnnotation \<or> k \<in> set ignoredAnnotations then None else fmlookup (annotations_of x) k)"
  by (auto simp: filteredAnnotations_def fold_fmdrop)

lemma filtered_cong:
  "(\<And>k. k \<noteq> lastConfigHashAnnotation \<Longrightarrow> k \<notin> set ignoredAnnotations \<Longrightarrow>
      fmlookup (annotations_of x) k = fmlookup (annotations_of y) k) \<Longrightarrow> filteredAnnotations x = filteredAnnotations y"
  by (auto intro!: fmap_ext simp: filtered_lookup)

section \<open>What is sent carries what is desired\<close>

lemma carries_get_like: "carries h x z \<Longrightarrow> get_like cl z = get_like cl x"
  by (simp add: carries_def get_like_def)

lemma carries_settled: "carries h x z \<Longrightarrow> kept z y \<Longrightarrow> ObjectHash cl (strip_hash x) = Inr h \<Longrightarrow> settled cl x y"
  by (simp add: carries_def kept_def settled_def)

lemma carries_hashed: "carries h x (write_annotations (fmupd lastConfigHashAnnotation h) (strip_hash x))"
  by (simp add: carries_def strip_hash_def) (rule filtered_cong, simp)

lemma carries_set_meta:
  assumes "carries h x z" and "m_Namespace m = m_Namespace (obj_meta z)" "m_Name m = m_Name (obj_meta z)"
    "m_Labels m = m_Labels (obj_meta z)" "m_Annotations m = m_Annotations (obj_meta z)"
  shows "carries h x (set_meta m z)"
proof -
  have "annotations_of (set_meta m z) = annotations_of z"
    using assms(5) by (simp add: annotations_of_def)
  then have "filteredAnnotations (set_meta m z) = filteredAnnotations z" by (simp add: filteredAnnotations_def)
  then show ?thesis using assms \<open>annotations_of (set_meta m z) = annotations_of z\<close> by (simp add: carries_def del: annotations_of_simps)
qed

lemma carries_trans_owner:
  assumes "carries h (set_meta m x) z" and "m_Namespace m = m_Namespace (obj_meta x)" "m_Name m = m_Name (obj_meta x)"
    "m_Labels m = m_Labels (obj_meta x)" "m_Annotations m = m_Annotations (obj_meta x)"
  shows "carries h x z"
proof -
  have "annotations_of (set_meta m x) = annotations_of x" using assms(5) by (simp add: annotations_of_def)
  then have "filteredAnnotations (set_meta m x) = filteredAnnotations x" by (simp add: filteredAnnotations_def)
  then show ?thesis using assms by (simp add: carries_def)
qed

lemma carries_keep_ignored: "carries h x z \<Longrightarrow> carries h x (keep_ignored old z)"
proof (cases "obj_kind z = KDeployment")
  case True
  assume c: "carries h x z"
  let ?f = "\<lambda>a. fold (\<lambda>k a. case fmlookup (annotations_of old) k of None \<Rightarrow> a | Some v \<Rightarrow> fmupd k v a) ignoredAnnotations a"
  have f: "fmlookup (?f a) k = fmlookup a k" if "k \<notin> set ignoredAnnotations" for a k
    using that by (auto simp: ignoredAnnotations_def split: option.split)
  have eq: "keep_ignored old z = write_annotations ?f z" using True by (cases z) (simp_all add: keep_ignored_def)
  have "filteredAnnotations (write_annotations ?f z) = filteredAnnotations z"
    by (rule filtered_cong) (use f in auto)
  then show ?thesis using c f by (simp add: carries_def eq)
qed (cases z; simp add: keep_ignored_def)

lemma keep_service_meta [simp]:
  "obj_meta (keep_service_fields old x) = obj_meta x" "obj_kind (keep_service_fields old x) = obj_kind x"
  "annotations_of (keep_service_fields old x) = annotations_of x"
  by (cases "(old, x)" rule: keep_service_fields.cases; simp add: annotations_of_def)+

lemma carries_prepared:
  assumes "carries h x z"
  shows "carries h x (keep_service_fields old (set_version v z))"
proof -
  have "carries h x (set_version v z)" unfolding set_version_def by (rule carries_set_meta[OF assms]) simp_all
  moreover have "filteredAnnotations (keep_service_fields old y) = filteredAnnotations y" for y
    by (simp add: filteredAnnotations_def)
  ultimately show ?thesis by (simp add: carries_def)
qed

section \<open>Settled objects\<close>

locale api_server =
  fixes cl :: "'w client"
  assumes get_pure: "snd (run_state (cl_Get cl k ns n) w) = w"
    and create_get: "run_state (cl_Create cl x) w = (None, w') \<Longrightarrow> \<exists>y. run_state (get_like cl x) w' = (Inr y, w') \<and> kept x y"
    and patch_get: "run_state (cl_Patch cl old x) w = (None, w') \<Longrightarrow> \<exists>y. run_state (get_like cl x) w' = (Inr y, w') \<and> kept x y"
    and set_owner: "cl_SetControllerReference cl m x = Inr y \<Longrightarrow> \<exists>o'. y = set_meta ((obj_meta x)\<lparr>m_ControllerOwner := o'\<rparr>) x"
begin

lemma get_like_pure: "run_state (get_like cl x) w = (r, w') \<Longrightarrow> w' = w"
  using get_pure by (auto simp: get_like_def run_simps split: prod.splits) (metis snd_conv)

lemma settled_unchanged:
  assumes "run_state (get_like cl x) w = (Inr y, w)" and "settled cl x y"
  shows "run_state (HasObjectChanged cl x) w = ((Inr False, strip_hash x), w)"
proof -
  have same: "get_like cl (strip_hash x) = get_like cl x"
    by (simp add: get_like_def strip_hash_def)
  have "ChangedMetaKeys y (strip_hash x) = []"
    using assms(2) by (simp add: settled_def ChangedMetaKeys_Nil strip_hash_def) (rule filtered_cong, simp)
  then show ?thesis
    using assms by (auto simp: HasObjectChanged_def DetectObjectChange_def run_simps same settled_def
        objectHashChanged_def Changed_def no_change_def Let_def)
qed


lemma controlled_settled:
  assumes "controlled cl owner x = Inr y"
  obtains o' where "y = set_meta ((obj_meta x)\<lparr>m_ControllerOwner := o'\<rparr>) x"
proof (cases owner)
  case None
  then have "y = set_meta ((obj_meta x)\<lparr>m_ControllerOwner := m_ControllerOwner (obj_meta x)\<rparr>) x"
    using assms by (simp add: controlled_def)
  then show ?thesis by (rule that)
next
  case (Some m)
  then have "cl_SetControllerReference cl m x = Inr y" using assms by (simp add: controlled_def split: sum.splits)
  then show ?thesis using set_owner that by blast
qed

lemma apply_update_settles:
  assumes "run_state (apply_update cl old z) w = ((None, z'), w')" and c: "carries h x z"
    and h: "ObjectHash cl (strip_hash x) = Inr h" and "unfinished z"
  shows "\<exists>y. run_state (get_like cl x) w' = (Inr y, w') \<and> settled cl x y"
proof -
  let ?z = "keep_service_fields old (set_version (m_ResourceVersion (obj_meta old)) z)"
  have cz: "carries h x ?z" using c by (rule carries_prepared)
  have fin: "\<exists>y. run_state (get_like cl x) w' = (Inr y, w') \<and> settled cl x y"
    if "\<exists>y. run_state (get_like cl u) w' = (Inr y, w') \<and> kept u y" "carries h x u" for u
    using that carries_get_like carries_settled h by metis
  show ?thesis
  proof (cases "\<exists>j. ?z = OJob j")
    case True
    then obtain j0 where j0: "?z = OJob j0" by blast
    have "unfinished ?z" using assms(4) by simp
    then have run: "jst_Succeeded (j_Status j0) = 0" by (simp add: j0 unfinished_def)
    have cv: "carries h x (set_version [] (OJob j0))"
      using cz[unfolded j0] unfolding set_version_def by (rule carries_set_meta) simp_all
    obtain v where "run_state (cl_Create cl (set_version [] (OJob j0))) v = (None, w')"
      using assms(1) run by (auto simp: apply_update_def Let_def j0 run_simps split: prod.splits option.splits)
    then show ?thesis using create_get fin cv by blast
  next
    case False
    then have "run_state (cl_Patch cl old ?z) w = (None, w')"
      using assms(1) by (auto simp: apply_update_def Let_def run_simps split: prod.splits option.splits kobj.splits)
    then show ?thesis using patch_get fin cz by blast
  qed
qed

lemma EnsureObjectWithHash_settles:
  assumes "run_state (EnsureObjectWithHash cl owner x) w = ((None, x'), w')" and "unfinished x"
  obtains y v where "controlled cl owner x = Inr y" "run_state (get_like cl y) w' = (Inr v, w')" "settled cl y v"
proof -
  obtain y where y: "controlled cl owner x = Inr y"
    using assms(1) by (auto simp: EnsureObjectWithHash_def run_simps split: sum.splits)
  then have uy: "unfinished y" using assms(2) by (auto elim: controlled_settled)
  obtain h where h: "ObjectHash cl (strip_hash y) = Inr h"
    using assms(1) by (auto simp: EnsureObjectWithHash_def y run_simps Let_def split: sum.splits)
  let ?z = "write_annotations (fmupd lastConfigHashAnnotation h) (strip_hash y)"
  have cz: "carries h y ?z" by (rule carries_hashed)
  obtain r where r: "run_state (get_like cl ?z) w = (r, w)"
    using get_like_pure by (metis surj_pair)
  have "\<exists>v. run_state (get_like cl y) w' = (Inr v, w') \<and> settled cl y v"
  proof (cases r)
    case (Inl e)
    then have "run_state (cl_Create cl ?z) w = (None, w')"
      using assms(1) r by (auto simp: EnsureObjectWithHash_def y h run_simps Let_def split: prod.splits option.splits if_splits)
    then obtain v where "run_state (get_like cl ?z) w' = (Inr v, w')" "kept ?z v" using create_get by blast
    then show ?thesis using carries_get_like[OF cz, of cl] carries_settled[OF cz _ h] by auto
  next
    case (Inr old)
    show ?thesis
    proof (cases "fmlookup (annotations_of old) lastConfigHashAnnotation = Some h \<and> ChangedMetaKeys (keep_ignored old ?z) old = []")
      case True
      then have "w' = w"
        using assms(1) r Inr by (auto simp: EnsureObjectWithHash_def y h run_simps Let_def)
      moreover have "settled cl y old"
        using True carries_keep_ignored[OF cz, of old] h by (simp add: settled_def carries_def ChangedMetaKeys_Nil)
      ultimately show ?thesis using r Inr carries_get_like[OF cz, of cl] by auto
    next
      case False
      then have "run_state (apply_update cl old (keep_ignored old ?z)) w = ((None, x'), w')"
        using assms(1) r Inr ObjectHash_not_Nil[OF h]
        by (auto simp: EnsureObjectWithHash_def y h run_simps Let_def split: if_splits option.splits)
      then show ?thesis by (rule apply_update_settles) (use carries_keep_ignored cz h uy in auto)
    qed
  qed
  then show ?thesis using y that by blast
qed

lemma settled_no_write:
  assumes "controlled cl owner x = Inr y" and "run_state (get_like cl y) w = (Inr v, w)" and "settled cl y v"
  shows "\<exists>z. run_state (EnsureObjectWithHash cl owner x) w = ((None, z), w)"
proof -
  obtain h where h: "ObjectHash cl (strip_hash y) = Inr h" "fmlookup (annotations_of v) lastConfigHashAnnotation = Some h"
    using assms(3) by (auto simp: settled_def)
  let ?z = "write_annotations (fmupd lastConfigHashAnnotation h) (strip_hash y)"
  have cz: "carries h y ?z" by (rule carries_hashed)
  then have "ChangedMetaKeys (keep_ignored v ?z) v = []"
    using carries_keep_ignored[OF cz, of v] assms(3) by (simp add: settled_def carries_def ChangedMetaKeys_Nil)
  then show ?thesis
    using assms h carries_get_like[OF cz, of cl] by (simp add: EnsureObjectWithHash_def run_simps Let_def)
qed

lemma hash_before_owner:
  assumes "controlled cl owner x = Inr y" and "spec_hashed x"
  shows "ObjectHash cl (strip_hash y) = ObjectHash cl (strip_hash x)"
  using assms(1) by (rule controlled_settled) (simp add: strip_hash_def ObjectHash_def relevant_set_meta[OF assms(2)])

lemma settled_before_owner:
  assumes "controlled cl owner x = Inr y" and "spec_hashed x" and "settled cl y v"
  shows "settled cl x v" "get_like cl y = get_like cl x"
proof -
  obtain o' where y: "y = set_meta ((obj_meta x)\<lparr>m_ControllerOwner := o'\<rparr>) x" using assms(1) by (rule controlled_settled)
  have "annotations_of y = annotations_of x" by (simp add: y annotations_of_def)
  then have "filteredAnnotations y = filteredAnnotations x" by (simp add: filteredAnnotations_def)
  moreover have "ObjectHash cl (strip_hash y) = ObjectHash cl (strip_hash x)"
    by (rule hash_before_owner[OF assms(1,2)])
  ultimately show "settled cl x v" using assms(3) by (simp add: settled_def y)
  show "get_like cl y = get_like cl x" by (simp add: y get_like_def)
qed

end

interpretation mc: api_server "map_client now"
proof
  fix x :: kobj and w w' :: cluster and old :: kobj and m y k ns n
  have self: "kept x x" by (simp add: kept_def)
  show "snd (run_state (cl_Get (map_client now) k ns n) w) = w" by (simp add: map_client_def run_simps)
  show "\<exists>y. run_state (get_like (map_client now) x) w' = (Inr y, w') \<and> kept x y"
    if "run_state (cl_Create (map_client now) x) w = (None, w')"
    using that self by (auto simp: map_client_def get_like_def run_simps cluster_get_def typed_def)
  show "\<exists>y. run_state (get_like (map_client now) x) w' = (Inr y, w') \<and> kept x y"
    if "run_state (cl_Patch (map_client now) old x) w = (None, w')"
    using that self by (auto simp: map_client_def get_like_def run_simps cluster_get_def typed_def)
  show "\<exists>o'. y = set_meta ((obj_meta x)\<lparr>m_ControllerOwner := o'\<rparr>) x"
    if "cl_SetControllerReference (map_client now) m x = Inr y"
    using that by (intro exI[of _ "m_ControllerOwner (obj_meta x)"]) (simp add: map_client_def)
qed

lemma map_client_run:
  "controlled (map_client now) owner x = Inr x"
  "ObjectHash (map_client now) x = Inr (md5hex [])"
  "run_state (get_like (map_client now) x) w =
     (typed (\<lambda>o'. if obj_kind o' = obj_kind x then Some o' else None)
        (cluster_get (obj_kind x) (m_Namespace (obj_meta x)) (m_Name (obj_meta x)) w), w)"
  by (simp_all add: controlled_def map_client_def ObjectHash_def get_like_def run_simps split: option.split)

lemma map_client_creates:
  assumes "cluster_get (obj_kind x) (m_Namespace (obj_meta x)) (m_Name (obj_meta x)) w = Inl notFound"
  shows "\<exists>z. run_state (EnsureObjectWithHash (map_client now) owner x) w = ((None, z), z # w) \<and> obj_kind z = obj_kind x"
  using assms by (simp add: EnsureObjectWithHash_def map_client_run Let_def run_simps strip_hash_def typed_def
      notFound_def IsNotFound_def)
    (simp add: map_client_def run_simps)

section \<open>Pod templates\<close>

lemma template_hash_keep:
  assumes "template_hash h x"
  shows "template_hash h (keep_ignored old x)" "template_hash h (keep_service_fields old x)" "template_hash h (set_version v x)"
proof -
  obtain d where x: "x = ODeployment d" using assms by (cases x) (simp_all add: template_hash_def)
  have f: "fmlookup (fold (\<lambda>k a. case fmlookup b k of None \<Rightarrow> a | Some v \<Rightarrow> fmupd k v a) ignoredAnnotations a)
      lastConfigHashAnnotation = fmlookup a lastConfigHashAnnotation" for a and b :: gomap
    by (simp add: ignoredAnnotations_def lastConfigHashAnnotation_def split: option.split)
  show "template_hash h (keep_ignored old x)"
  proof -
    let ?f = "\<lambda>a. fold (\<lambda>k a. case fmlookup (annotations_of old) k of None \<Rightarrow> a | Some v \<Rightarrow> fmupd k v a) ignoredAnnotations a"
    obtain z where "write_annotations ?f (ODeployment d) = ODeployment z" "m_Annotations (d_Meta z) \<noteq> None"
        "pt_Annotations (ds_Template (d_Spec z)) = map_option ?f (pt_Annotations (ds_Template (d_Spec d)))"
      using write_annotations_deployment[of d ?f] assms by (auto simp: template_hash_def x)
    then show ?thesis using assms f by (auto simp: template_hash_def x keep_ignored_def)
  qed
  show "template_hash h (keep_service_fields old x)" using assms by (simp add: x)
  show "template_hash h (set_version v x)" using assms by (simp add: x set_version_def template_hash_def)
qed

lemma EnsureObjectWithHash_template:
  assumes y: "controlled cl owner x = Inr y" and h: "ObjectHash cl (strip_hash y) = Inr h"
    and "template_hash h (write_annotations (fmupd lastConfigHashAnnotation h) (strip_hash y))"
  shows "template_hash h (snd (fst (run_state (EnsureObjectWithHash cl owner x) w)))"
proof -
  have upd: "template_hash h (snd (fst (run_state (apply_update cl old z) w)))" if "template_hash h z" for old z w
  proof -
    let ?z = "keep_service_fields old (set_version (m_ResourceVersion (obj_meta old)) z)"
    have t: "template_hash h ?z" using that by (intro template_hash_keep)
    then obtain d where "?z = ODeployment d" by (cases ?z) (simp_all add: template_hash_def)
    then show ?thesis using t by (simp add: apply_update_def Let_def run_simps split: prod.split)
  qed
  show ?thesis
    using assms(3) upd template_hash_keep(1)
    by (auto simp: EnsureObjectWithHash_def y h run_simps Let_def split: prod.split sum.split option.split)
qed

section \<open>Properties\<close>



text \<open>
  A job whose desired state changed is deleted and created again even if the job in the cluster
  had succeeded: the guard reads the status of the desired job, which the operator never fills.
  Here on the concrete client with any encoding of objects, for every job found without the hash of
  the desired one: afterwards the cluster has the new job, with the status of the desired job.
\<close>

theorem changed_job_is_run_again:
  assumes "unfinished (OJob j)" and "ObjectHash (json_client mar now) (strip_hash (OJob j)) = Inr h"
    and "cluster_get KJob (m_Namespace (j_Meta j)) (m_Name (j_Meta j)) w = Inr (OJob old)"
    and "fmlookup (annotations_of (OJob old)) lastConfigHashAnnotation \<noteq> Some h"
  shows "\<exists>z w'. run_state (EnsureObjectWithHash (json_client mar now) owner (OJob j)) w = ((None, OJob z), w') \<and>
     cluster_get KJob (m_Namespace (j_Meta j)) (m_Name (j_Meta j)) w' = Inr (OJob z) \<and> j_Status z = j_Status j"
proof -
  let ?cl = "json_client mar now"
  have run: "controlled ?cl owner x = Inr x"
    "run_state (get_like ?cl x) w =
       (typed (\<lambda>o'. if obj_kind o' = obj_kind x then Some o' else None)
          (cluster_get (obj_kind x) (m_Namespace (obj_meta x)) (m_Name (obj_meta x)) w), w)" for x
    by (simp_all add: json_client_def controlled_def map_client_def get_like_def run_simps split: option.split)
  let ?z = "write_annotations (fmupd lastConfigHashAnnotation h) (strip_hash (OJob j))"
  obtain z where z: "?z = OJob z" "j_Status z = j_Status j"
    using write_annotations_job strip_hash_def by metis
  have meta: "m_Namespace (j_Meta z) = m_Namespace (j_Meta j)" "m_Name (j_Meta z) = m_Name (j_Meta j)"
    using arg_cong[OF z(1)[symmetric], of obj_meta] by (simp_all add: strip_hash_def)
  have wait: "run_state (wait_deleted n ?cl a b) w = ((), w)" for n a b w
    by (induction n) (simp_all add: json_client_def map_client_def run_simps)
  have calls: "run_state (cl_Delete ?cl x) w = (None, filter (\<lambda>y. \<not> same_object x y) w)"
    "run_state (cl_Create ?cl x) w = (None, x # w)" for x w
    by (simp_all add: json_client_def map_client_def run_simps)
  have "run_state (EnsureObjectWithHash ?cl owner (OJob j)) w = run_state (apply_update ?cl (OJob old) (OJob z)) w"
    using assms(2-4) ObjectHash_not_Nil[OF assms(2)]
    by (auto simp: EnsureObjectWithHash_def run run_simps Let_def z meta typed_def keep_ignored_def split: option.split)
  then show ?thesis
    using assms(1) z(2) meta
    by (simp add: apply_update_def Let_def run_simps set_version_def unfinished_def wait calls) (simp add: cluster_get_def)
qed

theorem changed_job_is_run_again_witness:
  "\<exists>z w'. run_state (EnsureObjectWithHash (json_client (\<lambda>_. Inr ''x'') None) None (OJob ex_new_job)) [OJob ex_done_job] =
       ((None, OJob z), w') \<and> jst_Succeeded (j_Status ex_done_job) = 1 \<and>
     cluster_get KJob (m_Namespace (j_Meta ex_new_job)) (m_Name (j_Meta ex_new_job)) w' = Inr (OJob z) \<and>
     j_Status z = j_Status ex_new_job"
proof -
  have p1: "unfinished (OJob ex_new_job)"
    by (simp add: ex_new_job_def unfinished_def job_object_def empty_job_status_def)
  have p2: "ObjectHash (json_client (\<lambda>_. Inr ''x'') None) (strip_hash (OJob ex_new_job)) = Inr (md5hex ''x'')"
    by (simp add: ObjectHash_def json_client_def)
  have p3: "cluster_get KJob (m_Namespace (j_Meta ex_new_job)) (m_Name (j_Meta ex_new_job)) [OJob ex_done_job] =
      Inr (OJob ex_done_job)"
    by (simp add: cluster_get_def ex_done_job_def)
  have p4: "fmlookup (annotations_of (OJob ex_done_job)) lastConfigHashAnnotation \<noteq> Some h" for h
    by (simp add: ex_done_job_def ex_new_job_def job_object_def annotations_of_def)
  have p5: "jst_Succeeded (j_Status ex_done_job) = 1" by (simp add: ex_done_job_def)
  show ?thesis
    using changed_job_is_run_again[OF p1 p2 p3 p4, of None] p5 by auto
qed

text \<open>
  The pod template of an applied deployment carries the hash of the whole specification,
  because its annotations are the map the hash is written to. Two versions of a deployment with
  different hashes therefore have different pod templates, even if they differ in the number of
  replicas only: scaling restarts all pods.
\<close>

theorem template_carries_hash:
  assumes "api_server cl" and "d \<in> {AdminDeployment url s, StorefrontDeployment url s, WorkerDeployment url s queues}"
    and "run_state (EnsureObjectWithHash cl owner (ODeployment d)) w = ((None, ODeployment z), w')"
  shows "\<exists>h. ObjectHash cl (strip_hash (ODeployment d)) = Inr h \<and>
     (\<exists>a. pt_Annotations (ds_Template (d_Spec z)) = Some a \<and> fmlookup a lastConfigHashAnnotation = Some h)"
  proof -
  have a: "m_Annotations (d_Meta d) \<noteq> None" "pt_Annotations (ds_Template (d_Spec d)) \<noteq> None"
    using assms(2) by (auto simp: AdminDeployment_def StorefrontDeployment_def WorkerDeployment_def deployment_object_def Let_def)
  obtain y where y: "controlled cl owner (ODeployment d) = Inr y"
    using assms(3) by (auto simp: EnsureObjectWithHash_def run_simps split: sum.splits)
  then obtain e where e: "y = ODeployment e" "m_Annotations (d_Meta e) = m_Annotations (d_Meta d)" "d_Spec e = d_Spec d"
    by (rule api_server.controlled_settled[OF assms(1)]) simp
  obtain h where h: "ObjectHash cl (strip_hash y) = Inr h"
    using assms(3) by (auto simp: EnsureObjectWithHash_def y run_simps Let_def split: sum.splits)
  have same: "ObjectHash cl (strip_hash y) = ObjectHash cl (strip_hash (ODeployment d))"
    by (rule api_server.hash_before_owner[OF assms(1) y]) (simp add: spec_hashed_def)
  obtain u where u: "strip_hash (ODeployment e) = ODeployment u" "m_Annotations (d_Meta u) \<noteq> None"
      "pt_Annotations (ds_Template (d_Spec u)) \<noteq> None"
    using write_annotations_deployment[of e] a e by (metis option.map_disc_iff strip_hash_def)
  then have "template_hash h (write_annotations (fmupd lastConfigHashAnnotation h) (strip_hash y))"
    using write_annotations_deployment[OF u(2), of "fmupd lastConfigHashAnnotation h"] e(1) by (auto simp: template_hash_def)
  then have "template_hash h (ODeployment z)"
    using EnsureObjectWithHash_template[OF y h] assms(3) by (metis fst_conv snd_conv)
  then show ?thesis using h same by (simp add: template_hash_def)
qed


theorem template_carries_hash_witness:
  "\<exists>z w' h a. run_state (EnsureObjectWithHash (map_client None) None (ODeployment (AdminDeployment [] zero_store))) [] =
       ((None, ODeployment z), w') \<and> ObjectHash (map_client None) (strip_hash (ODeployment (AdminDeployment [] zero_store))) = Inr h \<and>
     pt_Annotations (ds_Template (d_Spec z)) = Some a \<and> fmlookup a lastConfigHashAnnotation = Some h"
proof -
  let ?d = "AdminDeployment [] zero_store"
  obtain x where x: "run_state (EnsureObjectWithHash (map_client None) None (ODeployment ?d)) [] = ((None, x), [x])" "obj_kind x = KDeployment"
    using map_client_creates[of "ODeployment ?d" "[]" None None] by (auto simp: cluster_get_def)
  then obtain z where z: "x = ODeployment z" by (cases x) simp_all
  show ?thesis
    using template_carries_hash[OF mc.api_server_axioms, of ?d "[]" zero_store "[]" None None "[]" z "[x]"] x(1) z by auto
qed

text \<open>
  An update of an owned object leads to a reconcile exactly when its labels or its annotations
  other than the configuration hash and the deployment revision differ. Changes of the status and
  of the specification do not, nor does a change of the hash.
\<close>

theorem update_event_iff:
  "HasObjectChangedPredicate (UpdateEvent (Some old) (Some new)) \<longleftrightarrow>
     m_Labels (obj_meta old) \<noteq> m_Labels (obj_meta new) \<or>
     (\<exists>k. k \<noteq> lastConfigHashAnnotation \<and> k \<notin> set ignoredAnnotations \<and>
        fmlookup (annotations_of old) k \<noteq> fmlookup (annotations_of new) k)"
proof -
  have "filteredAnnotations old = filteredAnnotations new \<longleftrightarrow>
    (\<forall>k. k \<noteq> lastConfigHashAnnotation \<longrightarrow> k \<notin> set ignoredAnnotations \<longrightarrow>
        fmlookup (annotations_of old) k = fmlookup (annotations_of new) k)"
    using filtered_cong[of old new] by (metis filtered_lookup)
  then show ?thesis using ChangedMetaKeys_Nil[of old new] by auto
qed

text \<open>
  The difference of two secrets that goes to the log shows no value of a secret: every entry is
  one of two fixed texts, there is one for each key of data and stringData, and a changed key is
  marked as such.
\<close>

theorem redactSecrets_hides:
  "case redactSecrets old new of (a, b) \<Rightarrow>
     fmdom a = fmdom (secretValues old) \<and> fmdom b = fmdom (secretValues new) \<and>
     fmran' a \<subseteq> {redactedValue} \<and> fmran' b \<subseteq> {redactedValue, redactedChangedValue} \<and>
     (\<forall>k. fmlookup b k = Some redactedChangedValue \<longleftrightarrow>
        (\<exists>u v. fmlookup (secretValues old) k = Some u \<and> fmlookup (secretValues new) k = Some v \<and> u \<noteq> v))"
  by (auto simp: redactSecrets_def Let_def fmran'_def redactedValue_def redactedChangedValue_def
      split: option.splits if_splits)

end
