(* ===== verification/Frame.thy ===== *)
theory Frame
  imports Ensure
begin

text \<open>
  What code that talks to the cluster may change. \<open>guarded\<close> is an API server together with
  an invariant that survives reading and survives writing or deleting objects of given kinds in one
  namespace. Code that is proved to keep every such invariant writes and deletes nothing else.
\<close>

section \<open>Kind and namespace of what is sent\<close>

definition same_place :: "kobj \<Rightarrow> kobj \<Rightarrow> bool" where
  "same_place x y \<longleftrightarrow> obj_kind y = obj_kind x \<and> m_Namespace (obj_meta y) = m_Namespace (obj_meta x)"

lemma same_place_refl [simp]: "same_place x x"
  by (simp add: same_place_def)

lemma same_place_trans: "same_place x y \<Longrightarrow> same_place y z \<Longrightarrow> same_place x z"
  by (simp add: same_place_def)

lemma same_place_write [simp]:
  "same_place x (write_annotations f x)" "same_place x (strip_hash x)" "same_place x (set_version v x)"
  "same_place x (keep_service_fields old x)"
  by (simp_all add: same_place_def strip_hash_def set_version_def)

lemma same_place_keep_ignored [simp]: "same_place x (keep_ignored old x)"
  by (cases x) (simp_all add: keep_ignored_def)

lemmas ensure_defs = EnsureService_def[abs_def] EnsureHPA_def[abs_def] EnsureCronJob_def[abs_def] EnsureJob_def[abs_def]
  EnsurePDB_def[abs_def] EnsureIngress_def[abs_def] EnsureHTTPRoute_def[abs_def] EnsureDeployment_def[abs_def]

section \<open>Writing in one namespace\<close>

locale guarded =
  fixes cl :: "'w client" and I :: "'w \<Rightarrow> bool" and W D :: "kind set" and ns :: string
  assumes get_ok: "preserves I (cl_Get cl k n m) (\<lambda>r. \<forall>x. r = Inr x \<longrightarrow> obj_kind x = k \<and> m_Namespace (obj_meta x) = n)"
    and list_ok: "preserves I (cl_List cl k n l) (\<lambda>r. \<forall>xs. r = Inr xs \<longrightarrow> (\<forall>x\<in>set xs. obj_kind x = k \<and> m_Namespace (obj_meta x) = n))"
    and create_ok: "obj_kind x \<in> W \<Longrightarrow> m_Namespace (obj_meta x) = ns \<Longrightarrow> preserves I (cl_Create cl x) (\<lambda>_. True)"
    and patch_ok: "obj_kind x \<in> W \<Longrightarrow> m_Namespace (obj_meta x) = ns \<Longrightarrow> preserves I (cl_Patch cl old x) (\<lambda>_. True)"
    and delete_ok: "obj_kind x \<in> D \<Longrightarrow> m_Namespace (obj_meta x) = ns \<Longrightarrow> preserves I (cl_Delete cl x) (\<lambda>_. True)"
    and sleep_ok: "preserves I (cl_Sleep cl) (\<lambda>_. True)"
    and get_nil_ok: "preserves I (cl_GetNil cl n m) (\<lambda>_. True)"
    and owner_ok: "cl_SetControllerReference cl o' x = Inr y \<Longrightarrow> same_place x y"
begin

text \<open>An object that may be written; a changed job is deleted, too.\<close>

definition allowed :: "kobj \<Rightarrow> bool" where
  "allowed x \<longleftrightarrow> obj_kind x \<in> W \<and> m_Namespace (obj_meta x) = ns \<and> (obj_kind x = KJob \<longrightarrow> KJob \<in> D)"

lemma allowed_same: "same_place x y \<Longrightarrow> allowed x \<Longrightarrow> allowed y"
  by (simp add: allowed_def same_place_def)

lemma get_any: "preserves I (cl_Get cl k n m) (\<lambda>_. True)"
  using get_ok by (rule preserves_any)

lemma get_like_ok: "preserves I (get_like cl x) (\<lambda>_. True)"
  unfolding get_like_def by (rule preserves_bind[OF get_any]) simp

lemma DetectObjectChange_ok: "preserves I (DetectObjectChange cl x) (\<lambda>(_, y). same_place x y)"
  unfolding DetectObjectChange_def Let_def by (rule preserves_bind[OF get_like_ok]) simp

lemma HasObjectChanged_ok: "preserves I (HasObjectChanged cl x) (\<lambda>(_, y). same_place x y)"
  unfolding HasObjectChanged_def by (rule preserves_bind[OF DetectObjectChange_ok]) auto

lemma wait_deleted_ok: "preserves I (wait_deleted i cl n m) (\<lambda>_. True)"
proof (induction i)
  case (Suc i)
  then show ?case
    unfolding wait_deleted.simps
    by (intro preserves_bind[OF sleep_ok] preserves_bind[OF get_nil_ok]) (auto split: option.split)
qed simp

lemma apply_update_ok:
  assumes "allowed x"
  shows "preserves I (apply_update cl old x) (\<lambda>_. True)"
proof -
  let ?x = "keep_service_fields old (set_version (m_ResourceVersion (obj_meta old)) x)"
  have ok: "allowed ?x" using assms by (meson allowed_same same_place_write)
  then have patch: "preserves I (cl_Patch cl old ?x) (\<lambda>_. True)" by (intro patch_ok) (simp_all add: allowed_def)
  have delete: "preserves I (cl_Delete cl ?x) (\<lambda>_. True)" if "obj_kind ?x = KJob"
    using ok that by (intro delete_ok) (simp_all add: allowed_def)
  have create: "preserves I (cl_Create cl (set_version [] ?x)) (\<lambda>_. True)"
    using allowed_same[OF same_place_write(3) ok] by (intro create_ok) (auto simp: allowed_def)
  show ?thesis
  proof (cases "\<exists>j. ?x = OJob j")
    case True
    then obtain j where j: "?x = OJob j" by blast
    show ?thesis
      using delete create unfolding j apply_update_def Let_def
      by (auto intro!: preserves_bind[OF wait_deleted_ok] preserves_bind[where P = "\<lambda>_. True"] split: option.split)
  next
    case False
    then have "apply_update cl old x = do { e \<leftarrow> cl_Patch cl old ?x; State_Monad.return (map_option (Wrap (''patch '' @ obj_nn ?x)) e, ?x) }"
      by (auto simp: apply_update_def Let_def split: kobj.split)
    then show ?thesis by (simp add: preserves_bind[OF patch])
  qed
qed

lemma controlled_ok: "controlled cl owner x = Inr y \<Longrightarrow> same_place x y"
  using owner_ok by (auto simp: controlled_def split: option.splits sum.splits)

lemma EnsureObjectWithHash_ok:
  assumes "allowed x"
  shows "preserves I (EnsureObjectWithHash cl owner x) (\<lambda>_. True)"
proof (cases "controlled cl owner x")
  case (Inr y)
  then have y: "allowed y" using assms allowed_same controlled_ok by blast
  show ?thesis
  proof (cases "ObjectHash cl (strip_hash y)")
    case (Inr h)
    let ?z = "write_annotations (fmupd lastConfigHashAnnotation h) (strip_hash y)"
    have z: "allowed ?z" using y by (meson allowed_same same_place_write)
    then have create: "preserves I (cl_Create cl ?z) (\<lambda>_. True)" by (intro create_ok) (simp_all add: allowed_def)
    have update: "preserves I (apply_update cl old (keep_ignored old ?z)) (\<lambda>_. True)" for old
      using z allowed_same same_place_keep_ignored by (intro apply_update_ok) blast
    show ?thesis
      unfolding EnsureObjectWithHash_def \<open>controlled cl owner x = Inr y\<close> Inr sum.case Let_def
      using update by (auto intro!: preserves_bind[OF get_like_ok] preserves_bind[OF create] split: sum.split)
  qed (simp add: EnsureObjectWithHash_def Inr)
qed (simp add: EnsureObjectWithHash_def)

lemma ensure_after_ok:
  assumes "allowed x"
  shows "preserves I (ensure_after k cl owner x) (\<lambda>_. True)"
  unfolding ensure_after_def using EnsureObjectWithHash_ok[OF assms]
  by (intro preserves_bind[OF get_any]) (simp split: sum.split)

lemma cleanup_loop_ok:
  assumes "\<forall>x\<in>set xs. obj_kind x \<in> D \<and> m_Namespace (obj_meta x) = ns"
  shows "preserves I (cleanup_loop cl what xs) (\<lambda>_. True)"
  using assms
proof (induction xs)
  case (Cons x xs)
  then have "preserves I (cl_Delete cl x) (\<lambda>_. True)" by (intro delete_ok) simp_all
  with Cons show ?case
    unfolding cleanup_loop.simps by (intro preserves_bind) (auto split: option.split)
qed simp

end

end
