(* ===== verification/BaseResources.thy ===== *)
theory BaseResources
  imports StoreSecret Manager Frame
begin

text \<open>
  The objects a Store needs in each of its states (\<open>internal/manager/base/resources.go\<close>, the
  resource handlers of the managers and \<open>ReconcileResources\<close>), with the calls that read or delete
  the objects of \<open>Resources\<close> in the cluster. The annotations of the workloads are the map of the
  Store's container, so every function also returns the Store as the caller sees it afterwards.
  Proved: which kinds of objects a reconcile writes and deletes in which state, that it stays in
  the namespace of the Store, and that deployments are only deleted without a queue error.
\<close>

section \<open>Objects in the cluster\<close>

definition GetStoreIngress :: "'w client \<Rightarrow> store \<Rightarrow> ('w, deployment result) state" where
  "GetStoreIngress cl s =
     (let ingress = StoreIngress s in GetDeployment cl (m_Namespace (ing_Meta ingress)) (m_Name (ing_Meta ingress)))"

definition DeleteStoreIngress :: "'w client \<Rightarrow> store \<Rightarrow> ('w, goerr option) state" where
  "DeleteStoreIngress cl s = do {
     r \<leftarrow> cl_Get cl KIngress (st_Namespace s) (GetStoreIngressName s);
     (case typed (\<lambda>o'. case o' of OIngress d \<Rightarrow> Some d | _ \<Rightarrow> None) r of
        Inl e \<Rightarrow> State_Monad.return (if IsNotFound e then None else Some e)
      | Inr ingress \<Rightarrow> cl_Delete cl (OIngress ingress)) }"

definition GetStoreHTTPRoute :: "'w client \<Rightarrow> store \<Rightarrow> ('w, http_route result) state" where
  "GetStoreHTTPRoute cl s =
     (let httpRoute = StoreHTTPRoute s in do {
        r \<leftarrow> cl_Get cl KHTTPRoute (m_Namespace (hr_Meta httpRoute)) (m_Name (hr_Meta httpRoute));
        State_Monad.return (typed (\<lambda>o'. case o' of OHTTPRoute d \<Rightarrow> Some d | _ \<Rightarrow> None) r) })"

definition DeleteStoreHTTPRoute :: "'w client \<Rightarrow> store \<Rightarrow> ('w, goerr option) state" where
  "DeleteStoreHTTPRoute cl s = do {
     r \<leftarrow> cl_Get cl KHTTPRoute (st_Namespace s) (GetStoreHTTPRouteName s);
     (case typed (\<lambda>o'. case o' of OHTTPRoute d \<Rightarrow> Some d | _ \<Rightarrow> None) r of
        Inl e \<Rightarrow> State_Monad.return (if IsNotFound e then None else Some e)
      | Inr httpRoute \<Rightarrow> cl_Delete cl (OHTTPRoute httpRoute)) }"

definition GetStoreHPA :: "'w client \<Rightarrow> string \<Rightarrow> store \<Rightarrow> ('w, hpa result) state" where
  "GetStoreHPA cl url s =
     (let hpa = StoreHPA url s in do {
        r \<leftarrow> cl_Get cl KHPA (m_Namespace (hp_Meta hpa)) (m_Name (hp_Meta hpa));
        State_Monad.return (typed (\<lambda>o'. case o' of OHPA d \<Rightarrow> Some d | _ \<Rightarrow> None) r) })"

section \<open>Shared annotations\<close>

text \<open>
  When the Store's container has annotations, a workload built from the Store has that map as its
  annotations. \<open>share_in\<close> is the object as it reads the map of the Store now, \<open>share_out\<close> the Store
  after something was written to the object's annotations; the routes of the gateway and the
  autoscaler share the maps of their settings in the same way.
\<close>

definition share_in :: "store \<Rightarrow> kobj \<Rightarrow> kobj" where
  "share_in s x = (case cs_Annotations (st_Container s) of None \<Rightarrow> x | Some a \<Rightarrow> write_annotations (\<lambda>_. a) x)"

definition share_out :: "kobj \<Rightarrow> store \<Rightarrow> store" where
  "share_out x s = set_Container (annotate_shared (annotations_of x) (st_Container s)) s"

definition share_gateway :: "kobj \<Rightarrow> store \<Rightarrow> store" where
  "share_gateway x s = s\<lparr>st_Spec := (st_Spec s)\<lparr>sp_Network := (sp_Network (st_Spec s))
     \<lparr>nw_GatewayAnnotations := map_option (\<lambda>_. annotations_of x) (nw_GatewayAnnotations (sp_Network (st_Spec s)))\<rparr>\<rparr>\<rparr>"

definition share_hpa :: "kobj \<Rightarrow> store \<Rightarrow> store" where
  "share_hpa x s = s\<lparr>st_Spec := (st_Spec s)\<lparr>sp_HPA := (sp_HPA (st_Spec s))
     \<lparr>hpa_Annotations := map_option (\<lambda>_. annotations_of x) (hpa_Annotations (sp_HPA (st_Spec s)))\<rparr>\<rparr>\<rparr>"

section \<open>Reconciling one kind of object\<close>

text \<open>
  The common part: when the object in the cluster differs from the desired one, an event is recorded
  and the object is applied. The texts are those of the two error messages and of the event.
\<close>

type_synonym 'w ensure = "'w client \<Rightarrow> object_meta \<Rightarrow> kobj \<Rightarrow> ('w, goerr option \<times> kobj) state"

definition update_changed ::
  "'w base \<Rightarrow> store \<Rightarrow> string \<Rightarrow> string \<Rightarrow> string \<Rightarrow> string \<Rightarrow> 'w ensure \<Rightarrow> kobj \<Rightarrow> ('w, goerr option \<times> kobj) state" where
  "update_changed b s checkText applyText reason msg ensure x = do {
     (c, x) \<leftarrow> HasObjectChanged (b_Client b) x;
     (case c of
        Inl e \<Rightarrow> State_Monad.return (Some (Wrap checkText e), x)
      | Inr changed \<Rightarrow>
          if \<not> changed then State_Monad.return (None, x)
          else do {
            _ \<leftarrow> Eventf b s reason msg;
            (e, x) \<leftarrow> ensure (b_Client b) (st_Meta s) x;
            State_Monad.return (map_option (Wrap applyText) e, x) }) }"

definition event_text :: "store \<Rightarrow> string \<Rightarrow> string \<Rightarrow> string" where
  "event_text s what tail = ''Update Store '' @ st_Name s @ '' '' @ what @ '' in namespace '' @ st_Namespace s @ tail @ ''. Diff hash''"

definition for_app :: "kobj \<Rightarrow> string" where
  "for_app x = '' for '' @ go_lookup (m_Labels (obj_meta x)) ''app''"

text \<open>A loop over objects that share nothing, and one over objects that share the container's annotations.\<close>

fun update_loop :: "(kobj \<Rightarrow> ('w, goerr option \<times> kobj) state) \<Rightarrow> kobj list \<Rightarrow> ('w, goerr option) state" where
  "update_loop step [] = State_Monad.return None"
| "update_loop step (x # xs) = do {
     (e, _) \<leftarrow> step x;
     (case e of Some err \<Rightarrow> State_Monad.return (Some err) | None \<Rightarrow> update_loop step xs) }"

fun shared_update_loop ::
  "(store \<Rightarrow> kobj \<Rightarrow> ('w, goerr option \<times> kobj) state) \<Rightarrow> kobj list \<Rightarrow> store \<Rightarrow> ('w, goerr option \<times> store) state" where
  "shared_update_loop step [] s = State_Monad.return (None, s)"
| "shared_update_loop step (x # xs) s = do {
     (e, x) \<leftarrow> step s (share_in s x);
     let s = share_out x s;
     (case e of Some err \<Rightarrow> State_Monad.return (Some err, s) | None \<Rightarrow> shared_update_loop step xs s) }"

definition EnsureAppSecrets :: "'w base \<Rightarrow> 'w crypto \<Rightarrow> store \<Rightarrow> ('w, goerr option) state" where
  "EnsureAppSecrets b cy s = do {
     r \<leftarrow> EnsureStoreSecret b cy s;
     (case r of
        Inl e \<Rightarrow> State_Monad.return (Some (Wrap ''app secrets'' e))
      | Inr storeSecret \<Rightarrow> do {
          (e, _) \<leftarrow> EnsureObjectWithHash (b_Client b) None (OSecret storeSecret);
          State_Monad.return (map_option (Wrap ''ensure store secret'') e) }) }"

definition ReconcileServices :: "'w base \<Rightarrow> store \<Rightarrow> ('w, goerr option \<times> store) state" where
  "ReconcileServices b s = do {
     e \<leftarrow> update_loop (\<lambda>x. update_changed b s ''reconcile unready svc'' ''reconcile unready services'' ''Diff service hash''
             (event_text s ''service'' (for_app x)) EnsureService x)
            [OService (StorefrontService s), OService (AdminService s)];
     State_Monad.return (e, s) }"

definition ReconcileIngress :: "'w base \<Rightarrow> store \<Rightarrow> ('w, goerr option \<times> store) state" where
  "ReconcileIngress b s =
     (if \<not> nw_EnabledIngress (sp_Network (st_Spec s)) then do {
        e \<leftarrow> DeleteStoreIngress (b_Client b) s;
        State_Monad.return (map_option (Wrap ''delete ingress'') e, s) }
      else do {
        (e, _) \<leftarrow> update_changed b s ''reconcile unready ingress'' ''reconcile unready ingress'' ''Diff ingress hash''
          (event_text s ''ingress'' []) EnsureIngress (OIngress (StoreIngress s));
        State_Monad.return (e, s) })"

definition ReconcileHTTPRoute :: "'w base \<Rightarrow> store \<Rightarrow> ('w, goerr option \<times> store) state" where
  "ReconcileHTTPRoute b s =
     (if \<not> nw_EnabledGateway (sp_Network (st_Spec s)) then do {
        e \<leftarrow> DeleteStoreHTTPRoute (b_Client b) s;
        State_Monad.return (map_option (Wrap ''delete httproute'') e, s) }
      else do {
        (e, x) \<leftarrow> update_changed b s ''reconcile unready httproute'' ''reconcile unready httproute'' ''Diff httproute hash''
          (event_text s ''httproute'' []) EnsureHTTPRoute (OHTTPRoute (StoreHTTPRoute s));
        State_Monad.return (e, share_gateway x s) })"

definition ReconcilePDB :: "'w base \<Rightarrow> store \<Rightarrow> ('w, goerr option \<times> store) state" where
  "ReconcilePDB b s =
     (let s1 = PDB_shared s (sp_AdminDeploymentContainer (st_Spec s));
          s2 = PDB_shared s1 (sp_StorefrontDeploymentContainer (st_Spec s));
          s3 = PDB_shared s2 (sp_WorkerDeploymentContainer (st_Spec s));
          objs = [OPDB (AdminPDB s), OPDB (StorefrontPDB s1)];
          step = (\<lambda>x. update_changed b s3 ''reconcile unready pdb'' ''reconcile unready pdb'' ''Diff pdb hash''
                    (event_text s3 ''pdb'' []) EnsurePDB x) in
      if wk_EnableKedaScaling (sp_Worker (st_Spec s)) then do {
        d \<leftarrow> cl_Delete (b_Client b) (OPDB (WorkerPDB s2));
        (case d of
           Some e \<Rightarrow>
             if IsNotFound e then do { e \<leftarrow> update_loop step objs; State_Monad.return (e, s3) }
             else State_Monad.return (Some (Wrap ''cleanup worker pdb'' e), s3)
         | None \<Rightarrow> do { e \<leftarrow> update_loop step objs; State_Monad.return (e, s3) }) }
      else do { e \<leftarrow> update_loop step (objs @ [OPDB (WorkerPDB s2)]); State_Monad.return (e, s3) })"

definition ReconcileDeployment :: "'w base \<Rightarrow> store \<Rightarrow> ('w, goerr option \<times> store) state" where
  "ReconcileDeployment b s =
     (let url = b_OperatorServiceURL b in
      case WorkerDeployments url s of
        Inl e \<Rightarrow> State_Monad.return (Some (Wrap ''worker deployments'' e), s)
      | Inr workers \<Rightarrow>
          (let workers = map ODeployment workers;
               s = fold share_out workers s;
               storefront = ODeployment (StorefrontDeployment url s);
               s = share_out storefront s;
               admin = ODeployment (AdminDeployment url s);
               s = share_out admin s in do {
             (e, s) \<leftarrow> shared_update_loop (\<lambda>s x. update_changed b s ''reconcile unready deployment'' ''reconcile unready deployment''
                 ''Diff deployment hash'' (event_text s ''deployment'' (for_app x)) EnsureDeployment x)
               ([storefront, admin] @ workers) s;
             (case e of
                Some err \<Rightarrow> State_Monad.return (Some err, s)
              | None \<Rightarrow>
                  if qc_Error (ss_QueueState (st_Status s)) = [] then do {
                    e \<leftarrow> CleanupObsoleteWorkerDeployments (b_Client b) url s;
                    let s = (case WorkerDeployments url s of Inl _ \<Rightarrow> s | Inr ws \<Rightarrow> fold share_out (map ODeployment ws) s);
                    State_Monad.return (map_option (Wrap ''cleanup worker deployments'') e, s) }
                  else State_Monad.return (None, s)) }))"

fun scaled_object_loop :: "'w base \<Rightarrow> store \<Rightarrow> scaled_object list \<Rightarrow> ('w, goerr option) state" where
  "scaled_object_loop b s [] = State_Monad.return None"
| "scaled_object_loop b s (obj # objs) = do {
     t \<leftarrow> GetDeployment (b_Client b) (m_Namespace (so_Meta obj)) (so_TargetName obj);
     (case t of
        Inl e \<Rightarrow>
          if IsNotFound e then scaled_object_loop b s objs
          else State_Monad.return (Some (Wrap (''get scale target '' @ so_TargetName obj) e))
      | Inr target \<Rightarrow> do {
          (c, x) \<leftarrow> HasObjectChanged (b_Client b) (OScaledObject obj);
          (case c of
             Inl e \<Rightarrow> State_Monad.return (Some (Wrap ''reconcile worker scaledobject'' e))
           | Inr changed \<Rightarrow> do {
               _ \<leftarrow> (if changed then Eventf b s ''Diff scaledobject hash''
                       (event_text s ''scaledobject'' ('' for '' @ m_Name (so_Meta obj))) else State_Monad.return ());
               (e, _) \<leftarrow> EnsureObjectWithHash (b_Client b) (Some (d_Meta target)) x;
               (case e of
                  Some err \<Rightarrow> State_Monad.return (Some (Wrap ''reconcile worker scaledobject'' err))
                | None \<Rightarrow> scaled_object_loop b s objs) }) }) }"

definition ReconcileScaledObjects :: "'w base \<Rightarrow> store \<Rightarrow> ('w, goerr option \<times> store) state" where
  "ReconcileScaledObjects b s =
     (if \<not> b_EnableKeda b then State_Monad.return (None, s)
      else if \<not> wk_EnableKedaScaling (sp_Worker (st_Spec s)) then do {
        e \<leftarrow> CleanupObsoleteWorkerScaledObjects (b_Client b) s;
        State_Monad.return (e, s) }
      else
        (case WorkerScaledObjects s (b_OperatorMetricsURL b) of
           Inl e \<Rightarrow> State_Monad.return (Some e, s)
         | Inr objs \<Rightarrow> do {
             e \<leftarrow> scaled_object_loop b s objs;
             State_Monad.return (e, s) }))"

definition ReconcileHorizontalPodAutoscaler :: "'w base \<Rightarrow> store \<Rightarrow> ('w, goerr option \<times> store) state" where
  "ReconcileHorizontalPodAutoscaler b s =
     (if \<not> hpa_Enabled (sp_HPA (st_Spec s)) then State_Monad.return (None, s)
      else
        (let url = b_OperatorServiceURL b; obj = OHPA (StoreHPA url s);
             s = share_out (ODeployment (StorefrontDeployment url s)) s in do {
           (e, x) \<leftarrow> update_changed b s ''reconcile unready deployment'' ''reconcile unready hpa'' ''Diff hpa hash''
             (event_text s ''hpa'' []) EnsureHPA obj;
           State_Monad.return (e, share_hpa x s) }))"

definition ReconcileSetupJob :: "'w base \<Rightarrow> store \<Rightarrow> ('w, goerr option \<times> store) state" where
  "ReconcileSetupJob b s = do {
     (e, x) \<leftarrow> update_changed b s ''reconcile unready setup job'' ''reconcile unready setup job'' ''Diff setup job hash''
       (event_text s ''setup job'' []) EnsureJob (OJob (SetupJob (b_OperatorServiceURL b) s));
     State_Monad.return (e, share_out x s) }"

definition ReconcileMigrationJob :: "'w base \<Rightarrow> store \<Rightarrow> ('w, goerr option \<times> store) state" where
  "ReconcileMigrationJob b s = do {
     (e, x) \<leftarrow> update_changed b s ''reconcile unready migrate job'' ''reconcile unready migrate job'' ''Diff migrate job hash''
       (event_text s ''migrate job'' []) EnsureJob (OJob (MigrationJob (b_OperatorServiceURL b) s));
     State_Monad.return (e, share_out x s) }"

definition ReconcileScheduledTask :: "'w base \<Rightarrow> store \<Rightarrow> ('w, goerr option \<times> store) state" where
  "ReconcileScheduledTask b s =
     (let obj = OCronJob (ScheduledTaskJob (b_OperatorServiceURL b) s); s = ScheduledTaskJob_shared s in do {
        (e, x) \<leftarrow> update_changed b s ''reconcile unready setup job'' ''reconcile unready scheduled task job'' ''Diff setup job hash''
          (event_text s ''scheduled task job'' []) EnsureCronJob obj;
        State_Monad.return (e, share_out x s) })"

section \<open>Resource handlers\<close>

text \<open>Running the steps in order until one fails; the error of a step is wrapped with its name.\<close>

fun in_order :: "(string \<times> (store \<Rightarrow> ('w, goerr option \<times> store) state)) list \<Rightarrow> store \<Rightarrow> ('w, goerr option \<times> store) state" where
  "in_order [] s = State_Monad.return (None, s)"
| "in_order ((name, step) # steps) s = do {
     (e, s) \<leftarrow> step s;
     (case e of Some err \<Rightarrow> State_Monad.return (Some (Wrap name err), s) | None \<Rightarrow> in_order steps s) }"

definition wait_ResourceHandler :: "'w base \<Rightarrow> store \<Rightarrow> ('w, goerr option \<times> store) state" where
  "wait_ResourceHandler b s = State_Monad.return (None, s)"

definition setup_ResourceHandler :: "'w base \<Rightarrow> store \<Rightarrow> ('w, goerr option \<times> store) state" where
  "setup_ResourceHandler b s = in_order [(''setup'', ReconcileSetupJob b)] s"

definition initializing_ResourceHandler :: "'w base \<Rightarrow> store \<Rightarrow> ('w, goerr option \<times> store) state" where
  "initializing_ResourceHandler b s =
     in_order [(''deployment'', ReconcileDeployment b), (''scaledobject'', ReconcileScaledObjects b)] s"

definition suspend_tasks :: "store \<Rightarrow> store" where
  "suspend_tasks s = s\<lparr>st_Spec := (st_Spec s)\<lparr>sp_ScheduledTask := (sp_ScheduledTask (st_Spec s))\<lparr>stk_Suspend := True\<rparr>\<rparr>\<rparr>"

definition migration_ResourceHandler :: "'w base \<Rightarrow> store \<Rightarrow> ('w, goerr option \<times> store) state" where
  "migration_ResourceHandler b s =
     in_order [(''migration'', ReconcileMigrationJob b),
               (''cronjob'', \<lambda>s. ReconcileScheduledTask b (suspend_tasks s))] s"

definition ready_ResourceHandler :: "'w base \<Rightarrow> store \<Rightarrow> ('w, goerr option \<times> store) state" where
  "ready_ResourceHandler b s =
     (if ss_CurrentImageTag (st_Status s) \<noteq> cs_Image (st_Container s)
      then in_order [(''migration'', ReconcileMigrationJob b)] s
      else in_order [(''deployment'', ReconcileDeployment b), (''scaledobject'', ReconcileScaledObjects b),
                     (''service'', ReconcileServices b), (''cronjob'', ReconcileScheduledTask b),
                     (''hpa'', ReconcileHorizontalPodAutoscaler b)] s)"

fun resource_managers :: "'w base \<Rightarrow> app_state \<Rightarrow> (store \<Rightarrow> ('w, goerr option \<times> store) state) option" where
  "resource_managers b StateEmpty = Some (wait_ResourceHandler b)"
| "resource_managers b StateWait = Some (wait_ResourceHandler b)"
| "resource_managers b StateSetup = Some (setup_ResourceHandler b)"
| "resource_managers b StateSetupError = Some (setup_ResourceHandler b)"
| "resource_managers b StateInitializing = Some (initializing_ResourceHandler b)"
| "resource_managers b StateMigration = Some (migration_ResourceHandler b)"
| "resource_managers b StateMigrationError = Some (migration_ResourceHandler b)"
| "resource_managers b StateReady = Some (ready_ResourceHandler b)"
| "resource_managers b (StateUnregistered _) = None"

definition reconcileInitResources :: "'w base \<Rightarrow> store \<Rightarrow> ('w, goerr option \<times> store) state" where
  "reconcileInitResources b s =
     in_order [(''ingress'', ReconcileIngress b), (''httproute'', ReconcileHTTPRoute b), (''pdb'', ReconcilePDB b)] s"

definition ReconcileResources :: "'w base \<Rightarrow> 'w crypto \<Rightarrow> store \<Rightarrow> ('w, goerr option \<times> store) state" where
  "ReconcileResources b cy s = do {
     (e, s) \<leftarrow> reconcileInitResources b s;
     (case e of
        Some err \<Rightarrow> State_Monad.return (Some err, s)
      | None \<Rightarrow>
          if IsState s [StateEmpty, StateWait] then State_Monad.return (None, s)
          else do {
            e \<leftarrow> EnsureAppSecrets b cy s;
            (case e of
               Some err \<Rightarrow> State_Monad.return (Some (Wrap ''app secrets'' err), s)
             | None \<Rightarrow>
                 (case resource_managers b (ss_State (st_Status s)) of
                    None \<Rightarrow> State_Monad.return (None, s)
                  | Some handler \<Rightarrow> handler s)) }) }"

section \<open>What a reconcile may touch\<close>

text \<open>The kinds of objects that are created or changed, and those that are deleted, per state.\<close>

definition may_write :: "store \<Rightarrow> kind set" where
  "may_write s = {KIngress, KHTTPRoute, KPDB} \<union>
     (case ss_State (st_Status s) of
        StateEmpty \<Rightarrow> {} | StateWait \<Rightarrow> {}
      | StateSetup \<Rightarrow> {KSecret, KJob} | StateSetupError \<Rightarrow> {KSecret, KJob}
      | StateInitializing \<Rightarrow> {KSecret, KDeployment, KScaledObject}
      | StateMigration \<Rightarrow> {KSecret, KJob, KCronJob} | StateMigrationError \<Rightarrow> {KSecret, KJob, KCronJob}
      | StateReady \<Rightarrow>
          if ss_CurrentImageTag (st_Status s) \<noteq> cs_Image (st_Container s) then {KSecret, KJob}
          else {KSecret, KDeployment, KScaledObject, KService, KCronJob, KHPA}
      | StateUnregistered _ \<Rightarrow> {KSecret})"

definition deploys :: "store \<Rightarrow> bool" where
  "deploys s \<longleftrightarrow> ss_State (st_Status s) = StateInitializing \<or>
     ss_State (st_Status s) = StateReady \<and> ss_CurrentImageTag (st_Status s) = cs_Image (st_Container s)"

definition may_delete :: "'w base \<Rightarrow> store \<Rightarrow> kind set" where
  "may_delete b s =
     (if nw_EnabledIngress (sp_Network (st_Spec s)) then {} else {KIngress}) \<union>
     (if nw_EnabledGateway (sp_Network (st_Spec s)) then {} else {KHTTPRoute}) \<union>
     (if wk_EnableKedaScaling (sp_Worker (st_Spec s)) then {KPDB} else {}) \<union>
     (if KJob \<in> may_write s then {KJob} else {}) \<union>
     (if deploys s \<and> qc_Error (ss_QueueState (st_Status s)) = [] then {KDeployment} else {}) \<union>
     (if deploys s \<and> b_EnableKeda b \<and> \<not> wk_EnableKedaScaling (sp_Worker (st_Spec s)) then {KScaledObject} else {})"

text \<open>What stays of a Store whose maps are written through its copies.\<close>

definition like :: "store \<Rightarrow> store \<Rightarrow> bool" where
  "like s t \<longleftrightarrow> st_Meta t = st_Meta s \<and> st_Status t = st_Status s \<and> sp_Worker (st_Spec t) = sp_Worker (st_Spec s) \<and>
     nw_EnabledIngress (sp_Network (st_Spec t)) = nw_EnabledIngress (sp_Network (st_Spec s)) \<and>
     nw_EnabledGateway (sp_Network (st_Spec t)) = nw_EnabledGateway (sp_Network (st_Spec s)) \<and>
     cs_Image (st_Container t) = cs_Image (st_Container s)"

lemma like_refl [simp]: "like s s"
  by (simp add: like_def)

lemma like_trans: "like s t \<Longrightarrow> like t u \<Longrightarrow> like s u"
  by (simp add: like_def)

lemma like_shared [simp]:
  "like s (share_out x s)" "like s (share_gateway x s)" "like s (share_hpa x s)" "like s (PDB_shared s ov)"
  "like s (ScheduledTaskJob_shared s)" "like s (suspend_tasks s)"
  by (simp_all add: like_def share_out_def share_gateway_def share_hpa_def PDB_shared_def annotate_shared_def
      ScheduledTaskJob_shared_def suspend_tasks_def Merge_shared_def set_Container_def Let_def)

lemma like_fold [simp]: "like s (fold share_out xs s)"
proof (induction xs arbitrary: s)
  case (Cons x xs)
  then show ?case using like_trans like_shared(1) by fastforce
qed simp

lemma built_namespace [simp]:
  "m_Namespace (d_Meta (StorefrontDeployment url s)) = st_Namespace s"
  "m_Namespace (d_Meta (AdminDeployment url s)) = st_Namespace s"
  "m_Namespace (d_Meta (WorkerDeployment url s q)) = st_Namespace s"
  "m_Namespace (j_Meta (SetupJob url s)) = st_Namespace s"
  "m_Namespace (j_Meta (MigrationJob url s)) = st_Namespace s"
  "m_Namespace (cj_Meta (ScheduledTaskJob url s)) = st_Namespace s"
  "m_Namespace (sv_Meta (StorefrontService s)) = st_Namespace s"
  "m_Namespace (sv_Meta (AdminService s)) = st_Namespace s"
  "m_Namespace (pdb_Meta (AdminPDB s)) = st_Namespace s"
  "m_Namespace (pdb_Meta (StorefrontPDB s)) = st_Namespace s"
  "m_Namespace (pdb_Meta (WorkerPDB s)) = st_Namespace s"
  "m_Namespace (ing_Meta (StoreIngress s)) = st_Namespace s"
  "m_Namespace (hr_Meta (StoreHTTPRoute s)) = st_Namespace s"
  "m_Namespace (hp_Meta (StoreHPA url s)) = st_Namespace s"
  "m_Namespace (so_Meta (WorkerScaledObject s q2 u)) = st_Namespace s"
  by (simp_all add: StorefrontDeployment_def AdminDeployment_def WorkerDeployment_def deployment_object_def
      SetupJob_def MigrationJob_def ScheduledTaskJob_def job_object_def StorefrontService_def AdminService_def
      service_object_def AdminPDB_def StorefrontPDB_def WorkerPDB_def pdb_object_def StoreIngress_def
      StoreHTTPRoute_def StoreHPA_def WorkerScaledObject_def scaled_object.defs set_Container_def Let_def)

section \<open>The frame of a reconcile\<close>

lemma like_namespace: "like s t \<Longrightarrow> st_Namespace t = st_Namespace s"
  by (simp add: like_def)

lemma like_may:
  assumes "like s t"
  shows "may_write t = may_write s" "deploys t = deploys s" "may_delete b t = may_delete b s"
proof -
  note eqs = assms[unfolded like_def]
  show W: "may_write t = may_write s" unfolding may_write_def using eqs by metis
  show D: "deploys t = deploys s" unfolding deploys_def using eqs by metis
  have eqs: "st_Status t = st_Status s" "sp_Worker (st_Spec t) = sp_Worker (st_Spec s)"
    "nw_EnabledIngress (sp_Network (st_Spec t)) = nw_EnabledIngress (sp_Network (st_Spec s))"
    "nw_EnabledGateway (sp_Network (st_Spec t)) = nw_EnabledGateway (sp_Network (st_Spec s))" using eqs by simp_all
  show "may_delete b t = may_delete b s" unfolding may_delete_def W D eqs by (rule refl)
qed

locale guarded_base = guarded "b_Client b" I W D ns
  for b :: "'w base" and I :: "'w \<Rightarrow> bool" and W D :: "kind set" and ns :: string +
  fixes cy :: "'w crypto"
  assumes event_ok: "preserves I (Eventf b s r t) (\<lambda>_. True)"
    and rand_int_ok: "preserves I (cy_RandInt cy m) (\<lambda>_. True)"
    and generate_key_ok: "preserves I (cy_GenerateKey cy n) (\<lambda>_. True)"
    and certificate_ok: "preserves I (cy_CreateCertificate cy k) (\<lambda>_. True)"
begin

lemma GetSecret_ok: "preserves I (GetSecret (b_Client b) n m) (\<lambda>_. True)"
  unfolding GetSecret_def by (rule read_ok[OF get_any]) simp

lemma GetDeployment_ok: "preserves I (GetDeployment (b_Client b) n m) (\<lambda>_. True)"
  unfolding GetDeployment_def by (rule read_ok[OF get_any]) simp

lemma update_changed_ok:
  assumes "allowed x" and "\<And>m y. allowed y \<Longrightarrow> preserves I (ensure (b_Client b) m y) (\<lambda>_. True)"
  shows "preserves I (update_changed b s t1 t2 r msg ensure x) (\<lambda>_. True)"
proof -
  have ens: "preserves I (ensure (b_Client b) m y \<bind> f) (\<lambda>_. True)"
    if "same_place x y" and "\<And>a. preserves I (f a) (\<lambda>_. True)" for m y f
    using that assms allowed_same by (intro read_ok) auto
  show ?thesis
    unfolding update_changed_def
    by (rule preserves_bind[OF HasObjectChanged_ok]) (auto intro!: read_ok[OF event_ok] ens split: sum.split prod.split)
qed

lemma update_loop_ok:
  assumes "\<And>x. x \<in> set xs \<Longrightarrow> preserves I (step x) (\<lambda>_. True)"
  shows "preserves I (update_loop step xs) (\<lambda>_. True)"
  using assms
proof (induction xs)
  case (Cons x xs)
  then show ?case by (auto intro!: read_ok split: option.split)
qed simp

lemma shared_update_loop_ok:
  assumes "\<And>x t. x \<in> set xs \<Longrightarrow> preserves I (step t (share_in t x)) (\<lambda>_. True)"
  shows "preserves I (shared_update_loop step xs s) (\<lambda>(_, t). like s t)"
  using assms
proof (induction xs arbitrary: s)
  case (Cons x xs)
  have rest: "preserves I (shared_update_loop step xs (share_out y s)) (\<lambda>(_, t). like s t)" for y
    by (rule preserves_weaken[OF Cons.IH]) (use Cons.prems like_trans[OF like_shared(1)] in auto)
  show ?case
    unfolding shared_update_loop.simps
    by (rule preserves_bind[OF Cons.prems[of x s]]) (auto simp: rest Let_def split: option.split)
qed simp

lemma in_order_ok:
  assumes "\<And>n f t. (n, f) \<in> set steps \<Longrightarrow> like s t \<Longrightarrow> preserves I (f t) (\<lambda>(_, u). like t u)" and "like s t"
  shows "preserves I (in_order steps t) (\<lambda>(_, u). like s u)"
  using assms
proof (induction steps arbitrary: t)
  case (Cons step steps)
  obtain n f where step: "step = (n, f)" by (cases step)
  have "preserves I (f t) (\<lambda>(_, u). like t u)" using Cons.prems(1)[of n f t] Cons.prems(2) step by simp
  moreover have "preserves I (case r of (e, u) \<Rightarrow> (case e of Some err \<Rightarrow> State_Monad.return (Some (Wrap n err), u)
      | None \<Rightarrow> in_order steps u)) (\<lambda>(_, u). like s u)" if r: "(\<lambda>(_, u). like t u) r" for r
  proof -
    obtain e u where "r = (e, u)" by (cases r)
    moreover from this r have u: "like s u" using like_trans[OF Cons.prems(2)] by simp
    moreover have "preserves I (in_order steps u) (\<lambda>(_, u). like s u)"
      by (rule Cons.IH[OF _ u]) (auto intro: Cons.prems(1)[OF list.set_intros(2)])
    ultimately show ?thesis by (cases e) simp_all
  qed
  ultimately show ?case unfolding step in_order.simps by (rule preserves_bind)
qed simp

lemma update_ok:
  assumes "allowed x"
  shows "preserves I (update_changed b s t1 t2 r msg (\<lambda>cl m. ensure_after k cl (Some m)) x) (\<lambda>_. True)"
  using assms by (rule update_changed_ok) (rule ensure_after_ok)

lemma ReconcileServices_ok:
  assumes "KService \<in> W" and "st_Namespace s = ns"
  shows "preserves I (ReconcileServices b s) (\<lambda>(_, t). like s t)"
proof -
  have "allowed (OService (StorefrontService s))" "allowed (OService (AdminService s))"
    using assms by (simp_all add: allowed_def)
  then show ?thesis
    unfolding ReconcileServices_def ensure_defs by (intro read_ok[OF update_loop_ok]) (auto intro: update_ok)
qed

lemma ReconcileIngress_ok:
  assumes "KIngress \<in> W" and "st_Namespace s = ns" and "\<not> nw_EnabledIngress (sp_Network (st_Spec s)) \<Longrightarrow> KIngress \<in> D"
  shows "preserves I (ReconcileIngress b s) (\<lambda>(_, t). like s t)"
proof -
  have "preserves I (DeleteStoreIngress (b_Client b) s) (\<lambda>_. True)" if "KIngress \<in> D"
    unfolding DeleteStoreIngress_def assms(2)
    by (rule preserves_bind[OF get_ok])
      (use that in \<open>auto simp: typed_def intro!: delete_ok split: sum.split kobj.split option.split\<close>)
  moreover have "allowed (OIngress (StoreIngress s))" using assms by (simp add: allowed_def)
  ultimately show ?thesis
    unfolding ReconcileIngress_def ensure_defs using assms(3) by (auto intro!: read_ok update_ok)
qed

lemma ReconcileHTTPRoute_ok:
  assumes "KHTTPRoute \<in> W" and "st_Namespace s = ns" and "\<not> nw_EnabledGateway (sp_Network (st_Spec s)) \<Longrightarrow> KHTTPRoute \<in> D"
  shows "preserves I (ReconcileHTTPRoute b s) (\<lambda>(_, t). like s t)"
proof -
  have "preserves I (DeleteStoreHTTPRoute (b_Client b) s) (\<lambda>_. True)" if "KHTTPRoute \<in> D"
    unfolding DeleteStoreHTTPRoute_def assms(2)
    by (rule preserves_bind[OF get_ok])
      (use that in \<open>auto simp: typed_def intro!: delete_ok split: sum.split kobj.split option.split\<close>)
  moreover have "allowed (OHTTPRoute (StoreHTTPRoute s))" using assms by (simp add: allowed_def)
  ultimately show ?thesis
    unfolding ReconcileHTTPRoute_def ensure_defs using assms(3) by (auto intro!: read_ok update_ok)
qed

lemma ReconcilePDB_ok:
  assumes "KPDB \<in> W" and "st_Namespace s = ns" and "wk_EnableKedaScaling (sp_Worker (st_Spec s)) \<Longrightarrow> KPDB \<in> D"
  shows "preserves I (ReconcilePDB b s) (\<lambda>(_, t). like s t)"
proof -
  let ?s1 = "PDB_shared s (sp_AdminDeploymentContainer (st_Spec s))"
  let ?s2 = "PDB_shared ?s1 (sp_StorefrontDeploymentContainer (st_Spec s))"
  let ?s3 = "PDB_shared ?s2 (sp_WorkerDeploymentContainer (st_Spec s))"
  have like: "like s ?s2" "like s ?s3" using like_trans like_shared(4) by metis+
  have ns: "st_Namespace ?s1 = ns" "st_Namespace ?s2 = ns"
    using assms(2) by (simp_all add: PDB_shared_def set_Container_def)
  have ok: "allowed (OPDB (AdminPDB s))" "allowed (OPDB (StorefrontPDB ?s1))" "allowed (OPDB (WorkerPDB ?s2))"
    using assms(1,2) ns by (simp_all add: allowed_def)
  have del: "preserves I (cl_Delete (b_Client b) (OPDB (WorkerPDB ?s2))) (\<lambda>_. True)" if "wk_EnableKedaScaling (sp_Worker (st_Spec s))"
    using that assms(3) ns by (intro delete_ok) simp_all
  show ?thesis
    unfolding ReconcilePDB_def Let_def ensure_defs
    using ok like(2) del by (auto intro!: read_ok update_ok update_loop_ok split: option.split)
qed

lemma job_ok:
  assumes "KJob \<in> W" and "KJob \<in> D" and "st_Namespace s = ns"
  shows "preserves I (ReconcileSetupJob b s) (\<lambda>(_, t). like s t)" "preserves I (ReconcileMigrationJob b s) (\<lambda>(_, t). like s t)"
proof -
  have "allowed (OJob (SetupJob (b_OperatorServiceURL b) s))" "allowed (OJob (MigrationJob (b_OperatorServiceURL b) s))"
    using assms by (simp_all add: allowed_def)
  then show "preserves I (ReconcileSetupJob b s) (\<lambda>(_, t). like s t)" "preserves I (ReconcileMigrationJob b s) (\<lambda>(_, t). like s t)"
    unfolding ReconcileSetupJob_def ReconcileMigrationJob_def ensure_defs by (auto intro!: read_ok[OF update_ok])
qed

lemma ReconcileScheduledTask_ok:
  assumes "KCronJob \<in> W" and "st_Namespace s = ns"
  shows "preserves I (ReconcileScheduledTask b s) (\<lambda>(_, t). like s t)"
proof -
  have "allowed (OCronJob (ScheduledTaskJob (b_OperatorServiceURL b) s))" using assms by (simp add: allowed_def)
  moreover have "like s (share_out x (ScheduledTaskJob_shared s))" for x using like_trans like_shared by metis
  ultimately show ?thesis
    unfolding ReconcileScheduledTask_def Let_def ensure_defs by (auto intro!: read_ok[OF update_ok])
qed

lemma ReconcileHorizontalPodAutoscaler_ok:
  assumes "KHPA \<in> W" and "st_Namespace s = ns"
  shows "preserves I (ReconcileHorizontalPodAutoscaler b s) (\<lambda>(_, t). like s t)"
proof -
  have "allowed (OHPA (StoreHPA (b_OperatorServiceURL b) s))" using assms by (simp add: allowed_def)
  moreover have "like s (share_hpa y (share_out x s))" for x y using like_trans like_shared by metis
  ultimately show ?thesis
    unfolding ReconcileHorizontalPodAutoscaler_def Let_def ensure_defs by (auto intro!: read_ok[OF update_ok])
qed

lemma list_typed_ok:
  assumes "\<And>x d. p x = Some d \<Longrightarrow> x = g d"
  shows "preserves I (do { r \<leftarrow> cl_List (b_Client b) k n l; State_Monad.return (typed_items p r) })
    (\<lambda>r. \<forall>ds. r = Inr ds \<longrightarrow> (\<forall>d\<in>set ds. obj_kind (g d) = k \<and> m_Namespace (obj_meta (g d)) = n))"
proof (rule preserves_bind[OF list_ok])
  fix r :: "kobj list result" assume r: "\<forall>xs. r = Inr xs \<longrightarrow> (\<forall>x\<in>set xs. obj_kind x = k \<and> m_Namespace (obj_meta x) = n)"
  have "g d \<in> set xs" if "typed_list p xs = Inr ds" "d \<in> set ds" for xs ds d
    using that assms by (induction xs arbitrary: ds) (auto split: option.splits sum.splits)
  then show "preserves I (State_Monad.return (typed_items p r))
      (\<lambda>r. \<forall>ds. r = Inr ds \<longrightarrow> (\<forall>d\<in>set ds. obj_kind (g d) = k \<and> m_Namespace (obj_meta (g d)) = n))"
    using r by (auto simp: typed_items_def split: sum.splits)
qed

lemma cleanup_ok:
  assumes "st_Namespace s = ns"
  shows "KDeployment \<in> D \<Longrightarrow> preserves I (CleanupObsoleteWorkerDeployments (b_Client b) url s) (\<lambda>_. True)"
    and "KScaledObject \<in> D \<Longrightarrow> preserves I (CleanupObsoleteWorkerScaledObjects (b_Client b) s) (\<lambda>_. True)"
proof -
  have deps: "preserves I (ListDeployments (b_Client b) n l)
    (\<lambda>r. \<forall>ds. r = Inr ds \<longrightarrow> (\<forall>d\<in>set ds. obj_kind (ODeployment d) = KDeployment \<and> m_Namespace (obj_meta (ODeployment d)) = n))" for n l
    unfolding ListDeployments_def by (rule list_typed_ok) (simp split: kobj.splits)
  have objs: "preserves I (ListScaledObjects (b_Client b) n l)
    (\<lambda>r. \<forall>ds. r = Inr ds \<longrightarrow> (\<forall>d\<in>set ds. obj_kind (OScaledObject d) = KScaledObject \<and> m_Namespace (obj_meta (OScaledObject d)) = n))" for n l
    unfolding ListScaledObjects_def by (rule list_typed_ok) (simp split: kobj.splits)
  show "preserves I (CleanupObsoleteWorkerDeployments (b_Client b) url s) (\<lambda>_. True)" if "KDeployment \<in> D"
    unfolding CleanupObsoleteWorkerDeployments_def assms Let_def
    by (cases "WorkerDeployments url s"; simp)
      (rule preserves_bind[OF deps], use that in \<open>auto intro!: cleanup_loop_ok split: sum.split\<close>)
  show "preserves I (CleanupObsoleteWorkerScaledObjects (b_Client b) s) (\<lambda>_. True)" if "KScaledObject \<in> D"
    unfolding CleanupObsoleteWorkerScaledObjects_def assms
    by (rule preserves_bind[OF objs]) (use that in \<open>auto intro!: cleanup_loop_ok split: sum.split\<close>)
qed

lemma ReconcileDeployment_ok:
  assumes "KDeployment \<in> W" and "st_Namespace s = ns" and "qc_Error (ss_QueueState (st_Status s)) = [] \<Longrightarrow> KDeployment \<in> D"
  shows "preserves I (ReconcileDeployment b s) (\<lambda>(_, t). like s t)"
proof (cases "WorkerDeployments (b_OperatorServiceURL b) s")
  case (Inr workers)
  let ?url = "b_OperatorServiceURL b"
  let ?s1 = "fold share_out (map ODeployment workers) s"
  let ?sf = "ODeployment (StorefrontDeployment ?url ?s1)"
  let ?s2 = "share_out ?sf ?s1"
  let ?ad = "ODeployment (AdminDeployment ?url ?s2)"
  let ?s3 = "share_out ?ad ?s2"
  have like: "like s ?s1" "like s ?s2" "like s ?s3" using like_trans like_shared(1) like_fold by metis+
  have "m_Namespace (d_Meta d) = ns" if "d \<in> set workers" for d
    using Inr that assms(2) by (auto simp: WorkerDeployments_def Let_def split: if_splits)
  then have all: "allowed x" if "x \<in> set ([?sf, ?ad] @ map ODeployment workers)" for x
    using that assms(1,2) like_namespace[OF like(1)] like_namespace[OF like(2)] by (auto simp: allowed_def)
  have "same_place x (share_in t x)" for t x by (simp add: share_in_def split: option.split)
  then have loop: "preserves I (shared_update_loop (\<lambda>s x. update_changed b s t1 t2 r (f s x) EnsureDeployment x)
      ([?sf, ?ad] @ map ODeployment workers) ?s3) (\<lambda>(_, t). like ?s3 t)" for t1 t2 r f
    unfolding ensure_defs by (intro shared_update_loop_ok update_ok) (use allowed_same all in blast)
  have clean: "preserves I (CleanupObsoleteWorkerDeployments (b_Client b) ?url t) (\<lambda>_. True)"
    if "like s t" "qc_Error (ss_QueueState (st_Status t)) = []" for t
    using that assms by (intro cleanup_ok) (simp_all add: like_def)
  have step: "like s t" "like s (fold share_out xs t)" if "like ?s3 t" for t xs
    using that like_trans like like_fold by metis+
  show ?thesis
    unfolding ReconcileDeployment_def Inr sum.case Let_def
    by (rule preserves_bind[OF loop]) (auto intro!: read_ok[OF clean] simp: step split: option.split sum.split)
qed (simp add: ReconcileDeployment_def)

lemma ReconcileScaledObjects_ok:
  assumes "KScaledObject \<in> W" and "st_Namespace s = ns"
    and "b_EnableKeda b \<Longrightarrow> \<not> wk_EnableKedaScaling (sp_Worker (st_Spec s)) \<Longrightarrow> KScaledObject \<in> D"
  shows "preserves I (ReconcileScaledObjects b s) (\<lambda>(_, t). like s t)"
proof -
  have loop: "preserves I (scaled_object_loop b s objs) (\<lambda>_. True)"
    if "\<forall>x\<in>set objs. allowed (OScaledObject x)" for objs
    using that
  proof (induction objs)
    case (Cons x xs)
    have ens: "preserves I (EnsureObjectWithHash (b_Client b) m y \<bind> f) (\<lambda>_. True)"
      if "same_place (OScaledObject x) y" "\<And>a. preserves I (f a) (\<lambda>_. True)" for m y f
      using that Cons.prems allowed_same by (intro read_ok EnsureObjectWithHash_ok) auto
    show ?case
      unfolding scaled_object_loop.simps
      using Cons by (auto intro!: read_ok[OF GetDeployment_ok] preserves_bind[OF HasObjectChanged_ok] read_ok[OF event_ok] ens
          split: sum.split option.split prod.split)
  qed simp
  have "\<forall>x\<in>set objs. m_Namespace (so_Meta x) = st_Namespace s" if "scaled_loop s u qs = Inr objs" for u qs objs
    using that by (induction qs arbitrary: objs) (auto split: if_splits sum.splits)
  then have objs: "\<forall>x\<in>set objs. allowed (OScaledObject x)" if "WorkerScaledObjects s u = Inr objs" for u objs
    using that assms(1,2) unfolding WorkerScaledObjects_def by (simp add: allowed_def)
  show ?thesis
    unfolding ReconcileScaledObjects_def
    using assms objs cleanup_ok(2)[OF assms(2)] by (auto intro!: read_ok loop split: sum.split)
qed

lemma generate_ok: "preserves I (generatePass cy n) (\<lambda>_. True)"
  by (induction n) (auto intro!: read_ok[OF rand_int_ok] read_ok split: sum.split)

lemma GenerateStoreSecret_ok:
  "preserves I (GenerateStoreSecret cy s sec db op fi ft ap) (\<lambda>_. True)"
proof -
  have "preserves I (app_secret_step cy d) (\<lambda>_. True)" "preserves I (admin_password_step cy s ap d) (\<lambda>_. True)" for d
    by (auto simp: app_secret_step_def admin_password_step_def Let_def intro!: read_ok[OF generate_ok])
  moreover have "preserves I (jwt_step cy d) (\<lambda>_. True)" for d
    by (auto simp: jwt_step_def generatePrivatePublicKey_def generatePublicKey_def
        intro!: read_ok read_ok[OF generate_key_ok] read_ok[OF certificate_ok] split: sum.split)
  ultimately show ?thesis unfolding GenerateStoreSecret_def by (auto intro!: read_ok split: sum.split)
qed

lemma on_success_ok:
  assumes "preserves I m (\<lambda>_. True)" and "\<And>a. preserves I (f a) Q" and "\<And>e. Q (Inl e)"
  shows "preserves I (on_success m f) Q"
  unfolding on_success_def by (rule read_ok[OF assms(1)]) (auto simp: assms(2,3) split: sum.split)

lemma EnsureAppSecrets_ok:
  assumes "KSecret \<in> W" and "st_Namespace s = ns"
  shows "preserves I (EnsureAppSecrets b cy s) (\<lambda>_. True)"
proof -
  have refs: "preserves I (read_referenced b s en ref r t) (\<lambda>_. True)" for en ref r t
    by (auto simp: read_referenced_def intro!: read_ok[OF GetSecret_ok] read_ok[OF event_ok] split: sum.split)
  have admin: "preserves I (read_admin_password b s) (\<lambda>_. True)"
    by (auto simp: read_admin_password_def getSecretValue_def Let_def intro!: read_ok[OF GetSecret_ok])
  have "preserves I (GetDBSpec (b_Client b) s) (\<lambda>_. True)"
    by (auto simp: GetDBSpec_def db_host_def Let_def intro!: read_ok[OF GetSecret_ok] read_ok split: sum.split option.split)
  then have db: "preserves I (read_db_spec b s) (\<lambda>_. True)"
    by (auto simp: read_db_spec_def intro!: read_ok read_ok[OF event_ok] split: sum.split)
  have old: "preserves I (read_store_secret (b_Client b) s) (\<lambda>_. True)"
    by (auto simp: read_store_secret_def intro!: read_ok[OF GetSecret_ok])
  have "preserves I (EnsureStoreSecret b cy s) (\<lambda>r. \<forall>sec. r = Inr sec \<longrightarrow> m_Namespace (s_Meta sec) = ns)"
    unfolding EnsureStoreSecret_def Let_def
    by (cases "validateStoreSecret s"; simp; intro on_success_ok[OF refs] on_success_ok[OF admin] on_success_ok[OF db]
        on_success_ok[OF old] read_ok[OF GenerateStoreSecret_ok]) (auto simp: assms(2) split: sum.splits)
  then show ?thesis
    unfolding EnsureAppSecrets_def
    by (rule preserves_bind) (use assms(1) in \<open>auto intro!: read_ok[OF EnsureObjectWithHash_ok] simp: allowed_def split: sum.split\<close>)
qed

lemma init_ok:
  assumes "W = may_write s" and "D = may_delete b s" and "ns = st_Namespace s"
  shows "preserves I (reconcileInitResources b s) (\<lambda>(_, t). like s t)"
proof -
  have kinds: "{KIngress, KHTTPRoute, KPDB} \<subseteq> W" by (simp add: assms(1) may_write_def)
  have D: "may_delete b t = D" "st_Namespace t = ns" if "like s t" for t
    using like_may[OF that] like_namespace[OF that] assms by simp_all
  have "\<not> nw_EnabledIngress (sp_Network (st_Spec t)) \<Longrightarrow> KIngress \<in> D"
    "\<not> nw_EnabledGateway (sp_Network (st_Spec t)) \<Longrightarrow> KHTTPRoute \<in> D"
    "wk_EnableKedaScaling (sp_Worker (st_Spec t)) \<Longrightarrow> KPDB \<in> D" if "like s t" for t
    unfolding D(1)[OF that, symmetric] by (simp_all add: may_delete_def)
  then show ?thesis
    unfolding reconcileInitResources_def using kinds D(2)
    by (intro in_order_ok) (auto intro!: ReconcileIngress_ok ReconcileHTTPRoute_ok ReconcilePDB_ok)
qed

lemma deploy_ok:
  assumes "W = may_write s" and "D = may_delete b s" and "ns = st_Namespace s" and "deploys s" and "like s t"
  shows "preserves I (ReconcileDeployment b t) (\<lambda>(_, u). like t u)" "preserves I (ReconcileScaledObjects b t) (\<lambda>(_, u). like t u)"
proof -
  have D: "D = may_delete b t" "deploys t" "st_Namespace t = ns"
    using like_may(1,2)[OF assms(5)] like_may(3)[OF assms(5), of b] like_namespace[OF assms(5)] assms by simp_all
  have "KDeployment \<in> W" "KScaledObject \<in> W" using assms(1,4) by (auto simp: may_write_def deploys_def)
  then show "preserves I (ReconcileDeployment b t) (\<lambda>(_, u). like t u)" "preserves I (ReconcileScaledObjects b t) (\<lambda>(_, u). like t u)"
    using D by (auto intro!: ReconcileDeployment_ok ReconcileScaledObjects_ok simp: may_delete_def)
qed

lemma handler_ok:
  assumes "W = may_write s" and "D = may_delete b s" and "ns = st_Namespace s"
    and "resource_managers b (ss_State (st_Status s)) = Some handler"
  shows "preserves I (handler s) (\<lambda>(_, t). like s t)"
proof -
  have N: "st_Namespace t = ns" if "like s t" for t using like_namespace[OF that] assms by simp
  have jobs: "preserves I (ReconcileSetupJob b t) (\<lambda>(_, u). like t u)" "preserves I (ReconcileMigrationJob b t) (\<lambda>(_, u). like t u)"
    if "KJob \<in> W" "like s t" for t
    using that N assms(1,2) by (auto intro!: job_ok simp: may_delete_def)
  have task: "preserves I (ReconcileScheduledTask b (suspend_tasks t)) (\<lambda>(_, u). like t u)"
    "preserves I (ReconcileScheduledTask b t) (\<lambda>(_, u). like t u)" if "KCronJob \<in> W" "like s t" for t
    using that N like_trans[OF like_shared(6)]
    by (auto intro!: ReconcileScheduledTask_ok preserves_weaken[OF ReconcileScheduledTask_ok] simp: suspend_tasks_def) 
  note deploy = deploy_ok[OF assms(1-3)]
  have rest: "preserves I (ReconcileServices b t) (\<lambda>(_, u). like t u)" "preserves I (ReconcileHorizontalPodAutoscaler b t) (\<lambda>(_, u). like t u)"
    if "KService \<in> W" "KHPA \<in> W" "like s t" for t
    using that N by (auto intro!: ReconcileServices_ok ReconcileHorizontalPodAutoscaler_ok)
  consider "handler = wait_ResourceHandler b"
    | "handler = setup_ResourceHandler b" "KJob \<in> W"
    | "handler = initializing_ResourceHandler b" "deploys s"
    | "handler = migration_ResourceHandler b" "KJob \<in> W" "KCronJob \<in> W"
    | "handler = ready_ResourceHandler b" "ss_CurrentImageTag (st_Status s) \<noteq> cs_Image (st_Container s)" "KJob \<in> W"
    | "handler = ready_ResourceHandler b" "ss_CurrentImageTag (st_Status s) = cs_Image (st_Container s)" "deploys s"
      "KService \<in> W" "KHPA \<in> W" "KCronJob \<in> W"
    using assms(1,4) by (cases "ss_State (st_Status s)") (auto simp: may_write_def deploys_def split: if_splits)
  then show ?thesis
  proof cases
    case 1
    then show ?thesis by (simp add: wait_ResourceHandler_def)
  next
    case 2
    then show ?thesis unfolding setup_ResourceHandler_def by (auto simp del: in_order.simps intro!: in_order_ok jobs)
  next
    case 3
    then show ?thesis unfolding initializing_ResourceHandler_def by (auto simp del: in_order.simps intro!: in_order_ok deploy)
  next
    case 4
    then show ?thesis unfolding migration_ResourceHandler_def by (auto simp del: in_order.simps intro!: in_order_ok jobs task)
  next
    case 5
    then show ?thesis unfolding ready_ResourceHandler_def by (auto simp del: in_order.simps intro!: in_order_ok jobs)
  next
    case 6
    then show ?thesis
      unfolding ready_ResourceHandler_def by (auto simp del: in_order.simps intro!: in_order_ok deploy rest task)
  qed
qed

lemma ReconcileResources_ok:
  assumes "W = may_write s" and "D = may_delete b s" and "ns = st_Namespace s"
  shows "preserves I (ReconcileResources b cy s) (\<lambda>_. True)"
proof -
  have secrets: "preserves I (EnsureAppSecrets b cy t) (\<lambda>_. True)" if "like s t" "\<not> IsState t [StateEmpty, StateWait]" for t
  proof (rule EnsureAppSecrets_ok)
    have "ss_State (st_Status t) = ss_State (st_Status s)" using that(1) by (simp add: like_def)
    then show "KSecret \<in> W" using that(2) assms(1) by (cases "ss_State (st_Status s)") (simp_all add: IsState_def may_write_def)
    show "st_Namespace t = ns" using like_namespace[OF that(1)] assms(3) by simp
  qed
  have "preserves I (h t) (\<lambda>_. True)" if "like s t" "resource_managers b (ss_State (st_Status t)) = Some h" for t h
    by (rule preserves_any[OF handler_ok])
      (use like_may(1)[OF that(1)] like_may(3)[OF that(1), of b] like_namespace[OF that(1)] assms that(2) in simp_all)
  then have handlers: "preserves I (case resource_managers b (ss_State (st_Status t)) of
      None \<Rightarrow> State_Monad.return (None, t) | Some h \<Rightarrow> h t) (\<lambda>_. True)" if "like s t" for t
    using that by (simp split: option.split)
  show ?thesis
    unfolding ReconcileResources_def
  proof (rule preserves_bind[OF init_ok[OF assms]], goal_cases)
    case (1 a)
    then obtain e t where a: "a = (e, t)" and t: "like s t" by (cases a) simp
    have after: "preserves I (case e of None \<Rightarrow> (case resource_managers b (ss_State (st_Status t)) of
        None \<Rightarrow> State_Monad.return (None, t) | Some h \<Rightarrow> h t) | Some err \<Rightarrow> State_Monad.return (Some (Wrap ''app secrets'' err), t))
        (\<lambda>_. True)" for e using handlers[OF t] by (cases e) simp_all
    show ?case
      unfolding a using read_ok[OF secrets[OF t] after] by (cases e) simp_all
  qed
qed

end

text \<open>
  On the concrete client: what is not of one of the kinds, or in another namespace, is the same
  before and after.
\<close>

definition outside :: "kind set \<Rightarrow> string \<Rightarrow> cluster \<Rightarrow> cluster" where
  "outside K ns w = filter (\<lambda>x. \<not> (obj_kind x \<in> K \<and> m_Namespace (obj_meta x) = ns)) w"

definition map_base :: "cluster base" where
  "map_base = \<lparr>b_Client = map_client None, b_OperatorServiceURL = [], b_DisableServiceChecks = False, b_EnableKeda = True,
     b_HasClientset = False, b_OperatorMetricsURL = [], b_Recorder = None, b_EventHandlers = [],
     b_AppendCertsFromPEM = (\<lambda>_. True), b_X509KeyPair = (\<lambda>_ _. None),
     b_Ping = (\<lambda>_. State_Monad.return PingOK),
     b_Minio = \<lparr>mi_IPLiteral = Inl, mi_New = (\<lambda>_ _. None), mi_ListBuckets = (\<lambda>_ _ _ _. State_Monad.return (Inr []))\<rparr>,
     b_ExecInPod = (\<lambda>_ _ _ _. State_Monad.return ([], [], None)),
      b_Gauges = \<lparr>g_Set = (\<lambda>_ _ _. State_Monad.return ()), g_DeletePartialMatch = (\<lambda>_ _. State_Monad.return ())\<rparr>\<rparr>"

definition map_crypto :: "cluster crypto" where
  "map_crypto = \<lparr>cy_RandInt = (\<lambda>m. State_Monad.return (Inr (m - 1))),
     cy_GenerateKey = (\<lambda>n. State_Monad.return (Inr ''key'')),
     cy_CreateCertificate = (\<lambda>k. State_Monad.return (Inr ''cert''))\<rparr>"

interpretation rest: guarded_base map_base "\<lambda>w. outside (W \<union> D) ns w = L" W D ns map_crypto
proof
  note run = map_base_def map_client_def map_crypto_def preserves_def run_simps
  have drop: "outside (W \<union> D) ns (filter (\<lambda>y. \<not> same_object x y) w) = outside (W \<union> D) ns w"
    if "obj_kind x \<in> W \<union> D" "m_Namespace (obj_meta x) = ns" for x w
    using that by (auto simp: outside_def same_object_def filter_filter intro!: filter_cong)
  let ?I = "\<lambda>w. outside (W \<union> D) ns w = L"
  show "preserves ?I (cl_Get (b_Client map_base) k n m) (\<lambda>r. \<forall>x. r = Inr x \<longrightarrow> obj_kind x = k \<and> m_Namespace (obj_meta x) = n)" for k n m
    by (auto simp: run cluster_get_def find_Some_iff split: option.splits)
  show "preserves ?I (cl_List (b_Client map_base) k n l)
     (\<lambda>r. \<forall>xs. r = Inr xs \<longrightarrow> (\<forall>x\<in>set xs. obj_kind x = k \<and> m_Namespace (obj_meta x) = n))" for k n l
    by (auto simp: run)
  show "preserves ?I (cl_Create (b_Client map_base) x) (\<lambda>_. True)" if "obj_kind x \<in> W" "m_Namespace (obj_meta x) = ns" for x
    using that by (simp add: run) (simp add: outside_def)
  show "preserves ?I (cl_Patch (b_Client map_base) old x) (\<lambda>_. True)" if "obj_kind x \<in> W" "m_Namespace (obj_meta x) = ns" for x old
    using that drop[of x] by (simp add: run) (simp add: outside_def)
  show "preserves ?I (cl_Delete (b_Client map_base) x) (\<lambda>_. True)" if "obj_kind x \<in> D" "m_Namespace (obj_meta x) = ns" for x
    using that drop[of x] by (simp add: run)
  show "same_place x y" if "cl_SetControllerReference (b_Client map_base) o' x = Inr y" for o' x y
    using that by (simp add: run)
qed (simp_all add: map_base_def map_client_def map_crypto_def preserves_def run_simps Eventf_def)

section \<open>Properties\<close>

text \<open>
  C3: Which objects a reconcile of the resources touches. Whatever holds of the cluster and survives
  reading, and survives creating and changing objects of the kinds \<open>may_write s\<close> and deleting
  objects of the kinds \<open>may_delete b s\<close>, both in the namespace of the Store, still holds afterwards,
  whether the reconcile fails or not. In particular a waiting Store only has its ingress, its route
  and its disruption budgets reconciled, workloads are only written in the states they belong to,
  deployments are only deleted when the queues could be read, and other namespaces are left alone.
\<close>

theorem ReconcileResources_frame:
  assumes "guarded_base b I (may_write s) (may_delete b s) (st_Namespace s) cy" and "I w"
  shows "I (snd (run_state (ReconcileResources b cy s) w))"
  using guarded_base.ReconcileResources_ok[OF assms(1) refl refl refl] assms(2) by (rule preservesD)

theorem ReconcileResources_frame_witness:
  "filter (\<lambda>x. \<not> (obj_kind x \<in> {KIngress, KHTTPRoute, KPDB} \<and> m_Namespace (obj_meta x) = []))
     (snd (run_state (ReconcileResources map_base map_crypto zero_store) [OPod ex_pod, OSecret empty_secret])) =
   [OPod ex_pod, OSecret empty_secret]"
proof -
  have kinds: "may_write zero_store \<union> may_delete map_base zero_store = {KIngress, KHTTPRoute, KPDB}"
    by (auto simp: may_write_def may_delete_def deploys_def zero_store_def zero_store_spec_def zero_store_status_def)
  have ns: "st_Namespace zero_store = []" by (simp add: zero_store_def empty_meta_def)
  have "outside (may_write zero_store \<union> may_delete map_base zero_store) (st_Namespace zero_store) [OPod ex_pod, OSecret empty_secret] =
      [OPod ex_pod, OSecret empty_secret]" unfolding kinds by (simp add: outside_def)
  from ReconcileResources_frame[OF rest.guarded_base_axioms[of _ _ _ "[OPod ex_pod, OSecret empty_secret]"], OF this]
  show ?thesis unfolding kinds ns by (simp add: outside_def)
qed

end
