(* ===== verification/Reconciler.thy ===== *)
theory Reconciler
  imports BaseResources
begin

text \<open>
  What the controllers of \<open>internal/controller\<close> share: the reconciler's fields, requeue times, and
  the frame of code that also records events and writes the status of a custom resource.
\<close>

section \<open>Reconcilers\<close>

text \<open>
  What the reconcilers of the other custom resources hold: the client, the address that the builders
  put into the environment, the event recorder (the object, reason and message), the event handlers,
  and the JSON encoding of a Store's status.
\<close>

record 'w reconciler =
  rc_Client :: "'w client"
  rc_OperatorServiceURL :: string
  rc_Recorder :: "kobj \<Rightarrow> string \<Rightarrow> string \<Rightarrow> ('w, unit) state"
  rc_EventHandlers :: "(event_data \<Rightarrow> ('w, goerr option) state) list"
  rc_MarshalStatus :: "store_status \<Rightarrow> string result"

definition seconds :: "int \<Rightarrow> int" where
  "seconds n = n * 1000000000"

definition noRequeue :: int where
  "noRequeue = 0"

definition shortRequeue :: int where
  "shortRequeue = seconds 5"

definition apiFailedRequeue :: int where
  "apiFailedRequeue = seconds 20"

definition longRequeue :: int where
  "longRequeue = seconds (15 * 60)"

text \<open>\<open>time.Until\<close> of a point in time.\<close>

definition until :: "int \<Rightarrow> gotime \<Rightarrow> int" where
  "until t now = t - (case now of None \<Rightarrow> 0 | Some n \<Rightarrow> n)"

text \<open>
  The step that the controllers repeat for each object: test whether it changed, record an event on
  an object, apply it with an owner. \<open>checkText\<close> and \<open>applyText\<close> wrap the errors.
\<close>

definition apply_changed ::
  "'w reconciler \<Rightarrow> kobj \<Rightarrow> string \<Rightarrow> string \<Rightarrow> string \<Rightarrow> string \<Rightarrow> 'w ensure \<Rightarrow> object_meta \<Rightarrow> kobj \<Rightarrow> ('w, goerr option) state" where
  "apply_changed rc about reason msg checkText applyText ensure owner obj = do {
     (c, obj) \<leftarrow> HasObjectChanged (rc_Client rc) obj;
     (case c of
        Inl e \<Rightarrow> State_Monad.return (Some (Wrap checkText e))
      | Inr changed \<Rightarrow>
          if changed then do {
            _ \<leftarrow> rc_Recorder rc about reason msg;
            (e, _) \<leftarrow> ensure (rc_Client rc) owner obj;
            State_Monad.return (map_option (Wrap applyText) e) }
          else State_Monad.return None) }"

locale guarded_reconciler = guarded "rc_Client rc" I W D ns
  for rc :: "'w reconciler" and I :: "'w \<Rightarrow> bool" and W D :: "kind set" and ns :: string +
  fixes S :: "kind set"
  assumes recorder_ok: "preserves I (rc_Recorder rc x r t) (\<lambda>_. True)"
    and handlers_ok: "h \<in> set (rc_EventHandlers rc) \<Longrightarrow> preserves I (h e) (\<lambda>_. True)"
    and now_ok: "preserves I (cl_Now (rc_Client rc)) (\<lambda>_. True)"
    and status_ok: "obj_kind x \<in> S \<Longrightarrow> m_Namespace (obj_meta x) = ns \<Longrightarrow> preserves I (cl_StatusUpdate (rc_Client rc) x) (\<lambda>_. True)"
    and retry_ok: "preserves I m (\<lambda>_. True) \<Longrightarrow> preserves I (cl_RetryOnConflict (rc_Client rc) m) (\<lambda>_. True)"
begin

lemma apply_changed_ok:
  assumes "allowed x"
  shows "preserves I (apply_changed rc about r t t1 t2 (\<lambda>cl m. ensure_after k cl (Some m)) owner x) (\<lambda>_. True)"
proof -
  have ens: "preserves I (ensure_after k (rc_Client rc) m y \<bind> f) (\<lambda>_. True)"
    if "same_place x y" and "\<And>a. preserves I (f a) (\<lambda>_. True)" for m y f
    using that assms allowed_same by (intro read_ok ensure_after_ok) auto
  show ?thesis
    unfolding apply_changed_def
    by (rule preserves_bind[OF HasObjectChanged_ok]) (auto intro!: read_ok[OF recorder_ok] ens split: sum.split prod.split)
qed

lemma ListPods_any: "preserves I (ListPods (rc_Client rc) n l) (\<lambda>_. True)"
  unfolding ListPods_def by (rule preserves_bind[OF preserves_any[OF list_ok]]) simp

lemma IsJobContainerDone_ok: "preserves I (IsJobContainerDone (rc_Client rc) j n) (\<lambda>_. True)"
proof -
  have "preserves I (containers_loop (rc_Client rc) j' n cs errs) (\<lambda>_. True)" for j' cs errs
    by (induction cs arbitrary: errs) (auto intro!: read_ok[OF ListPods_any] split: sum.split prod.split option.split)
  then show ?thesis
    unfolding IsJobContainerDone_def by (auto intro!: read_ok split: option.split)
qed

lemma GetJob_ok: "preserves I (GetJob (rc_Client rc) n m) (\<lambda>_. True)"
  unfolding GetJob_def by (rule read_ok[OF get_any]) simp

lemma k8s_GetStore_ok: "preserves I (k8s_GetStore (rc_Client rc) n m) (\<lambda>_. True)"
  unfolding k8s_GetStore_def by (rule read_ok[OF get_any]) simp

text \<open>Reading an object and writing its status back.\<close>

lemma write_status_ok:
  assumes "k \<in> S" and "n = ns" and "\<And>x d. p x = Some d \<Longrightarrow> same_place x (upd d)"
  shows "preserves I (cl_RetryOnConflict (rc_Client rc) (do {
      r \<leftarrow> cl_Get (rc_Client rc) k n m;
      (case typed p r of Inl e \<Rightarrow> State_Monad.return (Some (Wrap t e)) | Inr cr \<Rightarrow> cl_StatusUpdate (rc_Client rc) (upd cr)) })) (\<lambda>_. True)"
  by (rule retry_ok, rule preserves_bind[OF get_ok])
    (use assms in \<open>auto simp: typed_def same_place_def intro!: status_ok split: sum.split option.split\<close>)

end

text \<open>On the concrete client, as for \<open>guarded_base\<close>.\<close>

definition map_reconciler :: "gotime \<Rightarrow> cluster reconciler" where
  "map_reconciler now = \<lparr>rc_Client = map_client now, rc_OperatorServiceURL = [],
     rc_Recorder = (\<lambda>_ _ _. State_Monad.return ()), rc_EventHandlers = [], rc_MarshalStatus = (\<lambda>_. Inr [])\<rparr>"

lemma outside_same_object:
  assumes "obj_kind x \<in> K" "m_Namespace (obj_meta x) = ns"
  shows "outside K ns (filter (\<lambda>y. \<not> same_object x y) w) = outside K ns w"
  using assms by (auto simp: outside_def same_object_def filter_filter intro!: filter_cong)

interpretation mr: guarded_reconciler "map_reconciler now" "\<lambda>w. outside (W \<union> D \<union> S) ns w = L" W D ns S
proof
  note run = map_reconciler_def map_client_def preserves_def run_simps
  let ?I = "\<lambda>w. outside (W \<union> D \<union> S) ns w = L"
  show "preserves ?I (cl_Get (rc_Client (map_reconciler now)) k n m) (\<lambda>r. \<forall>x. r = Inr x \<longrightarrow> obj_kind x = k \<and> m_Namespace (obj_meta x) = n)" for k n m
    by (auto simp: run cluster_get_def find_Some_iff split: option.splits)
  show "preserves ?I (cl_List (rc_Client (map_reconciler now)) k n l)
     (\<lambda>r. \<forall>xs. r = Inr xs \<longrightarrow> (\<forall>x\<in>set xs. obj_kind x = k \<and> m_Namespace (obj_meta x) = n))" for k n l
    by (auto simp: run)
  show "preserves ?I (cl_Create (rc_Client (map_reconciler now)) x) (\<lambda>_. True)" if "obj_kind x \<in> W" "m_Namespace (obj_meta x) = ns" for x
    using that by (simp add: run) (simp add: outside_def)
  show "preserves ?I (cl_Patch (rc_Client (map_reconciler now)) old x) (\<lambda>_. True)" if "obj_kind x \<in> W" "m_Namespace (obj_meta x) = ns" for x old
    using that outside_same_object[of x "W \<union> D \<union> S" ns] by (simp add: run) (simp add: outside_def)
  show "preserves ?I (cl_Delete (rc_Client (map_reconciler now)) x) (\<lambda>_. True)" if "obj_kind x \<in> D" "m_Namespace (obj_meta x) = ns" for x
    using that outside_same_object[of x "W \<union> D \<union> S" ns] by (simp add: run)
  show "preserves ?I (cl_StatusUpdate (rc_Client (map_reconciler now)) x) (\<lambda>_. True)" if "obj_kind x \<in> S" "m_Namespace (obj_meta x) = ns" for x
    using that outside_same_object[of x "W \<union> D \<union> S" ns] by (simp add: run) (simp add: outside_def)
  show "same_place x y" if "cl_SetControllerReference (rc_Client (map_reconciler now)) o' x = Inr y" for o' x y
    using that by (simp add: run)
  show "preserves ?I (cl_RetryOnConflict (rc_Client (map_reconciler now)) m) (\<lambda>_. True)" if "preserves ?I m (\<lambda>_. True)" for m
    using that by (simp add: map_reconciler_def map_client_def)
qed (simp_all add: map_reconciler_def map_client_def preserves_def run_simps)

end
