(* ===== verification/Trigger.thy ===== *)
theory Trigger
  imports Ensure
begin

text \<open>
  Why a Store is reconciled (\<open>internal/trigger\<close>, \<open>internal/k8s/describe.go\<close>): the recorder remembers
  the watch events and the planned requeues of each Store between two reconciles. Its methods lock
  the recorder for their whole duration, so each is one step on its state; \<open>time.Now()\<close> is an argument.
\<close>

section \<open>Durations as text\<close>

text \<open>\<open>time.Duration.String\<close>, which names the waiting time of a requeue.\<close>

definition fmtFrac :: "nat \<Rightarrow> nat \<Rightarrow> string \<times> nat" where
  "fmtFrac v prec =
     (let digits = Itoa (int (v mod 10 ^ prec));
          padded = replicate (prec - length digits) (CHR ''0'') @ digits;
          kept = rev (dropWhile (\<lambda>c. c = CHR ''0'') (rev padded))
      in (if kept = [] then [] else ''.'' @ kept, v div 10 ^ prec))"

definition Duration_String :: "int \<Rightarrow> string" where
  "Duration_String d =
     (let u = nat \<bar>d\<bar>;
          text = (if u = 0 then ''0s''
            else if u < 10 ^ 3 then Itoa (int u) @ ''ns''
            else if u < 10 ^ 6 then (case fmtFrac u 3 of (f, v) \<Rightarrow> Itoa (int v) @ f @ [CHR 0xC2, CHR 0xB5] @ ''s'')
            else if u < 10 ^ 9 then (case fmtFrac u 6 of (f, v) \<Rightarrow> Itoa (int v) @ f @ ''ms'')
            else (case fmtFrac u 9 of (f, v) \<Rightarrow>
              (if v div 3600 > 0 then Itoa (int (v div 3600)) @ ''h'' else []) @
              (if v div 60 > 0 then Itoa (int (v div 60 mod 60)) @ ''m'' else []) @
              Itoa (int (v mod 60)) @ f @ ''s''))
      in (if d < 0 then ''-'' else []) @ text)"

section \<open>Objects of watch events\<close>

text \<open>
  What the recorder reads of a watched object beyond the fields of the other parts: its generation
  and its owner references (the controller flag, the kind and the name).
\<close>

record owner_reference =
  or_Controller :: "bool option"
  or_Kind :: string
  or_Name :: string

record client_object =
  co_Object :: kobj
  co_Generation :: int
  co_OwnerReferences :: "owner_reference list"

definition DescribeUpdate :: "client_object option \<Rightarrow> client_object option \<Rightarrow> string \<times> string list" where
  "DescribeUpdate oldObject newObject =
     (case (oldObject, newObject) of
        (Some old, Some new) \<Rightarrow>
          let hash = (\<lambda>x. case fmlookup (annotations_of (co_Object x)) lastConfigHashAnnotation of None \<Rightarrow> [] | Some h \<Rightarrow> h);
              oldMeta = obj_meta (co_Object old); newMeta = obj_meta (co_Object new);
              keys = ChangedMetaKeys (co_Object old) (co_Object new)
          in if m_DeletionTimestamp oldMeta = None \<and> m_DeletionTimestamp newMeta \<noteq> None then (''deletion requested'', [])
             else if co_Generation old \<noteq> co_Generation new
             then (''generation changed'', [''generation:'' @ Itoa (co_Generation old) @ ''->'' @ Itoa (co_Generation new)])
             else if hash old \<noteq> hash new
             then (''config hash annotation changed'', [''hash:'' @ hash old @ ''->'' @ hash new])
             else if length keys \<noteq> 0 then (''labels or annotations changed'', keys)
             else (''only status or resourceVersion changed'',
               [''resourceVersion:'' @ m_ResourceVersion oldMeta @ ''->'' @ m_ResourceVersion newMeta])
      | _ \<Rightarrow> (''only status or resourceVersion changed'', []))"

type_synonym namespaced_name = "string \<times> string"

definition Self :: "client_object \<Rightarrow> namespaced_name option" where
  "Self x = Some (m_Namespace (obj_meta (co_Object x)), m_Name (obj_meta (co_Object x)))"

definition ControllerOwner :: "string \<Rightarrow> client_object \<Rightarrow> namespaced_name option" where
  "ControllerOwner kind x =
     map_option (\<lambda>ref. (m_Namespace (obj_meta (co_Object x)), or_Name ref))
       (find (\<lambda>ref. or_Controller ref = Some True \<and> or_Kind ref = kind) (co_OwnerReferences x))"

section \<open>Triggers\<close>

datatype trigger_event = EventCreate | EventUpdate | EventDelete | EventGeneric | EventMapped | EventRequeue | EventResync | EventStartup

fun event_name :: "trigger_event \<Rightarrow> string" where
  "event_name EventCreate = ''create''"
| "event_name EventUpdate = ''update''"
| "event_name EventDelete = ''delete''"
| "event_name EventGeneric = ''generic''"
| "event_name EventMapped = ''mapped''"
| "event_name EventRequeue = ''requeue''"
| "event_name EventResync = ''resync''"
| "event_name EventStartup = ''startup''"

record trigger =
  tr_Source :: string
  tr_Event :: trigger_event
  tr_Name :: string
  tr_Reason :: string
  tr_Changes :: "string list"
  tr_At :: gotime

definition Trigger_String :: "trigger \<Rightarrow> string" where
  "Trigger_String t =
     (let summary = tr_Source t @ ''/'' @ tr_Name t @ '' '' @ event_name (tr_Event t) @ '': '' @ tr_Reason t
      in if length (tr_Changes t) = 0 then summary else summary @ '' ('' @ Join (tr_Changes t) '', '' @ '')'')"

definition Cause :: "trigger list \<Rightarrow> string" where
  "Cause ts =
     (case ts of
        [] \<Rightarrow> ''unknown''
      | t # _ \<Rightarrow>
          (case tr_Event t of
             EventRequeue \<Rightarrow> ''requeue'' | EventResync \<Rightarrow> ''periodic resync'' | EventStartup \<Rightarrow> ''operator start''
           | _ \<Rightarrow> ''watch event''))"

text \<open>\<open>slices.Compact\<close> of the sorted sources: each of them once.\<close>

definition Sources :: "trigger list \<Rightarrow> string list" where
  "Sources ts = remdups_adj (sort (map tr_Source ts))"

definition Summaries :: "trigger list \<Rightarrow> string list" where
  "Summaries ts = map Trigger_String ts"

section \<open>The recorder\<close>

definition maxPendingPerKey :: nat where
  "maxPendingPerKey = 20"

record scheduled_requeue =
  sq_Reason :: string
  sq_After :: int
  sq_At :: gotime

record recorder =
  rec_pending :: "namespaced_name \<rightharpoonup> trigger list"
  rec_requeues :: "namespaced_name \<rightharpoonup> scheduled_requeue"
  rec_seen :: "namespaced_name set"

definition NewRecorder :: recorder where
  "NewRecorder = \<lparr>rec_pending = Map.empty, rec_requeues = Map.empty, rec_seen = {}\<rparr>"

definition pending_of :: "recorder \<Rightarrow> namespaced_name \<Rightarrow> trigger list" where
  "pending_of r k = (case rec_pending r k of None \<Rightarrow> [] | Some ts \<Rightarrow> ts)"

definition stamped :: "gotime \<Rightarrow> trigger \<Rightarrow> trigger" where
  "stamped now t = (if tr_At t = None then t\<lparr>tr_At := now\<rparr> else t)"

definition Add :: "gotime \<Rightarrow> namespaced_name \<Rightarrow> trigger \<Rightarrow> recorder \<Rightarrow> recorder" where
  "Add now k t r =
     (let pending = pending_of r k @ [stamped now t];
          pending = (if length pending > maxPendingPerKey then drop (length pending - maxPendingPerKey) pending else pending)
      in r\<lparr>rec_pending := (rec_pending r)(k \<mapsto> pending)\<rparr>)"

definition time_add :: "gotime \<Rightarrow> int \<Rightarrow> gotime" where
  "time_add t d = map_option (\<lambda>n. n + d) t"

definition Drain :: "gotime \<Rightarrow> namespaced_name \<Rightarrow> recorder \<Rightarrow> trigger list \<times> recorder" where
  "Drain now k r =
     (let pending = pending_of r k; requeue = rec_requeues r k; seen = k \<in> rec_seen r;
          r' = r\<lparr>rec_pending := (rec_pending r)(k := None), rec_requeues := (rec_requeues r)(k := None),
                 rec_seen := insert k (rec_seen r)\<rparr>
      in (if length pending \<noteq> 0 then pending
          else (case requeue of
             Some q \<Rightarrow> [\<lparr>tr_Source = ''Requeue'', tr_Event = EventRequeue, tr_Name = snd k, tr_Reason = sq_Reason q,
               tr_Changes = [''requeue_after:'' @ Duration_String (sq_After q)], tr_At = time_add (sq_At q) (sq_After q)\<rparr>]
           | None \<Rightarrow>
               if \<not> seen then [\<lparr>tr_Source = ''Controller'', tr_Event = EventStartup, tr_Name = snd k,
                 tr_Reason = ''first reconcile since operator start'', tr_Changes = [], tr_At = now\<rparr>]
               else [\<lparr>tr_Source = ''Controller'', tr_Event = EventResync, tr_Name = snd k,
                 tr_Reason = ''no watch event and no requeue scheduled, periodic cache resync'', tr_Changes = [], tr_At = now\<rparr>]), r'))"

definition Forget :: "namespaced_name \<Rightarrow> recorder \<Rightarrow> recorder" where
  "Forget k r =
     r\<lparr>rec_pending := (rec_pending r)(k := None), rec_requeues := (rec_requeues r)(k := None), rec_seen := rec_seen r - {k}\<rparr>"

definition Finish :: "gotime \<Rightarrow> namespaced_name \<Rightarrow> string \<Rightarrow> int \<Rightarrow> goerr option \<Rightarrow> recorder \<Rightarrow> recorder" where
  "Finish now k reason requeueAfter err r =
     r\<lparr>rec_requeues := (rec_requeues r)(k :=
        (if err \<noteq> None
         then Some \<lparr>sq_Reason = ''previous reconcile returned an error, rate limited retry'', sq_After = 0, sq_At = now\<rparr>
         else if requeueAfter > 0 then Some \<lparr>sq_Reason = reason, sq_After = requeueAfter, sq_At = now\<rparr>
         else None))\<rparr>"

section \<open>Predicates\<close>

datatype watch_event =
    WatchCreate "client_object option"
  | WatchUpdate "client_object option" "client_object option"
  | WatchDelete "client_object option"
  | WatchGeneric "client_object option"

definition note_event ::
  "gotime \<Rightarrow> bool \<Rightarrow> string \<Rightarrow> trigger_event \<Rightarrow> (client_object \<Rightarrow> namespaced_name option) \<Rightarrow>
   client_object option \<Rightarrow> trigger \<Rightarrow> recorder \<Rightarrow> bool \<times> recorder" where
  "note_event now accepted source eventType key obj t r =
     (if \<not> accepted then (accepted, r)
      else (case obj of
          None \<Rightarrow> (accepted, r)
        | Some x \<Rightarrow>
            (case key x of
               None \<Rightarrow> (accepted, r)
             | Some nn \<Rightarrow> (accepted, Add now nn (t\<lparr>tr_Source := source, tr_Event := eventType,
                 tr_Name := m_Name (obj_meta (co_Object x))\<rparr>) r))))"

definition reason_trigger :: "string \<Rightarrow> string list \<Rightarrow> trigger" where
  "reason_trigger reason changes =
     \<lparr>tr_Source = [], tr_Event = EventGeneric, tr_Name = [], tr_Reason = reason, tr_Changes = changes, tr_At = None\<rparr>"

fun Predicate ::
  "gotime \<Rightarrow> string \<Rightarrow> (client_object \<Rightarrow> namespaced_name option) \<Rightarrow> (watch_event \<Rightarrow> bool) \<Rightarrow>
   watch_event \<Rightarrow> recorder \<Rightarrow> bool \<times> recorder" where
  "Predicate now source key p (WatchCreate x) r =
     note_event now (p (WatchCreate x)) source EventCreate key x (reason_trigger ''object created'' []) r"
| "Predicate now source key p (WatchUpdate old new) r =
     (if \<not> p (WatchUpdate old new) then (False, r)
      else case DescribeUpdate old new of (reason, changes) \<Rightarrow>
        note_event now True source EventUpdate key new (reason_trigger reason changes) r)"
| "Predicate now source key p (WatchDelete x) r =
     note_event now (p (WatchDelete x)) source EventDelete key x (reason_trigger ''object deleted'' []) r"
| "Predicate now source key p (WatchGeneric x) r =
     note_event now (p (WatchGeneric x)) source EventGeneric key x (reason_trigger ''generic event'' []) r"

section \<open>What the recorder stands for\<close>

text \<open>
  The calls on a recorder, and what each key should see of them: every event since its last \<open>Drain\<close>
  or \<open>Forget\<close>, the requeue planned since then, and whether it was ever drained.
\<close>

datatype recorder_call =
    CallAdd gotime namespaced_name trigger
  | CallDrain gotime namespaced_name
  | CallForget namespaced_name
  | CallFinish gotime namespaced_name string int "goerr option"

fun perform :: "recorder_call \<Rightarrow> recorder \<Rightarrow> recorder" where
  "perform (CallAdd now k t) r = Add now k t r"
| "perform (CallDrain now k) r = snd (Drain now k r)"
| "perform (CallForget k) r = Forget k r"
| "perform (CallFinish now k reason after err) r = Finish now k reason after err r"

record key_view =
  kv_events :: "trigger list"
  kv_planned :: "scheduled_requeue option"
  kv_seen :: bool

definition fresh_view :: key_view where
  "fresh_view = \<lparr>kv_events = [], kv_planned = None, kv_seen = False\<rparr>"

fun view_step :: "namespaced_name \<Rightarrow> recorder_call \<Rightarrow> key_view \<Rightarrow> key_view" where
  "view_step k (CallAdd now k' t) v = (if k' = k then v\<lparr>kv_events := kv_events v @ [stamped now t]\<rparr> else v)"
| "view_step k (CallDrain now k') v = (if k' = k then \<lparr>kv_events = [], kv_planned = None, kv_seen = True\<rparr> else v)"
| "view_step k (CallForget k') v = (if k' = k then fresh_view else v)"
| "view_step k (CallFinish now k' reason after err) v =
     (if k' = k then v\<lparr>kv_planned :=
        (if err \<noteq> None
         then Some \<lparr>sq_Reason = ''previous reconcile returned an error, rate limited retry'', sq_After = 0, sq_At = now\<rparr>
         else if after > 0 then Some \<lparr>sq_Reason = reason, sq_After = after, sq_At = now\<rparr> else None)\<rparr>
      else v)"

definition newest :: "trigger list \<Rightarrow> trigger list" where
  "newest ts = drop (length ts - maxPendingPerKey) ts"

lemma newest_snoc: "newest (newest ts @ [t]) = newest (ts @ [t])"
proof (cases "length ts < maxPendingPerKey")
  case False
  then have "Suc (length ts - 20) = length ts - 19" by (simp add: maxPendingPerKey_def)
  with False show ?thesis by (simp add: newest_def maxPendingPerKey_def)
qed (simp add: newest_def maxPendingPerKey_def)

lemma newest_bounds: "length (newest ts) \<le> maxPendingPerKey" "newest ts = [] \<longleftrightarrow> ts = []"
  by (cases ts; auto simp: newest_def maxPendingPerKey_def)+

definition shows_key :: "namespaced_name \<Rightarrow> recorder \<Rightarrow> key_view \<Rightarrow> bool" where
  "shows_key k r v \<longleftrightarrow>
     pending_of r k = newest (kv_events v) \<and> rec_requeues r k = kv_planned v \<and> (k \<in> rec_seen r \<longleftrightarrow> kv_seen v)"

lemma pending_of_Add:
  "pending_of (Add now k' t r) k = (if k' = k then newest (pending_of r k @ [stamped now t]) else pending_of r k)"
  by (simp add: Add_def Let_def pending_of_def newest_def maxPendingPerKey_def)

lemma pending_of_clear:
  "pending_of (snd (Drain now k' r)) k = (if k' = k then [] else pending_of r k)"
  "pending_of (Forget k' r) k = (if k' = k then [] else pending_of r k)"
  "pending_of (Finish now k' reason after err r) k = pending_of r k"
  by (auto simp: Drain_def Forget_def Finish_def Let_def pending_of_def)

lemma recorder_updates:
  "rec_requeues (Add now k t r) = rec_requeues r" "rec_seen (Add now k t r) = rec_seen r"
  "rec_requeues (snd (Drain now k r)) = (rec_requeues r)(k := None)" "rec_seen (snd (Drain now k r)) = insert k (rec_seen r)"
  "rec_requeues (Forget k r) = (rec_requeues r)(k := None)" "rec_seen (Forget k r) = rec_seen r - {k}"
  "rec_seen (Finish now k reason after err r) = rec_seen r"
  "rec_requeues (Finish now k reason after err r) = (rec_requeues r)(k :=
     (if err \<noteq> None
      then Some \<lparr>sq_Reason = ''previous reconcile returned an error, rate limited retry'', sq_After = 0, sq_At = now\<rparr>
      else if after > 0 then Some \<lparr>sq_Reason = reason, sq_After = after, sq_At = now\<rparr> else None))"
  by (simp_all add: Add_def Drain_def Forget_def Finish_def Let_def)

lemma shows_key_step: "shows_key k r v \<Longrightarrow> shows_key k (perform c r) (view_step k c v)"
  by (induction c)
    (auto simp: shows_key_def pending_of_Add pending_of_clear recorder_updates newest_snoc newest_def[of "[]"] fresh_view_def)

lemma shows_key_run: "shows_key k (fold perform cs NewRecorder) (fold (view_step k) cs fresh_view)"
proof (induction cs rule: rev_induct)
  case Nil
  then show ?case by (simp add: shows_key_def NewRecorder_def fresh_view_def pending_of_def newest_def)
next
  case (snoc c cs)
  then show ?case by (simp add: shows_key_step)
qed

fun event_object :: "watch_event \<Rightarrow> client_object option" where
  "event_object (WatchCreate x) = x"
| "event_object (WatchUpdate old new) = new"
| "event_object (WatchDelete x) = x"
| "event_object (WatchGeneric x) = x"

section \<open>Properties\<close>

text \<open>
  C24: What \<open>Drain\<close> reports, after any sequence of calls on a new recorder: the newest twenty of all
  events recorded for the key since it was last drained or forgotten, in their order; when there are
  none the requeue planned since then; otherwise that this is the first reconcile, or a resync. Calls
  for other keys do not matter.
\<close>

theorem Drain_reports_newest:
  "let v = fold (view_step k) cs fresh_view; reported = fst (Drain now k (fold perform cs NewRecorder)) in
     length reported \<in> {1..maxPendingPerKey} \<and>
     (if kv_events v \<noteq> [] then reported = newest (kv_events v)
      else tr_Event (hd reported) =
        (if kv_planned v \<noteq> None then EventRequeue else if kv_seen v then EventResync else EventStartup))"
  using shows_key_run[of k cs] newest_bounds
  by (auto simp: shows_key_def Let_def Drain_def maxPendingPerKey_def Suc_le_eq split: option.split)

text \<open>
  Recording does not change what is watched: the wrapped predicate answers as the predicate it
  wraps, and the recorder changes only for an event that was accepted, and then only the entry of the
  key that the event's object belongs to.
\<close>

theorem Predicate_transparent:
  "fst (Predicate now source key p e r) = p e \<and> (p e \<or> snd (Predicate now source key p e r) = r) \<and>
   (\<forall>k. pending_of (snd (Predicate now source key p e r)) k = pending_of r k \<or> (\<exists>x. event_object e = Some x \<and> key x = Some k))"
proof -
  have noted: "fst (note_event now a source t key x tr r) = a \<and> (a \<or> snd (note_event now a source t key x tr r) = r) \<and>
      (\<forall>k. pending_of (snd (note_event now a source t key x tr r)) k = pending_of r k \<or> (\<exists>y. x = Some y \<and> key y = Some k))"
    for a t x tr by (auto simp: note_event_def pending_of_Add split: option.split)
  show ?thesis
  proof (cases e)
    case (WatchUpdate old new)
    obtain reason changes where "DescribeUpdate old new = (reason, changes)" by (rule prod.exhaust)
    then show ?thesis using noted[of True EventUpdate new "reason_trigger reason changes"] by (simp add: WatchUpdate)
  qed (simp_all only: Predicate.simps event_object.simps noted simp_thms)
qed

end
