(* ===== verification/StoreController.thy ===== *)
theory StoreController
  imports Reconciler Trigger
begin

text \<open>
  The controller of \<open>Store\<close> (\<open>internal/controller/store_controller.go\<close>): which Stores a changed
  secret concerns, and \<open>Reconcile\<close>, which reconciles the resources and then the status, and decides
  when to run again. The recorder of triggers is passed along; it may be nil.
\<close>

section \<open>Watched secrets\<close>

definition refers_to :: "store \<Rightarrow> string \<Rightarrow> bool" where
  "refers_to s n \<longleftrightarrow>
     ref_Name (db_PasswordSecretRef (sp_Database (st_Spec s))) = n \<or>
     dtls_SecretName (db_TLS (sp_Database (st_Spec s))) = n \<or>
     ref_Name (os_PasswordSecretRef (sp_Opensearch (st_Spec s))) = n \<or>
     ref_Name (fa_TokenRef (co_Fastly (sp_ShopConfiguration (st_Spec s)))) = n \<or>
     ref_Name (cr_UsernameSecretRef (sp_AdminCredentials (st_Spec s))) = n \<or>
     ref_Name (cr_PasswordSecretRef (sp_AdminCredentials (st_Spec s))) = n"

definition mapped_trigger :: "string \<Rightarrow> trigger" where
  "mapped_trigger n =
     \<lparr>tr_Source = ''ReferencedSecret'', tr_Event = EventMapped, tr_Name = n,
      tr_Reason = ''referenced db/opensearch/fastly/admin secret changed'', tr_Changes = [], tr_At = None\<rparr>"

fun find_loop :: "'w client \<Rightarrow> object_meta \<Rightarrow> store list \<Rightarrow> recorder option \<Rightarrow> ('w, namespaced_name list \<times> recorder option) state" where
  "find_loop cl secret [] r = State_Monad.return ([], r)"
| "find_loop cl secret (s # ss) r =
     (if st_Namespace s \<noteq> m_Namespace secret then find_loop cl secret ss r
      else if refers_to s (m_Name secret) then do {
        now \<leftarrow> cl_Now cl;
        let key = (st_Namespace s, st_Name s);
        let r = map_option (Add now key (mapped_trigger (m_Name secret))) r;
        (ks, r) \<leftarrow> find_loop cl secret ss r;
        State_Monad.return (key # ks, r) }
      else find_loop cl secret ss r)"

definition findStoreForReconcile ::
  "'w client \<Rightarrow> object_meta \<Rightarrow> recorder option \<Rightarrow> ('w, namespaced_name list \<times> recorder option) state" where
  "findStoreForReconcile cl secret r = do {
     l \<leftarrow> cl_ListAll cl KStore;
     (case typed_items (\<lambda>o'. case o' of OStore s \<Rightarrow> Some s | _ \<Rightarrow> None) l of
        Inl e \<Rightarrow> State_Monad.return ([], r)
      | Inr stores \<Rightarrow> find_loop cl secret stores r) }"

section \<open>Reconcile\<close>

text \<open>The time to wait after a reconcile that went well, with the reason that is recorded.\<close>

definition requeue_for :: "store \<Rightarrow> int \<times> string" where
  "requeue_for s =
     (if \<not> IsState s [StateReady] then (shortRequeue, ''store is not ready yet'')
      else if length (qc_Transports (ss_QueueState (st_Status s))) = 0 then (shortRequeue, ''worker queues are not known yet'')
      else if dcon_State (ss_WorkerState (st_Status s)) = DeploymentStateNotFound
      then (shortRequeue, ''worker deployments are not created yet'')
      else (longRequeue, ''store is ready, periodic long requeue''))"

text \<open>
  The body, up to the deferred call of \<open>Finish\<close>: the requeue time, the reason and the recorder. The
  error that \<open>ReconcileStatus\<close> is given is the one of reading the Store, which is nil at that point.
\<close>

definition store_body ::
  "'w base \<Rightarrow> 'w crypto \<Rightarrow> namespaced_name \<Rightarrow> recorder option \<Rightarrow> ('w, (int \<times> string) \<times> recorder option) state" where
  "store_body b cy key r = do {
     g \<leftarrow> k8s_GetStore (b_Client b) (fst key) (snd key);
     (case g of
        Inl e \<Rightarrow>
          if IsNotFound e then State_Monad.return ((noRequeue, ''store not found, no requeue''), map_option (Forget key) r)
          else State_Monad.return ((apiFailedRequeue, ''getting store failed, short requeue''), r)
      | Inr store \<Rightarrow>
          if m_DeletionTimestamp (st_Meta store) \<noteq> None then do {
            _ \<leftarrow> RemoveStoreMetrics (b_Gauges b) store;
            State_Monad.return ((shortRequeue, ''store is being deleted''), r) }
          else do {
            (e, store) \<leftarrow> ReconcileResources b cy store;
            (if e \<noteq> None then State_Monad.return ((shortRequeue, ''reconciling resources failed, short requeue''), r)
             else do {
               (_, store) \<leftarrow> ReconcileStatus b store None;
               State_Monad.return (requeue_for store, r) }) }) }"

definition store_Reconcile ::
  "'w base \<Rightarrow> 'w crypto \<Rightarrow> namespaced_name \<Rightarrow> recorder option \<Rightarrow> ('w, int \<times> recorder option) state" where
  "store_Reconcile b cy key r = do {
     now \<leftarrow> cl_Now (b_Client b);
     let r = map_option (\<lambda>x. snd (Drain now key x)) r;
     ((after, reason), r) \<leftarrow> store_body b cy key r;
     now \<leftarrow> cl_Now (b_Client b);
     State_Monad.return (after, map_option (Finish now key reason after None) r) }"

section \<open>Properties\<close>

text \<open>
  The Stores that a changed secret concerns are, in the order of the list, those of its namespace
  that refer to it in one of six places: the database password, the TLS files of the database, the
  OpenSearch password, the Fastly token, and name and password of the administrator. A reference to
  the database host, to the Fastly service or to the keys of the object storage is not looked at.
\<close>

theorem findStoreForReconcile_result:
  "case run_state (findStoreForReconcile cl secret r) w of (result, w') \<Rightarrow>
     fst result = (case fst (run_state (cl_ListAll cl KStore) w) of
        Inl e \<Rightarrow> []
      | Inr os \<Rightarrow> (case typed_list (\<lambda>o'. case o' of OStore s \<Rightarrow> Some s | _ \<Rightarrow> None) os of
          Inl e \<Rightarrow> []
        | Inr stores \<Rightarrow> map (\<lambda>s. (st_Namespace s, st_Name s))
            (filter (\<lambda>s. st_Namespace s = m_Namespace secret \<and> refers_to s (m_Name secret)) stores)))"
proof -
  have loop: "fst (fst (run_state (find_loop cl secret ss r) w)) =
      map (\<lambda>s. (st_Namespace s, st_Name s)) (filter (\<lambda>s. st_Namespace s = m_Namespace secret \<and> refers_to s (m_Name secret)) ss)" for ss r w
    by (induction ss arbitrary: r w) (simp_all add: run_simps Let_def case_prod_beta)
  obtain l w1 where l: "run_state (cl_ListAll cl KStore) w = (l, w1)" by (metis surj_pair)
  show ?thesis
    by (simp add: findStoreForReconcile_def run_simps l typed_items_def case_prod_beta loop split: sum.split)
qed

lemma pending_of_Finish_Drain: "pending_of (Finish now k reason after err (snd (Drain now' k r))) k = []"
  by (simp add: pending_of_clear)

text \<open>
  After a reconcile, unless an event is recorded in the meantime, the next one is reported as what
  it is: as the requeue that was planned when there is one, and as a first reconcile when the Store
  was gone, since the recorder has forgotten it.
\<close>

theorem next_reconcile_explained:
  "case run_state (store_Reconcile b cy key (Some r)) w of ((after, r'), w') \<Rightarrow>
     \<exists>x. r' = Some x \<and> length (fst (Drain now key x)) = 1 \<and>
       tr_Event (hd (fst (Drain now key x))) = (if after > 0 then EventRequeue else EventStartup)"
proof -
  obtain now1 w1 where n1: "run_state (cl_Now (b_Client b)) w = (now1, w1)" by (metis surj_pair)
  let ?r = "snd (Drain now1 key r)"
  obtain after reason r2 w2 where body: "run_state (store_body b cy key (Some ?r)) w1 = (((after, reason), r2), w2)"
    by (metis surj_pair)
  obtain now2 w3 where n2: "run_state (cl_Now (b_Client b)) w2 = (now2, w3)" by (metis surj_pair)
  have run: "run_state (store_Reconcile b cy key (Some r)) w = ((after, map_option (Finish now2 key reason after None) r2), w3)"
    by (simp add: store_Reconcile_def run_simps Let_def n1 body n2)
  have times: "after > 0 \<and> r2 = Some ?r \<or> after = 0 \<and> r2 = Some (Forget key ?r)"
    using body by (auto simp: store_body_def run_simps requeue_for_def noRequeue_def shortRequeue_def longRequeue_def
        apiFailedRequeue_def seconds_def split: prod.splits sum.splits if_splits)
  have pending: "pending_of (Finish now2 key reason after None ?r) key = []"
    "pending_of (Finish now2 key reason after None (Forget key ?r)) key = []"
    by (simp_all add: pending_of_clear)
  have fallback: "length (fst (Drain now key x)) = 1 \<and> tr_Event (hd (fst (Drain now key x))) =
      (if rec_requeues x key \<noteq> None then EventRequeue else if key \<in> rec_seen x then EventResync else EventStartup)"
    if "pending_of x key = []" for x
    using that by (auto simp: Drain_def Let_def split: option.split)
  show ?thesis
    using times fallback[OF pending(1)] fallback[OF pending(2)] by (auto simp: run recorder_updates)
qed


end
