(* ===== verification/ExecController.thy ===== *)
theory ExecController
  imports Reconciler
begin

text \<open>
  The controller of \<open>StoreExec\<close> (\<open>internal/controller/storeexec_controller.go\<close> and
  \<open>storeexec_status.go\<close>): it runs a command as a job or a cron job once the Store is ready, follows
  the job, and deletes finished resources after their clean-up period. \<open>Reconcile\<close> never returns an
  error, so its result is the time after which it wants to run again (0 for never).
\<close>

definition exec_nn :: "store_exec \<Rightarrow> string" where
  "exec_nn ex = m_Name (e_Meta ex) @ '' in namespace '' @ m_Namespace (e_Meta ex)"

section \<open>Clean-up\<close>

definition cleanupPeriodFor :: "store_exec \<Rightarrow> int option" where
  "cleanupPeriodFor ex =
     (if m_DeletionTimestamp (e_Meta ex) \<noteq> None \<or> ex_CronSchedule (e_Spec ex) \<noteq> [] then None
      else if ExecIsState ex [ExecStateDone] then
        (let p = ex_CleanupPeriodSuccessfulExec (e_Spec ex) in if p > 0 then Some p else None)
      else if ExecIsState ex [ExecStateError] then
        (let p = ex_CleanupPeriodErrorExec (e_Spec ex) in if p > 0 then Some p else None)
      else None)"

fun last_transition :: "exec_condition list \<Rightarrow> int option" where
  "last_transition [] = None"
| "last_transition (c # cs) =
     (case ec_LastTransitionTime c of Some t \<Rightarrow> Some t | None \<Rightarrow> last_transition cs)"

definition storeExecFinishedAt :: "store_exec \<Rightarrow> int option" where
  "storeExecFinishedAt ex =
     (if \<not> ExecIsState ex [ExecStateDone, ExecStateError] then None
      else last_transition (rev (es_Conditions (e_Status ex))))"

text \<open>The result is the requeue time when the resource was handled, None when it was not.\<close>

definition reconcileStoreExecCleanup :: "'w reconciler \<Rightarrow> store_exec \<Rightarrow> ('w, int option result) state" where
  "reconcileStoreExecCleanup rc ex =
     (case cleanupPeriodFor ex of
        None \<Rightarrow> State_Monad.return (Inr None)
      | Some period \<Rightarrow>
          (case storeExecFinishedAt ex of
             None \<Rightarrow> State_Monad.return (Inr None)
           | Some finishedAt \<Rightarrow> do {
               now \<leftarrow> cl_Now (rc_Client rc);
               let remaining = until (finishedAt + period) now;
               (if remaining > 0 then State_Monad.return (Inr (Some remaining))
                else do {
                  d \<leftarrow> cl_Delete (rc_Client rc) (OStoreExec ex);
                  State_Monad.return (case d of
                      Some e \<Rightarrow> if \<not> IsNotFound e then Inl (Wrap ''delete finished StoreExec'' e) else Inr (Some 0)
                    | None \<Rightarrow> Inr (Some 0)) }) }))"

section \<open>Job and cron job\<close>

definition reconcileJob :: "'w reconciler \<Rightarrow> store \<Rightarrow> store_exec \<Rightarrow> ('w, goerr option) state" where
  "reconcileJob rc s exec =
     apply_changed rc (OStore s) ''Diff command job hash'' (''Update command Job '' @ exec_nn exec @ ''. Diff hash'')
       ''reconcile unready setup job'' ''reconcile unready setup job'' EnsureJob (e_Meta exec)
       (OJob (CommandJob (rc_OperatorServiceURL rc) s exec))"

definition reconcileCronJob :: "'w reconciler \<Rightarrow> store \<Rightarrow> store_exec \<Rightarrow> ('w, goerr option) state" where
  "reconcileCronJob rc s exec =
     apply_changed rc (OStore s) ''Diff command cron job hash'' (''Update command cron Job '' @ exec_nn exec @ ''. Diff hash'')
       ''reconcile unready setup cron job'' ''reconcile unready setup cron job'' EnsureCronJob (e_Meta exec)
       (OCronJob (CommandCronJob (rc_OperatorServiceURL rc) s exec))"

section \<open>Status\<close>

definition add_exec_condition :: "exec_condition \<Rightarrow> store_exec \<Rightarrow> store_exec" where
  "add_exec_condition c ex =
     ex\<lparr>e_Status := (e_Status ex)\<lparr>es_Conditions := ExecAddCondition (es_Conditions (e_Status ex)) c\<rparr>\<rparr>"

definition set_exec_state :: "exec_state \<Rightarrow> store_exec \<Rightarrow> store_exec" where
  "set_exec_state st ex = ex\<lparr>e_Status := (e_Status ex)\<lparr>es_State := st\<rparr>\<rparr>"

definition exec_stateRunning :: "'w reconciler \<Rightarrow> store \<Rightarrow> store_exec \<Rightarrow> ('w, exec_state \<times> store_exec) state" where
  "exec_stateRunning rc s ex = do {
     now \<leftarrow> cl_Now (rc_Client rc);
     let con = \<lparr>ec_Type = ExecStateRunning, ec_LastTransitionTime = None, ec_LastUpdateTime = now,
                ec_Message = ''Waiting for command job to get started'', ec_Reason = [], ec_Status = ''True''\<rparr>;
     r \<leftarrow> GetCommandJob (rc_Client rc) (rc_OperatorServiceURL rc) s ex;
     (case r of
        Inl e \<Rightarrow>
          if IsNotFound e then State_Monad.return (ExecStateRunning, add_exec_condition con ex)
          else State_Monad.return (ExecStateRunning,
            add_exec_condition (con\<lparr>ec_Reason := err_msg e, ec_Status := ''Error''\<rparr>) ex)
      | Inr command \<Rightarrow> do {
          r \<leftarrow> IsJobContainerDone (rc_Client rc) (Some command) CONTAINER_NAME_COMMAND;
          (case r of
             Inl e \<Rightarrow> State_Monad.return (ExecStateRunning,
               add_exec_condition (con\<lparr>ec_Reason := err_msg e, ec_Status := ''Error''\<rparr>) ex)
           | Inr jobState \<Rightarrow>
               if IsDone jobState \<and> HasErrors jobState then do {
                 now \<leftarrow> cl_Now (rc_Client rc);
                 State_Monad.return (ExecStateError, add_exec_condition (con\<lparr>
                   ec_Message := ''Command is Done but has Errors. Check logs for more details'',
                   ec_Reason := ''Exit code: '' @ Itoa (jbs_ExitCode jobState),
                   ec_Type := ExecStateError, ec_Status := ''Error'', ec_LastTransitionTime := now\<rparr>) ex) }
               else if IsDone jobState \<and> \<not> HasErrors jobState then do {
                 now \<leftarrow> cl_Now (rc_Client rc);
                 State_Monad.return (ExecStateDone, add_exec_condition (con\<lparr>
                   ec_Message := ''Command finished'', ec_LastTransitionTime := now,
                   ec_Type := ExecStateDone, ec_Status := ''Ready''\<rparr>) ex) }
               else State_Monad.return (ExecStateRunning, add_exec_condition (con\<lparr>
                 ec_Message := ''Waiting for command job to finish (Notice sidecars are counted). Active jobs: '' @
                   fmt_d (jst_Active (j_Status command)) @ '', Failed jobs: '' @ fmt_d (jst_Failed (j_Status command))\<rparr>) ex)) }) }"

definition writeExecStatus :: "'w client \<Rightarrow> string \<Rightarrow> string \<Rightarrow> store_exec_status \<Rightarrow> ('w, goerr option) state" where
  "writeExecStatus cl ns n status =
     cl_RetryOnConflict cl (do {
       r \<leftarrow> cl_Get cl KStoreExec ns n;
       (case typed (\<lambda>o'. case o' of OStoreExec d \<Rightarrow> Some d | _ \<Rightarrow> None) r of
          Inl e \<Rightarrow> State_Monad.return (Some (Wrap ''write status'' e))
        | Inr cr \<Rightarrow> cl_StatusUpdate cl (OStoreExec (cr\<lparr>e_Status := status\<rparr>))) })"

definition exec_condition_of :: "exec_state \<Rightarrow> gotime \<Rightarrow> string \<Rightarrow> string \<Rightarrow> exec_condition" where
  "exec_condition_of st now msg reason =
     \<lparr>ec_Type = st, ec_LastTransitionTime = None, ec_LastUpdateTime = now, ec_Message = msg, ec_Reason = reason,
      ec_Status = ''Error''\<rparr>"

text \<open>The status as it will be written: the part of \<open>reconcileCRStatus\<close> before the write.\<close>

definition exec_new_status :: "'w reconciler \<Rightarrow> store option \<Rightarrow> store_exec \<Rightarrow> goerr option \<Rightarrow> ('w, store_exec) state" where
  "exec_new_status rc store ex reconcileError = do {
     ex \<leftarrow> (case reconcileError of
              None \<Rightarrow> State_Monad.return ex
            | Some e \<Rightarrow> do {
                now \<leftarrow> cl_Now (rc_Client rc);
                State_Monad.return (add_exec_condition
                  (exec_condition_of (es_State (e_Status ex)) now (err_msg e) ''ReconcileError'') ex) });
     ex \<leftarrow> (case store of
              None \<Rightarrow> do {
                let ex = set_exec_state ExecStateWait ex;
                now \<leftarrow> cl_Now (rc_Client rc);
                State_Monad.return (add_exec_condition
                  (exec_condition_of ExecStateWait now
                    (''StoreRef not found (stores/'' @ ex_StoreRef (e_Spec ex) @ ''), waiting for store to be created'')
                    ''StoreRef error'') ex) }
            | Some _ \<Rightarrow> State_Monad.return
                (if ExecIsState ex [ExecStateEmpty, ExecStateWait] then set_exec_state ExecStateRunning ex else ex));
     (case store of
        Some s \<Rightarrow>
          if ExecIsState ex [ExecStateRunning] then do {
            (st, ex) \<leftarrow> exec_stateRunning rc s ex;
            State_Monad.return (set_exec_state st ex) }
          else State_Monad.return ex
      | None \<Rightarrow> State_Monad.return ex) }"

definition exec_reconcileCRStatus ::
  "'w reconciler \<Rightarrow> store option \<Rightarrow> store_exec \<Rightarrow> goerr option \<Rightarrow> ('w, goerr option) state" where
  "exec_reconcileCRStatus rc store ex reconcileError = do {
     ex \<leftarrow> exec_new_status rc store ex reconcileError;
     writeExecStatus (rc_Client rc) (m_Namespace (e_Meta ex)) (m_Name (e_Meta ex)) (e_Status ex) }"

section \<open>Reconcile\<close>

text \<open>
  The part between the clean-up and the deferred status update: the requeue time and the Store, if
  it was read.
\<close>

definition exec_body :: "'w reconciler \<Rightarrow> string \<Rightarrow> store_exec \<Rightarrow> ('w, int \<times> store option) state" where
  "exec_body rc ns ex = do {
     r \<leftarrow> k8s_GetStore (rc_Client rc) ns (ex_StoreRef (e_Spec ex));
     (case r of
        Inl e \<Rightarrow> State_Monad.return (seconds 10, None)
      | Inr store \<Rightarrow>
          if \<not> IsState store [StateReady] then State_Monad.return (seconds 10, Some store)
          else if ExecIsState ex [ExecStateEmpty] then State_Monad.return (seconds 10, Some store)
          else if ex_CronSchedule (e_Spec ex) \<noteq> [] then do {
            e \<leftarrow> reconcileCronJob rc store ex;
            State_Monad.return (if e \<noteq> None then seconds 10 else seconds 20, Some store) }
          else if ExecIsState ex [ExecStateDone, ExecStateError] then State_Monad.return (0, Some store)
          else do {
            e \<leftarrow> reconcileJob rc store ex;
            State_Monad.return (if e \<noteq> None then seconds 10 else seconds 20, Some store) }) }"

definition exec_Reconcile :: "'w reconciler \<Rightarrow> string \<Rightarrow> string \<Rightarrow> ('w, int) state" where
  "exec_Reconcile rc ns n = do {
     r \<leftarrow> GetStoreExec (rc_Client rc) ns n;
     (case r of
        Inl e \<Rightarrow> State_Monad.return (seconds 10)
      | Inr ex \<Rightarrow> do {
          c \<leftarrow> reconcileStoreExecCleanup rc ex;
          (case c of
             Inl e \<Rightarrow> State_Monad.return (seconds 10)
           | Inr (Some result) \<Rightarrow> State_Monad.return result
           | Inr None \<Rightarrow> do {
               (result, store) \<leftarrow> exec_body rc ns ex;
               _ \<leftarrow> exec_reconcileCRStatus rc store ex None;
               State_Monad.return result }) }) }"

section \<open>Lemmas\<close>

abbreviation exec_state_of :: "store_exec \<Rightarrow> exec_state" where
  "exec_state_of ex \<equiv> es_State (e_Status ex)"

lemma exec_updates [simp]:
  "e_Meta (set_exec_state st ex) = e_Meta ex" "e_Spec (set_exec_state st ex) = e_Spec ex"
  "e_Meta (add_exec_condition c ex) = e_Meta ex" "e_Spec (add_exec_condition c ex) = e_Spec ex"
  "exec_state_of (set_exec_state st ex) = st" "exec_state_of (add_exec_condition c ex) = exec_state_of ex"
  by (simp_all add: set_exec_state_def add_exec_condition_def)

lemma GetCommandJob_cong: "e_Meta a = e_Meta b \<Longrightarrow> GetCommandJob cl url s a = GetCommandJob cl url s b"
  by (simp add: GetCommandJob_def CommandJob_def CommandJobName_def job_object_def Let_def)

lemma exec_waits:
  "holds (\<lambda>ex'. exec_state_of ex' = ExecStateWait \<and> e_Meta ex' = e_Meta ex) (exec_new_status rc None ex None)"
  by (simp add: holds_def exec_new_status_def run_simps Let_def split: prod.split)

lemma exec_runs:
  assumes "exec_state_of ex = ExecStateWait"
    and "\<And>v. \<exists>e v'. run_state (GetCommandJob (rc_Client rc) (rc_OperatorServiceURL rc) s ex) v = (Inl e, v') \<and> IsNotFound e"
  shows "holds (\<lambda>ex'. exec_state_of ex' = ExecStateRunning) (exec_new_status rc (Some s) ex None)"
proof (rule holdsI)
  fix w
  have job: "GetCommandJob cl url s (set_exec_state ExecStateRunning ex) = GetCommandJob cl url s ex" for cl :: "'a client" and url
    by (rule GetCommandJob_cong) simp
  obtain now v where now: "run_state (cl_Now (rc_Client rc)) w = (now, v)" by (metis surj_pair)
  obtain e v' where "run_state (GetCommandJob (rc_Client rc) (rc_OperatorServiceURL rc) s ex) v = (Inl e, v')" "IsNotFound e"
    using assms(2) by blast
  then show "exec_state_of (fst (run_state (exec_new_status rc (Some s) ex None) w)) = ExecStateRunning"
    using assms(1) now by (simp add: exec_new_status_def exec_stateRunning_def ExecIsState_def run_simps Let_def job)
qed

lemma exec_stateRunning_cases:
  assumes "run_state (exec_stateRunning rc s ex) w = ((st, ex'), w')"
  shows "e_Meta ex' = e_Meta ex \<and> e_Spec ex' = e_Spec ex \<and>
    (st = ExecStateRunning \<or>
     (\<exists>j js w1 w2 w3. run_state (GetCommandJob (rc_Client rc) (rc_OperatorServiceURL rc) s ex) w1 = (Inr j, w2) \<and>
       run_state (IsJobContainerDone (rc_Client rc) (Some j) CONTAINER_NAME_COMMAND) w2 = (Inr js, w3) \<and>
       IsDone js \<and> st = (if HasErrors js then ExecStateError else ExecStateDone)))"
  using assms unfolding exec_stateRunning_def
  by (auto simp: run_simps Let_def split: prod.splits sum.splits if_splits) blast+

definition ex_finished :: store_exec where
  "ex_finished = \<lparr>e_Meta = empty_meta, e_Spec = \<lparr>ex_StoreRef = [], ex_CronSchedule = [], ex_CronSuspend = False, ex_Script = [],
     ex_MaxRetries = 0, ex_CleanupPeriodSuccessfulExec = 0, ex_CleanupPeriodErrorExec = 0, ex_ExtraEnvs = [],
     ex_Container = zero_container_spec\<rparr>, e_Status = \<lparr>es_State = ExecStateDone, es_Done = [], es_Conditions = []\<rparr>\<rparr>"

definition ex_reconciler :: "unit reconciler" where
  "ex_reconciler = \<lparr>rc_Client = const_client (\<lambda>_. Inl notFound), rc_OperatorServiceURL = [],
     rc_Recorder = (\<lambda>_ _ _. State_Monad.return ()), rc_EventHandlers = [], rc_MarshalStatus = (\<lambda>_. Inr [])\<rparr>"

context guarded_reconciler
begin

lemma exec_new_status_ok:
  "preserves I (exec_new_status rc store ex err) (\<lambda>ex'. e_Meta ex' = e_Meta ex)"
proof -
  have job: "preserves I (GetCommandJob (rc_Client rc) url s x) (\<lambda>_. True)" for url s x
    by (simp add: GetCommandJob_def Let_def GetJob_ok)
  have running: "preserves I (exec_stateRunning rc s x) (\<lambda>(_, ex'). e_Meta ex' = e_Meta x)" for s x
    unfolding exec_stateRunning_def Let_def
    by (auto intro!: read_ok[OF now_ok] read_ok[OF job] read_ok[OF IsJobContainerDone_ok] split: sum.split)
  have "preserves I (case err of None \<Rightarrow> State_Monad.return ex | Some e \<Rightarrow> do {
      now \<leftarrow> cl_Now (rc_Client rc);
      State_Monad.return (add_exec_condition (exec_condition_of (exec_state_of ex) now (err_msg e) ''ReconcileError'') ex) })
    (\<lambda>ex'. e_Meta ex' = e_Meta ex)"
    by (auto intro!: read_ok[OF now_ok] split: option.split)
  then show ?thesis
    unfolding exec_new_status_def
    by (rule preserves_bind)
      (auto intro!: preserves_bind[OF running] read_ok[OF now_ok] simp: Let_def split: option.split)
qed

lemma exec_Reconcile_ok:
  assumes "W = {KJob, KCronJob}" and "D = {KJob, KStoreExec}" and "S = {KStoreExec}"
  shows "preserves I (exec_Reconcile rc ns n) (\<lambda>_. True)"
proof -
  have read: "preserves I (GetStoreExec (rc_Client rc) ns n) (\<lambda>r. \<forall>ex. r = Inr ex \<longrightarrow> m_Namespace (e_Meta ex) = ns)"
    unfolding GetStoreExec_def
    by (rule preserves_bind[OF get_ok]) (auto simp: typed_def split: sum.splits option.splits kobj.splits)
  have clean: "preserves I (reconcileStoreExecCleanup rc ex) (\<lambda>_. True)" if "m_Namespace (e_Meta ex) = ns" for ex
  proof -
    have "preserves I (cl_Delete (rc_Client rc) (OStoreExec ex)) (\<lambda>_. True)" using that assms by (intro delete_ok) simp_all
    then show ?thesis
      unfolding reconcileStoreExecCleanup_def Let_def by (auto intro!: read_ok[OF now_ok] read_ok split: option.split)
  qed
  have body: "preserves I (exec_body rc ns ex) (\<lambda>_. True)" if "m_Namespace (e_Meta ex) = ns" for ex
  proof -
    have "allowed (OJob (CommandJob url s ex))" "allowed (OCronJob (CommandCronJob url s ex))" for url s
      using that assms unfolding allowed_def by (simp_all add: CommandJob_def CommandCronJob_def job_object_def Let_def)
    then have "preserves I (reconcileJob rc s ex) (\<lambda>_. True)" "preserves I (reconcileCronJob rc s ex) (\<lambda>_. True)" for s
      unfolding reconcileJob_def reconcileCronJob_def ensure_defs by (auto intro: apply_changed_ok)
    then show ?thesis unfolding exec_body_def by (auto intro!: read_ok[OF k8s_GetStore_ok] read_ok split: sum.split)
  qed
  have status: "preserves I (exec_reconcileCRStatus rc store ex err) (\<lambda>_. True)" if "m_Namespace (e_Meta ex) = ns" for store ex err
    unfolding exec_reconcileCRStatus_def writeExecStatus_def
    by (rule preserves_bind[OF exec_new_status_ok], rule write_status_ok)
      (use that assms in \<open>auto simp: same_place_def split: kobj.splits\<close>)
  have rest: "preserves I (do {
      c \<leftarrow> reconcileStoreExecCleanup rc ex;
      (case c of
         Inl e \<Rightarrow> State_Monad.return (seconds 10)
       | Inr (Some result) \<Rightarrow> State_Monad.return result
       | Inr None \<Rightarrow> do {
           (result, store) \<leftarrow> exec_body rc ns ex;
           _ \<leftarrow> exec_reconcileCRStatus rc store ex None;
           State_Monad.return result }) }) (\<lambda>_. True)" if "m_Namespace (e_Meta ex) = ns" for ex
    by (rule read_ok[OF clean[OF that]])
      (auto intro!: read_ok[OF body[OF that]] read_ok[OF status[OF that]] split: sum.split option.split)
  show ?thesis
    unfolding exec_Reconcile_def
    by (rule preserves_bind[OF read]) (auto simp: rest split: sum.split)
qed

end

section \<open>Properties\<close>

text \<open>
  C28: What a reconcile makes of the state of a command. Without a Store it waits. With a Store a
  finished command stays as it is; any other command is running, or finished if its job was found
  and its container has ended, with an error exactly when the job has one. Metadata and
  specification are never changed.
\<close>

theorem exec_status_outcome:
  "case run_state (exec_new_status rc store ex None) w of (ex', w') \<Rightarrow>
     e_Meta ex' = e_Meta ex \<and> e_Spec ex' = e_Spec ex \<and>
     (case store of
        None \<Rightarrow> exec_state_of ex' = ExecStateWait
      | Some s \<Rightarrow>
          if exec_state_of ex = ExecStateDone \<or> exec_state_of ex = ExecStateError then ex' = ex
          else exec_state_of ex' = ExecStateRunning \<or>
            (\<exists>j js w1 w2 w3. run_state (GetCommandJob (rc_Client rc) (rc_OperatorServiceURL rc) s ex) w1 = (Inr j, w2) \<and>
               run_state (IsJobContainerDone (rc_Client rc) (Some j) CONTAINER_NAME_COMMAND) w2 = (Inr js, w3) \<and>
               IsDone js \<and> exec_state_of ex' = (if HasErrors js then ExecStateError else ExecStateDone)))"
proof (cases store)
  case None
  then show ?thesis by (simp add: exec_new_status_def run_simps Let_def split: prod.split)
next
  case (Some s)
  let ?ex = "if ExecIsState ex [ExecStateEmpty, ExecStateWait] then set_exec_state ExecStateRunning ex else ex"
  show ?thesis
  proof (cases "ExecIsState ?ex [ExecStateRunning]")
    case True
    obtain st ex1 w1 where run: "run_state (exec_stateRunning rc s ?ex) w = ((st, ex1), w1)" by (metis surj_pair)
    have "GetCommandJob (rc_Client rc) (rc_OperatorServiceURL rc) s ?ex = GetCommandJob (rc_Client rc) (rc_OperatorServiceURL rc) s ex"
      by (rule GetCommandJob_cong) simp
    moreover have "run_state (exec_new_status rc store ex None) w = (set_exec_state st ex1, w1)"
      using run True by (simp add: exec_new_status_def Some run_simps)
    moreover have "\<not> (exec_state_of ex = ExecStateDone \<or> exec_state_of ex = ExecStateError)"
      using True by (auto simp: ExecIsState_def split: if_splits)
    ultimately show ?thesis using exec_stateRunning_cases[OF run] Some by (simp split: if_splits)
  next
    case False
    then have "exec_state_of ex = ExecStateDone \<or> exec_state_of ex = ExecStateError" "?ex = ex"
      by (cases "exec_state_of ex"; simp add: ExecIsState_def)+
    then show ?thesis using False by (simp add: exec_new_status_def Some run_simps)
  qed
qed

text \<open>
  A finished command is started again after its Store could not be read once: the first
  reconcile without a Store puts it back to waiting, and if its job has been removed in the meantime
  the next one makes it running, the state in which the job is applied.
\<close>

theorem finished_exec_restarts:
  assumes "exec_state_of ex = ExecStateDone \<or> exec_state_of ex = ExecStateError"
    and "\<And>v. \<exists>e v'. run_state (GetCommandJob (rc_Client rc) (rc_OperatorServiceURL rc) s ex) v = (Inl e, v') \<and> IsNotFound e"
  shows "holds (\<lambda>ex'. exec_state_of ex' = ExecStateRunning)
    (do { ex1 \<leftarrow> exec_new_status rc None ex None; exec_new_status rc (Some s) ex1 None })"
proof (rule holds_bindI[OF exec_waits])
  fix ex1 assume "exec_state_of ex1 = ExecStateWait \<and> e_Meta ex1 = e_Meta ex"
  moreover from this have "GetCommandJob (rc_Client rc) (rc_OperatorServiceURL rc) s ex1 = GetCommandJob (rc_Client rc) (rc_OperatorServiceURL rc) s ex"
    by (intro GetCommandJob_cong) simp
  ultimately show "holds (\<lambda>ex'. exec_state_of ex' = ExecStateRunning) (exec_new_status rc (Some s) ex1 None)"
    using assms(2) by (intro exec_runs) simp_all
qed

theorem finished_exec_restarts_witness:
  "exec_state_of ex_finished = ExecStateDone \<and>
   holds (\<lambda>ex'. exec_state_of ex' = ExecStateRunning)
    (do { ex1 \<leftarrow> exec_new_status ex_reconciler None ex_finished None;
          exec_new_status ex_reconciler (Some zero_store) ex1 None })"
proof -
  have "exec_state_of ex_finished = ExecStateDone" by (simp add: ex_finished_def)
  moreover have "\<exists>e v'. run_state (GetCommandJob (rc_Client ex_reconciler) (rc_OperatorServiceURL ex_reconciler) zero_store ex_finished) v =
      (Inl e, v') \<and> IsNotFound e" for v
    by (simp add: GetCommandJob_def GetJob_def ex_reconciler_def const_client_def run_simps typed_def notFound_def IsNotFound_def Let_def)
  ultimately show ?thesis using finished_exec_restarts by blast
qed

text \<open>
  Which objects a reconcile of a \<open>StoreExec\<close> touches: it creates jobs and cron jobs, deletes jobs
  (to replace them) and the resource itself, and writes the status of the resource, all of it in the
  namespace of the request. Everything that survives these operations still holds afterwards.
\<close>

theorem exec_Reconcile_frame:
  assumes "guarded_reconciler rc I {KJob, KCronJob} {KJob, KStoreExec} ns {KStoreExec}" and "I w"
  shows "I (snd (run_state (exec_Reconcile rc ns n) w))"
  using guarded_reconciler.exec_Reconcile_ok[OF assms(1) refl refl refl] assms(2) by (rule preservesD)

theorem exec_Reconcile_frame_witness:
  "filter (\<lambda>x. \<not> (obj_kind x \<in> {KJob, KCronJob, KStoreExec} \<and> m_Namespace (obj_meta x) = []))
     (snd (run_state (exec_Reconcile (map_reconciler None) [] []) [OStoreExec ex_finished, OStore zero_store])) = [OStore zero_store]"
proof -
  have "outside ({KJob, KCronJob} \<union> {KJob, KStoreExec} \<union> {KStoreExec}) [] [OStoreExec ex_finished, OStore zero_store] = [OStore zero_store]"
    by (simp add: outside_def ex_finished_def empty_meta_def)
  from exec_Reconcile_frame[OF mr.guarded_reconciler_axioms[where L = "[OStore zero_store]"], OF this]
  show ?thesis by (simp add: outside_def insert_commute)
qed

end
