(* ===== verification/DebugController.thy ===== *)
theory DebugController
  imports Reconciler
begin

text \<open>
  The controller of \<open>StoreDebugInstance\<close> (\<open>internal/controller/storedebuginstance_controller.go\<close> and
  \<open>storedebuginstance_status.go\<close>): a pod and a service that live for a given time. \<open>Reconcile\<close>
  returns no error, but it dereferences a nil pointer when the resource cannot be read, so its
  result is a requeue time or a panic.
\<close>

section \<open>Clean-up\<close>

definition isStoreDebugInstanceCleanupEligible :: "debug_instance \<Rightarrow> bool" where
  "isStoreDebugInstanceCleanupEligible d \<longleftrightarrow>
     di_Duration (dbi_Spec d) > 0 \<and> m_DeletionTimestamp (dbi_Meta d) = None \<and>
     (DebugIsState d [StoreDebugInstanceStateDone] \<or> DebugIsState d [StoreDebugInstanceStateError])"

definition storeDebugInstanceCleanupRemaining :: "debug_instance \<Rightarrow> gotime \<Rightarrow> int" where
  "storeDebugInstanceCleanupRemaining d now = until (validUntil d) now"

text \<open>The requeue time and whether the instance was handled.\<close>

definition deleteSuccessfulStoreDebugInstance :: "'w reconciler \<Rightarrow> debug_instance \<Rightarrow> ('w, (int \<times> bool) result) state" where
  "deleteSuccessfulStoreDebugInstance rc d = do {
     r \<leftarrow> cl_Delete (rc_Client rc) (OStoreDebugInstance d);
     State_Monad.return (case r of
         Some e \<Rightarrow> if \<not> IsNotFound e then Inl (Wrap ''delete successful StoreDebugInstance'' e) else Inr (0, True)
       | None \<Rightarrow> Inr (0, True)) }"

definition deleteSuccessfulStoreDebugInstanceIfCleanupDue ::
  "'w reconciler \<Rightarrow> debug_instance \<Rightarrow> ('w, (int \<times> bool) result) state" where
  "deleteSuccessfulStoreDebugInstanceIfCleanupDue rc d =
     (if \<not> isStoreDebugInstanceCleanupEligible d then State_Monad.return (Inr (0, False))
      else do {
        now \<leftarrow> cl_Now (rc_Client rc);
        (if storeDebugInstanceCleanupRemaining d now > 0 then State_Monad.return (Inr (0, False))
         else deleteSuccessfulStoreDebugInstance rc d) })"

definition reconcileSuccessfulStoreDebugInstanceCleanup ::
  "'w reconciler \<Rightarrow> debug_instance \<Rightarrow> ('w, (int \<times> bool) result) state" where
  "reconcileSuccessfulStoreDebugInstanceCleanup rc d =
     (if \<not> isStoreDebugInstanceCleanupEligible d then State_Monad.return (Inr (0, False))
      else do {
        now \<leftarrow> cl_Now (rc_Client rc);
        let remaining = storeDebugInstanceCleanupRemaining d now;
        (if remaining > 0 then State_Monad.return (Inr (remaining, True))
         else deleteSuccessfulStoreDebugInstance rc d) })"

section \<open>Pod and service\<close>

definition GetDebugPod :: "'w client \<Rightarrow> string \<Rightarrow> store \<Rightarrow> debug_instance \<Rightarrow> ('w, pod result) state" where
  "GetDebugPod cl url s d =
     (let p = DebugPod url s d in GetPod cl (m_Namespace (p_Meta p)) (m_Name (p_Meta p)))"

definition debug_nn :: "debug_instance \<Rightarrow> string" where
  "debug_nn d = m_Name (dbi_Meta d) @ '' in namespace '' @ m_Namespace (dbi_Meta d)"

text \<open>
  \<open>DebugPod\<close> merges the override into the maps of the caller's Store, so the Store that the service
  is built from is \<open>DebugPod_shared s\<close>.
\<close>

definition reconcilePod :: "'w reconciler \<Rightarrow> store \<Rightarrow> debug_instance \<Rightarrow> ('w, goerr option) state" where
  "reconcilePod rc s d =
     (let p = DebugPod (rc_OperatorServiceURL rc) s d in do {
        r \<leftarrow> GetPod (rc_Client rc) (m_Namespace (p_Meta p)) (m_Name (p_Meta p));
        (case r of
           Inl e \<Rightarrow>
             if IsNotFound e then do {
               _ \<leftarrow> rc_Recorder rc (OStore s) ''Create debug pod'' (''Creating debug pod '' @ debug_nn d);
               (e, _) \<leftarrow> EnsurePod (rc_Client rc) (dbi_Meta d) (OPod p);
               State_Monad.return (map_option (Wrap ''create debug pod'') e) }
             else State_Monad.return (Some (Wrap ''get debug pod'' e))
         | Inr _ \<Rightarrow> State_Monad.return None) })"

definition reconcileService :: "'w reconciler \<Rightarrow> store \<Rightarrow> debug_instance \<Rightarrow> ('w, goerr option) state" where
  "reconcileService rc s d =
     apply_changed rc (OStore s) ''Debug service update'' (''Update debug service '' @ debug_nn d)
       ''reconcile debug service'' ''reconcile debug service'' EnsureService (dbi_Meta d) (OService (DebugService s d))"

section \<open>Status\<close>

definition add_debug_condition :: "debug_condition \<Rightarrow> debug_instance \<Rightarrow> debug_instance" where
  "add_debug_condition c d =
     d\<lparr>dbi_Status := (dbi_Status d)\<lparr>dbs_Conditions := DebugAddCondition (dbs_Conditions (dbi_Status d)) c\<rparr>\<rparr>"

definition set_debug_state :: "debug_state \<Rightarrow> debug_instance \<Rightarrow> debug_instance" where
  "set_debug_state st d = d\<lparr>dbi_Status := (dbi_Status d)\<lparr>dbs_State := st\<rparr>\<rparr>"

definition debug_expired :: "debug_instance \<Rightarrow> gotime \<Rightarrow> bool" where
  "debug_expired d now \<longleftrightarrow> di_Duration (dbi_Spec d) > 0 \<and> until (validUntil d) now < 0"

definition debug_stateRunning :: "'w reconciler \<Rightarrow> store \<Rightarrow> debug_instance \<Rightarrow> ('w, debug_state \<times> debug_instance) state" where
  "debug_stateRunning rc s d = do {
     now \<leftarrow> cl_Now (rc_Client rc);
     let con = \<lparr>dbc_Type = StoreDebugInstanceStateRunning, dbc_LastTransitionTime = None, dbc_LastUpdateTime = now,
                dbc_Message = ''Waiting for pod to get started'', dbc_Reason = [], dbc_Status = ''True''\<rparr>;
     now \<leftarrow> (if di_Duration (dbi_Spec d) > 0 then cl_Now (rc_Client rc) else State_Monad.return now);
     (if debug_expired d now then
        State_Monad.return (StoreDebugInstanceStateDone, add_debug_condition (con\<lparr>
          dbc_Message := ''Store debug instance expired'', dbc_Status := ''done''\<rparr>) d)
      else do {
        r \<leftarrow> GetDebugPod (rc_Client rc) (rc_OperatorServiceURL rc) s d;
        (case r of
           Inl e \<Rightarrow>
             if IsNotFound e then State_Monad.return (StoreDebugInstanceStatePending,
               add_debug_condition (con\<lparr>dbc_Message := ''Pod not found, waiting for creation''\<rparr>) d)
             else State_Monad.return (StoreDebugInstanceStateError,
               add_debug_condition (con\<lparr>dbc_Reason := err_msg e, dbc_Status := ''Error''\<rparr>) d)
         | Inr pod \<Rightarrow>
             if p_Phase pod = ''Pending'' then State_Monad.return (StoreDebugInstanceStatePending,
               add_debug_condition (con\<lparr>dbc_Message := ''Pod is pending, waiting for resources''\<rparr>) d)
             else if p_Phase pod = ''Running'' then do {
               now \<leftarrow> cl_Now (rc_Client rc);
               State_Monad.return (StoreDebugInstanceStateRunning,
                 add_debug_condition (con\<lparr>dbc_Message := ''Pod is running successfully'', dbc_LastTransitionTime := now\<rparr>) d) }
             else if p_Phase pod = ''Failed'' then State_Monad.return (StoreDebugInstanceStateError,
               add_debug_condition (con\<lparr>dbc_Message := ''Pod failed to start'', dbc_Reason := ''PodFailed'',
                 dbc_Status := ''Error''\<rparr>) d)
             else State_Monad.return (StoreDebugInstanceStatePending,
               add_debug_condition (con\<lparr>dbc_Message := ''Pod in unknown state: '' @ p_Phase pod\<rparr>) d)) }) }"

definition writeStoreDebugInstanceStatus :: "'w client \<Rightarrow> string \<Rightarrow> string \<Rightarrow> debug_status \<Rightarrow> ('w, goerr option) state" where
  "writeStoreDebugInstanceStatus cl ns n status =
     cl_RetryOnConflict cl (do {
       r \<leftarrow> cl_Get cl KStoreDebugInstance ns n;
       (case typed (\<lambda>o'. case o' of OStoreDebugInstance d \<Rightarrow> Some d | _ \<Rightarrow> None) r of
          Inl e \<Rightarrow> State_Monad.return (Some (Wrap ''write status'' e))
        | Inr cr \<Rightarrow> cl_StatusUpdate cl (OStoreDebugInstance (cr\<lparr>dbi_Status := status\<rparr>))) })"

definition debug_condition_of :: "debug_state \<Rightarrow> gotime \<Rightarrow> string \<Rightarrow> string \<Rightarrow> debug_condition" where
  "debug_condition_of st now msg reason =
     \<lparr>dbc_Type = st, dbc_LastTransitionTime = None, dbc_LastUpdateTime = now, dbc_Message = msg, dbc_Reason = reason,
      dbc_Status = ''Error''\<rparr>"

text \<open>The status as it will be written: the part of \<open>reconcileCRStatus\<close> before the write.\<close>

definition debug_new_status ::
  "'w reconciler \<Rightarrow> store option \<Rightarrow> debug_instance \<Rightarrow> goerr option \<Rightarrow> ('w, debug_instance) state" where
  "debug_new_status rc store d reconcileError = do {
     d \<leftarrow> (case reconcileError of
              None \<Rightarrow> State_Monad.return d
            | Some e \<Rightarrow> do {
                now \<leftarrow> cl_Now (rc_Client rc);
                State_Monad.return (add_debug_condition
                  (debug_condition_of (dbs_State (dbi_Status d)) now (err_msg e) ''ReconcileError'') d) });
     d \<leftarrow> (case store of
              None \<Rightarrow> do {
                let d = set_debug_state StoreDebugInstanceStateWait d;
                now \<leftarrow> cl_Now (rc_Client rc);
                State_Monad.return (add_debug_condition
                  (debug_condition_of StoreDebugInstanceStateWait now
                    (''StoreRef not found (stores/'' @ di_StoreRef (dbi_Spec d) @ ''), waiting for store to be created'')
                    ''StoreRef error'') d) }
            | Some _ \<Rightarrow> State_Monad.return
                (if DebugIsState d [StoreDebugInstanceStateUnspecified] then set_debug_state StoreDebugInstanceStatePending d else d));
     (case store of
        Some s \<Rightarrow>
          if DebugIsState d [StoreDebugInstanceStateRunning, StoreDebugInstanceStatePending] then do {
            (st, d) \<leftarrow> debug_stateRunning rc s d;
            State_Monad.return (set_debug_state st d) }
          else State_Monad.return d
      | None \<Rightarrow> State_Monad.return d) }"

definition debug_reconcileCRStatus ::
  "'w reconciler \<Rightarrow> store option \<Rightarrow> debug_instance \<Rightarrow> goerr option \<Rightarrow> ('w, goerr option) state" where
  "debug_reconcileCRStatus rc store d reconcileError =
     (if m_DeletionTimestamp (dbi_Meta d) \<noteq> None then State_Monad.return None
      else do {
        d \<leftarrow> debug_new_status rc store d reconcileError;
        writeStoreDebugInstanceStatus (rc_Client rc) (m_Namespace (dbi_Meta d)) (m_Name (dbi_Meta d)) (dbi_Status d) })"

section \<open>Reconcile\<close>

text \<open>
  The body after the early clean-up: the requeue time, the Store if it was read, and whether the
  deferred status update is skipped.
\<close>

definition debug_done :: "'w reconciler \<Rightarrow> store \<Rightarrow> debug_instance \<Rightarrow> ('w, int \<times> bool) state" where
  "debug_done rc store d = do {
     e \<leftarrow> cl_Delete (rc_Client rc) (OPod (DebugPod (rc_OperatorServiceURL rc) store d));
     (case e of
        Some err \<Rightarrow> if \<not> IsNotFound err then State_Monad.return (Some (seconds 10, False)) else State_Monad.return None
      | None \<Rightarrow> State_Monad.return None) \<bind> (\<lambda>stop. case stop of
        Some r \<Rightarrow> State_Monad.return r
      | None \<Rightarrow> do {
          e \<leftarrow> cl_Delete (rc_Client rc) (OService (DebugService (DebugPod_shared store) d));
          (case e of
             Some err \<Rightarrow> if \<not> IsNotFound err then State_Monad.return (Some (seconds 10, False)) else State_Monad.return None
           | None \<Rightarrow> State_Monad.return None) \<bind> (\<lambda>stop. case stop of
             Some r \<Rightarrow> State_Monad.return r
           | None \<Rightarrow> do {
               c \<leftarrow> reconcileSuccessfulStoreDebugInstanceCleanup rc d;
               State_Monad.return (case c of
                   Inl e \<Rightarrow> (seconds 10, False)
                 | Inr (result, handled) \<Rightarrow> if handled then (result, True) else (0, False)) }) }) }"

definition debug_body :: "'w reconciler \<Rightarrow> string \<Rightarrow> debug_instance \<Rightarrow> ('w, int \<times> store option \<times> bool) state" where
  "debug_body rc ns d = do {
     r \<leftarrow> k8s_GetStore (rc_Client rc) ns (di_StoreRef (dbi_Spec d));
     (case r of
        Inl e \<Rightarrow> State_Monad.return (seconds 10, None, False)
      | Inr store \<Rightarrow>
          if DebugIsState d [StoreDebugInstanceStateDone] then do {
            (result, skip) \<leftarrow> debug_done rc store d;
            State_Monad.return (result, Some store, skip) }
          else if \<not> di_IgnoreStoreStatus (dbi_Spec d) \<and> \<not> IsState store [StateReady]
          then State_Monad.return (seconds 10, Some store, False)
          else if DebugIsState d [StoreDebugInstanceStateUnspecified] then State_Monad.return (seconds 10, Some store, False)
          else if DebugIsState d [StoreDebugInstanceStateDone, StoreDebugInstanceStateError]
          then State_Monad.return (0, Some store, False)
          else do {
            e \<leftarrow> reconcilePod rc store d;
            let store = DebugPod_shared store;
            (case e of
               Some _ \<Rightarrow> State_Monad.return (seconds 10, Some store, False)
             | None \<Rightarrow> do {
                 e \<leftarrow> reconcileService rc store d;
                 State_Monad.return (if e \<noteq> None then seconds 10 else seconds 20, Some store, False) }) }) }"

datatype outcome = Requeue int | Panic

definition debug_Reconcile :: "'w reconciler \<Rightarrow> string \<Rightarrow> string \<Rightarrow> ('w, outcome) state" where
  "debug_Reconcile rc ns n = do {
     r \<leftarrow> GetStoreDebugInstance (rc_Client rc) ns n;
     (case r of
        Inl e \<Rightarrow> State_Monad.return (if IsNotFound e then Requeue (seconds 10) else Panic)
      | Inr d \<Rightarrow> do {
          c \<leftarrow> deleteSuccessfulStoreDebugInstanceIfCleanupDue rc d;
          (case c of
             Inl e \<Rightarrow> State_Monad.return (Requeue (seconds 10))
           | Inr (result, deleted) \<Rightarrow>
               if deleted then State_Monad.return (Requeue result)
               else do {
                 (result, store, skip) \<leftarrow> debug_body rc ns d;
                 _ \<leftarrow> (if skip then State_Monad.return None else debug_reconcileCRStatus rc store d None);
                 State_Monad.return (Requeue result) }) }) }"

section \<open>Lemmas\<close>

abbreviation debug_state_of :: "debug_instance \<Rightarrow> debug_state" where
  "debug_state_of d \<equiv> dbs_State (dbi_Status d)"

lemma debug_updates [simp]:
  "dbi_Meta (set_debug_state st d) = dbi_Meta d" "dbi_Spec (set_debug_state st d) = dbi_Spec d"
  "dbi_Meta (add_debug_condition c d) = dbi_Meta d" "dbi_Spec (add_debug_condition c d) = dbi_Spec d"
  "debug_state_of (set_debug_state st d) = st" "debug_state_of (add_debug_condition c d) = debug_state_of d"
  by (simp_all add: set_debug_state_def add_debug_condition_def)

lemma GetDebugPod_cong: "dbi_Meta a = dbi_Meta b \<Longrightarrow> GetDebugPod cl url s a = GetDebugPod cl url s b"
  by (simp add: GetDebugPod_def DebugPod_def Let_def)

lemma debug_expired_cong [simp]: "debug_expired (set_debug_state st d) now = debug_expired d now"
  by (simp add: debug_expired_def validUntil_def)

text \<open>What a pod says about its instance.\<close>

definition pod_verdict :: "pod result \<Rightarrow> debug_state" where
  "pod_verdict r =
     (case r of
        Inl e \<Rightarrow> if IsNotFound e then StoreDebugInstanceStatePending else StoreDebugInstanceStateError
      | Inr p \<Rightarrow> if p_Phase p = ''Running'' then StoreDebugInstanceStateRunning
                 else if p_Phase p = ''Failed'' then StoreDebugInstanceStateError else StoreDebugInstanceStatePending)"

definition pod_says :: "'w reconciler \<Rightarrow> store \<Rightarrow> debug_instance \<Rightarrow> debug_state \<Rightarrow> bool" where
  "pod_says rc s d st \<longleftrightarrow>
     (\<exists>r w w'. run_state (GetDebugPod (rc_Client rc) (rc_OperatorServiceURL rc) s d) w = (r, w') \<and> st = pod_verdict r)"

lemma pod_saysI:
  "run_state (GetDebugPod (rc_Client rc) (rc_OperatorServiceURL rc) s d) w = (r, w') \<Longrightarrow> pod_says rc s d (pod_verdict r)"
  unfolding pod_says_def by blast

lemma pod_says_set_state [simp]: "pod_says rc s (set_debug_state st' d) st = pod_says rc s d st"
  unfolding pod_says_def by (subst GetDebugPod_cong[of _ d]) simp_all

lemma debug_stateRunning_cases:
  assumes "run_state (debug_stateRunning rc s d) w = ((st, d'), w')"
  shows "dbi_Meta d' = dbi_Meta d \<and> dbi_Spec d' = dbi_Spec d \<and>
    ((\<exists>now. debug_expired d now \<and> st = StoreDebugInstanceStateDone) \<or> pod_says rc s d st)"
  using assms unfolding debug_stateRunning_def
  by (auto simp: run_simps Let_def pod_verdict_def dest: pod_saysI split: prod.splits sum.splits if_splits)

context guarded_reconciler
begin

lemma k8s_GetStore_namespace:
  "preserves I (k8s_GetStore (rc_Client rc) n m) (\<lambda>r. \<forall>s. r = Inr s \<longrightarrow> st_Namespace s = n)"
  unfolding k8s_GetStore_def
  by (rule preserves_bind[OF get_ok]) (auto simp: typed_def split: sum.splits option.splits kobj.splits)

lemma GetPod_ok: "preserves I (GetPod (rc_Client rc) n m) (\<lambda>_. True)"
  unfolding GetPod_def by (rule read_ok[OF get_any]) simp

lemma debug_new_status_ok: "preserves I (debug_new_status rc store d err) (\<lambda>d'. dbi_Meta d' = dbi_Meta d)"
proof -
  have pod: "preserves I (GetDebugPod (rc_Client rc) url s x) (\<lambda>_. True)" for url s x
    by (simp add: GetDebugPod_def Let_def GetPod_ok)
  have running: "preserves I (debug_stateRunning rc s x) (\<lambda>(_, d'). dbi_Meta d' = dbi_Meta x)" for s x
    unfolding debug_stateRunning_def Let_def
    by (auto intro!: read_ok[OF now_ok] read_ok[OF pod] read_ok now_ok split: sum.split)
  have "preserves I (case err of None \<Rightarrow> State_Monad.return d | Some e \<Rightarrow> do {
      now \<leftarrow> cl_Now (rc_Client rc);
      State_Monad.return (add_debug_condition (debug_condition_of (debug_state_of d) now (err_msg e) ''ReconcileError'') d) })
    (\<lambda>d'. dbi_Meta d' = dbi_Meta d)"
    by (auto intro!: read_ok[OF now_ok] split: option.split)
  then show ?thesis
    unfolding debug_new_status_def
    by (rule preserves_bind)
      (auto intro!: preserves_bind[OF running] read_ok[OF now_ok] simp: Let_def split: option.split)
qed

lemma debug_delete_ok:
  assumes "D = {KPod, KService, KStoreDebugInstance}" and "obj_kind x \<in> D" and "m_Namespace (obj_meta x) = ns"
    and "\<And>a. preserves I (f a) (\<lambda>_. True)"
  shows "preserves I (cl_Delete (rc_Client rc) x \<bind> f) (\<lambda>_. True)"
  using assms by (intro read_ok delete_ok) auto

lemma debug_clean_ok:
  assumes "D = {KPod, KService, KStoreDebugInstance}" and "m_Namespace (dbi_Meta d) = ns"
  shows "preserves I (deleteSuccessfulStoreDebugInstanceIfCleanupDue rc d) (\<lambda>_. True)"
    "preserves I (reconcileSuccessfulStoreDebugInstanceCleanup rc d) (\<lambda>_. True)"
proof -
  have "preserves I (deleteSuccessfulStoreDebugInstance rc d) (\<lambda>_. True)"
    unfolding deleteSuccessfulStoreDebugInstance_def by (rule debug_delete_ok) (use assms in simp_all)
  then show "preserves I (deleteSuccessfulStoreDebugInstanceIfCleanupDue rc d) (\<lambda>_. True)"
    "preserves I (reconcileSuccessfulStoreDebugInstanceCleanup rc d) (\<lambda>_. True)"
    unfolding deleteSuccessfulStoreDebugInstanceIfCleanupDue_def reconcileSuccessfulStoreDebugInstanceCleanup_def Let_def
    by (auto intro!: read_ok[OF now_ok])
qed

lemma debug_body_ok:
  assumes "W = {KPod, KService}" and "D = {KPod, KService, KStoreDebugInstance}" and d: "m_Namespace (dbi_Meta d) = ns"
  shows "preserves I (debug_body rc ns d) (\<lambda>_. True)"
proof -
  have pod: "allowed (OPod (DebugPod url s d))" for url s
    using assms unfolding allowed_def by (simp add: DebugPod_def Let_def)
  have "preserves I (reconcilePod rc s d) (\<lambda>_. True)" for s
    unfolding reconcilePod_def Let_def EnsurePod_def
    by (auto intro!: read_ok[OF GetPod_ok] read_ok[OF recorder_ok] read_ok[OF ensure_after_ok[OF pod]] split: sum.split)
  moreover have "preserves I (reconcileService rc s d) (\<lambda>_. True)" if "st_Namespace s = ns" for s
  proof -
    have "allowed (OService (DebugService s d))"
      using that assms unfolding allowed_def by (simp add: DebugService_def service_object_def)
    then show ?thesis unfolding reconcileService_def ensure_defs by (rule apply_changed_ok)
  qed
  moreover have "preserves I (debug_done rc s d) (\<lambda>_. True)" if "st_Namespace s = ns" for s
  proof -
    have delete_pod: "preserves I (cl_Delete (rc_Client rc) (OPod (DebugPod url s' d))) (\<lambda>_. True)" for url s'
      using pod[of url s'] unfolding allowed_def by (intro delete_ok) (simp_all add: assms(2))
    have "m_Namespace (obj_meta (OService (DebugService (DebugPod_shared s) d))) = ns"
      unfolding that[symmetric] by (simp add: DebugService_def service_object_def DebugPod_shared_def PDB_shared_def set_Container_def)
    then have delete_service: "preserves I (cl_Delete (rc_Client rc) (OService (DebugService (DebugPod_shared s) d))) (\<lambda>_. True)"
      by (intro delete_ok) (simp_all add: assms(2))
    show ?thesis
      unfolding debug_done_def
      by (auto intro!: read_ok[OF delete_pod] read_ok[OF delete_service] read_ok[OF debug_clean_ok(2)[OF assms(2) d]] split: option.split)
  qed
  moreover have "st_Namespace (DebugPod_shared s) = st_Namespace s" for s
    by (simp add: DebugPod_shared_def PDB_shared_def set_Container_def)
  ultimately show ?thesis
    unfolding debug_body_def Let_def
    by (auto intro!: preserves_bind[OF k8s_GetStore_namespace] read_ok split: sum.split option.split)
qed

lemma debug_Reconcile_ok:
  assumes W: "W = {KPod, KService}" and D: "D = {KPod, KService, KStoreDebugInstance}" and S: "S = {KStoreDebugInstance}"
  shows "preserves I (debug_Reconcile rc ns n) (\<lambda>_. True)"
proof -
  have read: "preserves I (GetStoreDebugInstance (rc_Client rc) ns n) (\<lambda>r. \<forall>d. r = Inr d \<longrightarrow> m_Namespace (dbi_Meta d) = ns)"
    unfolding GetStoreDebugInstance_def
    by (rule preserves_bind[OF get_ok]) (auto simp: typed_def split: sum.splits option.splits kobj.splits)
  have status: "preserves I (debug_reconcileCRStatus rc store d err) (\<lambda>_. True)" if "m_Namespace (dbi_Meta d) = ns" for store d err
  proof -
    have "preserves I (writeStoreDebugInstanceStatus (rc_Client rc) (m_Namespace (dbi_Meta d')) m st) (\<lambda>_. True)"
      if "dbi_Meta d' = dbi_Meta d" for d' m st
      unfolding writeStoreDebugInstanceStatus_def
      by (rule write_status_ok) (use that \<open>m_Namespace (dbi_Meta d) = ns\<close> S in \<open>auto simp: same_place_def split: kobj.splits\<close>)
    then show ?thesis
      unfolding debug_reconcileCRStatus_def by (auto intro: preserves_bind[OF debug_new_status_ok])
  qed
  have rest: "preserves I (do {
      c \<leftarrow> deleteSuccessfulStoreDebugInstanceIfCleanupDue rc d;
      (case c of
         Inl e \<Rightarrow> State_Monad.return (Requeue (seconds 10))
       | Inr (result, deleted) \<Rightarrow>
           if deleted then State_Monad.return (Requeue result)
           else do {
             (result, store, skip) \<leftarrow> debug_body rc ns d;
             _ \<leftarrow> (if skip then State_Monad.return None else debug_reconcileCRStatus rc store d None);
             State_Monad.return (Requeue result) }) }) (\<lambda>_. True)" if "m_Namespace (dbi_Meta d) = ns" for d
    by (rule read_ok[OF debug_clean_ok(1)[OF D that]])
      (auto intro!: read_ok[OF debug_body_ok[OF W D that]] read_ok status[OF that] split: sum.split)
  show ?thesis
    unfolding debug_Reconcile_def
    by (rule preserves_bind[OF read]) (auto simp: rest split: sum.split)
qed

end

definition ex_waiting :: debug_instance where
  "ex_waiting = \<lparr>dbi_Meta = empty_meta, dbi_Spec = \<lparr>di_StoreRef = [], di_Duration = 1, di_ExtraLabels = None,
     di_ExtraContainerPorts = [], di_CustomImage = [], di_IgnoreStoreStatus = False\<rparr>,
     dbi_Status = \<lparr>dbs_State = StoreDebugInstanceStateWait, dbs_Conditions = []\<rparr>\<rparr>"

section \<open>Properties\<close>


text \<open>
  An instance that was put to waiting, because its Store could not be read once, never leaves that
  state: whatever the Store and the clock say it is not marked as expired, and it is not cleaned up,
  so its pod lives on after the instance's time is over.
\<close>

theorem waiting_debug_instance_never_expires:
  assumes "debug_state_of d = StoreDebugInstanceStateWait"
  shows "holds (\<lambda>d'. debug_state_of d' = StoreDebugInstanceStateWait) (debug_new_status rc store d err) \<and>
    \<not> isStoreDebugInstanceCleanupEligible d"
proof
  have "debug_state_of (fst (run_state (debug_new_status rc store d err) w)) = StoreDebugInstanceStateWait" for w
    using assms by (cases store; cases err)
      (simp_all add: debug_new_status_def run_simps Let_def DebugIsState_def split: prod.split)
  then show "holds (\<lambda>d'. debug_state_of d' = StoreDebugInstanceStateWait) (debug_new_status rc store d err)" by (rule holdsI)
  show "\<not> isStoreDebugInstanceCleanupEligible d"
    using assms by (simp add: isStoreDebugInstanceCleanupEligible_def DebugIsState_def)
qed

theorem waiting_debug_instance_never_expires_witness:
  "debug_expired ex_waiting (Some 2) \<and>
   holds (\<lambda>d'. debug_state_of d' = StoreDebugInstanceStateWait) (debug_new_status (map_reconciler (Some 1)) (Some zero_store) ex_waiting None)"
proof -
  have "debug_state_of ex_waiting = StoreDebugInstanceStateWait" by (simp add: ex_waiting_def)
  moreover have "debug_expired ex_waiting (Some 2)"
    by (simp add: debug_expired_def ex_waiting_def validUntil_def until_def empty_meta_def)
  ultimately show ?thesis using waiting_debug_instance_never_expires by blast
qed

text \<open>
  Reconciling a debug instance panics exactly when the resource could not be read for another
  reason than that it does not exist: the error is logged and the nil pointer used.
\<close>

theorem debug_Reconcile_panics:
  "fst (run_state (debug_Reconcile rc ns n) w) = Panic \<longleftrightarrow>
     (\<exists>e w'. run_state (GetStoreDebugInstance (rc_Client rc) ns n) w = (Inl e, w') \<and> \<not> IsNotFound e)"
  by (auto simp: debug_Reconcile_def run_simps split: prod.splits sum.splits if_splits)

text \<open>
  Which objects a reconcile of a debug instance touches: its pod and its service, the resource
  itself, and the status of the resource, all of it in the namespace of the request.
\<close>

theorem debug_Reconcile_frame:
  assumes "guarded_reconciler rc I {KPod, KService} {KPod, KService, KStoreDebugInstance} ns {KStoreDebugInstance}" and "I w"
  shows "I (snd (run_state (debug_Reconcile rc ns n) w))"
  using guarded_reconciler.debug_Reconcile_ok[OF assms(1) refl refl refl] assms(2) by (rule preservesD)

theorem debug_Reconcile_frame_witness:
  "filter (\<lambda>x. \<not> (obj_kind x \<in> {KPod, KService, KStoreDebugInstance} \<and> m_Namespace (obj_meta x) = []))
     (snd (run_state (debug_Reconcile (map_reconciler (Some 1)) [] []) [OStoreDebugInstance ex_waiting, OStore zero_store])) = [OStore zero_store]"
proof -
  have "outside ({KPod, KService} \<union> {KPod, KService, KStoreDebugInstance} \<union> {KStoreDebugInstance}) []
      [OStoreDebugInstance ex_waiting, OStore zero_store] = [OStore zero_store]"
    by (simp add: outside_def ex_waiting_def empty_meta_def)
  from debug_Reconcile_frame[OF mr.guarded_reconciler_axioms[where L = "[OStore zero_store]"], OF this]
  show ?thesis by (simp add: outside_def insert_commute)
qed

end
