(* ===== verification/SnapshotController.thy ===== *)
theory SnapshotController
  imports Reconciler
begin

text \<open>
  The controllers of \<open>StoreSnapshotCreate\<close> and \<open>StoreSnapshotRestore\<close>
  (\<open>internal/controller/storesnapshot_base_reconciler.go\<close>, \<open>storesnapshot_create_controller.go\<close>,
  \<open>storesnapshot_restore_controller.go\<close>): they share one reconcile function, which takes what
  differs (reading the resource, its job, writing its status) as arguments. As in the code, both
  kinds of resources are one type behind an interface.
\<close>

section \<open>What differs\<close>

record 'w snapshot_ops =
  so_getSnapshot :: "'w client \<Rightarrow> string \<Rightarrow> string \<Rightarrow> ('w, snapshot result) state"
  so_getJob :: "'w client \<Rightarrow> store \<Rightarrow> snapshot \<Rightarrow> ('w, job result) state"
  so_createJob :: "store \<Rightarrow> snapshot \<Rightarrow> job"
  so_writeStatus :: "'w client \<Rightarrow> string \<Rightarrow> string \<Rightarrow> snapshot_status \<Rightarrow> ('w, goerr option) state"
  so_runtimeObject :: "snapshot \<Rightarrow> kobj"
  so_kindType :: string

definition WriteSnapshotStatus ::
  "kind \<Rightarrow> (kobj \<Rightarrow> snapshot option) \<Rightarrow> (snapshot \<Rightarrow> kobj) \<Rightarrow>
   'w client \<Rightarrow> string \<Rightarrow> string \<Rightarrow> snapshot_status \<Rightarrow> ('w, goerr option) state" where
  "WriteSnapshotStatus k p c cl ns n status =
     cl_RetryOnConflict cl (do {
       r \<leftarrow> cl_Get cl k ns n;
       (case typed p r of
          Inl e \<Rightarrow> State_Monad.return (Some (Wrap ''write status'' e))
        | Inr cr \<Rightarrow> cl_StatusUpdate cl (c (cr\<lparr>sh_Status := status\<rparr>))) })"

section \<open>Status\<close>

definition set_snapshot :: "snapshot_state \<Rightarrow> string option \<Rightarrow> gotime option \<Rightarrow> snapshot_status \<Rightarrow> snapshot_status" where
  "set_snapshot st msg completed s =
     s\<lparr>sns_State := st, sns_Message := (case msg of None \<Rightarrow> sns_Message s | Some m \<Rightarrow> m),
       sns_CompletedAt := (case completed of None \<Rightarrow> sns_CompletedAt s | Some t \<Rightarrow> t)\<rparr>"

fun snapshot_state_text :: "snapshot_state \<Rightarrow> string" where
  "snapshot_state_text SnapshotStateEmpty = []"
| "snapshot_state_text SnapshotStatePending = ''pending''"
| "snapshot_state_text SnapshotStateRunning = ''running''"
| "snapshot_state_text SnapshotStateFailed = ''failed''"
| "snapshot_state_text SnapshotStateSucceeded = ''succeeded''"

text \<open>
  The status before the deferred function runs, with the status and the reason of the condition and
  the error that is returned.
\<close>

definition snapshot_progress ::
  "'w reconciler \<Rightarrow> 'w snapshot_ops \<Rightarrow> store \<Rightarrow> snapshot \<Rightarrow> ('w, snapshot_status \<times> string \<times> string \<times> goerr option) state" where
  "snapshot_progress rc ops store snap =
     (let status = sh_Status snap in do {
        r \<leftarrow> so_getJob ops (rc_Client rc) store snap;
        (case r of
           Inl e \<Rightarrow>
             if IsNotFound e then State_Monad.return (set_snapshot SnapshotStatePending None None status, [], [], None)
             else State_Monad.return (set_snapshot SnapshotStatePending (Some ''Error in getting snapshot job'') None status,
               ''Error'', ''InternalError: Error in getting snapshot job: '' @ err_msg e, None)
         | Inr found \<Rightarrow> do {
             r \<leftarrow> IsJobContainerDone (rc_Client rc) (Some found) CONTAINER_NAME_SNAPSHOT;
             (case r of
                Inl e \<Rightarrow> do {
                  now \<leftarrow> cl_Now (rc_Client rc);
                  State_Monad.return (set_snapshot SnapshotStateFailed (Some ''Error in getting snapshot state job'') (Some now) status,
                    ''Error'', ''InternalError: Error in getting snapshot state job: '' @ err_msg e,
                    Some (Wrap ''get snapshot job state'' e)) }
              | Inr jobState \<Rightarrow>
                  if IsDone jobState \<and> HasErrors jobState then do {
                    now \<leftarrow> cl_Now (rc_Client rc);
                    State_Monad.return (set_snapshot SnapshotStateFailed
                      (Some (''Snapshot is Done but has Errors. Check logs for more details. Exit code: '' @ Itoa (jbs_ExitCode jobState)))
                      (Some now) status, ''Error'', ''error in Snapshot, exit code: '' @ Itoa (jbs_ExitCode jobState), None) }
                  else if IsDone jobState \<and> \<not> HasErrors jobState then do {
                    now \<leftarrow> cl_Now (rc_Client rc);
                    State_Monad.return (set_snapshot SnapshotStateSucceeded (Some ''Snapshot is successfully run'') (Some now) status,
                      ''Ready'', ''Snapshot successfully created'', None) }
                  else State_Monad.return (set_snapshot SnapshotStateRunning
                    (Some (''Waiting for snapshot job to finish. Active jobs: '' @ fmt_d (jst_Active (j_Status found)) @
                      '', Failed jobs: '' @ fmt_d (jst_Failed (j_Status found)))) None status,
                    [], ''Still running'', None)) }) })"

definition snapshot_reconcileCRStatus ::
  "'w reconciler \<Rightarrow> 'w snapshot_ops \<Rightarrow> store \<Rightarrow> snapshot \<Rightarrow> ('w, goerr option \<times> snapshot) state" where
  "snapshot_reconcileCRStatus rc ops store snap =
     (let snap = (if SnapshotIsState (sh_Status snap) [SnapshotStateEmpty]
                  then snap\<lparr>sh_Status := (sh_Status snap)\<lparr>sns_State := SnapshotStatePending\<rparr>\<rparr> else snap);
          previousState = sns_State (sh_Status snap) in do {
        now \<leftarrow> cl_Now (rc_Client rc);
        (status, conStatus, conReason, err) \<leftarrow> snapshot_progress rc ops store snap;
        transition \<leftarrow> (if previousState \<noteq> sns_State status then cl_Now (rc_Client rc) else State_Monad.return None);
        let con = \<lparr>con_Type = snapshot_state_text (sns_State status), con_LastTransitionTime = transition,
                   con_LastUpdateTime = now, con_Message = sns_Message status, con_Reason = conReason, con_Status = conStatus\<rparr>;
        State_Monad.return (err, snap\<lparr>sh_Status := status\<lparr>sns_Conditions := AddCondition (sns_Conditions status) con\<rparr>\<rparr>) })"

section \<open>Reconcile\<close>

definition reconcileSnapshotJob ::
  "'w reconciler \<Rightarrow> 'w snapshot_ops \<Rightarrow> snapshot \<Rightarrow> job \<Rightarrow> ('w, goerr option) state" where
  "reconcileSnapshotJob rc ops snap obj =
     apply_changed rc (so_runtimeObject ops snap) ''Diff snapshot job hash''
       (''Update Store '' @ m_Name (sh_Meta snap) @ '' snapshot job in namespace '' @ m_Namespace (sh_Meta snap) @ ''. Diff hash'')
       ''reconcile unready setup job'' ''reconcile unready snapshot job'' EnsureJob (sh_Meta snap) (OJob obj)"

fun snapshot_send_loop :: "(event_data \<Rightarrow> ('w, goerr option) state) list \<Rightarrow> event_data \<Rightarrow> ('w, unit) state" where
  "snapshot_send_loop [] e = State_Monad.return ()"
| "snapshot_send_loop (h # hs) e = do { _ \<leftarrow> h e; snapshot_send_loop hs e }"

definition snapshot_sendEvent :: "'w reconciler \<Rightarrow> 'w snapshot_ops \<Rightarrow> snapshot \<Rightarrow> ('w, unit) state" where
  "snapshot_sendEvent rc ops snap =
     snapshot_send_loop (rc_EventHandlers rc)
       \<lparr>evt_Message = sns_Message (sh_Status snap), evt_Condition = GetLastCondition (sns_Conditions (sh_Status snap)),
        evt_DeployedImage = cs_Image (sn_Container (sh_Spec snap)), evt_Labels = m_Labels (sh_Meta snap),
        evt_KindType = so_kindType ops\<rparr>"

definition reconcileSnapshotResource ::
  "'w reconciler \<Rightarrow> 'w snapshot_ops \<Rightarrow> string \<Rightarrow> snapshot \<Rightarrow> ('w, int) state" where
  "reconcileSnapshotResource rc ops ns snap = do {
     r \<leftarrow> k8s_GetStore (rc_Client rc) ns (sn_StoreNameRef (sh_Spec snap));
     (case r of
        Inl e \<Rightarrow> State_Monad.return shortRequeue
      | Inr store \<Rightarrow>
          if SnapshotIsState (sh_Status snap) [SnapshotStateFailed, SnapshotStateSucceeded] then State_Monad.return noRequeue
          else do {
            _ \<leftarrow> (if \<not> SnapshotIsState (sh_Status snap) [SnapshotStateRunning]
                   then reconcileSnapshotJob rc ops snap (so_createJob ops store snap) else State_Monad.return None);
            (_, snap) \<leftarrow> snapshot_reconcileCRStatus rc ops store snap;
            _ \<leftarrow> snapshot_sendEvent rc ops snap;
            _ \<leftarrow> so_writeStatus ops (rc_Client rc) (m_Namespace (sh_Meta snap)) (m_Name (sh_Meta snap)) (sh_Status snap);
            State_Monad.return shortRequeue }) }"

definition ReconcileSnapshot :: "'w reconciler \<Rightarrow> 'w snapshot_ops \<Rightarrow> string \<Rightarrow> string \<Rightarrow> ('w, int) state" where
  "ReconcileSnapshot rc ops ns n = do {
     r \<leftarrow> so_getSnapshot ops (rc_Client rc) ns n;
     (case r of
        Inl e \<Rightarrow> State_Monad.return (if IsNotFound e then noRequeue else apiFailedRequeue)
      | Inr snap \<Rightarrow> reconcileSnapshotResource rc ops ns snap) }"

section \<open>The two controllers\<close>

definition create_ops :: "'w reconciler \<Rightarrow> 'w snapshot_ops" where
  "create_ops rc =
     \<lparr>so_getSnapshot = GetStoreSnapshotCreate,
      so_getJob = (\<lambda>cl s sn. GetSnapshotCreateJob cl (rc_MarshalStatus rc) s sn),
      so_createJob = SnapshotCreateJob (rc_MarshalStatus rc),
      so_writeStatus = WriteSnapshotStatus KStoreSnapshotCreate (\<lambda>o'. case o' of OStoreSnapshotCreate d \<Rightarrow> Some d | _ \<Rightarrow> None) OStoreSnapshotCreate,
      so_runtimeObject = OStoreSnapshotCreate,
      so_kindType = ''*v1.StoreSnapshotCreate''\<rparr>"

definition restore_ops :: "'w reconciler \<Rightarrow> 'w snapshot_ops" where
  "restore_ops rc =
     \<lparr>so_getSnapshot = GetStoreSnapshotRestore,
      so_getJob = (\<lambda>cl s sn. GetSnapshotRestoreJob cl (rc_MarshalStatus rc) s sn),
      so_createJob = SnapshotRestoreJob (rc_MarshalStatus rc),
      so_writeStatus = WriteSnapshotStatus KStoreSnapshotRestore (\<lambda>o'. case o' of OStoreSnapshotRestore d \<Rightarrow> Some d | _ \<Rightarrow> None) OStoreSnapshotRestore,
      so_runtimeObject = OStoreSnapshotRestore,
      so_kindType = ''*v1.StoreSnapshotRestore''\<rparr>"

definition snapshot_create_Reconcile :: "'w reconciler \<Rightarrow> string \<Rightarrow> string \<Rightarrow> ('w, int) state" where
  "snapshot_create_Reconcile rc = ReconcileSnapshot rc (create_ops rc)"

definition snapshot_restore_Reconcile :: "'w reconciler \<Rightarrow> string \<Rightarrow> string \<Rightarrow> ('w, int) state" where
  "snapshot_restore_Reconcile rc = ReconcileSnapshot rc (restore_ops rc)"

section \<open>Lemmas\<close>

text \<open>
  The contract of the operations that differ: they read a resource of the requested namespace, the
  job stands in the namespace of its resource, and writing the status is one of the allowed writes.
\<close>

locale guarded_snapshot = guarded_reconciler rc I W D ns S
  for rc :: "'w reconciler" and I :: "'w \<Rightarrow> bool" and W D :: "kind set" and ns :: string and S :: "kind set" +
  fixes ops :: "'w snapshot_ops"
  assumes snapshot_read: "preserves I (so_getSnapshot ops (rc_Client rc) n m) (\<lambda>r. \<forall>sn. r = Inr sn \<longrightarrow> m_Namespace (sh_Meta sn) = n)"
    and job_read: "preserves I (so_getJob ops (rc_Client rc) s sn) (\<lambda>_. True)"
    and job_place: "m_Namespace (j_Meta (so_createJob ops s sn)) = m_Namespace (sh_Meta sn)"
    and status_write: "preserves I (so_writeStatus ops (rc_Client rc) ns m st) (\<lambda>_. True)"
begin

lemma snapshot_reconcileCRStatus_ok:
  "preserves I (snapshot_reconcileCRStatus rc ops s sn) (\<lambda>(_, sn'). sh_Meta sn' = sh_Meta sn)"
proof -
  have "preserves I (snapshot_progress rc ops s x) (\<lambda>_. True)" for x
    unfolding snapshot_progress_def Let_def
    by (auto intro!: read_ok[OF job_read] read_ok[OF IsJobContainerDone_ok] read_ok[OF now_ok] split: sum.split)
  then show ?thesis
    unfolding snapshot_reconcileCRStatus_def Let_def
    by (intro read_ok[OF now_ok]) (auto intro!: read_ok[where m = "snapshot_progress _ _ _ _"] read_ok now_ok)
qed

lemma snapshot_sendEvent_ok: "preserves I (snapshot_sendEvent rc ops sn) (\<lambda>_. True)"
proof -
  have "preserves I (snapshot_send_loop hs e) (\<lambda>_. True)" if "set hs \<subseteq> set (rc_EventHandlers rc)" for hs e
    using that by (induction hs) (auto intro!: read_ok[OF handlers_ok])
  then show ?thesis unfolding snapshot_sendEvent_def by simp
qed

lemma reconcileSnapshotResource_ok:
  assumes "m_Namespace (sh_Meta sn) = ns" and "SnapshotIsState (sh_Status sn) [SnapshotStateRunning] \<or> KJob \<in> W \<inter> D"
  shows "preserves I (reconcileSnapshotResource rc ops ns sn) (\<lambda>_. True)"
proof -
  have job: "preserves I (reconcileSnapshotJob rc ops sn (so_createJob ops s sn)) (\<lambda>_. True)" if "KJob \<in> W \<inter> D" for s
  proof -
    have "allowed (OJob (so_createJob ops s sn))" unfolding allowed_def using that job_place assms(1) by simp
    then show ?thesis unfolding reconcileSnapshotJob_def ensure_defs by (rule apply_changed_ok)
  qed
  have status: "preserves I (snapshot_reconcileCRStatus rc ops s sn \<bind> (\<lambda>(_, sn'). do {
      _ \<leftarrow> snapshot_sendEvent rc ops sn';
      _ \<leftarrow> so_writeStatus ops (rc_Client rc) (m_Namespace (sh_Meta sn')) (m_Name (sh_Meta sn')) (sh_Status sn');
      State_Monad.return shortRequeue })) (\<lambda>_. True)" for s
    by (rule preserves_bind[OF snapshot_reconcileCRStatus_ok])
      (auto simp: assms(1) intro!: read_ok[OF snapshot_sendEvent_ok] read_ok[OF status_write])
  show ?thesis
    unfolding reconcileSnapshotResource_def
    using assms(2) by (auto intro!: read_ok[OF k8s_GetStore_ok] read_ok[OF job] status split: sum.split)
qed

lemma ReconcileSnapshot_ok:
  assumes "KJob \<in> W \<inter> D"
  shows "preserves I (ReconcileSnapshot rc ops ns n) (\<lambda>_. True)"
  unfolding ReconcileSnapshot_def
  by (rule preserves_bind[OF snapshot_read]) (use assms in \<open>auto intro: reconcileSnapshotResource_ok split: sum.split\<close>)

end

text \<open>Both controllers fulfil the contract on every API server.\<close>

lemma snapshotJob_namespace [simp]: "m_Namespace (j_Meta (snapshotJob marshal s meta sn cmd)) = m_Namespace meta"
  by (simp add: snapshotJob_def job_object_def Let_def)

context guarded_reconciler
begin

lemma create_ops_ok:
  assumes "KStoreSnapshotCreate \<in> S"
  shows "guarded_snapshot rc I W D ns S (create_ops rc)"
proof
  show "preserves I (so_getSnapshot (create_ops rc) (rc_Client rc) n m) (\<lambda>r. \<forall>sn. r = Inr sn \<longrightarrow> m_Namespace (sh_Meta sn) = n)" for n m
    unfolding create_ops_def GetStoreSnapshotCreate_def snapshot_ops.simps
    by (rule preserves_bind[OF get_ok]) (auto simp: typed_def split: sum.splits option.splits kobj.splits)
  show "preserves I (so_writeStatus (create_ops rc) (rc_Client rc) ns m st) (\<lambda>_. True)" for m st
    unfolding create_ops_def WriteSnapshotStatus_def snapshot_ops.simps
    by (rule write_status_ok) (use assms in \<open>auto simp: same_place_def split: kobj.splits\<close>)
qed (simp_all add: create_ops_def GetSnapshotCreateJob_def SnapshotCreateJob_def Let_def GetJob_ok)

lemma restore_ops_ok:
  assumes "KStoreSnapshotRestore \<in> S"
  shows "guarded_snapshot rc I W D ns S (restore_ops rc)"
proof
  show "preserves I (so_getSnapshot (restore_ops rc) (rc_Client rc) n m) (\<lambda>r. \<forall>sn. r = Inr sn \<longrightarrow> m_Namespace (sh_Meta sn) = n)" for n m
    unfolding restore_ops_def GetStoreSnapshotRestore_def snapshot_ops.simps
    by (rule preserves_bind[OF get_ok]) (auto simp: typed_def split: sum.splits option.splits kobj.splits)
  show "preserves I (so_writeStatus (restore_ops rc) (rc_Client rc) ns m st) (\<lambda>_. True)" for m st
    unfolding restore_ops_def WriteSnapshotStatus_def snapshot_ops.simps
    by (rule write_status_ok) (use assms in \<open>auto simp: same_place_def split: kobj.splits\<close>)
qed (simp_all add: restore_ops_def GetSnapshotRestoreJob_def SnapshotRestoreJob_def Let_def GetJob_ok)

end

interpretation mcreate: guarded_snapshot "map_reconciler now" "\<lambda>w. outside ({KJob} \<union> {KJob} \<union> {KStoreSnapshotCreate}) ns w = L"
    "{KJob}" "{KJob}" ns "{KStoreSnapshotCreate}" "create_ops (map_reconciler now)"
  by (rule mr.create_ops_ok) simp

interpretation mrestore: guarded_snapshot "map_reconciler now" "\<lambda>w. outside ({KJob} \<union> {KJob} \<union> {KStoreSnapshotRestore}) ns w = L"
    "{KJob}" "{KJob}" ns "{KStoreSnapshotRestore}" "restore_ops (map_reconciler now)"
  by (rule mr.restore_ops_ok) simp

text \<open>What the job says about its snapshot.\<close>

definition snapshot_job_verdict :: "job_state result \<Rightarrow> snapshot_state" where
  "snapshot_job_verdict r =
     (case r of
        Inl _ \<Rightarrow> SnapshotStateFailed
      | Inr js \<Rightarrow> if \<not> IsDone js then SnapshotStateRunning
                  else if HasErrors js then SnapshotStateFailed else SnapshotStateSucceeded)"

definition snapshot_verdict :: "'w reconciler \<Rightarrow> 'w snapshot_ops \<Rightarrow> store \<Rightarrow> snapshot \<Rightarrow> snapshot_state \<Rightarrow> bool" where
  "snapshot_verdict rc ops s sn st \<longleftrightarrow>
     (\<exists>r w w'. run_state (so_getJob ops (rc_Client rc) s sn) w = (r, w') \<and>
       (case r of
          Inl _ \<Rightarrow> st = SnapshotStatePending
        | Inr j \<Rightarrow> st = snapshot_job_verdict (fst (run_state (IsJobContainerDone (rc_Client rc) (Some j) CONTAINER_NAME_SNAPSHOT) w'))))"

lemma snapshot_verdictI:
  "run_state (so_getJob ops (rc_Client rc) s sn) w = (Inl e, w') \<Longrightarrow> snapshot_verdict rc ops s sn SnapshotStatePending"
  "run_state (so_getJob ops (rc_Client rc) s sn) w = (Inr j, w') \<Longrightarrow>
     run_state (IsJobContainerDone (rc_Client rc) (Some j) CONTAINER_NAME_SNAPSHOT) w' = (r, w'') \<Longrightarrow>
     snapshot_verdict rc ops s sn (snapshot_job_verdict r)"
  unfolding snapshot_verdict_def by force+

definition started :: "snapshot \<Rightarrow> snapshot" where
  "started sn = (if SnapshotIsState (sh_Status sn) [SnapshotStateEmpty]
     then sn\<lparr>sh_Status := (sh_Status sn)\<lparr>sns_State := SnapshotStatePending\<rparr>\<rparr> else sn)"

lemma started_simps [simp]:
  "sh_Meta (started sn) = sh_Meta sn" "sh_Spec (started sn) = sh_Spec sn"
  "sns_CompletedAt (sh_Status (started sn)) = sns_CompletedAt (sh_Status sn)"
  by (simp_all add: started_def)

lemma snapshot_progress_cases:
  assumes "run_state (snapshot_progress rc ops s sn) w = ((status, cs, cr, err), w')"
  shows "snapshot_verdict rc ops s sn (sns_State status) \<and> (err = None \<or> sns_State status = SnapshotStateFailed) \<and>
    (sns_State status \<in> {SnapshotStateFailed, SnapshotStateSucceeded} \<or> sns_CompletedAt status = sns_CompletedAt (sh_Status sn))"
  using assms unfolding snapshot_progress_def Let_def
  by (auto simp: run_simps set_snapshot_def snapshot_job_verdict_def dest: snapshot_verdictI split: prod.splits sum.splits if_splits)

definition ex_snapshot :: "snapshot_state \<Rightarrow> snapshot" where
  "ex_snapshot st = \<lparr>sh_Meta = empty_meta, sh_Spec = \<lparr>sn_StoreNameRef = [], sn_Path = [],
     sn_S3BucketAuth = \<lparr>ba_AccessKeyRef = no_ref, ba_SecretAccessKeyRef = no_ref\<rparr>, sn_MaxRetries = 0, sn_Container = zero_container_spec\<rparr>,
     sh_Status = \<lparr>sns_State = st, sns_CompletedAt = None, sns_Message = [], sns_Duration = None,
       sns_TerminationMessageFromJob = [], sns_Conditions = []\<rparr>\<rparr>"

section \<open>Properties\<close>

text \<open>
  C30: What a reconcile makes of the state of a snapshot. It is pending as long as its job cannot be
  read, whatever the reason; afterwards it is running, succeeded or failed as the job's container
  says, and it is failed as well when the job's pods cannot be listed, an error that may be gone a
  moment later. Only a snapshot that ends gets a completion time, and the newest condition names the
  new state.
\<close>

theorem snapshot_status_outcome:
  "case run_state (snapshot_reconcileCRStatus rc ops s sn) w of ((err, sn'), w') \<Rightarrow>
     sh_Meta sn' = sh_Meta sn \<and> sh_Spec sn' = sh_Spec sn \<and>
     snapshot_verdict rc ops s (started sn) (sns_State (sh_Status sn')) \<and>
     (err = None \<or> sns_State (sh_Status sn') = SnapshotStateFailed) \<and>
     (sns_State (sh_Status sn') \<in> {SnapshotStateFailed, SnapshotStateSucceeded} \<or>
      sns_CompletedAt (sh_Status sn') = sns_CompletedAt (sh_Status sn)) \<and>
     con_Type (GetLastCondition (sns_Conditions (sh_Status sn'))) = snapshot_state_text (sns_State (sh_Status sn'))"
proof -
  obtain now w1 where now: "run_state (cl_Now (rc_Client rc)) w = (now, w1)" by (metis surj_pair)
  obtain status cs cr err w2 where run: "run_state (snapshot_progress rc ops s (started sn)) w1 = ((status, cs, cr, err), w2)"
    by (metis surj_pair)
  show ?thesis
    using snapshot_progress_cases[OF run] run
    by (auto simp: snapshot_reconcileCRStatus_def started_def[symmetric] Let_def run_simps now store_conditions.latest_add
        split: prod.splits if_splits)
qed

text \<open>
  A snapshot that has failed or succeeded is never worked on again: the reconcile reads the
  snapshot and its Store and does nothing else, and it asks for another run only when the Store could
  not be read.
\<close>

theorem finished_snapshot_left_alone:
  assumes "SnapshotIsState (sh_Status sn) [SnapshotStateFailed, SnapshotStateSucceeded]"
    and "run_state (so_getSnapshot ops (rc_Client rc) ns n) w = (Inr sn, w')"
  shows "run_state (ReconcileSnapshot rc ops ns n) w =
    (case run_state (k8s_GetStore (rc_Client rc) ns (sn_StoreNameRef (sh_Spec sn))) w' of
       (r, w'') \<Rightarrow> (case r of Inl _ \<Rightarrow> shortRequeue | Inr _ \<Rightarrow> noRequeue, w''))"
  using assms by (auto simp: ReconcileSnapshot_def reconcileSnapshotResource_def run_simps split: prod.split sum.split)

theorem finished_snapshot_left_alone_witness:
  "let w = [OStoreSnapshotCreate (ex_snapshot SnapshotStateFailed), OStore zero_store] in
   run_state (ReconcileSnapshot (map_reconciler None) (create_ops (map_reconciler None)) [] []) w = (noRequeue, w)"
proof -
  let ?w = "[OStoreSnapshotCreate (ex_snapshot SnapshotStateFailed), OStore zero_store]"
  have "run_state (so_getSnapshot (create_ops (map_reconciler None)) (rc_Client (map_reconciler None)) [] []) ?w
      = (Inr (ex_snapshot SnapshotStateFailed), ?w)"
    by (simp add: create_ops_def map_reconciler_def map_client_def GetStoreSnapshotCreate_def run_simps cluster_get_def typed_def
        ex_snapshot_def empty_meta_def)
  moreover have "run_state (k8s_GetStore (rc_Client (map_reconciler None)) [] []) ?w = (Inr zero_store, ?w)"
    by (simp add: map_reconciler_def map_client_def k8s_GetStore_def run_simps cluster_get_def typed_def zero_store_def empty_meta_def)
  moreover have "SnapshotIsState (sh_Status (ex_snapshot SnapshotStateFailed)) [SnapshotStateFailed, SnapshotStateSucceeded]"
    "sn_StoreNameRef (sh_Spec (ex_snapshot SnapshotStateFailed)) = []"
    by (simp_all add: ex_snapshot_def SnapshotIsState_def)
  ultimately show ?thesis using finished_snapshot_left_alone by fastforce
qed

text \<open>
  While a snapshot is running its job is not touched: no object but the status of the snapshot is
  written, and none deleted.
\<close>

theorem running_snapshot_keeps_job:
  assumes "guarded_reconciler rc I {} {} ns {KStoreSnapshotCreate}" and "I w"
    and "SnapshotIsState (sh_Status sn) [SnapshotStateRunning]" and "m_Namespace (sh_Meta sn) = ns"
  shows "I (snd (run_state (reconcileSnapshotResource rc (create_ops rc) ns sn) w))"
  using guarded_snapshot.reconcileSnapshotResource_ok[OF guarded_reconciler.create_ops_ok[OF assms(1) singletonI] assms(4)]
    assms(2,3) by (blast intro: preservesD)

theorem running_snapshot_keeps_job_witness:
  "filter (\<lambda>x. \<not> (obj_kind x = KStoreSnapshotCreate \<and> m_Namespace (obj_meta x) = []))
     (snd (run_state (reconcileSnapshotResource (map_reconciler None) (create_ops (map_reconciler None)) [] (ex_snapshot SnapshotStateRunning))
       [OStore zero_store])) = [OStore zero_store]"
proof -
  have "outside ({} \<union> {} \<union> {KStoreSnapshotCreate}) [] [OStore zero_store] = [OStore zero_store]" by (simp add: outside_def)
  from running_snapshot_keeps_job[OF mr.guarded_reconciler_axioms[where L = "[OStore zero_store]"],
      OF this, of "ex_snapshot SnapshotStateRunning"]
  show ?thesis by (simp add: outside_def ex_snapshot_def SnapshotIsState_def empty_meta_def)
qed

text \<open>
  C31: Which objects the two snapshot controllers touch: jobs, and the status of the snapshot resource
  itself, all of it in the namespace of the request.
\<close>

theorem snapshot_Reconcile_frame:
  assumes "guarded_reconciler rc I {KJob} {KJob} ns {KStoreSnapshotCreate, KStoreSnapshotRestore}" and "I w"
  shows "I (snd (run_state (snapshot_create_Reconcile rc ns n) w)) \<and> I (snd (run_state (snapshot_restore_Reconcile rc ns n) w))"
proof -
  have "KJob \<in> {KJob} \<inter> {KJob}" by simp
  note guarded_snapshot.ReconcileSnapshot_ok[OF guarded_reconciler.create_ops_ok[OF assms(1)] this]
    guarded_snapshot.ReconcileSnapshot_ok[OF guarded_reconciler.restore_ops_ok[OF assms(1)] this]
  then show ?thesis
    unfolding snapshot_create_Reconcile_def snapshot_restore_Reconcile_def using assms(2) by (auto intro: preservesD)
qed

theorem snapshot_Reconcile_frame_witness:
  "filter (\<lambda>x. \<not> (obj_kind x \<in> {KJob, KStoreSnapshotCreate, KStoreSnapshotRestore} \<and> m_Namespace (obj_meta x) = []))
     (snd (run_state (snapshot_create_Reconcile (map_reconciler None) [] [])
       [OStoreSnapshotCreate (ex_snapshot SnapshotStateEmpty), OStore zero_store])) = [OStore zero_store]"
proof -
  have "outside ({KJob} \<union> {KJob} \<union> {KStoreSnapshotCreate, KStoreSnapshotRestore}) []
      [OStoreSnapshotCreate (ex_snapshot SnapshotStateEmpty), OStore zero_store] = [OStore zero_store]"
    by (simp add: outside_def ex_snapshot_def empty_meta_def)
  from snapshot_Reconcile_frame[OF mr.guarded_reconciler_axioms[where L = "[OStore zero_store]"], OF this]
  show ?thesis by (simp add: outside_def insert_commute)
qed

end
