(* ===== verification/Filepath.thy ===== *)
theory Filepath
  imports Prelude
begin

text \<open>
  What the sources use of Go's \<open>strings\<close> and \<open>path/filepath\<close> on Unix: prefixes, splitting at a byte,
  and the lexical processing of paths by \<open>Clean\<close>, \<open>Join\<close> and \<open>Dir\<close>.
\<close>

section \<open>Texts\<close>

definition HasPrefix :: "string \<Rightarrow> string \<Rightarrow> bool" where
  "HasPrefix s p \<longleftrightarrow> take (length p) s = p"

definition TrimPrefix :: "string \<Rightarrow> string \<Rightarrow> string" where
  "TrimPrefix s p = (if HasPrefix s p then drop (length p) s else s)"

definition HasSuffix :: "string \<Rightarrow> string \<Rightarrow> bool" where
  "HasSuffix s p \<longleftrightarrow> HasPrefix (rev s) (rev p)"

text \<open>\<open>strings.Split\<close> for one byte.\<close>

fun SplitByte :: "string \<Rightarrow> char \<Rightarrow> string list" where
  "SplitByte [] c = [[]]"
| "SplitByte (x # s) c =
     (if x = c then [] # SplitByte s c
      else case SplitByte s c of w # ws \<Rightarrow> (x # w) # ws | [] \<Rightarrow> [[x]])"

section \<open>Paths\<close>

text \<open>
  The elements of a path are read from left to right onto a stack: empty elements and dots are
  dropped, and two dots remove the element before them, except at the root (where they vanish) and
  at the beginning of a relative path (where they stay).
\<close>

fun clean_loop :: "bool \<Rightarrow> string list \<Rightarrow> string list \<Rightarrow> string list" where
  "clean_loop rooted st [] = rev st"
| "clean_loop rooted st (e # es) =
     (if e = [] \<or> e = ''.'' then clean_loop rooted st es
      else if e = ''..'' then
        (if st \<noteq> [] \<and> hd st \<noteq> ''..'' then clean_loop rooted (tl st) es
         else if rooted then clean_loop rooted st es
         else clean_loop rooted (e # st) es)
      else clean_loop rooted (e # st) es)"

definition is_rooted :: "string \<Rightarrow> bool" where
  "is_rooted p \<longleftrightarrow> take 1 p = ''/''"

definition clean_elems :: "string \<Rightarrow> string list" where
  "clean_elems p = clean_loop (is_rooted p) [] (SplitByte p CHR ''/'')"

definition path_text :: "bool \<Rightarrow> string list \<Rightarrow> string" where
  "path_text rooted es =
     (if rooted then CHR ''/'' # Join es ''/'' else if es = [] then ''.'' else Join es ''/'')"

definition Clean :: "string \<Rightarrow> string" where
  "Clean p = path_text (is_rooted p) (clean_elems p)"

text \<open>\<open>filepath.Join\<close>: leading empty elements are ignored.\<close>

definition JoinPath :: "string list \<Rightarrow> string" where
  "JoinPath elems =
     (case dropWhile (\<lambda>e. e = []) elems of [] \<Rightarrow> [] | es \<Rightarrow> Clean (Join es ''/''))"

definition Dir :: "string \<Rightarrow> string" where
  "Dir p = Clean (rev (dropWhile (\<lambda>c. c \<noteq> CHR ''/'') (rev p)))"

text \<open>
  \<open>filepath.Rel\<close> for a target at or below the base. A walk of the base meets no other, and for others
  the definition gives nothing.
\<close>

definition Rel :: "string \<Rightarrow> string \<Rightarrow> string option" where
  "Rel base targ =
     (let bs = clean_elems base; ts = clean_elems targ in
      if is_rooted base = is_rooted targ \<and> take (length bs) ts = bs
      then Some (if ts = bs then ''.'' else Join (drop (length bs) ts) ''/'') else None)"

section \<open>Lemmas\<close>

lemma SplitByte_append: "c \<notin> set a \<Longrightarrow> SplitByte (a @ c # s) c = a # SplitByte s c"
  by (induction a) auto

lemma SplitByte_last: "c \<notin> set a \<Longrightarrow> SplitByte a c = [a]"
  by (induction a) auto

lemma SplitByte_nonempty: "SplitByte s c \<noteq> []"
  by (induction s) (auto split: list.splits)

lemma SplitByte_no_sep: "e \<in> set (SplitByte s c) \<Longrightarrow> c \<notin> set e"
  by (induction s arbitrary: e) (auto split: list.splits if_splits)

lemma SplitByte_Join:
  assumes "es \<noteq> []" and "\<forall>e\<in>set es. c \<notin> set e"
  shows "SplitByte (Join es [c]) c = es" "SplitByte (Join es [c] @ c # s) c = es @ SplitByte s c"
  using assms
proof (induction es)
  case (Cons e es)
  { case 1
    with Cons show ?case by (cases es) (auto simp: SplitByte_last SplitByte_append) }
  { case 2
    with Cons show ?case by (cases es) (auto simp: SplitByte_append) }
qed auto

text \<open>Cleaned elements: dots only as a prefix of double dots, which a rooted path has not.\<close>

definition clean_list :: "bool \<Rightarrow> string list \<Rightarrow> bool" where
  "clean_list rooted es \<longleftrightarrow>
     (\<forall>e\<in>set es. e \<noteq> [] \<and> e \<noteq> ''.'' \<and> CHR ''/'' \<notin> set e) \<and>
     (\<exists>n ds. es = replicate n ''..'' @ ds \<and> ''..'' \<notin> set ds \<and> (rooted \<longrightarrow> n = 0))"

lemma clean_list_snoc:
  assumes "clean_list r es" and e: "e \<noteq> []" "e \<noteq> ''.''" "CHR ''/'' \<notin> set e"
    and dots: "e = ''..'' \<Longrightarrow> \<not> r \<and> (es = [] \<or> last es = ''..'')"
  shows "clean_list r (es @ [e])"
proof -
  from assms(1) obtain n ds where es: "es = replicate n ''..'' @ ds" "''..'' \<notin> set ds" "r \<longrightarrow> n = 0"
    by (auto simp: clean_list_def)
  have "\<exists>n ds. es @ [e] = replicate n ''..'' @ ds \<and> ''..'' \<notin> set ds \<and> (r \<longrightarrow> n = 0)"
  proof (cases "e = ''..''")
    case False
    with es show ?thesis by (intro exI [of _ n] exI [of _ "ds @ [e]"]) auto
  next
    case True
    with dots es have "ds = []" by (metis append_is_Nil_conv last_appendR last_in_set)
    with es have "es @ [e] = replicate (Suc n) ''..''" using True by (simp add: replicate_append_same)
    with dots True show ?thesis by (intro exI [of _ "Suc n"] exI [of _ "[]"]) auto
  qed
  with assms(1) e show ?thesis by (auto simp: clean_list_def)
qed

lemma clean_list_butlast:
  assumes "clean_list r es"
  shows "clean_list r (butlast es)"
proof -
  from assms obtain n ds where es: "es = replicate n ''..'' @ ds" "''..'' \<notin> set ds" "r \<longrightarrow> n = 0"
    by (auto simp: clean_list_def)
  have "\<exists>n ds. butlast es = replicate n ''..'' @ ds \<and> ''..'' \<notin> set ds \<and> (r \<longrightarrow> n = 0)"
  proof (cases "ds = []")
    case True
    with es have "butlast es = replicate (n - 1) ''..''" by (cases n) (simp_all add: replicate_append_same [symmetric])
    with es show ?thesis by (intro exI [of _ "n - 1"] exI [of _ "[]"]) auto
  next
    case False
    with es have "butlast es = replicate n ''..'' @ butlast ds" by (simp add: butlast_append)
    with es show ?thesis by (intro exI [of _ n] exI [of _ "butlast ds"]) (auto dest: in_set_butlastD)
  qed
  with assms show ?thesis by (auto simp: clean_list_def dest: in_set_butlastD)
qed

lemma clean_loop_clean:
  assumes "clean_list r (rev st)" and "\<forall>e\<in>set es. CHR ''/'' \<notin> set e"
  shows "clean_list r (clean_loop r st es)"
  using assms
proof (induction r st es rule: clean_loop.induct)
  case (2 r st e es)
  have push: "clean_list r (rev (e # st))" if "e \<noteq> []" "e \<noteq> ''.''" "e = ''..'' \<Longrightarrow> \<not> r \<and> (st = [] \<or> hd st = ''..'')"
    using clean_list_snoc [OF 2(6), of e] that 2(7) by (auto simp: last_rev)
  have pop: "clean_list r (rev (tl st))" using clean_list_butlast [OF 2(6)] by (cases st) auto
  show ?case
    using 2 push pop by (auto split: if_splits)
qed simp

lemma clean_elems_clean: "clean_list (is_rooted p) (clean_elems p)"
  unfolding clean_elems_def
  by (rule clean_loop_clean) (auto simp: clean_list_def dest: SplitByte_no_sep)

text \<open>The text of cleaned elements determines them.\<close>

lemma hd_Join: "es \<noteq> [] \<Longrightarrow> hd es \<noteq> [] \<Longrightarrow> Join es s \<noteq> [] \<and> hd (Join es s) = hd (hd es)"
  by (induction es s rule: Join.induct) auto

lemma Join_prefix:
  assumes "clean_list r es" and "clean_list q ds" and "ds \<noteq> []" and "Join es ''/'' = Join ds ''/'' @ CHR ''/'' # tail"
  shows "\<exists>rest. es = ds @ rest \<and> rest \<noteq> []"
proof -
  have "es \<noteq> []" using assms(4) by auto
  then have "es = SplitByte (Join es ''/'') CHR ''/''"
    using assms(1) SplitByte_Join(1) [of es "CHR ''/''"] by (auto simp: clean_list_def)
  also have "\<dots> = ds @ SplitByte tail CHR ''/''"
    using assms(2-4) SplitByte_Join(2) [of ds "CHR ''/''" tail] by (auto simp: clean_list_def)
  finally show ?thesis using SplitByte_nonempty by blast
qed

lemma Join_no_prefix:
  assumes "clean_list r es"
  shows "Join es ''/'' \<noteq> CHR ''/'' # tail" "Join es ''/'' \<noteq> CHR ''.'' # CHR ''/'' # tail"
proof -
  have s: "es = SplitByte (Join es ''/'') CHR ''/''" if "es \<noteq> []"
    using assms that SplitByte_Join(1) [of es "CHR ''/''"] by (auto simp: clean_list_def)
  show "Join es ''/'' \<noteq> CHR ''/'' # tail"
  proof
    assume j: "Join es ''/'' = CHR ''/'' # tail"
    then have "es \<noteq> []" by auto
    from s [OF this] j have "[] \<in> set es" by (metis SplitByte.simps(2) list.set_intros(1))
    with assms show False by (auto simp: clean_list_def)
  qed
  show "Join es ''/'' \<noteq> CHR ''.'' # CHR ''/'' # tail"
  proof
    assume j: "Join es ''/'' = CHR ''.'' # CHR ''/'' # tail"
    then have "es \<noteq> []" by auto
    from s [OF this] j have "es = ''.'' # SplitByte tail CHR ''/''" by simp
    with assms show False by (auto simp: clean_list_def)
  qed
qed

text \<open>The text of cleaned elements determines them: a textual prefix is a prefix of elements.\<close>

lemma path_text_prefix:
  assumes es: "clean_list r es" and ds: "clean_list q ds" and p: "HasPrefix (path_text r es) (path_text q ds @ ''/'')"
  shows "r = q \<and> ds \<noteq> [] \<and> (\<exists>rest. es = ds @ rest \<and> rest \<noteq> [])"
proof -
  from p obtain tail where t: "path_text r es = path_text q ds @ CHR ''/'' # tail"
    unfolding HasPrefix_def by (metis append.assoc append_Cons append_Nil append_take_drop_id)
  have first: "path_text False xs \<noteq> CHR ''/'' # y" if "clean_list False xs" for xs y
    using Join_no_prefix(1) [OF that] by (auto simp: path_text_def)
  show ?thesis
  proof (cases r; cases q)
    assume rq: "r" "q"
    with t have "Join es ''/'' = Join ds ''/'' @ CHR ''/'' # tail" by (simp add: path_text_def)
    moreover from this have "ds \<noteq> []" using Join_no_prefix(1) [OF es] by force
    ultimately show ?thesis using rq Join_prefix [OF es ds] by blast
  next
    assume rq: "\<not> r" "\<not> q"
    then have "es \<noteq> []" using t by (auto simp: path_text_def Cons_eq_append_conv split: if_splits)
    with rq t have j: "Join es ''/'' = path_text q ds @ CHR ''/'' # tail" by (simp add: path_text_def)
    then have "ds \<noteq> []" using rq Join_no_prefix(2) [OF es] by (force simp: path_text_def)
    with j rq have "Join es ''/'' = Join ds ''/'' @ CHR ''/'' # tail" by (simp add: path_text_def)
    with \<open>ds \<noteq> []\<close> rq Join_prefix [OF es ds] show ?thesis by blast
  next
    assume rq: "\<not> r" "q"
    with t have "path_text False es = CHR ''/'' # Join ds ''/'' @ CHR ''/'' # tail" by (simp add: path_text_def)
    with first es rq show ?thesis by auto
  next
    assume rq: "r" "\<not> q"
    with t have "path_text False ds @ CHR ''/'' # tail = CHR ''/'' # Join es ''/''" by (simp add: path_text_def)
    moreover have "path_text False ds \<noteq> []"
      using ds hd_Join [of ds] by (auto simp: path_text_def clean_list_def)
    ultimately obtain y where "path_text False ds = CHR ''/'' # y" by (cases "path_text False ds") auto
    with first ds rq show ?thesis by auto
  qed
qed

lemma clean_list_rest:
  assumes "clean_list r (ds @ rest)" and "ds \<noteq> []" and "last ds \<noteq> ''..''"
  shows "''..'' \<notin> set rest"
proof
  assume "''..'' \<in> set rest"
  then obtain i where i: "i < length rest" "rest ! i = ''..''" by (auto simp: in_set_conv_nth)
  from assms(1) obtain n xs where e: "ds @ rest = replicate n ''..'' @ xs" "''..'' \<notin> set xs" by (auto simp: clean_list_def)
  have at: "(ds @ rest) ! (length ds + i) = ''..''" using i by (simp add: nth_append)
  have "length ds + i < n"
  proof (rule ccontr)
    assume "\<not> length ds + i < n"
    moreover have "length ds + i < length (replicate n ''..'' @ xs)" using i e(1) by (metis length_append nat_add_left_cancel_less)
    ultimately have "xs ! (length ds + i - n) = ''..''" "length ds + i - n < length xs" using at e(1) by (auto simp: nth_append)
    with e(2) show False by (metis nth_mem)
  qed
  then have "length ds - 1 < n" by simp
  then have "(ds @ rest) ! (length ds - 1) = ''..''" unfolding e(1) nth_append by simp
  with assms(2,3) show False by (simp add: nth_append last_conv_nth)
qed

text \<open>Cleaning a clean path changes nothing.\<close>

lemma clean_loop_id:
  assumes "clean_list r (rev st @ es)"
  shows "clean_loop r st (es @ [[]]) = rev st @ es \<and> clean_loop r st es = rev st @ es"
  using assms
proof (induction es arbitrary: st)
  case (Cons e es)
  from Cons.prems have c: "clean_list r (rev (e # st) @ es)" by simp
  from Cons.prems have e: "e \<noteq> []" "e \<noteq> ''.''" by (auto simp: clean_list_def)
  have "\<not> r \<and> (st = [] \<or> hd st = ''..'')" if dd: "e = ''..''"
  proof -
    from Cons.prems obtain n xs where x: "rev st @ e # es = replicate n ''..'' @ xs" "''..'' \<notin> set xs" "r \<longrightarrow> n = 0"
      by (auto simp: clean_list_def)
    have "length st < n"
    proof (rule ccontr)
      assume "\<not> length st < n"
      then have "(replicate n ''..'' @ xs) ! length st = xs ! (length st - n)" by (simp add: nth_append)
      moreover have "(rev st @ e # es) ! length st = e" by (simp add: nth_append)
      moreover have "length st - n < length xs" using arg_cong [OF x(1), of length] \<open>\<not> length st < n\<close> by simp
      ultimately show False using x dd by (metis nth_mem)
    qed
    moreover have "hd st = ''..''" if "st \<noteq> []"
    proof -
      have "length st - 1 < n" using \<open>length st < n\<close> by simp
      then have "(rev st @ e # es) ! (length st - 1) = ''..''" unfolding x(1) nth_append by simp
      with that show ?thesis by (simp add: nth_append rev_nth hd_conv_nth)
    qed
    ultimately show ?thesis using x(3) by auto
  qed
  with Cons.IH [OF c] e show ?case by auto
qed simp

lemma clean_elems_path_text:
  assumes "clean_list r es"
  shows "clean_elems (path_text r es) = es" "is_rooted (path_text r es) = r"
    "es \<noteq> [] \<Longrightarrow> clean_elems (path_text r es @ ''/'') = es \<and> is_rooted (path_text r es @ ''/'') = r"
proof -
  have rel: "\<not> is_rooted (Join es ''/'' @ x)" if "es \<noteq> []" for x
  proof -
    have "hd es \<noteq> []" "CHR ''/'' \<notin> set (hd es)" using assms that by (auto simp: clean_list_def)
    then have "hd (hd es) \<noteq> CHR ''/''" by (metis hd_in_set)
    moreover have "Join es ''/'' \<noteq> []" "hd (Join es ''/'') = hd (hd es)" using hd_Join [OF that \<open>hd es \<noteq> []\<close>] by auto
    ultimately show ?thesis by (cases "Join es ''/''") (auto simp: is_rooted_def)
  qed
  have s: "es \<noteq> [] \<Longrightarrow> SplitByte (Join es ''/'') CHR ''/'' = es" "es \<noteq> [] \<Longrightarrow> SplitByte (Join es ''/'' @ ''/'') CHR ''/'' = es @ [[]]"
    using assms SplitByte_Join [of es "CHR ''/''"] by (auto simp: clean_list_def)
  have l: "clean_loop r [] es = es" "clean_loop r [] (es @ [[]]) = es" using clean_loop_id [of r "[]" es] assms by auto
  show "is_rooted (path_text r es) = r" using rel [of "[]"] by (auto simp: path_text_def is_rooted_def)
  then show "clean_elems (path_text r es) = es"
    using s(1) l(1) by (cases "es = []") (auto simp: clean_elems_def path_text_def)
  show "es \<noteq> [] \<Longrightarrow> clean_elems (path_text r es @ ''/'') = es \<and> is_rooted (path_text r es @ ''/'') = r"
    using s(2) l(2) rel [of "''/''"] by (cases r) (auto simp: clean_elems_def path_text_def is_rooted_def)
qed

lemma Clean_text: "Clean p = path_text (is_rooted p) (clean_elems p)"
  by (simp add: Clean_def)

text \<open>Cleaning is idempotent.\<close>

lemma Clean_Clean: "Clean (Clean p) = Clean p"
  by (simp add: Clean_def clean_elems_path_text [OF clean_elems_clean])

text \<open>The directory of a clean path lacks its last element.\<close>

lemma Join_butlast:
  assumes "es \<noteq> []" and "butlast es \<noteq> []"
  shows "Join es s = Join (butlast es) s @ s @ last es"
  using assms by (induction es s rule: Join.induct) (auto simp: neq_Nil_conv)

lemma upto_slash: "CHR ''/'' \<notin> set e \<Longrightarrow> rev (dropWhile (\<lambda>c. c \<noteq> CHR ''/'') (rev (a @ CHR ''/'' # e))) = a @ ''/''"
  by (induction e rule: rev_induct) auto

lemma Dir_path_text:
  assumes c: "clean_list r es" and "es \<noteq> []"
  shows "Dir (path_text r es) = path_text r (butlast es)"
proof (cases "butlast es = []")
  case True
  with assms(2) obtain e where e: "es = [e]" by (metis append_butlast_last_id append_Nil)
  then have "CHR ''/'' \<notin> set e" using c by (auto simp: clean_list_def)
  then have u: "rev (dropWhile (\<lambda>c. c \<noteq> CHR ''/'') (rev e)) = []" by auto
  have v: "rev (dropWhile (\<lambda>c. c \<noteq> CHR ''/'') (rev (CHR ''/'' # e))) = ''/''"
    using upto_slash [OF \<open>CHR ''/'' \<notin> set e\<close>, of "[]"] by simp
  have c: "Clean [] = ''.''" "Clean ''/'' = ''/''" by code_simp+
  have "Dir e = ''.''" "Dir (CHR ''/'' # e) = ''/''" unfolding Dir_def u v by (rule c)+
  then show ?thesis unfolding e path_text_def by (cases r) simp_all
next
  case False
  have n: "CHR ''/'' \<notin> set (last es)" using assms by (auto simp: clean_list_def)
  have "path_text r es = path_text r (butlast es) @ CHR ''/'' # last es"
    using False assms(2) Join_butlast [OF assms(2) False] by (auto simp: path_text_def)
  then have "Dir (path_text r es) = Clean (path_text r (butlast es) @ ''/'')"
    by (simp only: Dir_def upto_slash [OF n])
  also have "\<dots> = path_text r (butlast es)"
    using clean_elems_path_text(3) [OF clean_list_butlast [OF c] False] by (simp add: Clean_def)
  finally show ?thesis .
qed

text \<open>Names of files, and joining them to a path.\<close>

definition valid_name :: "string \<Rightarrow> bool" where
  "valid_name n \<longleftrightarrow> n \<noteq> [] \<and> n \<noteq> ''.'' \<and> n \<noteq> ''..'' \<and> CHR ''/'' \<notin> set n"

lemma SplitByte_split: "SplitByte (a @ c # s) c = SplitByte a c @ SplitByte s c"
  by (induction a) (auto split: list.splits simp: SplitByte_nonempty)

lemma clean_loop_names: "list_all valid_name p \<Longrightarrow> clean_loop r st (es @ p) = clean_loop r st es @ p"
proof (induction r st es rule: clean_loop.induct)
  case (1 r st)
  then show ?case by (induction p arbitrary: st) (auto simp: valid_name_def)
qed auto

lemma is_rooted_append: "d \<noteq> [] \<Longrightarrow> is_rooted (d @ s) = is_rooted d"
  by (cases d) (auto simp: is_rooted_def)

lemma JoinPath_names:
  assumes "d \<noteq> []" and "p \<noteq> []" and "list_all valid_name p"
  shows "JoinPath [d, Join p ''/''] = path_text (is_rooted d) (clean_elems d @ p)"
proof -
  have "SplitByte (Join p ''/'') CHR ''/'' = p"
    using assms(2,3) by (intro SplitByte_Join(1)) (auto simp: valid_name_def list_all_iff)
  with assms show ?thesis
    by (simp add: JoinPath_def Clean_def clean_elems_def SplitByte_split clean_loop_names is_rooted_append)
qed

lemma clean_elems_JoinPath:
  assumes "d \<noteq> []" and "p \<noteq> []" and "list_all valid_name p"
  shows "clean_elems (JoinPath [d, Join p ''/'']) = clean_elems d @ p" "is_rooted (JoinPath [d, Join p ''/'']) = is_rooted d"
    "JoinPath [d, Join p ''/''] \<noteq> []"
proof -
  have "SplitByte (Join p ''/'') CHR ''/'' = p"
    using assms(2,3) by (intro SplitByte_Join(1)) (auto simp: valid_name_def list_all_iff)
  then have "clean_elems (d @ CHR ''/'' # Join p ''/'') = clean_elems d @ p"
    using assms by (simp add: clean_elems_def SplitByte_split clean_loop_names is_rooted_append)
  with clean_elems_clean [of "d @ CHR ''/'' # Join p ''/''"] assms(1)
  have c: "clean_list (is_rooted d) (clean_elems d @ p)" by (simp add: is_rooted_append)
  note t = JoinPath_names [OF assms]
  show "clean_elems (JoinPath [d, Join p ''/'']) = clean_elems d @ p" "is_rooted (JoinPath [d, Join p ''/'']) = is_rooted d"
    by (simp_all add: t clean_elems_path_text [OF c])
  have "Join (clean_elems d @ p) ''/'' \<noteq> []"
  proof -
    have "hd (clean_elems d @ p) \<in> set (clean_elems d @ p)" using assms(2) by (intro hd_in_set) simp
    then have "hd (clean_elems d @ p) \<noteq> []" using c unfolding clean_list_def by blast
    with hd_Join [of "clean_elems d @ p"] assms(2) show ?thesis by simp
  qed
  then show "JoinPath [d, Join p ''/''] \<noteq> []" using assms(2) by (auto simp: t path_text_def)
qed

lemma JoinPath_clean: "JoinPath es = [] \<or> (\<exists>r xs. clean_list r xs \<and> JoinPath es = path_text r xs)"
  using clean_elems_clean by (auto simp: JoinPath_def Clean_def split: list.splits)

text \<open>What the guard against paths that leave a directory lets through.\<close>

definition below :: "string \<Rightarrow> string \<Rightarrow> bool" where
  "below d p \<longleftrightarrow> (\<exists>rest. p = path_text (is_rooted d) (clean_elems d @ rest) \<and>
     clean_list (is_rooted d) (clean_elems d @ rest) \<and> ''..'' \<notin> set rest)"

lemma guard_below:
  assumes "HasPrefix (JoinPath es) (Clean d @ ''/'')" and "clean_elems d = [] \<or> last (clean_elems d) \<noteq> ''..''"
  shows "below d (JoinPath es)" "below d (Dir (JoinPath es))"
proof -
  have "JoinPath es \<noteq> []" using assms(1) by (auto simp: HasPrefix_def)
  then obtain r xs where x: "clean_list r xs" "JoinPath es = path_text r xs" using JoinPath_clean by blast
  with assms(1) path_text_prefix [OF x(1) clean_elems_clean [of d]]
  obtain rest where rest: "r = is_rooted d" "clean_elems d \<noteq> []" "xs = clean_elems d @ rest" "rest \<noteq> []"
    by (auto simp: Clean_def)
  have dots: "''..'' \<notin> set rest" using x(1) rest assms(2) by (intro clean_list_rest [of r "clean_elems d"]) auto
  with x rest show "below d (JoinPath es)" by (auto simp: below_def)
  have "Dir (JoinPath es) = path_text r (clean_elems d @ butlast rest)"
    using Dir_path_text [OF x(1)] x(2) rest by (simp add: butlast_append)
  moreover have "clean_list r (clean_elems d @ butlast rest)"
    using clean_list_butlast [OF x(1)] rest by (simp add: butlast_append)
  ultimately show "below d (Dir (JoinPath es))" using rest(1) dots by (auto simp: below_def dest: in_set_butlastD)
qed

lemma guard_names:
  assumes "d \<noteq> []" and "p \<noteq> []" and "list_all valid_name p" and "clean_elems d \<noteq> []"
  shows "HasPrefix (JoinPath [d, Join p ''/'']) (Clean d @ ''/'')"
proof -
  have "Join (xs @ p) ''/'' = Join xs ''/'' @ CHR ''/'' # Join p ''/''" if "xs \<noteq> []" for xs
    using that assms(2) by (induction xs "''/''" rule: Join.induct) (auto simp: neq_Nil_conv)
  with assms show ?thesis by (simp add: JoinPath_names Clean_def path_text_def HasPrefix_def)
qed

lemma Rel_below:
  assumes "is_rooted q = is_rooted d" and "clean_elems q = clean_elems d @ p"
  shows "Rel d q = Some (if p = [] then ''.'' else Join p ''/'')"
  using assms by (simp add: Rel_def)

end
