(* ===== verification/QueueEndpoint.thy ===== *)
theory QueueEndpoint
  imports Manager Filepath
begin

text \<open>
  The endpoint that KEDA asks for queue lengths (\<open>internal/metrics/queue_handler.go\<close>): the parsing of
  the path, the answer as JSON, and the statistics of a Store cached for a short time. \<open>transports\<close> and
  \<open>Handler\<close> are one request on its own; \<open>slot_step\<close> interleaves the requests for one Store, which
  share a cache slot with its mutex.
\<close>

section \<open>Texts\<close>

text \<open>\<open>strings.Trim\<close> for one byte.\<close>

definition TrimByte :: "string \<Rightarrow> char \<Rightarrow> string" where
  "TrimByte s c = rev (dropWhile (\<lambda>x. x = c) (rev (dropWhile (\<lambda>x. x = c) s)))"

text \<open>The encoder of \<open>encoding/json\<close> for strings, which also escapes the bytes special in HTML.\<close>

definition json_byte :: "char \<Rightarrow> string" where
  "json_byte c =
     (if c = CHR 0x22 \<or> c = CHR 0x5C then [CHR 0x5C, c]
      else if c = CHR 8 then [CHR 0x5C, CHR ''b'']
      else if c = CHR 12 then [CHR 0x5C, CHR ''f'']
      else if c = CHR 10 then [CHR 0x5C, CHR ''n'']
      else if c = CHR 13 then [CHR 0x5C, CHR ''r'']
      else if c = CHR 9 then [CHR 0x5C, CHR ''t'']
      else if byte_in 0 0x1F c \<or> c = CHR ''<'' \<or> c = CHR ''>'' \<or> c = CHR ''&'' then
        [CHR 0x5C, CHR ''u'', CHR ''0'', CHR ''0'', hex_digit (of_char c div 16), hex_digit (of_char c mod 16)]
      else [c])"

definition json_rune :: "string \<Rightarrow> string" where
  "json_rune r =
     (if r = [CHR 0xE2, CHR 0x80, CHR 0xA8] then CHR 0x5C # ''u2028''
      else if r = [CHR 0xE2, CHR 0x80, CHR 0xA9] then CHR 0x5C # ''u2029''
      else r)"

fun json_text :: "string \<Rightarrow> string" where
  "json_text [] = []"
| "json_text (c # s) =
     (if byte_in 0 0x7F c then json_byte c @ json_text s
      else case rune_len (c # s) of
             None \<Rightarrow> CHR 0x5C # ''ufffd'' @ json_text s
           | Some n \<Rightarrow> json_rune (take n (c # s)) @ json_text (drop (n - 1) s))"

definition json_string :: "string \<Rightarrow> string" where
  "json_string s = CHR 0x22 # json_text s @ [CHR 0x22]"

section \<open>Responses\<close>

record http_response =
  rs_Code :: nat
  rs_ContentType :: string
  rs_Body :: string

definition http_Error :: "string \<Rightarrow> nat \<Rightarrow> http_response" where
  "http_Error msg code = \<lparr>rs_Code = code, rs_ContentType = ''text/plain; charset=utf-8'', rs_Body = msg @ [CHR 10]\<rparr>"

record queue_count_response =
  qr_Store :: string
  qr_Namespace :: string
  qr_Queue :: string
  qr_Count :: int64

definition json_member :: "string \<Rightarrow> string \<Rightarrow> string" where
  "json_member k v = CHR 0x22 # k @ CHR 0x22 # CHR '':'' # v"

definition encode_response :: "queue_count_response \<Rightarrow> string" where
  "encode_response r =
     ''{'' @ Join [json_member ''store'' (json_string (qr_Store r)), json_member ''namespace'' (json_string (qr_Namespace r)),
                 json_member ''queue'' (json_string (qr_Queue r)), json_member ''count'' (fmt_d (qr_Count r))] '','' @
     ''}'' @ [CHR 10]"

section \<open>The cache\<close>

record queue_cache_entry =
  qe_fetchedAt :: int
  qe_transports :: "queue_transport_stats list"

text \<open>
  \<open>QueueStats\<close>: the client, the clientset and the gauges are those of \<open>base\<close>. The cache maps a Store's
  namespace and name to its slot, whose entry is nil until the first successful fetch.
\<close>

record 'w queue_stats =
  qs_base :: "'w base"
  qs_TTL :: int
  qs_cache :: "(string \<times> string, queue_cache_entry option) fmap"

definition NewQueueStats :: "'w base \<Rightarrow> int \<Rightarrow> 'w queue_stats" where
  "NewQueueStats b ttl = \<lparr>qs_base = b, qs_TTL = ttl, qs_cache = fmempty\<rparr>"

text \<open>The test of both looks at the slot: an entry younger than the TTL.\<close>

definition cached :: "int \<Rightarrow> queue_cache_entry option \<Rightarrow> int \<Rightarrow> queue_transport_stats list option" where
  "cached ttl e now =
     (case e of
        Some x \<Rightarrow> if now - qe_fetchedAt x < ttl then Some (qe_transports x) else None
      | None \<Rightarrow> None)"

definition LoadOrStore :: "'w queue_stats \<Rightarrow> string \<times> string \<Rightarrow> 'w queue_stats" where
  "LoadOrStore q nn = (case fmlookup (qs_cache q) nn of Some _ \<Rightarrow> q | None \<Rightarrow> q\<lparr>qs_cache := fmupd nn None (qs_cache q)\<rparr>)"

definition slot_entry :: "'w queue_stats \<Rightarrow> string \<times> string \<Rightarrow> queue_cache_entry option" where
  "slot_entry q nn = (case fmlookup (qs_cache q) nn of Some e \<Rightarrow> e | None \<Rightarrow> None)"

definition transports :: "'w queue_stats \<Rightarrow> store \<Rightarrow> ('w, queue_transport_stats list \<times> 'w queue_stats) state" where
  "transports q0 s =
     (let b = qs_base q0; cl = b_Client b in
      if \<not> b_HasClientset b then State_Monad.return (qc_Transports (ss_QueueState (st_Status s)), q0)
      else let nn = (st_Namespace s, st_Name s); q = LoadOrStore q0 nn in do {
        now1 \<leftarrow> cl_Now cl;
        (case cached (qs_TTL q) (slot_entry q nn) (time_ns now1) of
           Some ts \<Rightarrow> State_Monad.return (ts, q)
         | None \<Rightarrow> do {
             now2 \<leftarrow> cl_Now cl;
             (case cached (qs_TTL q) (slot_entry q nn) (time_ns now2) of
                Some ts \<Rightarrow> State_Monad.return (ts, q)
              | None \<Rightarrow> do {
                  r \<leftarrow> GetAdminQueueStats b s;
                  (case r of
                     Inl e \<Rightarrow> State_Monad.return (qc_Transports (ss_QueueState (st_Status s)), q)
                   | Inr (stats, uncountable) \<Rightarrow> do {
                       now3 \<leftarrow> cl_Now cl;
                       _ \<leftarrow> UpdateQueueMetrics (b_Gauges b) (st_Namespace s) (st_Name s) stats;
                       State_Monad.return (stats, q\<lparr>qs_cache :=
                         fmupd nn (Some \<lparr>qe_fetchedAt = time_ns now3, qe_transports = stats\<rparr>) (qs_cache q)\<rparr>) }) }) }) })"

section \<open>The handler\<close>

definition QueueHandlerPath :: string where
  "QueueHandlerPath = ''/api/queue/''"

definition path_parts :: "string \<Rightarrow> (string \<times> string \<times> string) option" where
  "path_parts path =
     (case SplitByte (TrimByte (TrimPrefix path QueueHandlerPath) CHR ''/'') CHR ''/'' of
        [a, b, c] \<Rightarrow> if a = [] \<or> b = [] \<or> c = [] then None else Some (a, b, c)
      | _ \<Rightarrow> None)"

definition Handler :: "'w queue_stats \<Rightarrow> string \<Rightarrow> ('w, http_response \<times> 'w queue_stats) state" where
  "Handler q path =
     (case path_parts path of
        None \<Rightarrow> State_Monad.return (http_Error ''expected path /api/queue/<namespace>/<store>/<queue>'' 400, q)
      | Some (ns, name, queue) \<Rightarrow> do {
          r \<leftarrow> GetStore (b_Client (qs_base q)) ns name;
          (case r of
             Inl e \<Rightarrow> State_Monad.return (if IsNotFound e then http_Error ''store not found'' 404
                                          else http_Error (err_msg e) 500, q)
           | Inr s \<Rightarrow> do {
               (ts, q') \<leftarrow> transports q s;
               State_Monad.return
                 (case find (\<lambda>t. qt_Name t = queue) ts of
                    Some t \<Rightarrow> \<lparr>rs_Code = 200, rs_ContentType = ''application/json'',
                               rs_Body = encode_response \<lparr>qr_Store = name, qr_Namespace = ns, qr_Queue = queue,
                                                           qr_Count = qt_Count t\<rparr>\<rparr>
                  | None \<Rightarrow> http_Error ''queue not found for store'' 404, q') }) })"

text \<open>Until the manager runs there is no \<open>QueueStats\<close> (\<open>cmd/main.go\<close>).\<close>

definition metrics_handler :: "'w queue_stats option \<Rightarrow> string \<Rightarrow> ('w, http_response \<times> 'w queue_stats option) state" where
  "metrics_handler q path =
     (case q of
        None \<Rightarrow> State_Monad.return (http_Error ''operator is not ready yet'' 503, None)
      | Some q \<Rightarrow> do { (r, q') \<leftarrow> Handler q path; State_Monad.return (r, Some q') })"

section \<open>Concurrent requests for one Store\<close>

text \<open>
  A request looks at the slot, waits for the mutex, looks again and fetches. \<open>sl_log\<close> records the
  times of the successful fetches, the latest first. A fetch may take any time and end either way.
\<close>

datatype request =
    Arrived
  | Waiting
  | Holding
  | Fetching
  | Answered "queue_transport_stats list"

record slot =
  sl_entry :: "queue_cache_entry option"
  sl_mutex :: "nat option"
  sl_now :: int
  sl_req :: "nat \<Rightarrow> request"
  sl_log :: "int list"

inductive slot_step :: "int \<Rightarrow> queue_transport_stats list \<Rightarrow> slot \<Rightarrow> slot \<Rightarrow> bool" for ttl fallback where
  look_hit: "sl_req z i = Arrived \<Longrightarrow> cached ttl (sl_entry z) (sl_now z) = Some ts \<Longrightarrow>
     slot_step ttl fallback z (z\<lparr>sl_req := (sl_req z)(i := Answered ts)\<rparr>)"
| look_miss: "sl_req z i = Arrived \<Longrightarrow> cached ttl (sl_entry z) (sl_now z) = None \<Longrightarrow>
     slot_step ttl fallback z (z\<lparr>sl_req := (sl_req z)(i := Waiting)\<rparr>)"
| lock: "sl_req z i = Waiting \<Longrightarrow> sl_mutex z = None \<Longrightarrow>
     slot_step ttl fallback z (z\<lparr>sl_req := (sl_req z)(i := Holding), sl_mutex := Some i\<rparr>)"
| relook_hit: "sl_req z i = Holding \<Longrightarrow> cached ttl (sl_entry z) (sl_now z) = Some ts \<Longrightarrow>
     slot_step ttl fallback z (z\<lparr>sl_req := (sl_req z)(i := Answered ts), sl_mutex := None\<rparr>)"
| relook_miss: "sl_req z i = Holding \<Longrightarrow> cached ttl (sl_entry z) (sl_now z) = None \<Longrightarrow>
     slot_step ttl fallback z (z\<lparr>sl_req := (sl_req z)(i := Fetching)\<rparr>)"
| fetched: "sl_req z i = Fetching \<Longrightarrow>
     slot_step ttl fallback z
       (z\<lparr>sl_req := (sl_req z)(i := Answered ts), sl_mutex := None,
          sl_entry := Some \<lparr>qe_fetchedAt = sl_now z, qe_transports = ts\<rparr>, sl_log := sl_now z # sl_log z\<rparr>)"
| fetch_failed: "sl_req z i = Fetching \<Longrightarrow>
     slot_step ttl fallback z (z\<lparr>sl_req := (sl_req z)(i := Answered fallback), sl_mutex := None\<rparr>)"
| time_passes: "sl_now z \<le> t \<Longrightarrow> slot_step ttl fallback z (z\<lparr>sl_now := t\<rparr>)"

inductive_cases slot_stepE: "slot_step ttl fallback z z'"

definition slot_init :: "int \<Rightarrow> slot" where
  "slot_init t = \<lparr>sl_entry = None, sl_mutex = None, sl_now = t, sl_req = (\<lambda>_. Arrived), sl_log = []\<rparr>"

section \<open>Lemmas on texts\<close>

definition lex_unit :: "string \<Rightarrow> bool" where
  "lex_unit u \<longleftrightarrow> (\<forall>s. lex_str (u @ s) = map_option (apfst ((@) u)) (lex_str s))"

lemma lex_unitI_escape: "simple_escape e \<Longrightarrow> lex_unit [CHR 0x5C, e]"
  by (auto simp: lex_unit_def intro!: arg_cong2 [where f = map_option])

lemma lex_unitI_hex:
  "hex_byte h1 \<Longrightarrow> hex_byte h2 \<Longrightarrow> hex_byte h3 \<Longrightarrow> hex_byte h4 \<Longrightarrow> lex_unit [CHR 0x5C, CHR ''u'', h1, h2, h3, h4]"
  by (auto simp: lex_unit_def simple_escape_def intro!: arg_cong2 [where f = map_option])

lemma lex_unitI_byte: "c \<noteq> CHR 0x22 \<Longrightarrow> c \<noteq> CHR 0x5C \<Longrightarrow> \<not> byte_in 0 0x1F c \<Longrightarrow> lex_unit [c]"
  by (auto simp: lex_unit_def intro!: arg_cong2 [where f = map_option])

lemma lex_unit_append: "lex_unit u \<Longrightarrow> lex_unit v \<Longrightarrow> lex_unit (u @ v)"
  by (auto simp: lex_unit_def option.map_comp comp_def apfst_compose intro!: arg_cong2 [where f = map_option])

lemma lex_unit_high: "\<forall>c\<in>set u. high_byte c \<Longrightarrow> lex_unit u"
proof (induction u)
  case (Cons c u)
  then have "lex_unit ([c] @ u)" by (intro lex_unit_append lex_unitI_byte) (auto simp: high_byte_def byte_in_def)
  then show ?case by simp
next
  case Nil
  have "lex_str s = map_option (apfst ((@) [])) (lex_str s)" for s
    by (cases "lex_str s") auto
  then show ?case by (simp add: lex_unit_def)
qed

lemma json_byte_cases:
  assumes "byte_in 0 0x7F c"
  obtains (escaped) e where "json_byte c = [CHR 0x5C, e]" "simple_escape e" "escape_char e = c"
  | (hex) h1 h2 where "json_byte c = [CHR 0x5C, CHR ''u'', CHR ''0'', CHR ''0'', h1, h2]" "hex_byte h1" "hex_byte h2"
      "hex_val h1 * 16 + hex_val h2 = of_char c"
  | (plain) "json_byte c = [c]" "c \<noteq> CHR 0x22" "c \<noteq> CHR 0x5C" "\<not> byte_in 0 0x1F c"
proof -
  let ?E = "[(CHR 0x22, CHR 0x22), (CHR 0x5C, CHR 0x5C), (CHR 8, CHR ''b''), (CHR 12, CHR ''f''), (CHR 10, CHR ''n''),
     (CHR 13, CHR ''r''), (CHR 9, CHR ''t'')]"
  consider e where "(c, e) \<in> set ?E"
    | "c \<notin> fst ` set ?E" "byte_in 0 0x1F c \<or> c = CHR ''<'' \<or> c = CHR ''>'' \<or> c = CHR ''&''"
    | "c \<notin> fst ` set ?E" "\<not> (byte_in 0 0x1F c \<or> c = CHR ''<'' \<or> c = CHR ''>'' \<or> c = CHR ''&'')"
    by force
  then show thesis
  proof cases
    case 1
    then have "json_byte c = [CHR 0x5C, e]" "simple_escape e" "escape_char e = c"
      by (auto simp: json_byte_def simple_escape_def escape_char_def)
    then show thesis by (rule escaped)
  next
    case 2
    then have j: "json_byte c = [CHR 0x5C, CHR ''u'', CHR ''0'', CHR ''0'', hex_digit (of_char c div 16), hex_digit (of_char c mod 16)]"
      by (auto simp: json_byte_def)
    from assms have "of_char c div 16 < (16::nat)" by (simp add: byte_in_def)
    with hex_digit_hex [of "of_char c div 16"] hex_digit_hex [of "of_char c mod 16"] show thesis
      by (intro hex [OF j]) auto
  next
    case 3
    then show thesis by (intro plain) (auto simp: json_byte_def)
  qed
qed

lemma lex_unit_json_byte: "byte_in 0 0x7F c \<Longrightarrow> lex_unit (json_byte c)"
  by (erule json_byte_cases) (auto simp: is_hex_0 intro: lex_unitI_escape lex_unitI_hex lex_unitI_byte)

lemma lex_unit_json_rune:
  assumes "\<forall>c\<in>set r. high_byte c"
  shows "lex_unit (json_rune r)"
proof -
  have "lex_unit (CHR 0x5C # ''u2028'')" "lex_unit (CHR 0x5C # ''u2029'')"
    by (rule lex_unitI_hex; simp add: hex_byte_def byte_in_def)+
  with lex_unit_high [OF assms] show ?thesis by (simp add: json_rune_def)
qed

lemma unquote_json_byte:
  assumes "byte_in 0 0x7F c"
  shows "unquote (json_byte c @ s) = c # unquote s"
  using assms
proof (cases rule: json_byte_cases)
  case (escaped e)
  then have "e \<noteq> CHR ''u''" by (auto simp: simple_escape_def)
  then have "getu4 (CHR 0x5C # e # s) = None" by (auto simp: getu4_def split: list.splits)
  with escaped show ?thesis by simp
next
  case (hex h1 h2)
  with assms have "getu4 (json_byte c @ s) = Some (of_char c)" "of_char c < (128::nat)"
    by (auto simp: getu4_def is_hex_0 byte_in_def)
  with hex show ?thesis by (simp add: EncodeRune_ascii)
qed (use assms in auto)

lemma unquote_json_rune:
  assumes "rune_len r = Some (length r)" "\<forall>c\<in>set r. high_byte c"
  shows "unquote (json_rune r @ s) = r @ unquote s"
proof -
  have "unquote (CHR 0x5C # ''u2028'' @ s) = [CHR 0xE2, CHR 0x80, CHR 0xA8] @ unquote s"
    "unquote (CHR 0x5C # ''u2029'' @ s) = [CHR 0xE2, CHR 0x80, CHR 0xA9] @ unquote s"
    by (simp_all add: getu4_def hex_byte_def byte_in_def hex_val_def EncodeRune_def) code_simp+
  moreover have "hd r \<noteq> CHR 0x5C" using assms by (cases r) (auto simp: high_byte_def byte_in_def)
  ultimately show ?thesis using unquote_rune [OF assms(1), of s] by (simp add: json_rune_def)
qed

lemma rune_take:
  assumes "rune_len s = Some n" "\<not> byte_in 0 0x7F (hd s)"
  shows "rune_len (take n s) = Some (length (take n s))" "\<forall>c\<in>set (take n s). high_byte c"
  using rune_len_take [OF assms(1), of n] rune_len_bounds [OF assms(1)] rune_high [OF assms] by auto

lemma lex_unit_json_text: "lex_unit (json_text s)"
proof (induction s rule: json_text.induct)
  case 1
  show ?case using lex_unit_high [of "[]"] by simp
next
  case (2 c s)
  show ?case
  proof (cases "byte_in 0 0x7F c")
    case True
    with 2 show ?thesis by (auto intro: lex_unit_append lex_unit_json_byte)
  next
    case False
    have "lex_unit (CHR 0x5C # ''ufffd'')" by (rule lex_unitI_hex; simp add: hex_byte_def byte_in_def)
    with 2 False lex_unit_append [of "CHR 0x5C # ''ufffd''" "json_text s"] lex_unit_json_rune [OF rune_take(2)]
    show ?thesis by (auto simp del: rune_len.simps split: option.split intro!: lex_unit_append)
  qed
qed

lemma unquote_json_text: "valid_utf8 s \<Longrightarrow> unquote (json_text s) = s"
proof (induction rule: valid_utf8.induct)
  case (valid_Cons s n)
  from rune_len_bounds [OF valid_Cons.hyps(1)] obtain c t where s: "s = c # t" "0 < n" by (cases s) auto
  show ?case
  proof (cases "byte_in 0 0x7F c")
    case True
    with valid_Cons.hyps(1) s have "n = 1" by auto
    with True s valid_Cons.IH show ?thesis by (simp add: unquote_json_byte)
  next
    case False
    with s rune_take [OF valid_Cons.hyps(1)] have r: "rune_len (take n s) = Some (length (take n s))" "\<forall>c\<in>set (take n s). high_byte c"
      by auto
    have "json_text s = json_rune (take n s) @ json_text (drop n s)"
      using False s valid_Cons.hyps(1) by (cases n) (simp_all del: rune_len.simps)
    then show ?thesis using unquote_json_rune [OF r] valid_Cons.IH by simp
  qed
qed simp

lemma parse_json_string: "valid_utf8 s \<Longrightarrow> parse_value d (json_string s @ r) = Some (JStr s, r)"
proof -
  assume v: "valid_utf8 s"
  have "lex_str (json_text s @ CHR 0x22 # r) = Some (json_text s, r)"
    using lex_unit_json_text [of s, unfolded lex_unit_def] by simp
  with v show ?thesis
    by (simp add: json_string_def parse_value.simps [of d "CHR 0x22 # x" for x] json_space_def unquote_json_text)
qed

lemma unquote_key:
  assumes "\<forall>c\<in>set k. byte_in 0x20 0x7F c \<and> c \<noteq> CHR 0x22 \<and> c \<noteq> CHR 0x5C"
  shows "lex_str (k @ CHR 0x22 # r) = Some (k, r)" "unquote k = k"
  using assms by (induction k) (auto simp: byte_in_def)

lemma parse_member:
  assumes k: "\<forall>c\<in>set k. byte_in 0x20 0x7F c \<and> c \<noteq> CHR 0x22 \<and> c \<noteq> CHR 0x5C"
    and v: "\<And>r. ends_number r \<Longrightarrow> parse_value d (raw @ r) = Some (v, r)" "raw \<noteq> []" "\<not> json_space (hd raw)"
  shows "parse_members d (json_member k raw @ CHR ''}'' # r) = Some ([(k, raw, v)], r)"
    "parse_members d (json_member k raw @ CHR '','' # r) = map_option (apfst ((#) (k, raw, v))) (parse_members d r)"
proof -
  have w: "jws (raw @ x) = raw @ x" for x using v(2,3) by (cases raw) auto
  show "parse_members d (json_member k raw @ CHR ''}'' # r) = Some ([(k, raw, v)], r)"
    "parse_members d (json_member k raw @ CHR '','' # r) = map_option (apfst ((#) (k, raw, v))) (parse_members d r)"
    by (simp_all add: json_member_def parse_members.simps [of d "CHR 0x22 # x" for x] json_space_def unquote_key [OF k] w v(1) Let_def)
qed

text \<open>What a client reads from a JSON answer.\<close>

definition json_field :: "string \<Rightarrow> string \<Rightarrow> json option" where
  "json_field body k =
     (case json_of body of
        Some (JObj ms) \<Rightarrow> map_option snd (map_of ms k)
      | _ \<Rightarrow> None)"

lemma read_response:
  assumes "valid_utf8 (qr_Store r)" "valid_utf8 (qr_Namespace r)" "valid_utf8 (qr_Queue r)"
  shows "json_field (encode_response r) ''store'' = Some (JStr (qr_Store r))"
    "json_field (encode_response r) ''namespace'' = Some (JStr (qr_Namespace r))"
    "json_field (encode_response r) ''queue'' = Some (JStr (qr_Queue r))"
    "json_field (encode_response r) ''count'' = Some (JNum (Itoa (sint (qr_Count r))))"
proof -
  have j: "json_string x \<noteq> []" "\<not> json_space (hd (json_string x))" for x
    by (auto simp: json_string_def json_space_def)
  have n: "fmt_d c \<noteq> []" "\<not> json_space (hd (fmt_d c))" for c :: int64
    using Itoa_hd [of "sint c"] by (auto simp: fmt_d_def json_space_def is_digit_def byte_in_def)
  have p: "parse_value d (fmt_d c @ x) = Some (JNum (Itoa (sint c)), x)" if "ends_number x" for c :: int64 and x d
    using parse_Itoa [OF that] by (simp add: fmt_d_def)
  let ?d = "maxNestingDepth - 1"
  have m: "parse_members d (json_member k (json_string x) @ CHR '','' # y) = map_option (apfst ((#) (k, json_string x, JStr x))) (parse_members d y)"
    if "k \<in> {''store'', ''namespace'', ''queue''}" "valid_utf8 x" for k x y d
    by (rule parse_member(2)) (use that j in \<open>auto simp: parse_json_string byte_in_def\<close>)
  have c: "parse_members d (json_member ''count'' (fmt_d x) @ CHR ''}'' # y) = Some ([(''count'', fmt_d x, JNum (Itoa (sint x)))], y)"
    for x :: int64 and y d
    by (rule parse_member(1)) (use n p in \<open>auto simp: byte_in_def\<close>)
  let ?t = "json_member ''store'' (json_string (qr_Store r)) @ CHR '','' # json_member ''namespace'' (json_string (qr_Namespace r)) @
    CHR '','' # json_member ''queue'' (json_string (qr_Queue r)) @ CHR '','' # json_member ''count'' (fmt_d (qr_Count r)) @ CHR ''}'' # [CHR 10]"
  let ?ms = "[(''store'', json_string (qr_Store r), JStr (qr_Store r)),
      (''namespace'', json_string (qr_Namespace r), JStr (qr_Namespace r)),
      (''queue'', json_string (qr_Queue r), JStr (qr_Queue r)),
      (''count'', fmt_d (qr_Count r), JNum (Itoa (sint (qr_Count r))))]"
  have t: "parse_members ?d ?t = Some (?ms, [CHR 10])" using assms by (simp add: m c)
  have h: "jws ?t = CHR 0x22 # tl ?t" by (simp add: json_member_def json_space_def)
  have "parse_value maxNestingDepth (CHR ''{'' # ?t) = Some (JObj ?ms, [CHR 10])"
    unfolding parse_value.simps [of _ "CHR ''{'' # ?t"]
    by (simp only: list.case h t) (simp add: json_space_def maxNestingDepth_def)
  moreover have "encode_response r = CHR ''{'' # ?t" by (simp add: encode_response_def)
  ultimately have "json_of (encode_response r) = Some (JObj ?ms)" by (simp add: json_of_def json_space_def)
  then show "json_field (encode_response r) ''store'' = Some (JStr (qr_Store r))"
    "json_field (encode_response r) ''namespace'' = Some (JStr (qr_Namespace r))"
    "json_field (encode_response r) ''queue'' = Some (JStr (qr_Queue r))"
    "json_field (encode_response r) ''count'' = Some (JNum (Itoa (sint (qr_Count r))))"
    by (simp_all add: json_field_def)
qed

section \<open>Lemmas on requests\<close>

lemma path_parts_path:
  assumes "ns \<noteq> []" "n \<noteq> []" "q \<noteq> []" "CHR ''/'' \<notin> set ns" "CHR ''/'' \<notin> set n" "CHR ''/'' \<notin> set q"
  shows "path_parts (QueueHandlerPath @ ns @ ''/'' @ n @ ''/'' @ q) = Some (ns, n, q)"
proof -
  let ?s = "ns @ CHR ''/'' # n @ CHR ''/'' # q"
  have "hd ns \<noteq> CHR ''/''" "last q \<noteq> CHR ''/''" using assms by (metis hd_in_set last_in_set)+
  then have "dropWhile (\<lambda>x. x = CHR ''/'') ?s = ?s" "dropWhile (\<lambda>x. x = CHR ''/'') (rev ?s) = rev ?s"
    using assms(1,3) by (simp_all add: dropWhile_eq_self_iff hd_append hd_rev)
  then have "TrimByte ?s CHR ''/'' = ?s" by (simp only: TrimByte_def rev_rev_ident)
  moreover have "TrimPrefix (QueueHandlerPath @ ?s) QueueHandlerPath = ?s" by (simp add: TrimPrefix_def HasPrefix_def)
  ultimately show ?thesis
    using assms by (simp add: path_parts_def SplitByte_append SplitByte_last)
qed

fun spaced :: "int \<Rightarrow> int list \<Rightarrow> bool" where
  "spaced d [] = True"
| "spaced d [t] = True"
| "spaced d (t # u # ts) \<longleftrightarrow> u + d \<le> t \<and> spaced d (u # ts)"

definition slot_inv :: "int \<Rightarrow> slot \<Rightarrow> bool" where
  "slot_inv ttl z \<longleftrightarrow>
     (\<forall>i. sl_req z i \<in> {Holding, Fetching} \<longleftrightarrow> sl_mutex z = Some i) \<and>
     (\<forall>i. sl_req z i = Fetching \<longrightarrow> cached ttl (sl_entry z) (sl_now z) = None) \<and>
     map_option qe_fetchedAt (sl_entry z) = (case sl_log z of [] \<Rightarrow> None | t # ts \<Rightarrow> Some t) \<and>
     spaced ttl (sl_log z)"

lemma slot_inv_init: "slot_inv ttl (slot_init t)"
  by (simp add: slot_inv_def slot_init_def)

lemma cached_later: "cached ttl e t = None \<Longrightarrow> t \<le> u \<Longrightarrow> cached ttl e u = None"
  by (auto simp: cached_def split: option.splits if_splits)

lemma slot_inv_step:
  assumes "slot_step ttl fb z z'" and "slot_inv ttl z"
  shows "slot_inv ttl z'"
proof -
  have u: "\<forall>j. j \<noteq> i \<longrightarrow> sl_req z j \<noteq> Holding \<and> sl_req z j \<noteq> Fetching" if "sl_req z i = Holding \<or> sl_req z i = Fetching" for i
    using assms(2) that unfolding slot_inv_def by (metis insertCI option.inject)
  have a: "sl_mutex z \<noteq> Some i" if "sl_req z i = Arrived" for i
    using assms(2) that unfolding slot_inv_def by (metis empty_iff insertE request.distinct(3,5))
  from assms(1) show ?thesis
  proof cases
    case (fetched i ts)
    have "cached ttl (sl_entry z) (sl_now z) = None" using assms(2) fetched by (auto simp: slot_inv_def)
    then have "spaced ttl (sl_now z # sl_log z)"
      using assms(2) by (cases "sl_log z") (auto simp: slot_inv_def cached_def split: option.splits if_splits)
    moreover have "sl_req z' = (sl_req z)(i := Answered ts)" unfolding fetched(1) by simp
    then have "\<forall>j. sl_req z' j \<noteq> Holding \<and> sl_req z' j \<noteq> Fetching" using u [OF disjI2 [OF fetched(2)]] by simp
    moreover have "sl_mutex z' = None" "sl_entry z' = Some \<lparr>qe_fetchedAt = sl_now z, qe_transports = ts\<rparr>" "sl_log z' = sl_now z # sl_log z"
      unfolding fetched(1) by simp_all
    ultimately show ?thesis by (simp add: slot_inv_def)
  next
    case (time_passes t)
    with assms(2) cached_later show ?thesis by (auto simp: slot_inv_def)
  next
    case (relook_hit i ts)
    with assms(2) u [OF disjI1 [OF relook_hit(2)]] show ?thesis by (simp add: slot_inv_def)
  next
    case (fetch_failed i)
    with assms(2) u [OF disjI2 [OF fetch_failed(2)]] show ?thesis by (simp add: slot_inv_def)
  qed (use assms(2) a in \<open>auto simp: slot_inv_def\<close>)
qed

lemma slot_inv_reachable: "(slot_step ttl fb)\<^sup>*\<^sup>* (slot_init t) z \<Longrightarrow> slot_inv ttl z"
  by (induction rule: rtranclp_induct) (auto simp: slot_inv_init intro: slot_inv_step)

lemma LoadOrStore_entry [simp]: "slot_entry (LoadOrStore q nn) nn' = slot_entry q nn'"
  by (auto simp: LoadOrStore_def slot_entry_def split: option.splits)

lemma slot_entry_upd:
  "slot_entry (q\<lparr>qs_cache := fmupd nn e (qs_cache q)\<rparr>) nn' = (if nn' = nn then e else slot_entry q nn')"
  by (simp add: slot_entry_def)

lemma LoadOrStore_simps [simp]: "qs_base (LoadOrStore q nn) = qs_base q" "qs_TTL (LoadOrStore q nn) = qs_TTL q"
  by (auto simp: LoadOrStore_def split: option.splits)

section \<open>Properties\<close>

text \<open>
  C20: However the requests of a scaler interleave, one of them at a time asks the admin pod, and two
  successful fetches of a Store's statistics are at least the TTL apart.
\<close>

theorem fetches_are_spaced:
  assumes "(slot_step ttl fallback)\<^sup>*\<^sup>* (slot_init t) z"
  shows "spaced ttl (sl_log z) \<and>
    (\<forall>i j. sl_req z i \<in> {Holding, Fetching} \<and> sl_req z j \<in> {Holding, Fetching} \<longrightarrow> i = j)"
  using slot_inv_reachable [OF assms] unfolding slot_inv_def by (metis option.inject)

theorem fetches_are_spaced_witness:
  "\<exists>z. (slot_step 5 [])\<^sup>*\<^sup>* (slot_init 0) z \<and> sl_log z = [5, 0] \<and> spaced 5 (sl_log z)"
proof -
  let ?R = "(slot_step 5 [])\<^sup>*\<^sup>*"
  have fetch: "?R z (z\<lparr>sl_req := (sl_req z)(i := Answered ts), sl_mutex := None,
          sl_entry := Some \<lparr>qe_fetchedAt = sl_now z, qe_transports = ts\<rparr>, sl_log := sl_now z # sl_log z\<rparr>)"
    if "sl_req z i = Arrived" "sl_mutex z = None" "cached 5 (sl_entry z) (sl_now z) = None" for z i ts
  proof -
    define a where "a = z\<lparr>sl_req := (sl_req z)(i := Waiting)\<rparr>"
    define b where "b = a\<lparr>sl_req := (sl_req a)(i := Holding), sl_mutex := Some i\<rparr>"
    define c where "c = b\<lparr>sl_req := (sl_req b)(i := Fetching)\<rparr>"
    define d where "d = c\<lparr>sl_req := (sl_req c)(i := Answered ts), sl_mutex := None,
          sl_entry := Some \<lparr>qe_fetchedAt = sl_now c, qe_transports = ts\<rparr>, sl_log := sl_now c # sl_log c\<rparr>"
    have "slot_step 5 [] z a" unfolding a_def using that by (intro look_miss)
    moreover have "slot_step 5 [] a b" unfolding b_def using that by (intro lock) (simp_all add: a_def)
    moreover have "slot_step 5 [] b c" unfolding c_def using that by (intro relook_miss) (simp_all add: b_def a_def)
    moreover have "slot_step 5 [] c d" unfolding d_def by (intro fetched) (simp add: c_def)
    ultimately have "?R z d" by (meson converse_rtranclp_into_rtranclp rtranclp.rtrancl_refl)
    then show ?thesis by (simp add: d_def c_def b_def a_def)
  qed
  obtain a where a: "?R (slot_init 0) a" "sl_log a = [0]" "sl_req a 1 = Arrived" "sl_mutex a = None" "sl_now a = 0"
    "sl_entry a = Some \<lparr>qe_fetchedAt = 0, qe_transports = []\<rparr>"
    using fetch [of "slot_init 0" 0 "[]"] by (fastforce simp: slot_init_def cached_def)
  have "?R a (a\<lparr>sl_now := 5\<rparr>)" using a by (intro r_into_rtranclp time_passes) simp
  with a(1) have "?R (slot_init 0) (a\<lparr>sl_now := 5\<rparr>)" by (rule rtranclp_trans)
  moreover obtain b where b: "?R (a\<lparr>sl_now := 5\<rparr>) b" "sl_log b = [5, 0]"
    using fetch [of "a\<lparr>sl_now := 5\<rparr>" 1 "[]"] a by (fastforce simp: cached_def)
  ultimately have r: "?R (slot_init 0) b" by (meson rtranclp_trans)
  from fetches_are_spaced [OF r] r b show ?thesis by blast
qed

text \<open>
  C21: No request is ever stuck: as long as some request has no answer, some request can take its next
  step.
\<close>

theorem requests_progress:
  assumes "(slot_step ttl fallback)\<^sup>*\<^sup>* (slot_init t) z" and "\<forall>ts. sl_req z i \<noteq> Answered ts"
  shows "\<exists>z'. slot_step ttl fallback z z' \<and> sl_req z' \<noteq> sl_req z"
proof -
  have step: "\<exists>z'. slot_step ttl fallback z z' \<and> sl_req z' j \<noteq> sl_req z j"
    if "sl_req z j = Arrived \<or> sl_req z j = Holding \<or> sl_req z j = Fetching" for j
    using that look_hit [of z j ttl] look_miss [of z j ttl] relook_hit [of z j ttl] relook_miss [of z j ttl] fetch_failed [of z j]
    by (cases "cached ttl (sl_entry z) (sl_now z)") (auto, fastforce+)
  show ?thesis
  proof (cases "sl_req z i = Waiting")
    case False
    with assms(2) have "sl_req z i = Arrived \<or> sl_req z i = Holding \<or> sl_req z i = Fetching"
      by (cases "sl_req z i") auto
    with step show ?thesis by metis
  next
    case True
    show ?thesis
    proof (cases "sl_mutex z")
      case None
      with True lock [of z i ttl fallback] show ?thesis
        by (intro exI [of _ "z\<lparr>sl_req := (sl_req z)(i := Holding), sl_mutex := Some i\<rparr>"]) (auto simp: fun_eq_iff)
    next
      case (Some j)
      then have "sl_req z j = Holding \<or> sl_req z j = Fetching"
        using slot_inv_reachable [OF assms(1)] by (auto simp: slot_inv_def)
      with step show ?thesis by metis
    qed
  qed
qed

theorem requests_progress_witness: "\<exists>z'. slot_step 5 [] (slot_init 0) z' \<and> sl_req z' \<noteq> sl_req (slot_init 0)"
  by (rule requests_progress [OF rtranclp.rtrancl_refl, of _ 0]) (simp add: slot_init_def)

text \<open>
  A request is answered from the slot of its own Store (live, cached, or the last reconciled state
  when the admin pod gives no answer), and the slots of all other Stores stay as they are.
\<close>

theorem transports_result:
  "let nn = (st_Namespace s, st_Name s) in
   holds (\<lambda>(ts, q'). (ts = qc_Transports (ss_QueueState (st_Status s)) \<or> map_option qe_transports (slot_entry q' nn) = Some ts) \<and>
            (\<forall>nn'. nn' \<noteq> nn \<longrightarrow> slot_entry q' nn' = slot_entry q nn')) (transports q s)"
  by (auto simp: Let_def transports_def cached_def slot_entry_upd
      split: option.splits if_splits intro!: holds_intros)


definition ex_queue_store :: store where
  "ex_queue_store = update_Status (\<lambda>st. st\<lparr>ss_QueueState := (ss_QueueState st)\<lparr>qc_Transports := [\<lparr>qt_Name = ''async'', qt_Count = 7\<rparr>]\<rparr>\<rparr>)
     (zero_store\<lparr>st_Meta := (st_Meta zero_store)\<lparr>m_Namespace := ''shop'', m_Name := ''store''\<rparr>\<rparr>)"

definition ex_queue_stats :: "unit queue_stats" where
  "ex_queue_stats = NewQueueStats (const_base (\<lambda>_. Inr (OStore ex_queue_store))) 5"


end
