(* ===== verification/Webhook.thy ===== *)
theory Webhook
  imports Json Filepath
begin

text \<open>
  The validating webhook for Stores (\<open>internal/webhook/store_validator.go\<close>): the container overrides of
  a Store, which have no schema, are checked against their Go type, and an override may not set an empty
  image. The strict decoder \<open>sigs.k8s.io/json\<close> is not part of the sources; what it reports is an argument.
\<close>

section \<open>Requests\<close>

datatype operation = Create | Update | Delete | Connect

datatype admission_response = Allowed string | Denied string

definition storeContainerOverrideFields :: "string list" where
  "storeContainerOverrideFields =
     [''adminDeploymentContainer'', ''workerDeploymentContainer'', ''storefrontDeploymentContainer'',
      ''setupJobContainer'', ''migrationJobContainer'']"

text \<open>
  \<open>kjson.UnmarshalStrict\<close> into a map of raw messages and into a \<open>ContainerMergeSpec\<close>: the strict errors
  and the error, after the map in the first case.
\<close>

record kjson =
  kj_Map :: "string \<Rightarrow> (string, string) fmap \<times> string list \<times> string option"
  kj_Override :: "string \<Rightarrow> string list \<times> string option"

section \<open>Validation\<close>

definition override_errors :: "kjson \<Rightarrow> (string, string) fmap \<Rightarrow> string \<Rightarrow> string list" where
  "override_errors kj spec fieldName =
     (case fmlookup spec fieldName of
        None \<Rightarrow> []
      | Some overrideRaw \<Rightarrow>
          (let (strictErrors, err) = kj_Override kj overrideRaw in
           (case err of Some e \<Rightarrow> [e] | None \<Rightarrow> []) @ strictErrors))"

definition validateContainerOverrides :: "kjson \<Rightarrow> string \<Rightarrow> string list" where
  "validateContainerOverrides kj raw =
     (case kj_Map kj raw of
        (object, strictErrors, Some err) \<Rightarrow> [''invalid Store JSON: '' @ err]
      | (object, errors, None) \<Rightarrow>
          (case fmlookup object ''spec'' of
             None \<Rightarrow> errors
           | Some specRaw \<Rightarrow>
               if length specRaw = 0 then errors
               else (case kj_Map kj specRaw of
                       (spec, specStrictErrors, Some err) \<Rightarrow> errors @ [''invalid Store JSON: '' @ err]
                     | (spec, specStrictErrors, None) \<Rightarrow>
                         errors @ specStrictErrors @ concat (map (override_errors kj spec) storeContainerOverrideFields))))"

definition explicit_rule :: "(string, string) fmap \<Rightarrow> string \<Rightarrow> string list" where
  "explicit_rule spec fieldName =
     (case fmlookup spec fieldName of
        None \<Rightarrow> []
      | Some overrideRaw \<Rightarrow>
          (case Unmarshal dec_raw_map overrideRaw fmempty of
             None \<Rightarrow> []
           | Some override \<Rightarrow>
               (case fmlookup override ''image'' of
                  None \<Rightarrow> []
                | Some imageRaw \<Rightarrow>
                    if Unmarshal dec_string imageRaw [] = Some []
                    then [''spec.'' @ fieldName @ ''.image must not be empty''] else [])))"

definition validateExplicitOverrideRules :: "string \<Rightarrow> string list" where
  "validateExplicitOverrideRules raw =
     (case Unmarshal (dec_struct [''spec''] (\<lambda>f r v spec. dec_raw_map v spec)) raw fmempty of
        None \<Rightarrow> []
      | Some spec \<Rightarrow> concat (map (explicit_rule spec) storeContainerOverrideFields))"

definition Handle :: "kjson \<Rightarrow> operation \<Rightarrow> string \<Rightarrow> admission_response" where
  "Handle kj op raw =
     (if op \<noteq> Create \<and> op \<noteq> Update then Allowed []
      else let errors = validateContainerOverrides kj raw in
        if errors \<noteq> [] \<and> HasPrefix (hd errors) ''invalid Store JSON:'' then Denied (hd errors)
        else let errors = errors @ validateExplicitOverrideRules raw in
          if errors \<noteq> [] then Denied (''invalid container override: '' @ Join errors ''; '')
          else Allowed [])"

section \<open>Lemmas\<close>

lemma Handle_Allowed:
  "Handle kj op raw = Allowed [] \<longleftrightarrow>
     op \<noteq> Create \<and> op \<noteq> Update \<or> validateContainerOverrides kj raw = [] \<and> validateExplicitOverrideRules raw = []"
  by (auto simp: Handle_def Let_def)

definition raw_map :: "(string \<times> jv) list \<Rightarrow> (string, string) fmap \<Rightarrow> (string, string) fmap" where
  "raw_map ms m = fold (\<lambda>(k, v). fmupd k (render v)) ms m"

lemma dec_raw_map_ast: "dec_raw_map (ast (VObj ms)) m = Some (raw_map ms m)"
proof -
  have "dec_members (\<lambda>k raw w m. Some (fmupd k raw m)) (map (\<lambda>(k, v). (k, render v, ast v)) ms) m = Some (raw_map ms m)"
    by (induction ms arbitrary: m) (auto simp: raw_map_def)
  then show ?thesis by (simp add: dec_raw_map_def)
qed

text \<open>The last member with a key counts.\<close>

lemma raw_map_lookup:
  "fmlookup (raw_map ms m) k = (case map_of (rev ms) k of Some v \<Rightarrow> Some (render v) | None \<Rightarrow> fmlookup m k)"
  by (induction ms arbitrary: m) (auto simp: raw_map_def map_add_def split: option.splits)

definition printable :: "jv \<Rightarrow> bool" where
  "printable v \<longleftrightarrow> jv_depth v \<le> maxNestingDepth \<and> (\<forall>s\<in>jv_texts v. valid_utf8 s)"

lemma printable_member: "printable (VObj ms) \<Longrightarrow> (k, v) \<in> set ms \<Longrightarrow> printable v"
proof -
  assume p: "printable (VObj ms)" and m: "(k, v) \<in> set ms"
  have "jv_depth v \<le> Max (insert 0 ((\<lambda>(k, v). jv_depth v) ` set ms))" using m by (intro Max_ge) force+
  moreover have "jv_texts v \<subseteq> jv_texts (VObj ms)" using m by fastforce
  ultimately show ?thesis using p by (auto simp: printable_def)
qed

lemma printable_lookup: "printable (VObj ms) \<Longrightarrow> map_of (rev ms) k = Some v \<Longrightarrow> printable v"
  by (metis map_of_SomeD printable_member set_rev)

lemma Unmarshal_render: "printable v \<Longrightarrow> Unmarshal dec (render v) old = dec (ast v) old"
  by (simp add: Unmarshal_def json_of_render printable_def)

text \<open>An override violates the rule when its last member image is the empty string.\<close>

definition empty_image :: "jv option \<Rightarrow> bool" where
  "empty_image override =
     (case override of Some (VObj ms) \<Rightarrow> map_of (rev ms) ''image'' = Some (VStr []) | _ \<Rightarrow> False)"

lemma explicit_rule_render:
  assumes "printable (VObj spec)"
  shows "explicit_rule (raw_map spec fmempty) f =
     (if empty_image (map_of (rev spec) f) then [''spec.'' @ f @ ''.image must not be empty''] else [])"
proof (cases "map_of (rev spec) f")
  case None
  then show ?thesis by (simp add: explicit_rule_def raw_map_lookup empty_image_def)
next
  case (Some v)
  then have p: "printable v" by (rule printable_lookup [OF assms])
  show ?thesis
  proof (cases v)
    case (VObj ms)
    show ?thesis
    proof (cases "map_of (rev ms) ''image''")
      case None
      with Some VObj p show ?thesis
        by (simp add: explicit_rule_def raw_map_lookup empty_image_def Unmarshal_render dec_raw_map_ast del: render.simps ast.simps)
    next
      case (Some i)
      with p VObj have "printable i" using printable_lookup by blast
      then have "Unmarshal dec_string (render i) [] = Some [] \<longleftrightarrow> i = VStr []"
        by (cases i) (simp_all add: Unmarshal_render dec_string_def del: render.simps)
      with Some \<open>map_of (rev spec) f = Some v\<close> VObj p show ?thesis
        by (simp add: explicit_rule_def raw_map_lookup empty_image_def Unmarshal_render dec_raw_map_ast del: render.simps ast.simps)
    qed
  qed (use Some p in \<open>simp_all add: explicit_rule_def raw_map_lookup empty_image_def Unmarshal_render dec_raw_map_def
      del: render.simps\<close>)
qed

lemma dec_spec_other:
  assumes "\<forall>(k, v)\<in>set ms. find_field [''spec''] k = None"
  shows "dec_members (\<lambda>k raw w x. case find_field [''spec''] k of None \<Rightarrow> Some x | Some f \<Rightarrow> dec_raw_map w x)
     (map (\<lambda>(k, v). (k, render v, ast v)) ms) m = Some m"
  using assms by (induction ms) auto

lemma dec_members_append:
  "dec_members st (xs @ ys) m = (case dec_members st xs m of None \<Rightarrow> None | Some m' \<Rightarrow> dec_members st ys m')"
  by (induction st xs m rule: dec_members.induct) (auto split: option.splits)

text \<open>A Store with one spec, whatever its other members are.\<close>

lemma explicit_rules_render:
  assumes "printable (VObj (ms @ (''spec'', VObj spec) # ms'))"
    and "\<forall>(k, v)\<in>set (ms @ ms'). fold_name k \<noteq> ''SPEC''"
  shows "validateExplicitOverrideRules (render (VObj (ms @ (''spec'', VObj spec) # ms'))) =
     concat (map (\<lambda>f. if empty_image (map_of (rev spec) f) then [''spec.'' @ f @ ''.image must not be empty''] else [])
       storeContainerOverrideFields)"
proof -
  have "fold_name ''spec'' = ''SPEC''" by code_simp
  then have other: "\<forall>(k, v)\<in>set ms. find_field [''spec''] k = None" "\<forall>(k, v)\<in>set ms'. find_field [''spec''] k = None"
    using assms(2) by (fastforce simp: find_field_def simp del: fold_name.simps)+
  have "printable (VObj spec)" using assms(1) by (rule printable_member [of _ "''spec''"]) simp
  then have r: "explicit_rule (raw_map spec fmempty) = (\<lambda>f. if empty_image (map_of (rev spec) f) then [''spec.'' @ f @ ''.image must not be empty''] else [])"
    by (intro ext explicit_rule_render)
  have "dec_struct [''spec''] (\<lambda>f r v spec. dec_raw_map v spec) (ast (VObj (ms @ (''spec'', VObj spec) # ms'))) fmempty = Some (raw_map spec fmempty)"
    using dec_spec_other [OF other(1), of fmempty] dec_spec_other [OF other(2)] dec_raw_map_ast [of spec fmempty]
    by (simp add: dec_struct_def dec_members_append find_field_def)
  then show ?thesis
    unfolding validateExplicitOverrideRules_def Unmarshal_render [OF assms(1)] by (simp add: r)
qed

section \<open>Properties\<close>


definition ex_spec :: "(string \<times> jv) list" where
  "ex_spec = [(''setupJobContainer'', VObj [(''image'', VStr [])])]"


text \<open>An image that is null counts as empty: decoding null leaves the string as it was.\<close>

lemma null_image_is_empty:
  "explicit_rule (fmap_of_list [(''setupJobContainer'', CHR ''{'' # quoted ''image'' @ '':null}'')]) ''setupJobContainer'' =
     [''spec.setupJobContainer.image must not be empty'']"
  by code_simp

end
