(* ===== verification/Archive.thy ===== *)
theory Archive
  imports Filepath Url WorkerPool
begin

text \<open>
  The archive of the snapshot program, \<open>internal/snapshot/archive.go\<close>, with the credentials and S3 addresses
  of \<open>service.go\<close> and the transfer of the archive of \<open>s3.go\<close>. The operating system, the AWS configuration
  and the minio client are records of calls that act on an arbitrary world. Closing a reader and
  removing a temporary file only log a failure; their results are dropped, their effects are not.
\<close>

section \<open>Calls\<close>

definition cErrorf :: "string \<Rightarrow> cerr" where
  "cErrorf s = \<lparr>ce_msg = s, ce_Canceled = False\<rparr>"

text \<open>An entry of a zip archive: what opening it, reading it to the end and closing it give.\<close>

record zip_file =
  zf_Name :: string
  zf_IsDir :: bool
  zf_Mode :: nat
  zf_Open :: "cerr option"
  zf_Content :: string
  zf_ReadErr :: "cerr option"
  zf_Close :: "cerr option"

text \<open>
  A file as \<open>filepath.WalkDir\<close> meets it: a directory with the entries that could be read, in order, and the
  error of reading it, or anything else with what \<open>Info\<close>, opening and reading it give. The root may
  be missing, and then its \<open>DirEntry\<close> is nil.
\<close>

record file_node =
  fn_InfoErr :: "cerr option"
  fn_HeaderErr :: "cerr option"
  fn_Mode :: nat
  fn_OpenErr :: "cerr option"
  fn_Content :: string
  fn_ReadErr :: "cerr option"

datatype node = FileNode file_node | DirNode "(string \<times> node) list" "cerr option"

text \<open>The zip writer fails to begin an entry or to take its content.\<close>

record zip_writer =
  zw_CreateHeader :: "string \<Rightarrow> cerr option"
  zw_Write :: "string \<Rightarrow> cerr option"

text \<open>
  A file is known by its path. \<open>os_Walk\<close> is what a walk finds below a directory, \<open>zip_Writer\<close> how a zip
  writer into a file behaves, and \<open>zip_Finish\<close> its \<open>Close\<close>, which writes the directory of the archive.
\<close>

record 'w os =
  os_MkdirAll :: "string \<Rightarrow> ('w, cerr option) state"
  os_OpenFile :: "string \<Rightarrow> nat \<Rightarrow> ('w, cerr option) state"
  os_Write :: "string \<Rightarrow> string \<Rightarrow> ('w, cerr option) state"
  os_Close :: "string \<Rightarrow> ('w, cerr option) state"
  os_CreateTemp :: "string \<Rightarrow> ('w, cerr + string) state"
  os_MkdirTemp :: "string \<Rightarrow> string \<Rightarrow> ('w, cerr + string) state"
  os_Remove :: "string \<Rightarrow> ('w, cerr option) state"
  os_RemoveAll :: "string \<Rightarrow> ('w, cerr option) state"
  os_Stat :: "string \<Rightarrow> ('w, cerr option) state"
  os_Open :: "string \<Rightarrow> ('w, cerr + string) state"
  os_Walk :: "string \<Rightarrow> ('w, cerr + node) state"
  zip_OpenReader :: "string \<Rightarrow> ('w, cerr + zip_file list) state"
  zip_Writer :: "string \<Rightarrow> zip_writer"
  zip_Finish :: "string \<Rightarrow> zip_file list \<Rightarrow> ('w, cerr option) state"

section \<open>Extracting\<close>

definition copy_entry :: "'w os \<Rightarrow> string \<Rightarrow> zip_file \<Rightarrow> ('w, cerr option) state" where
  "copy_entry os fpath f = do {
     e \<leftarrow> os_Write os fpath (zf_Content f);
     State_Monad.return (case e of Some e \<Rightarrow> Some e | None \<Rightarrow> zf_ReadErr f) }"

text \<open>One round of the loop of \<open>extractZipFiles\<close>.\<close>

definition extract_file :: "'w os \<Rightarrow> string \<Rightarrow> zip_file \<Rightarrow> ('w, cerr option) state" where
  "extract_file os destDir f =
     (let fpath = JoinPath [destDir, zf_Name f] in
      if \<not> HasPrefix fpath (Clean destDir @ ''/'') then
        State_Monad.return (Some (cErrorf (''illegal file path: '' @ fpath)))
      else if zf_IsDir f then do {
        e \<leftarrow> os_MkdirAll os fpath;
        State_Monad.return (map_option (cWrap (''failed to create dir '' @ fpath)) e) }
      else do {
        e \<leftarrow> os_MkdirAll os (Dir fpath);
        case e of
          Some e \<Rightarrow> State_Monad.return (Some (cWrap (''failed to create parent dir for '' @ fpath) e))
        | None \<Rightarrow>
            (case zf_Open f of
               Some e \<Rightarrow> State_Monad.return (Some (cWrap (''failed to open file in zip '' @ zf_Name f) e))
             | None \<Rightarrow> do {
                 e \<leftarrow> os_OpenFile os fpath (zf_Mode f);
                 case e of
                   Some e \<Rightarrow> State_Monad.return (Some (cWrap (''failed to create file '' @ fpath) e))
                 | None \<Rightarrow> do {
                     copied \<leftarrow> copy_entry os fpath f;
                     closed \<leftarrow> os_Close os fpath;
                     State_Monad.return (case closed of
                         Some e \<Rightarrow> Some (cWrap (''failed to close output file '' @ fpath) e)
                       | None \<Rightarrow>
                           (case zf_Close f of
                              Some e \<Rightarrow> Some (cWrap (''failed to close zip file reader for '' @ zf_Name f) e)
                            | None \<Rightarrow> map_option (cWrap (''failed to extract file '' @ fpath)) copied)) } }) })"

fun extractZipFiles :: "'w os \<Rightarrow> zip_file list \<Rightarrow> string \<Rightarrow> ('w, cerr option) state" where
  "extractZipFiles os [] destDir = State_Monad.return None"
| "extractZipFiles os (f # files) destDir = do {
     e \<leftarrow> extract_file os destDir f;
     case e of Some e \<Rightarrow> State_Monad.return (Some e) | None \<Rightarrow> extractZipFiles os files destDir }"

section \<open>S3\<close>

definition parseS3URL :: "(string \<Rightarrow> string + string) \<Rightarrow> string \<Rightarrow> (string \<times> string) result" where
  "parseS3URL ipLiteral raw =
     (case url_Parse ipLiteral raw of
        Inl e \<Rightarrow> Inl e
      | Inr u \<Rightarrow>
          if u_Scheme u \<noteq> ''s3'' then Inl (Errorf (''invalid scheme: '' @ u_Scheme u))
          else Inr (u_Host u, TrimPrefix (u_Path u) ''/''))"

record s3_config =
  RoleARN :: string
  WebIdentityTokenFile :: string
  STSReginalEndpoints :: string
  DefaultRegion :: string
  s3_Region' :: string
  s3_Endpoint :: string
  AccessKeyID :: string
  SecretAccessKey :: string
  SessionToken :: string
  PrivateBucket :: string
  PublicBucket :: string

record aws_creds =
  ac_AccessKeyID :: string
  ac_SecretAccessKey :: string
  ac_SessionToken :: string

record object_reader =
  or_Content :: string
  or_ReadErr :: "cerr option"

record 'w cloud =
  aws_LoadDefaultConfig :: "('w, cerr option) state"
  aws_Retrieve :: "('w, cerr + aws_creds) state"
  minio_New :: "string \<Rightarrow> aws_creds \<Rightarrow> cerr option"
  minio_GetObject :: "aws_creds \<Rightarrow> string \<Rightarrow> string \<Rightarrow> ('w, cerr + object_reader) state"
  minio_PutObject :: "aws_creds \<Rightarrow> string \<Rightarrow> string \<Rightarrow> string \<Rightarrow> string \<Rightarrow> gomap \<Rightarrow> ('w, cerr option) state"
  url_IPLiteral :: "string \<Rightarrow> string + string"

definition getAWSKeysWithAsumeRole :: "'w cloud \<Rightarrow> s3_config \<Rightarrow> ('w, cerr + aws_creds) state" where
  "getAWSKeysWithAsumeRole cl cfg =
     (if AccessKeyID cfg \<noteq> [] \<and> SecretAccessKey cfg \<noteq> [] then
        State_Monad.return (Inr \<lparr>ac_AccessKeyID = AccessKeyID cfg, ac_SecretAccessKey = SecretAccessKey cfg, ac_SessionToken = SessionToken cfg\<rparr>)
      else do {
        e \<leftarrow> aws_LoadDefaultConfig cl;
        case e of
          Some e \<Rightarrow> State_Monad.return (Inl (cWrap ''failed to load AWS config'' e))
        | None \<Rightarrow> do {
            r \<leftarrow> aws_Retrieve cl;
            State_Monad.return (map_sum (cWrap ''failed to retrieve AWS credentials'') id r) } })"

text \<open>What \<open>uploadToS3\<close> and \<open>downloadFromS3\<close> have in common: the address, credentials and a client.\<close>

definition s3_address :: "'w cloud \<Rightarrow> s3_config \<Rightarrow> string \<Rightarrow> ('w, cerr + aws_creds \<times> string \<times> string) state" where
  "s3_address cl cfg url =
     (case parseS3URL (url_IPLiteral cl) url of
        Inl e \<Rightarrow> State_Monad.return (Inl (cErrorf (''failed to parse S3 URL: '' @ err_msg e)))
      | Inr (bucket, objectFile) \<Rightarrow> do {
          r \<leftarrow> getAWSKeysWithAsumeRole cl cfg;
          State_Monad.return (case r of
              Inl e \<Rightarrow> Inl (cWrap ''failed to get AWS credentials'' e)
            | Inr cred \<Rightarrow>
                (case minio_New cl (s3_Endpoint cfg) cred of
                   Some e \<Rightarrow> Inl (cWrap ''failed to create minio client'' e)
                 | None \<Rightarrow> Inr (cred, bucket, objectFile))) })"

definition downloadFromS3 :: "'w cloud \<Rightarrow> s3_config \<Rightarrow> string \<Rightarrow> ('w, cerr + object_reader) state" where
  "downloadFromS3 cl cfg s3Url = do {
     a \<leftarrow> s3_address cl cfg s3Url;
     case a of
       Inl e \<Rightarrow> State_Monad.return (Inl e)
     | Inr (cred, bucket, objectFile) \<Rightarrow> do {
         r \<leftarrow> minio_GetObject cl cred bucket objectFile;
         State_Monad.return (map_sum (cWrap ''failed to download from s3'') id r) } }"

record snapshot_context =
  TempArchiveDir :: string
  BackupFile :: string
  IncludeDB :: bool
  IncludeS3 :: bool
  sc_Labels :: gomap

definition uploadToS3 :: "'w cloud \<Rightarrow> s3_config \<Rightarrow> snapshot_context \<Rightarrow> string \<Rightarrow> string \<Rightarrow> ('w, cerr option) state" where
  "uploadToS3 cl cfg sc contentType content = do {
     a \<leftarrow> s3_address cl cfg (BackupFile sc);
     case a of
       Inl e \<Rightarrow> State_Monad.return (Some e)
     | Inr (cred, bucket, objectFile) \<Rightarrow> do {
         e \<leftarrow> minio_PutObject cl cred bucket objectFile content contentType
               (fmupd ''object-type'' ''store-snapshot-backup'' fmempty ++\<^sub>f sc_Labels sc);
         State_Monad.return (map_option (cWrap ''failed to upload to s3'') e) } }"

definition extractLocalArchive :: "'w os \<Rightarrow> snapshot_context \<Rightarrow> ('w, cerr option) state" where
  "extractLocalArchive os sc = do {
     r \<leftarrow> zip_OpenReader os (BackupFile sc);
     case r of
       Inl e \<Rightarrow> State_Monad.return (Some (cWrap (''failed to open zip file '' @ BackupFile sc) e))
     | Inr files \<Rightarrow> extractZipFiles os files (TempArchiveDir sc) }"

text \<open>The part of \<open>extractArchiveFromS3\<close> after the temporary file exists, before it is removed.\<close>

definition extract_downloaded :: "'w os \<Rightarrow> snapshot_context \<Rightarrow> object_reader \<Rightarrow> string \<Rightarrow> ('w, cerr option) state" where
  "extract_downloaded os sc reader tempFile = do {
     e \<leftarrow> os_Write os tempFile (or_Content reader);
     case (case e of Some e \<Rightarrow> Some e | None \<Rightarrow> or_ReadErr reader) of
       Some e \<Rightarrow> do { _ \<leftarrow> os_Close os tempFile; State_Monad.return (Some (cWrap ''failed to stream archive to temp file'' e)) }
     | None \<Rightarrow> do {
         e \<leftarrow> os_Close os tempFile;
         case e of
           Some e \<Rightarrow> do { _ \<leftarrow> os_Close os tempFile; State_Monad.return (Some (cWrap ''failed to close temp file'' e)) }
         | None \<Rightarrow> do {
             r \<leftarrow> zip_OpenReader os tempFile;
             result \<leftarrow> (case r of
                 Inl e \<Rightarrow> State_Monad.return (Some (cWrap ''failed to open temp zip file'' e))
               | Inr files \<Rightarrow> extractZipFiles os files (TempArchiveDir sc));
             _ \<leftarrow> os_Close os tempFile;
             State_Monad.return result } } }"

definition extractArchiveFromS3 :: "'w os \<Rightarrow> 'w cloud \<Rightarrow> s3_config \<Rightarrow> snapshot_context \<Rightarrow> ('w, cerr option) state" where
  "extractArchiveFromS3 os cl cfg sc = do {
     r \<leftarrow> downloadFromS3 cl cfg (BackupFile sc);
     case r of
       Inl e \<Rightarrow> State_Monad.return (Some (cWrap ''failed to download archive from S3'' e))
     | Inr reader \<Rightarrow> do {
         t \<leftarrow> os_CreateTemp os ''snapshot-archive-*.zip'';
         case t of
           Inl e \<Rightarrow> State_Monad.return (Some (cWrap ''failed to create temp file'' e))
         | Inr tempFile \<Rightarrow> do {
             result \<leftarrow> extract_downloaded os sc reader tempFile;
             _ \<leftarrow> os_Remove os tempFile;
             State_Monad.return result } } }"

definition isS3URL :: "'w cloud \<Rightarrow> string \<Rightarrow> bool" where
  "isS3URL cl url \<longleftrightarrow> \<not> isl (parseS3URL (url_IPLiteral cl) url)"

definition ExtractArchive :: "'w os \<Rightarrow> 'w cloud \<Rightarrow> s3_config \<Rightarrow> snapshot_context \<Rightarrow> ('w, cerr option) state" where
  "ExtractArchive os cl cfg sc =
     (if isS3URL cl (BackupFile sc) then extractArchiveFromS3 os cl cfg sc else extractLocalArchive os sc)"

section \<open>Creating\<close>

type_synonym visit = "string \<times> node option \<times> cerr option"

text \<open>The calls of the function given to \<open>WalkDir\<close>, which goes on as long as it returns nil.\<close>

fun walk :: "string \<Rightarrow> node \<Rightarrow> visit list" where
  "walk path (FileNode f) = [(path, Some (FileNode f), None)]"
| "walk path (DirNode entries err) =
     (path, Some (DirNode entries err), None) #
     (case err of Some e \<Rightarrow> [(path, Some (DirNode entries err), Some e)] | None \<Rightarrow> []) @
     concat (map (\<lambda>(n, x). walk (JoinPath [path, n]) x) entries)"

definition WalkDir :: "string \<Rightarrow> cerr + node \<Rightarrow> visit list" where
  "WalkDir root r = (case r of Inl e \<Rightarrow> [(root, None, Some e)] | Inr x \<Rightarrow> walk root x)"

text \<open>How the walk ends; a method of a nil \<open>DirEntry\<close> panics.\<close>

datatype snapshot_outcome = Succeeded | Failed cerr | Panicked

definition archived :: "string \<Rightarrow> file_node \<Rightarrow> zip_file" where
  "archived name f =
     \<lparr>zf_Name = name, zf_IsDir = False, zf_Mode = fn_Mode f, zf_Open = None, zf_Content = fn_Content f, zf_ReadErr = None, zf_Close = None\<rparr>"

definition add_file :: "zip_writer \<Rightarrow> string \<Rightarrow> string \<Rightarrow> file_node \<Rightarrow> cerr + zip_file" where
  "add_file zw sourceDir path f =
     (case Rel sourceDir path of
        None \<Rightarrow> Inl (cErrorf (''failed to get relative path for '' @ path @ '': Rel: can't make '' @ path @ '' relative to '' @ sourceDir))
      | Some relPath \<Rightarrow>
          (case fn_InfoErr f of
             Some e \<Rightarrow> Inl (cWrap (''failed to get file info for '' @ path) e)
           | None \<Rightarrow>
               (case fn_HeaderErr f of
                  Some e \<Rightarrow> Inl (cWrap (''failed to create zip header for '' @ path) e)
                | None \<Rightarrow>
                    (case zw_CreateHeader zw relPath of
                       Some e \<Rightarrow> Inl (cWrap (''failed to create zip header for '' @ relPath) e)
                     | None \<Rightarrow>
                         (case fn_OpenErr f of
                            Some e \<Rightarrow> Inl (cWrap (''failed to open file '' @ path) e)
                          | None \<Rightarrow>
                              (case (case zw_Write zw relPath of Some e \<Rightarrow> Some e | None \<Rightarrow> fn_ReadErr f) of
                                 Some e \<Rightarrow> Inl (cWrap (''failed to copy file '' @ path @ '' to zip'') e)
                               | None \<Rightarrow> Inr (archived relPath f)))))))"

text \<open>\<open>addFilesToZip\<close> with the entries it has completed.\<close>

fun add_visits :: "zip_writer \<Rightarrow> string \<Rightarrow> visit list \<Rightarrow> zip_file list \<times> snapshot_outcome" where
  "add_visits zw sourceDir [] = ([], Succeeded)"
| "add_visits zw sourceDir ((path, d, errWalk) # vs) =
     (case d of
        None \<Rightarrow> ([], Panicked)
      | Some (DirNode es e) \<Rightarrow> add_visits zw sourceDir vs
      | Some (FileNode f) \<Rightarrow>
          if errWalk \<noteq> None then add_visits zw sourceDir vs
          else (case add_file zw sourceDir path f of
                  Inl e \<Rightarrow> ([], Failed e)
                | Inr z \<Rightarrow> (case add_visits zw sourceDir vs of (zs, r) \<Rightarrow> (z # zs, r))))"

definition addFilesToZip :: "zip_writer \<Rightarrow> string \<Rightarrow> cerr + node \<Rightarrow> zip_file list \<times> snapshot_outcome" where
  "addFilesToZip zw sourceDir tree = add_visits zw sourceDir (WalkDir sourceDir tree)"

definition createLocalArchive :: "'w os \<Rightarrow> snapshot_context \<Rightarrow> ('w, snapshot_outcome) state" where
  "createLocalArchive os sc = do {
     e \<leftarrow> os_OpenFile os (BackupFile sc) 438;
     case e of
       Some e \<Rightarrow> State_Monad.return (Failed (cWrap ''failed to create zip file'' e))
     | None \<Rightarrow> do {
         tree \<leftarrow> os_Walk os (TempArchiveDir sc);
         case addFilesToZip (zip_Writer os (BackupFile sc)) (TempArchiveDir sc) tree of
           (zs, result) \<Rightarrow> do {
             _ \<leftarrow> zip_Finish os (BackupFile sc) zs;
             _ \<leftarrow> os_Close os (BackupFile sc);
             State_Monad.return result } } }"

text \<open>\<open>createArchiveAndUploadToS3\<close> once the temporary file exists, before it is removed.\<close>

definition archive_and_upload :: "'w os \<Rightarrow> 'w cloud \<Rightarrow> s3_config \<Rightarrow> snapshot_context \<Rightarrow> string \<Rightarrow> ('w, snapshot_outcome) state" where
  "archive_and_upload os cl cfg sc tempFile = do {
     tree \<leftarrow> os_Walk os (TempArchiveDir sc);
     case addFilesToZip (zip_Writer os tempFile) (TempArchiveDir sc) tree of
       (zs, Panicked) \<Rightarrow> State_Monad.return Panicked
     | (zs, Failed e) \<Rightarrow> do {
         _ \<leftarrow> os_Close os tempFile;
         State_Monad.return (Failed (cWrap ''failed to create zip archive'' e)) }
     | (zs, Succeeded) \<Rightarrow> do {
         e \<leftarrow> zip_Finish os tempFile zs;
         case e of
           Some e \<Rightarrow> do {
             _ \<leftarrow> os_Close os tempFile;
             State_Monad.return (Failed (cWrap ''failed to close zip writer'' e)) }
         | None \<Rightarrow> do {
             e \<leftarrow> os_Close os tempFile;
             case e of
               Some e \<Rightarrow> State_Monad.return (Failed (cWrap ''failed to close temp archive file'' e))
             | None \<Rightarrow> do {
                 r \<leftarrow> os_Open os tempFile;
                 case r of
                   Inl e \<Rightarrow> State_Monad.return (Failed (cWrap ''failed to open temp archive file for upload'' e))
                 | Inr content \<Rightarrow> do {
                     e \<leftarrow> os_Stat os tempFile;
                     case e of
                       Some e \<Rightarrow> do {
                         _ \<leftarrow> os_Close os tempFile;
                         State_Monad.return (Failed (cWrap ''failed to stat temp archive file'' e)) }
                     | None \<Rightarrow> do {
                         e \<leftarrow> uploadToS3 cl cfg sc ''application/zip'' content;
                         _ \<leftarrow> os_Close os tempFile;
                         State_Monad.return (case e of
                             Some e \<Rightarrow> Failed (cWrap ''failed to upload archive to S3'' e)
                           | None \<Rightarrow> Succeeded) } } } } } }"

definition createArchiveAndUploadToS3 :: "'w os \<Rightarrow> 'w cloud \<Rightarrow> s3_config \<Rightarrow> snapshot_context \<Rightarrow> ('w, snapshot_outcome) state" where
  "createArchiveAndUploadToS3 os cl cfg sc = do {
     t \<leftarrow> os_CreateTemp os ''snapshot-archive-*.zip'';
     case t of
       Inl e \<Rightarrow> State_Monad.return (Failed (cWrap ''failed to create temp file'' e))
     | Inr tempFile \<Rightarrow> do {
         result \<leftarrow> archive_and_upload os cl cfg sc tempFile;
         _ \<leftarrow> os_Remove os tempFile;
         State_Monad.return result } }"

definition CreateArchive :: "'w os \<Rightarrow> 'w cloud \<Rightarrow> s3_config \<Rightarrow> snapshot_context \<Rightarrow> ('w, snapshot_outcome) state" where
  "CreateArchive os cl cfg sc =
     (if isS3URL cl (BackupFile sc) then createArchiveAndUploadToS3 os cl cfg sc else createLocalArchive os sc)"

section \<open>Extracting: lemmas\<close>

text \<open>The calls that extracting an entry makes.\<close>

lemma extract_file_preserves:
  fixes f :: zip_file and destDir :: string
  defines "fpath \<equiv> JoinPath [destDir, zf_Name f]"
  assumes "\<And>p. HasPrefix fpath (Clean destDir @ ''/'') \<Longrightarrow> p \<in> {fpath, Dir fpath} \<Longrightarrow> preserves I (os_MkdirAll os p) (\<lambda>_. True)"
    and "HasPrefix fpath (Clean destDir @ ''/'') \<Longrightarrow> \<not> zf_IsDir f \<Longrightarrow> preserves I (os_OpenFile os fpath (zf_Mode f)) (\<lambda>_. True)"
    and "HasPrefix fpath (Clean destDir @ ''/'') \<Longrightarrow> \<not> zf_IsDir f \<Longrightarrow> preserves I (os_Write os fpath (zf_Content f)) (\<lambda>_. True)"
    and "HasPrefix fpath (Clean destDir @ ''/'') \<Longrightarrow> \<not> zf_IsDir f \<Longrightarrow> preserves I (os_Close os fpath) (\<lambda>_. True)"
  shows "preserves I (extract_file os destDir f) (\<lambda>_. True)"
proof (cases "HasPrefix fpath (Clean destDir @ ''/'')")
  case True
  show ?thesis
  proof (cases "zf_IsDir f")
    case dir: True
    with True show ?thesis
      by (simp add: extract_file_def Let_def fpath_def [symmetric]) (intro read_ok assms(2); simp)
  next
    case plain: False
    note calls = assms(2) [OF True] assms(3-5) [OF True plain]
    have copy: "preserves I (copy_entry os fpath f) (\<lambda>_. True)"
      unfolding copy_entry_def by (rule read_ok) (simp_all add: calls)
    from True plain show ?thesis
      by (simp add: extract_file_def Let_def fpath_def [symmetric])
        (intro read_ok preserves_optionI copy calls; simp)
  qed
qed (simp add: extract_file_def fpath_def)

text \<open>Calls that touch only what is below a directory.\<close>

lemma extract_file_confined:
  assumes dest: "clean_elems destDir = [] \<or> last (clean_elems destDir) \<noteq> ''..''"
    and "\<And>p. below destDir p \<Longrightarrow> preserves I (os_MkdirAll os p) (\<lambda>_. True)"
    and "\<And>p m. below destDir p \<Longrightarrow> preserves I (os_OpenFile os p m) (\<lambda>_. True)"
    and "\<And>p c. below destDir p \<Longrightarrow> preserves I (os_Write os p c) (\<lambda>_. True)"
    and "\<And>p. below destDir p \<Longrightarrow> preserves I (os_Close os p) (\<lambda>_. True)"
  shows "preserves I (extract_file os destDir f) (\<lambda>_. True)"
  using assms(2-5) guard_below [OF _ dest] by (intro extract_file_preserves) auto

text \<open>
  A file store: \<open>holds_file p c w\<close> says that the file \<open>p\<close> has the content \<open>c\<close>. Creating a file empties it,
  writing appends what is written, and no call changes another file.
\<close>

locale file_store =
  fixes os :: "'w os" and holds_file :: "string \<Rightarrow> string \<Rightarrow> 'w \<Rightarrow> bool"
  assumes mkdir_keeps: "holds_file p c w \<Longrightarrow> holds_file p c (snd (run_state (os_MkdirAll os d) w))"
    and close_keeps: "holds_file p c w \<Longrightarrow> holds_file p c (snd (run_state (os_Close os q) w))"
    and open_other: "holds_file p c w \<Longrightarrow> p \<noteq> q \<Longrightarrow> holds_file p c (snd (run_state (os_OpenFile os q m) w))"
    and write_other: "holds_file p c w \<Longrightarrow> p \<noteq> q \<Longrightarrow> holds_file p c (snd (run_state (os_Write os q x) w))"
    and open_empties: "run_state (os_OpenFile os p m) w = (None, w') \<Longrightarrow> holds_file p [] w'"
    and write_appends: "holds_file p c w \<Longrightarrow> run_state (os_Write os p x) w = (None, w') \<Longrightarrow> holds_file p (c @ x) w'"
begin

lemma extract_file_keeps:
  assumes "zf_IsDir f \<or> p \<noteq> JoinPath [destDir, zf_Name f]"
  shows "preserves (holds_file p c) (extract_file os destDir f) (\<lambda>_. True)"
  using assms mkdir_keeps close_keeps open_other write_other
  by (intro extract_file_preserves) (auto simp: preserves_def)

lemma extract_file_writes:
  assumes "run_state (extract_file os destDir f) w = (None, w')" and "\<not> zf_IsDir f"
  shows "holds_file (JoinPath [destDir, zf_Name f]) (zf_Content f) w' \<and> zf_ReadErr f = None"
proof -
  let ?p = "JoinPath [destDir, zf_Name f]"
  obtain w1 w2 w3 where
      o: "run_state (os_OpenFile os ?p (zf_Mode f)) w1 = (None, w2)"
    and w: "run_state (os_Write os ?p (zf_Content f)) w2 = (None, w3)"
    and c: "run_state (os_Close os ?p) w3 = (None, w')" and r: "zf_ReadErr f = None"
    using assms by (auto simp: extract_file_def copy_entry_def Let_def run_simps split: prod.splits option.splits if_splits)
  from open_empties [OF o] have "holds_file ?p ([] @ zf_Content f) w3" by (rule write_appends [OF _ w])
  with c close_keeps have "holds_file ?p (zf_Content f) w'" by (metis append_Nil snd_conv)
  with r show ?thesis by simp
qed

lemma extract_keeps:
  "holds_file p c w \<Longrightarrow> \<forall>f\<in>set files. zf_IsDir f \<or> p \<noteq> JoinPath [destDir, zf_Name f] \<Longrightarrow>
   holds_file p c (snd (run_state (extractZipFiles os files destDir) w))"
proof (induction files arbitrary: w)
  case (Cons f files)
  have "holds_file p c (snd (run_state (extract_file os destDir f) w))"
    using Cons.prems by (intro preservesD [OF extract_file_keeps]) auto
  with Cons show ?case by (auto simp: run_simps split: prod.splits option.splits)
qed (simp add: run_simps)

lemma extract_writes:
  assumes "run_state (extractZipFiles os files destDir) w = (None, w')"
    and "distinct [JoinPath [destDir, zf_Name f]. f \<leftarrow> files, \<not> zf_IsDir f]"
  shows "\<forall>f\<in>set files. \<not> zf_IsDir f \<longrightarrow> holds_file (JoinPath [destDir, zf_Name f]) (zf_Content f) w' \<and> zf_ReadErr f = None"
  using assms
proof (induction files arbitrary: w)
  case (Cons f files)
  obtain w1 where f: "run_state (extract_file os destDir f) w = (None, w1)"
    and fs: "run_state (extractZipFiles os files destDir) w1 = (None, w')"
    using Cons.prems(1) by (auto simp: run_simps split: prod.splits option.splits)
  have "holds_file (JoinPath [destDir, zf_Name f]) (zf_Content f) w' \<and> zf_ReadErr f = None" if d: "\<not> zf_IsDir f"
  proof -
    from extract_file_writes [OF f d] have h: "holds_file (JoinPath [destDir, zf_Name f]) (zf_Content f) w1" "zf_ReadErr f = None" by auto
    have "\<forall>g\<in>set files. zf_IsDir g \<or> JoinPath [destDir, zf_Name f] \<noteq> JoinPath [destDir, zf_Name g]"
      using Cons.prems(2) d by force
    from extract_keeps [OF h(1) this] fs h(2) show ?thesis by simp
  qed
  moreover have "distinct [JoinPath [destDir, zf_Name f]. f \<leftarrow> files, \<not> zf_IsDir f]"
    using Cons.prems(2) by (auto split: if_splits)
  ultimately show ?case using Cons.IH [OF fs] by auto
qed simp

end

section \<open>Archiving: lemmas\<close>

text \<open>The files of a tree with their relative paths, in the order of the walk.\<close>

fun files_of :: "node \<Rightarrow> (string list \<times> file_node) list" where
  "files_of (FileNode f) = [([], f)]"
| "files_of (DirNode entries err) = concat (map (\<lambda>(n, x). map (\<lambda>(p, f). (n # p, f)) (files_of x)) entries)"

text \<open>Names as a file system has them.\<close>

fun wf_node :: "node \<Rightarrow> bool" where
  "wf_node (FileNode f) = True"
| "wf_node (DirNode entries err) =
     (distinct (map fst entries) \<and> list_all (\<lambda>(n, x). valid_name n \<and> wf_node x) entries)"


definition rel_name :: "string list \<Rightarrow> string" where
  "rel_name p = (if p = [] then ''.'' else Join p ''/'')"

lemma add_file_Inr: "add_file zw src path f = Inr z \<Longrightarrow> Rel src path = Some n \<Longrightarrow> z = archived n f"
  by (auto simp: add_file_def split: option.splits)

lemma add_walk:
  assumes "wf_node x" and "path \<noteq> []" and "is_rooted path = is_rooted src" and "clean_elems path = clean_elems src @ q"
    and "add_visits zw src (walk path x @ vs) = (zs, Succeeded)"
  shows "\<exists>zs'. add_visits zw src vs = (zs', Succeeded) \<and> zs = map (\<lambda>(p, f). archived (rel_name (q @ p)) f) (files_of x) @ zs'"
  using assms
proof (induction path x arbitrary: q vs zs rule: walk.induct)
  case (1 path f)
  then have "Rel src path = Some (rel_name q)" by (simp add: Rel_below rel_name_def)
  with 1(5) show ?case by (auto split: sum.splits prod.splits dest: add_file_Inr)
next
  case (2 path entries err)
  have entry: "\<exists>zs'. add_visits zw src vs = (zs', Succeeded) \<and>
      zs = map (\<lambda>(p, f). archived (rel_name (q @ n # p)) f) (files_of x) @ zs'"
    if "(n, x) \<in> set entries" "add_visits zw src (walk (JoinPath [path, n]) x @ vs) = (zs, Succeeded)" for n x vs zs
  proof -
    have n: "valid_name n" "wf_node x" using 2(2) that(1) by (auto simp: list_all_iff)
    note j = clean_elems_JoinPath [OF 2(3), of "[n]"]
    show ?thesis
      using 2(1) [OF that(1) refl n(2), of "q @ [n]" vs zs] j n(1) 2(4,5) that(2) by simp
  qed
  have all: "\<exists>zs'. add_visits zw src vs = (zs', Succeeded) \<and>
      zs = map (\<lambda>(p, f). archived (rel_name (q @ p)) f) (concat (map (\<lambda>(n, x). map (\<lambda>(p, f). (n # p, f)) (files_of x)) es)) @ zs'"
    if "set es \<subseteq> set entries" "add_visits zw src (concat (map (\<lambda>(n, x). walk (JoinPath [path, n]) x) es) @ vs) = (zs, Succeeded)" for es zs
    using that
  proof (induction es arbitrary: zs)
    case (Cons e es)
    obtain n x where e: "e = (n, x)" by force
    from Cons.prems entry [of n x] e obtain zs' where
        z: "add_visits zw src (concat (map (\<lambda>(n, x). walk (JoinPath [path, n]) x) es) @ vs) = (zs', Succeeded)"
           "zs = map (\<lambda>(p, f). archived (rel_name (q @ n # p)) f) (files_of x) @ zs'" by auto
    from Cons.IH [OF _ z(1)] Cons.prems(1) z(2) e show ?case by (auto simp: case_prod_beta comp_def)
  qed simp
  from 2(6) have "add_visits zw src (concat (map (\<lambda>(n, x). walk (JoinPath [path, n]) x) entries) @ vs) = (zs, Succeeded)"
    by (auto split: option.splits)
  from all [OF _ this] show ?case by simp
qed

lemma files_of_names: "wf_node x \<Longrightarrow> (p, f) \<in> set (files_of x) \<Longrightarrow> list_all valid_name p"
  by (induction x arbitrary: p f rule: files_of.induct) (force simp: list_all_iff)+

lemma distinct_files: "wf_node x \<Longrightarrow> distinct (map fst (files_of x))"
proof (induction x rule: files_of.induct)
  case (2 entries err)
  have "distinct (map fst (concat (map (\<lambda>(n, x). map (\<lambda>(p, f). (n # p, f)) (files_of x)) es)))"
    if "set es \<subseteq> set entries" "distinct (map fst es)" for es
    using that
  proof (induction es)
    case (Cons e es)
    obtain n x where e: "e = (n, x)" by force
    have "distinct (map fst (files_of x))" using 2 Cons.prems(1) e by (auto simp: list_all_iff)
    then have "distinct (map fst (map (\<lambda>(p, f). (n # p, f)) (files_of x)))"
      by (simp add: case_prod_beta distinct_map inj_on_def)
    moreover have "set (map fst (map (\<lambda>(p, f). (n # p, f)) (files_of x))) \<inter>
        set (map fst (concat (map (\<lambda>(n, x). map (\<lambda>(p, f). (n # p, f)) (files_of x)) es))) = {}"
      using Cons.prems(2) e by (force simp: case_prod_beta)
    ultimately show ?case using Cons e by simp
  qed simp
  with 2 show ?case by simp
qed simp


section \<open>A Unix file system\<close>

text \<open>
  Files by their clean path, the latest entry of a path first. Creating a directory creates its
  parents and fails below a file; a file is created in an existing directory only.
\<close>

datatype fs_file = Directory | Regular string

type_synonym fs = "(string \<times> fs_file) list"

definition parents :: "string \<Rightarrow> string list" where
  "parents p = map (\<lambda>k. path_text (is_rooted p) (take k (clean_elems p))) [0..<Suc (length (clean_elems p))]"

definition is_regular :: "fs \<Rightarrow> string \<Rightarrow> bool" where
  "is_regular w p = (case map_of w p of Some (Regular _) \<Rightarrow> True | _ \<Rightarrow> False)"

definition fs_MkdirAll :: "string \<Rightarrow> (fs, cerr option) state" where
  "fs_MkdirAll p = State (\<lambda>w.
     if list_ex (is_regular w) (parents p) then (Some (cErrorf ''not a directory''), w)
     else (None, map (\<lambda>q. (q, Directory)) (parents p) @ w))"

definition fs_OpenFile :: "string \<Rightarrow> nat \<Rightarrow> (fs, cerr option) state" where
  "fs_OpenFile p mode = State (\<lambda>w.
     if map_of w (Dir p) \<noteq> Some Directory then (Some (cErrorf ''no such file or directory''), w)
     else if map_of w p = Some Directory then (Some (cErrorf ''is a directory''), w)
     else (None, (p, Regular []) # w))"

definition fs_Write :: "string \<Rightarrow> string \<Rightarrow> (fs, cerr option) state" where
  "fs_Write p x = State (\<lambda>w.
     case map_of w p of
       Some (Regular c) \<Rightarrow> (None, (p, Regular (c @ x)) # w)
     | _ \<Rightarrow> (Some (cErrorf ''bad file descriptor''), w))"

definition ok_writer :: zip_writer where
  "ok_writer = \<lparr>zw_CreateHeader = (\<lambda>_. None), zw_Write = (\<lambda>_. None)\<rparr>"

definition fs_os :: "fs os" where
  "fs_os = \<lparr>os_MkdirAll = fs_MkdirAll, os_OpenFile = fs_OpenFile, os_Write = fs_Write,
     os_Close = (\<lambda>_. State_Monad.return None),
     os_CreateTemp = (\<lambda>_. State_Monad.return (Inl (cErrorf ''no temporary files''))),
     os_MkdirTemp = (\<lambda>_ _. State_Monad.return (Inl (cErrorf ''no temporary files''))),
     os_Remove = (\<lambda>p. State (\<lambda>w. (None, filter (\<lambda>(q, _). q \<noteq> p) w))),
     os_RemoveAll = (\<lambda>p. State (\<lambda>w. (None, filter (\<lambda>(q, _). q \<noteq> p \<and> \<not> HasPrefix q (p @ ''/'')) w))),
     os_Stat = (\<lambda>p. State (\<lambda>w. (if map_of w p = None then Some (cErrorf ''no such file or directory'') else None, w))),
     os_Open = (\<lambda>p. State (\<lambda>w. (case map_of w p of Some (Regular c) \<Rightarrow> Inr c | _ \<Rightarrow> Inl (cErrorf ''no such file or directory''), w))),
     os_Walk = (\<lambda>_. State_Monad.return (Inl (cErrorf ''no such file or directory''))),
     zip_OpenReader = (\<lambda>_. State_Monad.return (Inl (cErrorf ''zip: not a valid zip file''))),
     zip_Writer = (\<lambda>_. ok_writer), zip_Finish = (\<lambda>_ _. State_Monad.return None)\<rparr>"

definition has_content :: "string \<Rightarrow> string \<Rightarrow> fs \<Rightarrow> bool" where
  "has_content p c w \<longleftrightarrow> map_of w p = Some (Regular c)"

lemma map_of_dirs: "map_of (map (\<lambda>q. (q, Directory)) ps) p = (if p \<in> set ps then Some Directory else None)"
  by (induction ps) auto

interpretation unix: file_store fs_os has_content
proof (unfold_locales, goal_cases)
  case (1 p c w d)
  then have "is_regular w p" by (simp add: has_content_def is_regular_def)
  with 1 show ?case
    by (auto simp: fs_os_def fs_MkdirAll_def has_content_def map_of_dirs map_add_def list_ex_iff)
next
  case (6 p c w x w')
  then show ?case by (auto simp: fs_os_def fs_Write_def has_content_def)
qed (auto simp: fs_os_def fs_OpenFile_def fs_Write_def has_content_def run_simps split: if_splits option.splits fs_file.splits)

section \<open>Properties\<close>

text \<open>
  C6: Extracting an archive touches nothing outside the destination directory, whatever the names of its
  entries: every invariant of the file system that survives calls below that directory survives the
  extraction. (The destination must not itself end in two dots.)
\<close>

theorem extract_confined:
  assumes "clean_elems destDir = [] \<or> last (clean_elems destDir) \<noteq> ''..''"
    and "\<And>p. below destDir p \<Longrightarrow> preserves I (os_MkdirAll os p) (\<lambda>_. True)"
    and "\<And>p m. below destDir p \<Longrightarrow> preserves I (os_OpenFile os p m) (\<lambda>_. True)"
    and "\<And>p c. below destDir p \<Longrightarrow> preserves I (os_Write os p c) (\<lambda>_. True)"
    and "\<And>p. below destDir p \<Longrightarrow> preserves I (os_Close os p) (\<lambda>_. True)"
  shows "preserves I (extractZipFiles os files destDir) (\<lambda>_. True)"
proof (induction files)
  case (Cons f files)
  have "preserves I (extract_file os destDir f) (\<lambda>_. True)" by (rule extract_file_confined [OF assms])
  with Cons show ?case by (auto intro!: read_ok preserves_optionI)
qed simp

text \<open>A file outside the destination keeps its content.\<close>

theorem extract_confined_witness:
  "has_content ''/etc/passwd'' ''root'' (snd (run_state (extractZipFiles fs_os
     [\<lparr>zf_Name = ''../etc/passwd'', zf_IsDir = False, zf_Mode = 0, zf_Open = None, zf_Content = ''x'', zf_ReadErr = None, zf_Close = None\<rparr>] ''/tmp'')
     [(''/etc/passwd'', Regular ''root'')]))"
proof -
  have e: "clean_elems ''/tmp'' = [''tmp'']" "is_rooted ''/tmp''" by code_simp+
  have n: "p \<noteq> ''/etc/passwd''" if "below ''/tmp'' p" for p
  proof -
    from that obtain rest where "p = CHR ''/'' # Join (''tmp'' # rest) ''/''" by (auto simp: below_def e path_text_def)
    then have "take 2 p = ''/t''" by (cases rest) auto
    then show ?thesis by auto
  qed
  have "preserves (has_content ''/etc/passwd'' ''root'')
     (extractZipFiles fs_os
     [\<lparr>zf_Name = ''../etc/passwd'', zf_IsDir = False, zf_Mode = 0, zf_Open = None, zf_Content = ''x'', zf_ReadErr = None, zf_Close = None\<rparr>] ''/tmp'') (\<lambda>_. True)"
    by (rule extract_confined)
      (auto simp: e preserves_def intro!: unix.mkdir_keeps unix.close_keeps unix.open_other unix.write_other dest: n)
  then show ?thesis by (rule preservesD) (simp add: has_content_def)
qed

text \<open>
  C5: Round trip: what is archived from a directory and extracted without an error into another one has
  there, under the same relative path, every file that the walk of the directory met with its content.
\<close>

theorem archive_roundtrip:
  assumes "file_store os holds_file" and "wf_node (DirNode entries err)" and "src \<noteq> []" and "dest \<noteq> []"
    and "addFilesToZip zw src (Inr (DirNode entries err)) = (zs, Succeeded)"
    and "run_state (extractZipFiles os zs dest) w = (None, w')"
    and "(p, f) \<in> set (files_of (DirNode entries err))"
  shows "holds_file (path_text (is_rooted dest) (clean_elems dest @ p)) (fn_Content f) w'"
proof -
  let ?fs = "files_of (DirNode entries err)"
  have zs: "zs = map (\<lambda>(p, f). archived (rel_name p) f) ?fs"
    using add_walk [OF assms(2,3) refl, of "[]" zw "[]" zs] assms(5) by (simp add: addFilesToZip_def WalkDir_def)
  have name: "JoinPath [dest, rel_name q] = path_text (is_rooted dest) (clean_elems dest @ q)"
    "clean_elems (JoinPath [dest, rel_name q]) = clean_elems dest @ q" if "(q, g) \<in> set ?fs" for q g
  proof -
    have "q \<noteq> []" "list_all valid_name q" using that files_of_names [OF assms(2) that] by auto
    with JoinPath_names [OF assms(4)] clean_elems_JoinPath(1) [OF assms(4)]
    show "JoinPath [dest, rel_name q] = path_text (is_rooted dest) (clean_elems dest @ q)"
      "clean_elems (JoinPath [dest, rel_name q]) = clean_elems dest @ q" by (simp_all add: rel_name_def)
  qed
  have "distinct (map (\<lambda>x. JoinPath [dest, rel_name (fst x)]) ?fs)"
  proof -
    have "inj_on (\<lambda>q. JoinPath [dest, rel_name q]) (set (map fst ?fs))"
      by (rule inj_onI) (metis (no_types, opaque_lifting) append_same_eq imageE list.set_map name(2) prod.collapse same_append_eq)
    then have "distinct (map (\<lambda>q. JoinPath [dest, rel_name q]) (map fst ?fs))"
      using distinct_files [OF assms(2)] by (simp only: distinct_map)
    then show ?thesis by (simp only: map_map comp_def)
  qed
  then have "distinct [JoinPath [dest, zf_Name z]. z \<leftarrow> zs, \<not> zf_IsDir z]"
    by (simp add: zs archived_def case_prod_beta comp_def concat_map_singleton)
  from file_store.extract_writes [OF assms(1,6) this] assms(7)
  have "holds_file (JoinPath [dest, rel_name p]) (fn_Content f) w'" by (force simp: zs archived_def)
  with name(1) [OF assms(7)] show ?thesis by simp
qed


definition ex_file :: file_node where
  "ex_file = \<lparr>fn_InfoErr = None, fn_HeaderErr = None, fn_Mode = 420, fn_OpenErr = None, fn_Content = ''x'', fn_ReadErr = None\<rparr>"

definition ex_tree :: "(string \<times> node) list" where
  "ex_tree = [(''database'', DirNode [(''dump.json'', FileNode ex_file)] None), (''metadata.json'', FileNode ex_file)]"

theorem archive_roundtrip_witness:
  "has_content ''/dest/database/dump.json'' ''x''
     (snd (run_state (extractZipFiles fs_os (fst (addFilesToZip ok_writer ''/src'' (Inr (DirNode ex_tree None)))) ''/dest'') []))"
proof -
  let ?zs = "fst (addFilesToZip ok_writer ''/src'' (Inr (DirNode ex_tree None)))"
  have a: "snd (addFilesToZip ok_writer ''/src'' (Inr (DirNode ex_tree None))) = Succeeded" by code_simp
  have x: "fst (run_state (extractZipFiles fs_os ?zs ''/dest'') []) = None" by code_simp
  have f: "([''database'', ''dump.json''], ex_file) \<in> set (files_of (DirNode ex_tree None))" by (simp add: ex_tree_def)
  have w: "wf_node (DirNode ex_tree None)" by (simp add: ex_tree_def valid_name_def)
  have p: "path_text (is_rooted ''/dest'') (clean_elems ''/dest'' @ [''database'', ''dump.json'']) = ''/dest/database/dump.json''" by code_simp
  show ?thesis
    using archive_roundtrip [OF unix.file_store_axioms w _ _ _ _ f, of "''/src''" "''/dest''" ok_writer ?zs "[]"
        "snd (run_state (extractZipFiles fs_os ?zs ''/dest'') [])"] a x p
    by (simp add: ex_file_def prod_eq_iff)
qed

text \<open>
  Defects of archiving. A directory that cannot be read is left out without an error, a source
  directory that cannot be read at all ends in a panic, and the local archive is reported as complete
  although writing its directory failed.
\<close>

lemma unreadable_directory_left_out: "addFilesToZip zw src (Inr (DirNode [] (Some e))) = ([], Succeeded)"
  by (simp add: addFilesToZip_def WalkDir_def)

lemma missing_source_panics: "addFilesToZip zw src (Inl e) = ([], Panicked)"
  by (simp add: addFilesToZip_def WalkDir_def)

lemma close_error_ignored:
  assumes "run_state (os_OpenFile os (BackupFile sc) 438) w = (None, w1)"
    and "run_state (os_Walk os (TempArchiveDir sc)) w1 = (tree, w2)"
    and "addFilesToZip (zip_Writer os (BackupFile sc)) (TempArchiveDir sc) tree = (zs, Succeeded)"
    and "run_state (zip_Finish os (BackupFile sc) zs) w2 = (Some e, w3)"
  shows "fst (run_state (createLocalArchive os sc) w) = Succeeded"
  using assms by (simp add: createLocalArchive_def run_simps split: prod.splits)

end
