(* ===== verification/MySQLShell.thy ===== *)
theory MySQLShell
  imports Archive
begin

text \<open>
  Dumping and restoring the database, \<open>internal/util/mysql_shell.go\<close>: the scripts, the arguments and the
  environment of \<open>mysqlsh\<close>, its report, and the clean-up after a failed dump. Starting a process is a
  parameter, as are the third-party \<open>bytesize\<close> and the conversion of decimal fractions to durations.
\<close>

section \<open>Texts\<close>

definition tailString :: "string \<Rightarrow> int \<Rightarrow> string" where
  "tailString output maxBytes =
     (if maxBytes \<le> 0 \<or> int (length output) \<le> maxBytes then output
      else drop (length output - nat maxBytes) output)"

definition escapeJSString :: "string \<Rightarrow> string" where
  "escapeJSString s =
     ReplaceAll (ReplaceAll (ReplaceAll s [CHR 0x5C] [CHR 0x5C, CHR 0x5C]) [CHR 0x22] [CHR 0x5C, CHR 0x22])
       [CHR 0x27] [CHR 0x5C, CHR 0x27]"

definition mysqlShellConfigHomeEnvKey :: string where
  "mysqlShellConfigHomeEnvKey = ''XDG_CONFIG_HOME''"

definition buildMySQLShellEnv :: "string list \<Rightarrow> string \<Rightarrow> string \<Rightarrow> string list" where
  "buildMySQLShellEnv environ homeDir configHome =
     filter (\<lambda>entry. \<not> (HasPrefix entry ''HOME='' \<or> HasPrefix entry (mysqlShellConfigHomeEnvKey @ ''=''))) environ @
     [''HOME='' @ homeDir, mysqlShellConfigHomeEnvKey @ ''='' @ configHome]"

text \<open>\<open>html/template\<close> inserts a value into text outside of tags with these bytes escaped.\<close>

definition html_escape :: "string \<Rightarrow> string" where
  "html_escape s = concat (map (\<lambda>c.
     if c = CHR 0x00 then [CHR 0xEF, CHR 0xBF, CHR 0xBD]
     else if c = CHR 0x22 then ''&#34;''
     else if c = CHR ''&'' then ''&amp;''
     else if c = CHR 0x27 then ''&#39;''
     else if c = CHR ''+'' then ''&#43;''
     else if c = CHR ''<'' then ''&lt;''
     else if c = CHR ''>'' then ''&gt;''
     else [c]) s)"

text \<open>
  The path of a dump becomes part of the template itself. With a tag or an action in it, the template is
  another one, and executing it is left to \<open>other\<close>.
\<close>

fun has_action :: "string \<Rightarrow> bool" where
  "has_action (a # b # s) = ((a = CHR ''{'' \<and> b = CHR ''{'') \<or> has_action (b # s))"
| "has_action s = False"

definition plain_path :: "string \<Rightarrow> bool" where
  "plain_path p \<longleftrightarrow> CHR ''<'' \<notin> set p \<and> \<not> has_action p"

type_synonym template_fallback = "string \<Rightarrow> string \<Rightarrow> cerr + string"

definition dq :: string where
  "dq = [CHR 0x22]"

definition nl :: string where
  "nl = [CHR 10]"

definition dump_script :: "template_fallback \<Rightarrow> string \<Rightarrow> string \<Rightarrow> cerr + string" where
  "dump_script other path name =
     (if plain_path path then
        Inr (nl @ ''util.dumpSchemas(['' @ dq @ html_escape name @ dq @ ''], '' @ dq @ escapeJSString path @ dq @ '', {'' @ nl @
          ''     '' @ dq @ ''consistent'' @ dq @ '': true, compression: '' @ dq @ ''zstd'' @ dq @ '', '' @
          dq @ ''showProgress'' @ dq @ '': false});'' @ nl)
      else other path name)"

definition run_sql :: "string \<Rightarrow> string" where
  "run_sql s = ''    session.runSql('' @ [CHR 0x27] @ s @ [CHR 0x27] @ '');'' @ nl"

definition load_script :: "template_fallback \<Rightarrow> string \<Rightarrow> string \<Rightarrow> cerr + string" where
  "load_script other path name =
     (let q = [CHR 0x27]; bt = [CHR 0x60]; n = html_escape name in
      if plain_path path then
        Inr (nl @ run_sql (''CREATE DATABASE IF NOT EXISTS '' @ bt @ n @ bt) @
          run_sql (''USE '' @ bt @ n @ bt) @
          run_sql ''SET FOREIGN_KEY_CHECKS = 0'' @
          ''    var tables = session.runSql('' @ q @ ''SHOW TABLES'' @ q @ '').fetchAll();'' @ nl @
          ''    for(var index in tables) {'' @ nl @
          ''        session.runSql('' @ q @ ''DROP TABLE IF EXISTS '' @ q @ '' + mysql.quoteIdentifier(tables[index][0]));'' @ nl @
          ''    }'' @ nl @
          run_sql ''SET FOREIGN_KEY_CHECKS = 1'' @
          ''    util.loadDump('' @ dq @ escapeJSString path @ dq @ '', {'' @ nl @
          ''        '' @ dq @ ''schema'' @ dq @ '': '' @ dq @ n @ dq @ '','' @ nl @
          ''        '' @ dq @ ''showProgress'' @ dq @ '': false'' @ nl @
          ''    });'' @ nl @ [CHR 9])
      else other path name)"

section \<open>The report\<close>

record dump_output =
  do_Duration :: int
  do_UncompressedSize :: int64
  do_CompressedSize :: int64
  do_CompressionRatio :: "(int64 \<times> int64) option"

text \<open>The compression ratio is the quotient of the two numbers, and 0 when there are none.\<close>

definition zero_output :: dump_output where
  "zero_output = \<lparr>do_Duration = 0, do_UncompressedSize = 0, do_CompressedSize = 0, do_CompressionRatio = None\<rparr>"

text \<open>
  The regular expressions. In each of them a greedy reading is the only one that can match: digits are
  followed by a byte that is not one, and the part after a fraction cannot begin with its dot.
\<close>

definition re_space :: "char \<Rightarrow> bool" where
  "re_space c \<longleftrightarrow> of_char c \<in> {9, 10, 12, 13, 32 :: nat}"

definition decimal_at :: "string \<Rightarrow> (string \<times> string) option" where
  "decimal_at s =
     (let ds = takeWhile dec_digit s; r = dropWhile dec_digit s in
      if ds = [] then None
      else case r of
             [] \<Rightarrow> Some (ds, r)
           | c # u \<Rightarrow>
               if c = CHR ''.'' \<and> takeWhile dec_digit u \<noteq> []
               then Some (ds @ c # takeWhile dec_digit u, dropWhile dec_digit u) else Some (ds, r))"

definition size_unit :: "string \<Rightarrow> string option" where
  "size_unit r =
     (if HasPrefix r ''bytes'' then Some ''bytes''
      else case r of
             c # u \<Rightarrow>
               if c \<in> set ''KMGT'' then
                 (if HasPrefix u ''iB'' then Some (c # ''iB'') else if HasPrefix u ''B'' then Some (c # ''B'') else None)
               else None
           | [] \<Rightarrow> None)"

definition size_at :: "string \<Rightarrow> string option" where
  "size_at s =
     (case decimal_at (dropWhile re_space s) of
        None \<Rightarrow> None
      | Some (n, r) \<Rightarrow> map_option (\<lambda>u. n @ takeWhile re_space r @ u) (size_unit (dropWhile re_space r)))"

fun find_size :: "string \<Rightarrow> string \<Rightarrow> string option" where
  "find_size key [] = None"
| "find_size key (c # s) =
     (case (if HasPrefix (c # s) key then size_at (drop (length key) (c # s)) else None) of
        Some x \<Rightarrow> Some x
      | None \<Rightarrow> find_size key s)"

definition hms_at :: "string \<Rightarrow> string option" where
  "hms_at t =
     (let h = takeWhile dec_digit t; r = dropWhile dec_digit t; g = h @ take 6 r in
      if (length h = 1 \<or> length h = 2) \<and> length r \<ge> 6 \<and> r ! 0 = CHR '':'' \<and> r ! 3 = CHR '':'' \<and>
         list_all dec_digit [r ! 1, r ! 2, r ! 4, r ! 5]
      then Some g else None)"

text \<open>Ignoring case, the letter s is also the long s of Unicode.\<close>

definition secs_at :: "string \<Rightarrow> string option" where
  "secs_at t =
     (case decimal_at t of
        None \<Rightarrow> None
      | Some (n, r) \<Rightarrow>
          (let u = dropWhile re_space r in
           if HasPrefix u ''s'' \<or> HasPrefix u ''S'' \<or> HasPrefix u [CHR 0xC5, CHR 0xBF] then Some n else None))"

fun find_duration :: "string \<Rightarrow> (string + string) option" where
  "find_duration [] = None"
| "find_duration (c # s) =
     (case (if ToLower (take 9 (c # s)) = ''duration:'' then
              (let t = dropWhile re_space (drop 9 (c # s)) in
               case hms_at t of Some g \<Rightarrow> Some (Inl g) | None \<Rightarrow> map_option Inr (secs_at t))
            else None) of
        Some x \<Rightarrow> Some x
      | None \<Rightarrow> find_duration s)"

text \<open>The parts are digits: the caller's expression admits nothing else.\<close>

definition parseDuration :: "string \<Rightarrow> cerr + int" where
  "parseDuration str =
     (case SplitByte str CHR '':'' of
        [h, m, s] \<Rightarrow>
          if list_all (\<lambda>x. x \<noteq> [] \<and> list_all dec_digit x) [h, m, s]
          then Inr ((int (undec 0 h) * 3600 + int (undec 0 m) * 60 + int (undec 0 s)) * 1000000000)
          else Inl (cErrorf (''time: invalid duration '' @ go_quote (h @ ''h'' @ m @ ''m'' @ s @ ''s'')))
      | _ \<Rightarrow> Inl (cErrorf (''invalid duration format: '' @ str)))"

record report_calls =
  rc_Size :: "string \<Rightarrow> cerr + string"
  rc_Seconds :: "string \<Rightarrow> int option"

definition TrimSuffix :: "string \<Rightarrow> string \<Rightarrow> string" where
  "TrimSuffix s x = (if HasSuffix s x then take (length s - length x) s else s)"

definition Atoi :: "string \<Rightarrow> cerr + int64" where
  "Atoi s =
     (let neg = HasPrefix s ''-''; ds = (if neg \<or> HasPrefix s ''+'' then drop 1 s else s); n = int (undec 0 ds) in
      if ds = [] \<or> \<not> list_all dec_digit ds
      then Inl (cErrorf (''strconv.Atoi: parsing '' @ go_quote s @ '': invalid syntax''))
      else if (neg \<and> 2 ^ 63 < n) \<or> (\<not> neg \<and> 2 ^ 63 \<le> n)
      then Inl (cErrorf (''strconv.Atoi: parsing '' @ go_quote s @ '': value out of range''))
      else Inr (word_of_int (if neg then - n else n)))"

definition parseSize :: "report_calls \<Rightarrow> string \<Rightarrow> cerr + int64" where
  "parseSize rc s =
     (case rc_Size rc s of
        Inl e \<Rightarrow> Inl (cWrap ''parse size'' e)
      | Inr u \<Rightarrow> map_sum (cWrap ''convert to int'') id (Atoi (TrimSuffix u ''B'')))"

definition report_duration :: "report_calls \<Rightarrow> string \<Rightarrow> int" where
  "report_duration rc output =
     (case find_duration output of
        None \<Rightarrow> 0
      | Some (Inl g) \<Rightarrow> (case parseDuration g of Inr d \<Rightarrow> d | Inl _ \<Rightarrow> 0)
      | Some (Inr n) \<Rightarrow> (case rc_Seconds rc n of Some d \<Rightarrow> d | None \<Rightarrow> 0))"

text \<open>With an error the fields that were read so far are returned, too.\<close>

definition parseDumpOutput :: "report_calls \<Rightarrow> string \<Rightarrow> dump_output \<times> cerr option" where
  "parseDumpOutput rc output =
     (let r0 = zero_output\<lparr>do_Duration := report_duration rc output\<rparr> in
      case find_size ''Uncompressed data size:'' output of
        None \<Rightarrow> (r0, Some (cErrorf ''no uncompressed size found''))
      | Some m \<Rightarrow>
          (case parseSize rc m of
             Inl e \<Rightarrow> (r0, Some (cWrap ''parse uncompressed size'' e))
           | Inr uncompressed \<Rightarrow>
               (let r1 = r0\<lparr>do_UncompressedSize := uncompressed\<rparr> in
                case find_size ''Compressed data size:'' output of
                  None \<Rightarrow> (r1, Some (cErrorf ''no compressed size found''))
                | Some m \<Rightarrow>
                    (case parseSize rc m of
                       Inl e \<Rightarrow> (r1, Some (cWrap ''parse compressed size'' e))
                     | Inr compressed \<Rightarrow>
                         (r1\<lparr>do_CompressedSize := compressed,
                             do_CompressionRatio :=
                               (if uncompressed \<noteq> 0 \<and> compressed \<noteq> 0 then Some (uncompressed, compressed) else None)\<rparr>,
                          None)))))"

section \<open>Running mysqlsh\<close>

record 'w shell =
  sh_Abs :: "string \<Rightarrow> ('w, cerr + string) state"
  sh_LookPath :: "string \<Rightarrow> ('w, cerr + string) state"
  sh_Environ :: "('w, string list) state"
  sh_CombinedOutput :: "string \<Rightarrow> string list \<Rightarrow> string list \<Rightarrow> string \<Rightarrow> ('w, string \<times> cerr option) state"

definition mysql_uri :: "resolved_db \<Rightarrow> string" where
  "mysql_uri db =
     ''mysql://'' @ rdb_User db @ '':'' @ rdb_Password db @ ''@'' @ rdb_Host db @ '':'' @
     fmt_d (if rdb_Port db = 0 then 3306 else rdb_Port db) @ ''/'' @ rdb_Name db"

definition mysqlsh_args :: "resolved_db \<Rightarrow> string list" where
  "mysqlsh_args db =
     [mysql_uri db, ''--js''] @
     (if rdb_TLSCA db \<noteq> [] then
        [''--ssl-mode='' @ (if rdb_TLSDontVerifyServerCertificate db then ''REQUIRED'' else ''VERIFY_IDENTITY''),
         ''--ssl-ca='' @ rdb_TLSCA db] @
        (if rdb_TLSClientCertificate db then [''--ssl-cert='' @ rdb_TLSCert db, ''--ssl-key='' @ rdb_TLSKey db] else [])
      else [])"

definition find_binary :: "'w shell \<Rightarrow> string \<Rightarrow> ('w, cerr + string) state" where
  "find_binary sh binaryPath =
     (if CHR ''/'' \<in> set binaryPath then do {
        r \<leftarrow> sh_Abs sh binaryPath;
        State_Monad.return (map_sum (cWrap ''get absolute path of binary'') id r) }
      else do {
        r \<leftarrow> sh_LookPath sh binaryPath;
        State_Monad.return (map_sum (cWrap ''find binary in PATH'') id r) })"

text \<open>\<open>run\<close> between creating the home directory of \<open>mysqlsh\<close> and removing it.\<close>

definition run_in_home :: "'w os \<Rightarrow> 'w shell \<Rightarrow> string \<Rightarrow> resolved_db \<Rightarrow> string \<Rightarrow> string \<Rightarrow> ('w, cerr + string) state" where
  "run_in_home os sh binary db jsCmd home =
     (let xdgConfigHome = JoinPath [home, ''.config''] in do {
        e \<leftarrow> os_MkdirAll os xdgConfigHome;
        case e of
          Some e \<Rightarrow> State_Monad.return (Inl (cWrap ''create mysqlsh config dir'' e))
        | None \<Rightarrow> do {
            env \<leftarrow> sh_Environ sh;
            r \<leftarrow> sh_CombinedOutput sh binary (mysqlsh_args db) (buildMySQLShellEnv env home xdgConfigHome) (jsCmd @ nl);
            State_Monad.return (case r of
                (output, Some e) \<Rightarrow> Inl (e\<lparr>ce_msg := ''run command: '' @ ce_msg e @ '', output: '' @ output\<rparr>)
              | (output, None) \<Rightarrow> Inr output) } })"

definition run :: "'w os \<Rightarrow> 'w shell \<Rightarrow> string \<Rightarrow> resolved_db \<Rightarrow> string \<Rightarrow> ('w, cerr + string) state" where
  "run os sh binaryPath db jsCmd =
     (if rdb_TLSClientCertificate db \<and> (rdb_TLSCert db = [] \<or> rdb_TLSKey db = []) then
        State_Monad.return (Inl (cErrorf
          ''database TLS client certificate and key are required when client certificate authentication is enabled''))
      else do {
        b \<leftarrow> find_binary sh binaryPath;
        case b of
          Inl e \<Rightarrow> State_Monad.return (Inl e)
        | Inr binary \<Rightarrow> do {
            d \<leftarrow> os_MkdirTemp os [] ''mysqlsh-home-'';
            case d of
              Inl e \<Rightarrow> State_Monad.return (Inl (cWrap ''create mysqlsh home dir'' e))
            | Inr home \<Rightarrow> do {
                r \<leftarrow> run_in_home os sh binary db jsCmd home;
                _ \<leftarrow> os_RemoveAll os home;
                State_Monad.return r } } })"

text \<open>\<open>Dump\<close> removes the directory of a dump that is not complete.\<close>

definition shell_Dump ::
  "template_fallback \<Rightarrow> report_calls \<Rightarrow> 'w os \<Rightarrow> 'w shell \<Rightarrow> string \<Rightarrow> resolved_db \<Rightarrow> string \<Rightarrow> ('w, dump_output \<times> cerr option) state" where
  "shell_Dump other rc os sh binaryPath db dumpFilePath =
     (if rdb_Name db = [] then State_Monad.return (zero_output, Some (cErrorf ''empty database name''))
      else case dump_script other dumpFilePath (rdb_Name db) of
             Inl e \<Rightarrow> State_Monad.return (zero_output, Some e)
           | Inr js \<Rightarrow> do {
               r \<leftarrow> run os sh binaryPath db js;
               case r of
                 Inl e \<Rightarrow> do {
                   _ \<leftarrow> os_RemoveAll os dumpFilePath;
                   State_Monad.return (zero_output, Some (cWrap ''run command'' e)) }
               | Inr output \<Rightarrow>
                   (case parseDumpOutput rc (tailString output (64 * 1024)) of
                      (resp, None) \<Rightarrow> State_Monad.return (resp, None)
                    | (resp, Some e) \<Rightarrow> do {
                        statErr \<leftarrow> os_Stat os dumpFilePath;
                        if statErr = None then State_Monad.return (zero_output, None)
                        else do {
                          _ \<leftarrow> os_RemoveAll os dumpFilePath;
                          State_Monad.return (resp, Some (cWrap ''parse dump output'' e)) } }) })"

definition RestoreDump :: "template_fallback \<Rightarrow> 'w os \<Rightarrow> 'w shell \<Rightarrow> string \<Rightarrow> resolved_db \<Rightarrow> string \<Rightarrow> ('w, cerr option) state" where
  "RestoreDump other os sh binaryPath db dumpFilePath =
     (case load_script other dumpFilePath (rdb_Name db) of
        Inl e \<Rightarrow> State_Monad.return (Some e)
      | Inr js \<Rightarrow> do {
          r \<leftarrow> run os sh binaryPath db js;
          State_Monad.return (case r of Inl e \<Rightarrow> Some (cWrap ''run command'' e) | Inr _ \<Rightarrow> None) })"

section \<open>Lemmas\<close>

lemma ReplaceAll_byte: "ReplaceAll s [a] new = concat (map (\<lambda>c. if c = a then new else [c]) s)"
  by (induction s) auto

definition escape_js :: "char \<Rightarrow> string" where
  "escape_js c = (if c \<in> {CHR 0x5C, CHR 0x22, CHR 0x27} then [CHR 0x5C, c] else [c])"

lemma escapeJSString_bytes: "escapeJSString s = concat (map escape_js s)"
  by (induction s) (simp_all add: escapeJSString_def ReplaceAll_byte escape_js_def)

text \<open>How JavaScript reads a literal in double quotes, up to escapes that the text does not use.\<close>

fun js_literal :: "string \<Rightarrow> (string \<times> string) option" where
  "js_literal [] = None"
| "js_literal (c # s) =
     (if c = CHR 0x22 then Some ([], s)
      else if c = CHR 10 \<or> c = CHR 13 then None
      else if c = CHR 0x5C then
        (case s of
           [] \<Rightarrow> None
         | d # r \<Rightarrow> if d \<in> {CHR 0x5C, CHR 0x22, CHR 0x27} then map_option (apfst ((#) d)) (js_literal r) else None)
      else map_option (apfst ((#) c)) (js_literal s))"

lemma run_dropped [simp]: "(case run_state m w of (a, w') \<Rightarrow> (x, w')) = (x, snd (run_state m w))"
  by (simp add: case_prod_beta)

section \<open>Properties\<close>

text \<open>
  C38: A path put into a script is one string literal of the script: JavaScript reads exactly the path and
  goes on after the closing quote. The path must not contain a line break.
\<close>

theorem escapeJSString_roundtrip:
  assumes "CHR 10 \<notin> set s" and "CHR 13 \<notin> set s"
  shows "js_literal (escapeJSString s @ CHR 0x22 # rest) = Some (s, rest)"
  using assms by (induction s) (auto simp: escapeJSString_bytes escape_js_def)

theorem escapeJSString_roundtrip_witness:
  "js_literal (escapeJSString [CHR 0x22, CHR 0x5C, CHR '')''] @ CHR 0x22 # '', {}'') = Some ([CHR 0x22, CHR 0x5C, CHR '')''], '', {}'')"
  by (rule escapeJSString_roundtrip) simp_all

text \<open>
  The environment of \<open>mysqlsh\<close> has one \<open>HOME\<close> and one \<open>XDG_CONFIG_HOME\<close>, those of the temporary
  directory, and every other variable as it was, in the same order.
\<close>

theorem mysqlsh_environment:
  "filter (\<lambda>e. HasPrefix e ''HOME='') (buildMySQLShellEnv environ homeDir configHome) = [''HOME='' @ homeDir] \<and>
   filter (\<lambda>e. HasPrefix e ''XDG_CONFIG_HOME='') (buildMySQLShellEnv environ homeDir configHome) = [''XDG_CONFIG_HOME='' @ configHome] \<and>
   filter (\<lambda>e. \<not> HasPrefix e ''HOME='' \<and> \<not> HasPrefix e ''XDG_CONFIG_HOME='') (buildMySQLShellEnv environ homeDir configHome) =
   filter (\<lambda>e. \<not> HasPrefix e ''HOME='' \<and> \<not> HasPrefix e ''XDG_CONFIG_HOME='') environ"
  by (auto simp: buildMySQLShellEnv_def mysqlShellConfigHomeEnvKey_def HasPrefix_def filter_empty_conv conj_commute)

text \<open>
  A dump that fails after \<open>mysqlsh\<close> was started leaves no directory behind, and one that succeeds is
  not removed: with an error the last step removes the dump, without one \<open>mysqlsh\<close> succeeded, and its
  report was read or the dump directory exists.
\<close>

theorem failed_dump_is_removed:
  assumes "rdb_Name db \<noteq> []" and "dump_script other path (rdb_Name db) = Inr js"
    and "run_state (run os sh binary db js) w = (r, w1)"
    and "run_state (shell_Dump other rc os sh binary db path) w = ((out, err), w')"
  shows "if err \<noteq> None
    then w' = snd (run_state (os_RemoveAll os path) w1) \<or>
         (\<exists>e w2. run_state (os_Stat os path) w1 = (Some e, w2) \<and> w' = snd (run_state (os_RemoveAll os path) w2))
    else (\<exists>output. r = Inr output \<and>
         ((parseDumpOutput rc (tailString output (64 * 1024)) = (out, None) \<and> w' = w1) \<or>
          (run_state (os_Stat os path) w1 = (None, w') \<and> out = zero_output)))"
  using assms
  by (auto simp: shell_Dump_def run_simps split: sum.splits prod.splits option.splits if_splits)

definition ex_db :: resolved_db where
  "ex_db = \<lparr>rdb_Host = ''db'', rdb_Password = ''a/b'', rdb_User = ''root'', rdb_Port = 0, rdb_Name = ''shopware'', rdb_Version = [],
     rdb_Options = [], rdb_TLSCA = [], rdb_TLSCert = ''c'', rdb_TLSKey = ''k'', rdb_TLSClientCertificate = True,
     rdb_TLSDontVerifyServerCertificate = False\<rparr>"

definition ex_shell :: "fs shell" where
  "ex_shell = \<lparr>sh_Abs = (\<lambda>p. State_Monad.return (Inr p)), sh_LookPath = (\<lambda>p. State_Monad.return (Inl (cErrorf ''executable file not found in $PATH''))),
     sh_Environ = State_Monad.return [], sh_CombinedOutput = (\<lambda>_ _ _ _. State_Monad.return ([], None))\<rparr>"

definition ex_report :: report_calls where
  "ex_report = \<lparr>rc_Size = (\<lambda>s. Inr (takeWhile dec_digit s @ ''B'')), rc_Seconds = (\<lambda>_. None)\<rparr>"

text \<open>The binary is missing: the half-written dump is removed.\<close>

theorem failed_dump_is_removed_witness:
  "snd (run_state (shell_Dump (\<lambda>_. Inr) ex_report fs_os ex_shell ''mysqlsh'' ex_db ''/d'') [(''/d/x'', Regular []), (''/d'', Directory)]) = []"
proof -
  let ?w = "[(''/d/x'', Regular []), (''/d'', Directory)]"
  let ?r = "run_state (shell_Dump (\<lambda>_. Inr) ex_report fs_os ex_shell ''mysqlsh'' ex_db ''/d'') ?w"
  have n: "rdb_Name ex_db \<noteq> []" by (simp add: ex_db_def)
  obtain js where j: "dump_script (\<lambda>_. Inr) ''/d'' (rdb_Name ex_db) = Inr js"
    by (simp add: dump_script_def plain_path_def)
  have b: "run_state (run fs_os ex_shell ''mysqlsh'' ex_db js) ?w =
      (Inl (cWrap ''find binary in PATH'' (cErrorf ''executable file not found in $PATH'')), ?w)"
    by (simp add: run_def find_binary_def ex_shell_def ex_db_def run_simps)
  have e: "snd (fst ?r) \<noteq> None" using j b n by (simp add: shell_Dump_def run_simps)
  have s: "run_state (os_Stat fs_os ''/d'') ?w = (None, ?w)" "snd (run_state (os_RemoveAll fs_os ''/d'') ?w) = []"
    by (simp_all add: fs_os_def HasPrefix_def)
  show ?thesis
    using failed_dump_is_removed [OF n j b, of ex_report "fst (fst ?r)" "snd (fst ?r)" "snd ?r"] e s by simp
qed

text \<open>The report of \<open>mysqlsh\<close> 8.4.\<close>

lemma report_example:
  "parseDumpOutput ex_report (''Dump duration: 00:01:05s'' @ nl @ ''Uncompressed data size: 230 bytes'' @ nl @ ''Compressed data size: 115 bytes'') =
   (\<lparr>do_Duration = 65 * 1000000000, do_UncompressedSize = 230, do_CompressedSize = 115, do_CompressionRatio = Some (230, 115)\<rparr>, None)"
  by code_simp

lemma tailString_bounds:
  assumes "0 < n"
  shows "int (length (tailString s n)) \<le> n" and "\<exists>a. s = a @ tailString s n"
  using assms by (auto simp: tailString_def) (metis append_take_drop_id)

text \<open>
  Defects. A client certificate is not passed on without a CA. The name of the database is escaped for
  HTML. The password is not escaped: with a slash in it the address is not a valid URL.
\<close>

lemma client_certificate_needs_ca:
  "rdb_TLSCA db = [] \<Longrightarrow> mysqlsh_args db = mysqlsh_args (db\<lparr>rdb_TLSClientCertificate := False\<rparr>)"
  by (simp add: mysqlsh_args_def mysql_uri_def)

lemma database_name_escaped: "html_escape ''a&b'' = ''a&amp;b''"
  by code_simp

lemma password_breaks_uri: "isl (url_Parse Inl (mysql_uri ex_db))"
  by code_simp

end
