(* ===== verification/SnapshotProgram.thy ===== *)
theory SnapshotProgram
  imports S3 MySQLShell Jobs
begin

text \<open>
  The snapshot program: \<open>internal/snapshot/s3.go\<close>, \<open>service.go\<close> and \<open>errors.go\<close>, and the two actions of
  \<open>cmd/snapshot/snapshot.go\<close>. Where a function starts two goroutines and waits for them, an argument
  \<open>par\<close> stands for running them to their end in any interleaving: it changes the world and gives the
  error of each and which of them came first into the channel.
\<close>

section \<open>Errors\<close>

definition joinSnapshotErrors :: "cerr option list \<Rightarrow> cerr option" where
  "joinSnapshotErrors errs =
     (if errs = [] then None
      else let present = [e. Some e \<leftarrow> errs]; filtered = filter (\<lambda>e. \<not> ce_Canceled e) present in
        if filtered \<noteq> [] then join_errors filtered else join_errors present)"

section \<open>The database\<close>

record database_config =
  MysqlShellBinaryPath :: string
  MysqlDumpBinaryPath :: string
  dc_Host :: string
  dc_Port :: int32
  dc_User :: string
  dc_Password :: string
  dc_Database :: string
  dc_Version :: string
  dc_Options :: string
  dc_SSLMode :: string
  dc_SSLCA :: string
  dc_SSLCert :: string
  dc_SSLKey :: string
  dc_SSLDontVerifyServerCert :: bool

record snapshot_config =
  sg_Database :: database_config
  sg_S3 :: s3_config
  sg_MetaStoreJson :: string

definition databaseSpecFromConfig :: "database_config \<Rightarrow> cerr + resolved_db" where
  "databaseSpecFromConfig d =
     (let hasCertificate = (dc_SSLCert d \<noteq> []); hasKey = (dc_SSLKey d \<noteq> []) in
      if hasCertificate \<noteq> hasKey then
        Inl (cErrorf ''database TLS client certificate and key must either both be set or both be empty'')
      else Inr \<lparr>rdb_Host = dc_Host d, rdb_Password = dc_Password d, rdb_User = dc_User d, rdb_Port = dc_Port d,
        rdb_Name = dc_Database d, rdb_Version = dc_Version d, rdb_Options = dc_Options d, rdb_TLSCA = dc_SSLCA d,
        rdb_TLSCert = dc_SSLCert d, rdb_TLSKey = dc_SSLKey d, rdb_TLSClientCertificate = hasCertificate,
        rdb_TLSDontVerifyServerCertificate = dc_SSLDontVerifyServerCert d\<rparr>)"

text \<open>What the program calls.\<close>

record 'w program =
  pg_os :: "'w os"
  pg_cloud :: "'w cloud"
  pg_shell :: "'w shell"
  pg_report :: report_calls
  pg_template :: template_fallback
  pg_MarshalMeta :: "string \<Rightarrow> string"

definition createDatabaseBackup :: "'w program \<Rightarrow> snapshot_config \<Rightarrow> snapshot_context \<Rightarrow> ('w, cerr option) state" where
  "createDatabaseBackup pg cfg sc =
     (case databaseSpecFromConfig (sg_Database cfg) of
        Inl e \<Rightarrow> State_Monad.return (Some e)
      | Inr db \<Rightarrow> do {
          (out, e) \<leftarrow> shell_Dump (pg_template pg) (pg_report pg) (pg_os pg) (pg_shell pg)
            (MysqlShellBinaryPath (sg_Database cfg)) db (JoinPath [TempArchiveDir sc, ''database'']);
          State_Monad.return (map_option (cWrap ''failed to dump database'') e) })"

definition restoreDatabaseBackup :: "'w program \<Rightarrow> snapshot_config \<Rightarrow> snapshot_context \<Rightarrow> ('w, cerr option) state" where
  "restoreDatabaseBackup pg cfg sc =
     (case databaseSpecFromConfig (sg_Database cfg) of
        Inl e \<Rightarrow> State_Monad.return (Some e)
      | Inr db \<Rightarrow> do {
          e \<leftarrow> RestoreDump (pg_template pg) (pg_os pg) (pg_shell pg)
            (MysqlShellBinaryPath (sg_Database cfg)) db (JoinPath [TempArchiveDir sc, ''database'']);
          State_Monad.return (map_option (cWrap ''failed to restore database'') e) })"

section \<open>The buckets\<close>

record object_info =
  oi_Key :: string
  oi_Size :: int64

definition processDownloadObject :: "'w os \<Rightarrow> string \<Rightarrow> object_info \<Rightarrow> object_reader \<Rightarrow> ('w, cerr option) state" where
  "processDownloadObject os archiveDirPath i obj =
     (let file' = JoinPath [archiveDirPath, oi_Key i] in do {
        e \<leftarrow> os_MkdirAll os (Dir file');
        case e of
          Some e \<Rightarrow> State_Monad.return (Some (cWrap ''failed to create directory'' e))
        | None \<Rightarrow>
            if HasSuffix (oi_Key i) ''/'' \<and> oi_Size i = 0 then State_Monad.return None
            else do {
              e \<leftarrow> os_OpenFile os file' 438;
              case e of
                Some e \<Rightarrow> State_Monad.return (Some (cWrap ''failed to create file'' e))
              | None \<Rightarrow> do {
                  e \<leftarrow> os_Write os file' (or_Content obj);
                  _ \<leftarrow> os_Close os file';
                  State_Monad.return (map_option (cWrap ''failed to copy object to file'')
                    (case e of Some e \<Rightarrow> Some e | None \<Rightarrow> or_ReadErr obj)) } } })"

text \<open>
  One goroutine of \<open>createAssetBackup\<close>; \<open>download\<close> is the run of the worker pool of the bucket, which calls
  \<open>processDownloadObject\<close> for every object.
\<close>

definition bucket_backup :: "'w os \<Rightarrow> string \<Rightarrow> string \<Rightarrow> ('w, cerr option) state \<Rightarrow> ('w, cerr option) state" where
  "bucket_backup os dir bucket download = do {
     e \<leftarrow> os_MkdirAll os (JoinPath [dir, bucket]);
     case e of
       Some e \<Rightarrow> State_Monad.return (Some (cWrap (''failed to create directory for '' @ bucket @ '' bucket backup'') e))
     | None \<Rightarrow> do {
         e \<leftarrow> download;
         State_Monad.return (map_option (cWrap (bucket @ '' bucket backup'')) e) } }"

definition createAssetBackup ::
  "'w program \<Rightarrow> snapshot_config \<Rightarrow> ('w, bool \<times> cerr option \<times> cerr option) state \<Rightarrow> ('w, cerr option) state" where
  "createAssetBackup pg cfg par = do {
     r \<leftarrow> getAWSKeysWithAsumeRole (pg_cloud pg) (sg_S3 cfg);
     case r of
       Inl e \<Rightarrow> State_Monad.return (Some (cWrap ''failed to get AWS credentials'' e))
     | Inr cred \<Rightarrow>
         (case minio_New (pg_cloud pg) (s3_Endpoint (sg_S3 cfg)) cred of
            Some e \<Rightarrow> State_Monad.return (Some (cWrap ''failed to create minio client'' e))
          | None \<Rightarrow> do {
              (first, private, public) \<leftarrow> par;
              State_Monad.return (map_option (cWrap ''snapshot creation failed'') (join_errors (collected first private public))) }) }"

text \<open>\<open>restoreS3\<close> with the two uploads of \<open>RestoreFromFilesystem\<close>, and its caller.\<close>

definition restoreS3 ::
  "'w program \<Rightarrow> s3_config \<Rightarrow> ('w, bool \<times> cerr option \<times> cerr option) state \<Rightarrow> ('w, cerr option) state" where
  "restoreS3 pg cfg par = do {
     r \<leftarrow> getAWSKeysWithAsumeRole (pg_cloud pg) cfg;
     case r of
       Inl e \<Rightarrow> State_Monad.return (Some (cWrap ''failed to get AWS credentials'' e))
     | Inr cred \<Rightarrow>
         (case minio_New (pg_cloud pg) (s3_Endpoint cfg) cred of
            Some e \<Rightarrow> State_Monad.return (map_option (cWrap ''failed to copy filesystem data to s3'')
              (RestoreFromFilesystem (Some e) True None None))
          | None \<Rightarrow> do {
              (first, public, private) \<leftarrow> par;
              State_Monad.return (map_option (cWrap ''failed to copy filesystem data to s3'')
                (RestoreFromFilesystem None first public private)) }) }"

definition restoreAssetBackup ::
  "'w program \<Rightarrow> snapshot_config \<Rightarrow> ('w, bool \<times> cerr option \<times> cerr option) state \<Rightarrow> ('w, cerr option) state" where
  "restoreAssetBackup pg cfg par = do {
     e \<leftarrow> restoreS3 pg (sg_S3 cfg) par;
     State_Monad.return (map_option (cWrap ''failed to restore S3 assets'') e) }"

section \<open>Backup and restore\<close>

text \<open>The errors in the channel once the included goroutines have ended.\<close>

definition part_errors :: "snapshot_context \<Rightarrow> string \<Rightarrow> bool \<times> cerr option \<times> cerr option \<Rightarrow> cerr option list" where
  "part_errors sc verb r =
     (case r of (first, db, assets) \<Rightarrow>
        map Some (collected first
          (if IncludeDB sc then map_option (cWrap (''failed to '' @ verb @ '' database backup'')) db else None)
          (if IncludeS3 sc then map_option (cWrap (''failed to '' @ verb @ '' asset backup'')) assets else None)))"

definition CreateBackup ::
  "'w program \<Rightarrow> snapshot_config \<Rightarrow> snapshot_context \<Rightarrow> ('w, bool \<times> cerr option \<times> cerr option) state \<Rightarrow> ('w, snapshot_outcome) state" where
  "CreateBackup pg cfg sc par = do {
     r \<leftarrow> par;
     case joinSnapshotErrors (part_errors sc ''create'' r) of
       Some e \<Rightarrow> State_Monad.return (Failed (cWrap ''snapshot creation failed'' e))
     | None \<Rightarrow> do {
         o' \<leftarrow> CreateArchive (pg_os pg) (pg_cloud pg) (sg_S3 cfg) sc;
         State_Monad.return (case o' of Failed e \<Rightarrow> Failed (cWrap ''failed to create archive'' e) | _ \<Rightarrow> o') } }"

definition RestoreBackup ::
  "'w program \<Rightarrow> snapshot_config \<Rightarrow> snapshot_context \<Rightarrow> ('w, bool \<times> cerr option \<times> cerr option) state \<Rightarrow> ('w, cerr option) state" where
  "RestoreBackup pg cfg sc par = do {
     e \<leftarrow> ExtractArchive (pg_os pg) (pg_cloud pg) (sg_S3 cfg) sc;
     case e of
       Some e \<Rightarrow> State_Monad.return (Some (cWrap ''failed to extract archive'' e))
     | None \<Rightarrow> do {
         r \<leftarrow> par;
         State_Monad.return (map_option (cWrap ''snapshot restore failed'') (joinSnapshotErrors (part_errors sc ''restore'' r))) } }"

text \<open>The two goroutines one after the other, the database first or the assets first.\<close>

definition in_turn :: "bool \<Rightarrow> ('w, cerr option) state \<Rightarrow> ('w, cerr option) state \<Rightarrow> ('w, bool \<times> cerr option \<times> cerr option) state" where
  "in_turn first a b =
     (if first then do { x \<leftarrow> a; y \<leftarrow> b; State_Monad.return (True, x, y) }
      else do { y \<leftarrow> b; x \<leftarrow> a; State_Monad.return (False, x, y) })"

section \<open>The command\<close>

text \<open>\<open>strings.SplitN (label, "=", 2)\<close> gives two parts when there is an equals sign.\<close>

definition add_label :: "string \<Rightarrow> gomap \<Rightarrow> gomap" where
  "add_label label m =
     (case Cut label CHR ''='' of (k, v, found) \<Rightarrow> if found then fmupd k v m else m)"

definition parse_labels :: "string list \<Rightarrow> gomap" where
  "parse_labels labels = fold add_label labels fmempty"

datatype exit = ExitCode nat | Crash

text \<open>The metadata file is written when the store's state could not be read, too; its error is logged.\<close>

definition write_metadata :: "'w program \<Rightarrow> snapshot_config \<Rightarrow> string \<Rightarrow> ('w, unit) state" where
  "write_metadata pg cfg dir =
     (let f = dir @ ''/metadata.json'' in do {
        e \<leftarrow> os_OpenFile (pg_os pg) f 420;
        case e of
          Some _ \<Rightarrow> State_Monad.return ()
        | None \<Rightarrow> do {
            _ \<leftarrow> os_Write (pg_os pg) f (pg_MarshalMeta pg (sg_MetaStoreJson cfg));
            _ \<leftarrow> os_Close (pg_os pg) f;
            State_Monad.return () } })"

definition create_action ::
  "'w program \<Rightarrow> snapshot_config \<Rightarrow> string \<Rightarrow> string \<Rightarrow> bool \<Rightarrow> bool \<Rightarrow> string list \<Rightarrow>
   (snapshot_context \<Rightarrow> ('w, bool \<times> cerr option \<times> cerr option) state) \<Rightarrow> ('w, exit) state" where
  "create_action pg cfg tempDir backupFile includeDB includeS3 labels par = do {
     d \<leftarrow> os_MkdirTemp (pg_os pg) tempDir ''snapshot-'';
     case d of
       Inl _ \<Rightarrow> State_Monad.return (ExitCode 14)
     | Inr dir \<Rightarrow>
         (let sc = \<lparr>TempArchiveDir = dir, BackupFile = backupFile, IncludeDB = includeDB, IncludeS3 = includeS3,
                    sc_Labels = parse_labels labels\<rparr> in do {
            _ \<leftarrow> write_metadata pg cfg dir;
            r \<leftarrow> CreateBackup pg cfg sc (par sc);
            _ \<leftarrow> os_RemoveAll (pg_os pg) dir;
            State_Monad.return (case r of Succeeded \<Rightarrow> ExitCode 0 | Failed _ \<Rightarrow> ExitCode 1 | Panicked \<Rightarrow> Crash) }) }"

definition restore_action ::
  "'w program \<Rightarrow> snapshot_config \<Rightarrow> string \<Rightarrow> string \<Rightarrow> bool \<Rightarrow> bool \<Rightarrow>
   (snapshot_context \<Rightarrow> ('w, bool \<times> cerr option \<times> cerr option) state) \<Rightarrow> ('w, exit) state" where
  "restore_action pg cfg tempDir backupFile includeDB includeS3 par = do {
     d \<leftarrow> os_MkdirTemp (pg_os pg) tempDir ''snapshot-'';
     case d of
       Inl _ \<Rightarrow> State_Monad.return (ExitCode 14)
     | Inr dir \<Rightarrow>
         (let sc = \<lparr>TempArchiveDir = dir, BackupFile = backupFile, IncludeDB = includeDB, IncludeS3 = includeS3,
                    sc_Labels = fmempty\<rparr> in do {
            _ \<leftarrow> write_metadata pg cfg dir;
            r \<leftarrow> RestoreBackup pg cfg sc (par sc);
            _ \<leftarrow> os_RemoveAll (pg_os pg) dir;
            State_Monad.return (case r of None \<Rightarrow> ExitCode 0 | Some _ \<Rightarrow> ExitCode 1) }) }"

section \<open>Lemmas\<close>

text \<open>The errors of the parts that a snapshot includes.\<close>

definition included_errors :: "snapshot_context \<Rightarrow> bool \<times> cerr option \<times> cerr option \<Rightarrow> cerr set" where
  "included_errors sc r = (case r of (first, db, assets) \<Rightarrow>
     (if IncludeDB sc then set_option db else {}) \<union> (if IncludeS3 sc then set_option assets else {}))"

lemma join_errors_simps:
  "join_errors errs = None \<longleftrightarrow> errs = []" "join_errors errs = Some e \<Longrightarrow> ce_Canceled e = list_ex ce_Canceled errs"
  by (auto simp: join_errors_def split: if_splits)

lemma joinSnapshotErrors_result:
  "joinSnapshotErrors (map Some es) = None \<longleftrightarrow> es = []"
  "joinSnapshotErrors (map Some es) = Some e \<Longrightarrow> ce_Canceled e \<longleftrightarrow> (\<forall>x\<in>set es. ce_Canceled x)"
proof -
  have p: "[e. Some e \<leftarrow> map Some es] = es" by (induction es) auto
  show "joinSnapshotErrors (map Some es) = None \<longleftrightarrow> es = []"
    unfolding joinSnapshotErrors_def p Let_def by (simp add: join_errors_simps del: not_None_eq)
  assume "joinSnapshotErrors (map Some es) = Some e"
  then have "join_errors (if filter (\<lambda>e. \<not> ce_Canceled e) es \<noteq> [] then filter (\<lambda>e. \<not> ce_Canceled e) es else es) = Some e" "es \<noteq> []"
    unfolding joinSnapshotErrors_def p Let_def by (auto split: if_splits)
  then show "ce_Canceled e \<longleftrightarrow> (\<forall>x\<in>set es. ce_Canceled x)"
    by (auto dest!: join_errors_simps(2) simp: list_ex_iff filter_empty_conv split: if_splits)
qed

lemma set_collected: "set (collected first a b) = set_option a \<union> set_option b"
  by (auto simp: collected_def Let_def split: option.splits if_splits)

lemma part_errors_result:
  assumes "joinSnapshotErrors (part_errors sc verb r) = x"
  shows "case x of None \<Rightarrow> included_errors sc r = {} | Some e \<Rightarrow> included_errors sc r \<noteq> {} \<and> (ce_Canceled e \<longleftrightarrow> (\<forall>y\<in>included_errors sc r. ce_Canceled y))"
proof -
  obtain first db assets where r: "r = (first, db, assets)" by (cases r)
  let ?es = "collected first
          (if IncludeDB sc then map_option (cWrap (''failed to '' @ verb @ '' database backup'')) db else None)
          (if IncludeS3 sc then map_option (cWrap (''failed to '' @ verb @ '' asset backup'')) assets else None)"
  have c: "ce_Canceled (cWrap m y) = ce_Canceled y" for m y by (simp add: cWrap_def)
  have e: "set ?es = {} \<longleftrightarrow> included_errors sc r = {}"
    "(\<forall>x\<in>set ?es. ce_Canceled x) \<longleftrightarrow> (\<forall>y\<in>included_errors sc r. ce_Canceled y)"
    unfolding set_collected included_errors_def r by (auto simp: c option.set_map)
  have "joinSnapshotErrors (map Some ?es) = x" using assms by (simp add: part_errors_def r)
  with joinSnapshotErrors_result [of ?es] e show ?thesis unfolding set_empty by (auto split: option.splits)
qed

section \<open>Properties\<close>

text \<open>
  C10: A backup: when a part that is included fails, the archive is not touched and the error is reported, as
  a cancellation only when no part failed for another reason. Otherwise the outcome is that of
  creating the archive.
\<close>

theorem CreateBackup_result:
  assumes "run_state par w = (r, w1)"
  shows "if included_errors sc r \<noteq> {}
    then \<exists>e. run_state (CreateBackup pg cfg sc par) w = (Failed e, w1) \<and>
         (ce_Canceled e \<longleftrightarrow> (\<forall>x\<in>included_errors sc r. ce_Canceled x))
    else \<forall>o' w'. run_state (CreateArchive (pg_os pg) (pg_cloud pg) (sg_S3 cfg) sc) w1 = (o', w') \<longrightarrow>
         (\<exists>o''. run_state (CreateBackup pg cfg sc par) w = (o'', w') \<and> (o'' = Succeeded \<longleftrightarrow> o' = Succeeded))"
  using part_errors_result [OF refl, where sc = sc and verb = "''create''" and r = r] assms
  by (auto simp: CreateBackup_def run_simps cWrap_def split: option.splits snapshot_outcome.splits)

text \<open>
  C11: A restore: nothing but the extraction happens when that fails; otherwise both included parts are run,
  and success is reported exactly when neither failed. A cancellation is reported only when no part
  failed for another reason.
\<close>

theorem RestoreBackup_result:
  assumes "run_state (ExtractArchive (pg_os pg) (pg_cloud pg) (sg_S3 cfg) sc) w = (x, w1)"
    and "run_state par w1 = (r, w2)"
  shows "\<exists>e. run_state (RestoreBackup pg cfg sc par) w = (e, if x = None then w2 else w1) \<and>
    (e = None \<longleftrightarrow> x = None \<and> included_errors sc r = {}) \<and>
    (\<forall>c. x = None \<and> e = Some c \<longrightarrow> (ce_Canceled c \<longleftrightarrow> (\<forall>y\<in>included_errors sc r. ce_Canceled y)))"
  using part_errors_result [OF refl, where sc = sc and verb = "''restore''" and r = r] assms
  by (auto simp: RestoreBackup_def run_simps cWrap_def split: option.splits)

definition ex_cloud :: "fs cloud" where
  "ex_cloud = \<lparr>aws_LoadDefaultConfig = State_Monad.return None, aws_Retrieve = State_Monad.return (Inl (cErrorf ''no credentials'')),
     minio_New = (\<lambda>_ _. None), minio_GetObject = (\<lambda>_ _ _. State_Monad.return (Inl (cErrorf ''no such key''))),
     minio_PutObject = (\<lambda>_ _ _ _ _ _. State_Monad.return None), url_IPLiteral = Inl\<rparr>"

definition ex_program :: "fs program" where
  "ex_program = \<lparr>pg_os = fs_os, pg_cloud = ex_cloud, pg_shell = ex_shell, pg_report = ex_report, pg_template = (\<lambda>_. Inr), pg_MarshalMeta = id\<rparr>"

definition ex_config :: snapshot_config where
  "ex_config = \<lparr>sg_Database = \<lparr>MysqlShellBinaryPath = ''mysqlsh'', MysqlDumpBinaryPath = [], dc_Host = ''db'', dc_Port = 3306, dc_User = ''root'',
       dc_Password = ''secret'', dc_Database = ''shopware'', dc_Version = [], dc_Options = [], dc_SSLMode = [], dc_SSLCA = [], dc_SSLCert = [],
       dc_SSLKey = [], dc_SSLDontVerifyServerCert = False\<rparr>,
     sg_S3 = \<lparr>RoleARN = [], WebIdentityTokenFile = [], STSReginalEndpoints = [], DefaultRegion = [], s3_Region' = [], s3_Endpoint = ''s3.example.com'',
       AccessKeyID = ''a'', SecretAccessKey = ''s'', SessionToken = [], PrivateBucket = ''private'', PublicBucket = ''public''\<rparr>,
     sg_MetaStoreJson = []\<rparr>"

definition ex_context :: snapshot_context where
  "ex_context = \<lparr>TempArchiveDir = ''/temp/snapshot-1'', BackupFile = ''/backup.zip'', IncludeDB = True, IncludeS3 = True, sc_Labels = fmempty\<rparr>"

text \<open>The dump fails because \<open>mysqlsh\<close> is missing, and the assets are cancelled.\<close>

theorem CreateBackup_result_witness:
  "\<exists>e w1. run_state (CreateBackup ex_program ex_config ex_context
      (in_turn True (createDatabaseBackup ex_program ex_config ex_context) (State_Monad.return (Some Canceled)))) [] = (Failed e, w1) \<and> \<not> ce_Canceled e"
proof -
  let ?par = "in_turn True (createDatabaseBackup ex_program ex_config ex_context) (State_Monad.return (Some Canceled))"
  let ?e = "cWrap ''failed to dump database'' (cWrap ''run command'' (cWrap ''find binary in PATH'' (cErrorf ''executable file not found in $PATH'')))"
  have p: "run_state ?par [] = ((True, Some ?e, Some Canceled), [])"
    by code_simp
  have "included_errors ex_context (True, Some ?e, Some Canceled) = {?e, Canceled}"
    by (auto simp: included_errors_def ex_context_def)
  with CreateBackup_result [OF p, where sc = ex_context and pg = ex_program and cfg = ex_config] show ?thesis
    by (auto simp: cWrap_def cErrorf_def)
qed

text \<open>The archive cannot be opened, so nothing is restored.\<close>

theorem RestoreBackup_result_witness:
  "\<exists>e. run_state (RestoreBackup ex_program ex_config ex_context (State (\<lambda>w. ((True, None, None), [(''/restored'', Directory)])))) [] = (Some e, [])"
proof -
  have "\<not> isS3URL (pg_cloud ex_program) (BackupFile ex_context)" by code_simp
  then have x: "run_state (ExtractArchive (pg_os ex_program) (pg_cloud ex_program) (sg_S3 ex_config) ex_context) [] =
      (Some (cWrap ''failed to open zip file /backup.zip'' (cErrorf ''zip: not a valid zip file'')), [])"
    by (simp add: ExtractArchive_def extractLocalArchive_def ex_program_def fs_os_def ex_context_def)
  show ?thesis
    using RestoreBackup_result [OF x, of "State (\<lambda>w. ((True, None, None), [(''/restored'', Directory)]))" "(True, None, None)" "[(''/restored'', Directory)]"]
    by auto
qed

text \<open>
  The working directory of the program, which holds the database dump and the files of the shop, is
  removed at the end of every run, successful or not.
\<close>

theorem working_directory_removed:
  assumes "run_state (os_MkdirTemp (pg_os pg) tempDir ''snapshot-'') w = (Inr dir, w1)"
  shows "(\<exists>w2. snd (run_state (create_action pg cfg tempDir backupFile includeDB includeS3 labels par) w) = snd (run_state (os_RemoveAll (pg_os pg) dir) w2)) \<and>
    (\<exists>w2. snd (run_state (restore_action pg cfg tempDir backupFile includeDB includeS3 par) w) = snd (run_state (os_RemoveAll (pg_os pg) dir) w2))"
  using assms by (simp add: create_action_def restore_action_def Let_def run_simps case_prod_beta) blast

definition ex_program2 :: "fs program" where
  "ex_program2 = ex_program\<lparr>pg_os := fs_os\<lparr>os_MkdirTemp := (\<lambda>d p. State (\<lambda>w. (Inr (d @ ''/'' @ p @ ''1''), (d @ ''/'' @ p @ ''1'', Directory) # w)))\<rparr>\<rparr>"

theorem working_directory_removed_witness:
  "\<exists>w2. snd (run_state (create_action ex_program2 ex_config ''/temp'' ''/b.zip'' False False [] (\<lambda>_. State_Monad.return (True, None, None))) []) =
     snd (run_state (os_RemoveAll (pg_os ex_program2) ''/temp/snapshot-1'') w2)"
  using working_directory_removed [of ex_program2 "''/temp''" "[]" "''/temp/snapshot-1''" "[(''/temp/snapshot-1'', Directory)]"]
  by (simp add: ex_program2_def)

text \<open>The values that the command line library collects for the flag \<open>label\<close>.\<close>

fun label_values :: "string list \<Rightarrow> string list" where
  "label_values (a # b # args) = (if a = ''--label'' then b # label_values args else label_values (b # args))"
| "label_values args = []"

lemma add_label_pair: "CHR ''='' \<notin> set k \<Longrightarrow> add_label (k @ CHR ''='' # v) m = fmupd k v m"
proof -
  assume "CHR ''='' \<notin> set k"
  then have "takeWhile (\<lambda>x. x \<noteq> CHR ''='') (k @ CHR ''='' # v) = k" "dropWhile (\<lambda>x. x \<noteq> CHR ''='') (k @ CHR ''='' # v) = CHR ''='' # v"
    by (induction k) auto
  then show ?thesis by (simp add: add_label_def Cut_def)
qed

lemma fold_add_label:
  assumes "\<forall>(k, v)\<in>set xs. CHR ''='' \<notin> set k" and "distinct (map fst xs)"
  shows "fmlookup (fold add_label (map (\<lambda>(k, v). k @ CHR ''='' # v) xs) m) q = (case map_of xs q of Some v \<Rightarrow> Some v | None \<Rightarrow> fmlookup m q)"
  using assms
proof (induction xs arbitrary: m)
  case (Cons x xs)
  obtain k v where x: "x = (k, v)" by force
  have "map_of xs k = None" using Cons.prems(2) x by (simp add: map_of_eq_None_iff)
  with Cons x show ?case by (auto simp: add_label_pair split: option.splits)
qed simp

lemma label_values_args: "label_values (label_args m) = map (\<lambda>(k, v). k @ CHR ''='' # v) (sorted_list_of_fmap m)"
proof -
  have "label_values (concat (map (\<lambda>(k, v). [''--label'', k @ CHR ''='' # v]) xs)) = map (\<lambda>(k, v). k @ CHR ''='' # v) xs"
    for xs :: "(string \<times> string) list"
    by (induction xs) auto
  then show ?thesis by (simp add: label_args_def)
qed

text \<open>
  Defects. A restore of an archive without assets empties both buckets and reports success. The key of an
  object may lead out of the directory of its bucket.
\<close>

lemma restore_without_assets:
  "RestoreFromFilesystem None first (uploadBucket True None StatNotExist r) (uploadBucket True None StatNotExist r') = None"
  by (cases first) (simp_all add: RestoreFromFilesystem_def uploadBucket_def collected_def join_errors_def)

lemma object_key_leaves_directory:
  "map_of (snd (run_state (processDownloadObject fs_os ''/temp/private'' \<lparr>oi_Key = ''../../etc/x'', oi_Size = 1\<rparr>
     \<lparr>or_Content = ''y'', or_ReadErr = None\<rparr>) [])) ''/etc/x'' = Some (Regular ''y'')"
  by code_simp

end
