(* ===== verification/MySQLDump.thy ===== *)
theory MySQLDump
  imports MySQLShell
begin

text \<open>
  The older way to dump and restore, \<open>internal/util/mysql_dump.go\<close>: \<open>mysqldump\<close> piped through gzip into a
  writer, and back into \<open>mysql\<close>. The processes, the gzip streams and the clock are parameters.
\<close>

section \<open>Calls\<close>

text \<open>
  A process is known by its command line. \<open>pc_Copy\<close> copies its output through the gzip writer: the sizes
  of the writes that reach the counting writer, the number of bytes copied and the error.
\<close>

record 'w process_calls =
  pc_Now :: "('w, int) state"
  pc_StdoutPipe :: "string list \<Rightarrow> ('w, cerr option) state"
  pc_StderrPipe :: "string list \<Rightarrow> ('w, cerr option) state"
  pc_Start :: "string list \<Rightarrow> ('w, cerr option) state"
  pc_NewGzipWriter :: "cerr option"
  pc_NewGzipReader :: "('w, cerr option) state"
  pc_Copy :: "('w, int64 list \<times> int64 \<times> cerr option) state"
  pc_Wait :: "string list \<Rightarrow> ('w, cerr option \<times> string) state"
  pc_GzipClose :: "('w, int64 list \<times> cerr option) state"
  pc_Close :: "('w, cerr option) state"

record countingWriter =
  cw_count :: int64

definition counting_Write :: "int64 \<Rightarrow> countingWriter \<Rightarrow> countingWriter" where
  "counting_Write n c = c\<lparr>cw_count := cw_count c + n\<rparr>"

section \<open>Operations\<close>

definition check_input :: "resolved_db \<Rightarrow> cerr option" where
  "check_input d =
     (if rdb_Name d = [] then Some (cErrorf ''empty database name'')
      else if rdb_Host d = [] then Some (cErrorf ''empty host'')
      else if rdb_Password d = [] then Some (cErrorf ''empty password'')
      else if rdb_User d = [] then Some (cErrorf ''empty user'')
      else None)"

definition mysqldump_command :: "resolved_db \<Rightarrow> string list" where
  "mysqldump_command d =
     [''mysqldump'', ''--column-statistics=0'', ''--set-gtid-purged=OFF'', ''--hex-blob'', ''--skip-set-charset'',
      ''-h'', rdb_Host d, ''-u'', rdb_User d, ''-p'' @ rdb_Password d, rdb_Name d]"

definition mysql_command :: "resolved_db \<Rightarrow> string list" where
  "mysql_command d = [''mysql'', ''-A'', ''-h'', rdb_Host d, ''-u'', rdb_User d, ''-p'' @ rdb_Password d, rdb_Name d]"

definition wait_error :: "cerr option \<times> string \<Rightarrow> cerr option" where
  "wait_error r =
     (case r of
        (Some e, stderr) \<Rightarrow>
          Some (if stderr \<noteq> [] then e\<lparr>ce_msg := ''wait command: '' @ ce_msg e @ '', stderr: '' @ stderr\<rparr> else cWrap ''wait command'' e)
      | (None, _) \<Rightarrow> None)"

text \<open>A step that may fail, and what is done after it.\<close>

definition and_then :: "('w, cerr option) state \<Rightarrow> string \<Rightarrow> ('w, cerr + 'a) state \<Rightarrow> ('w, cerr + 'a) state" where
  "and_then m msg k = do { e \<leftarrow> m; case e of Some e \<Rightarrow> State_Monad.return (Inl (cWrap msg e)) | None \<Rightarrow> k }"

definition dump_output_of :: "int \<Rightarrow> int \<Rightarrow> int64 \<Rightarrow> countingWriter \<Rightarrow> dump_output" where
  "dump_output_of start now uncompressed c =
     \<lparr>do_Duration = now - start, do_UncompressedSize = uncompressed, do_CompressedSize = cw_count c,
      do_CompressionRatio = Some (cw_count c, uncompressed)\<rparr>"

definition finish_dump :: "'w process_calls \<Rightarrow> string list \<Rightarrow> int \<Rightarrow> int64 \<Rightarrow> countingWriter \<Rightarrow> ('w, cerr + dump_output) state" where
  "finish_dump pc cmd start uncompressed c = do {
     r \<leftarrow> pc_Wait pc cmd;
     case wait_error r of
       Some e \<Rightarrow> State_Monad.return (Inl e)
     | None \<Rightarrow> do {
         (ns, e) \<leftarrow> pc_GzipClose pc;
         case e of
           Some e \<Rightarrow> State_Monad.return (Inl (cWrap ''close gzip writer'' e))
         | None \<Rightarrow>
             and_then (pc_Close pc) ''close writer'' (do {
               now \<leftarrow> pc_Now pc;
               State_Monad.return (Inr (dump_output_of start now uncompressed (fold counting_Write ns c))) }) } }"

definition mysqldump_Dump :: "'w process_calls \<Rightarrow> resolved_db \<Rightarrow> ('w, cerr + dump_output) state" where
  "mysqldump_Dump pc d =
     (case check_input d of
        Some e \<Rightarrow> State_Monad.return (Inl e)
      | None \<Rightarrow>
          (let cmd = mysqldump_command d in do {
             start \<leftarrow> pc_Now pc;
             and_then (pc_StdoutPipe pc cmd) ''get stdout pipe''
               (and_then (pc_StderrPipe pc cmd) ''get stderr pipe''
                 (and_then (pc_Start pc cmd) ''start command''
                   (case pc_NewGzipWriter pc of
                      Some e \<Rightarrow> State_Monad.return (Inl (cWrap ''create gzip writer'' e))
                    | None \<Rightarrow> do {
                        (ns, uncompressed, e) \<leftarrow> pc_Copy pc;
                        case e of
                          Some e \<Rightarrow> State_Monad.return (Inl (cWrap ''copy to gzip writer'' e))
                        | None \<Rightarrow> finish_dump pc cmd start uncompressed (fold counting_Write ns \<lparr>cw_count = 0\<rparr>) }))) }))"

definition mysqldump_Restore :: "'w process_calls \<Rightarrow> resolved_db \<Rightarrow> ('w, cerr + unit) state" where
  "mysqldump_Restore pc d =
     (case check_input d of
        Some e \<Rightarrow> State_Monad.return (Inl e)
      | None \<Rightarrow>
          (let cmd = mysql_command d in
           and_then (pc_NewGzipReader pc) ''create gzip reader''
             (and_then (pc_StderrPipe pc cmd) ''get stderr pipe''
               (and_then (pc_Start pc cmd) ''start command'' (do {
                  r \<leftarrow> pc_Wait pc cmd;
                  case wait_error r of
                    Some e \<Rightarrow> State_Monad.return (Inl e)
                  | None \<Rightarrow> and_then (pc_Close pc) ''close gzip reader'' (State_Monad.return (Inr ())) })))))"

section \<open>Properties\<close>

lemma run_bind_iff: "run_state (m \<bind> f) w = r \<longleftrightarrow> (\<exists>a w1. run_state m w = (a, w1) \<and> run_state (f a) w1 = r)"
  by (auto simp: run_simps split: prod.splits)

lemma and_then_Inr:
  "run_state (and_then m msg k) w = (Inr x, w') \<longleftrightarrow> (\<exists>w1. run_state m w = (None, w1) \<and> run_state k w1 = (Inr x, w'))"
  by (auto simp: and_then_def run_simps split: prod.splits option.splits)

lemma fold_counting: "cw_count (fold counting_Write ns c) = cw_count c + sum_list ns"
  by (induction ns arbitrary: c) (simp_all add: counting_Write_def algebra_simps)

text \<open>
  A dump is reported only when all four fields were set, \<open>mysqldump\<close> ended without an error, and the gzip
  stream and the writer were closed; the compressed size is then the sum of all writes to the writer,
  those of closing the stream included.
\<close>

theorem reported_dump_is_complete:
  assumes "run_state (mysqldump_Dump pc d) w = (Inr out, w')"
  shows "rdb_Name d \<noteq> [] \<and> rdb_Host d \<noteq> [] \<and> rdb_Password d \<noteq> [] \<and> rdb_User d \<noteq> [] \<and>
    (\<exists>ns n w1 w2 stderr ms w3 w4 w5.
       run_state (pc_Copy pc) w1 = ((ns, n, None), w2) \<and>
       run_state (pc_Wait pc (mysqldump_command d)) w2 = ((None, stderr), w3) \<and>
       run_state (pc_GzipClose pc) w3 = ((ms, None), w4) \<and>
       run_state (pc_Close pc) w4 = (None, w5) \<and>
       do_UncompressedSize out = n \<and> do_CompressedSize out = sum_list (ns @ ms))"
proof -
  from assms have "check_input d = None" by (cases "check_input d") (auto simp: mysqldump_Dump_def run_simps)
  with assms obtain ns n w1 w2 start where
      copy: "run_state (pc_Copy pc) w1 = ((ns, n, None), w2)"
    and fin: "run_state (finish_dump pc (mysqldump_command d) start n (fold counting_Write ns \<lparr>cw_count = 0\<rparr>)) w2 = (Inr out, w')"
    by (auto simp: mysqldump_Dump_def Let_def run_bind_iff and_then_Inr simp del: run_state_bind split: option.splits)
  from fin obtain stderr w3 ms w4 w5 now where
      "run_state (pc_Wait pc (mysqldump_command d)) w2 = ((None, stderr), w3)"
      "run_state (pc_GzipClose pc) w3 = ((ms, None), w4)" "run_state (pc_Close pc) w4 = (None, w5)"
      "out = dump_output_of start now n (fold counting_Write ms (fold counting_Write ns \<lparr>cw_count = 0\<rparr>))"
    by (auto simp: finish_dump_def wait_error_def run_bind_iff and_then_Inr simp del: run_state_bind split: option.splits prod.splits)
  with copy \<open>check_input d = None\<close> show ?thesis
    by (auto simp: check_input_def dump_output_of_def fold_counting split: if_splits) blast+
qed

definition ex_process :: "unit process_calls" where
  "ex_process = \<lparr>pc_Now = State_Monad.return 0, pc_StdoutPipe = (\<lambda>_. State_Monad.return None), pc_StderrPipe = (\<lambda>_. State_Monad.return None),
     pc_Start = (\<lambda>_. State_Monad.return None), pc_NewGzipWriter = None, pc_NewGzipReader = State_Monad.return None,
     pc_Copy = State_Monad.return ([10, 2], 100, None), pc_Wait = (\<lambda>_. State_Monad.return (None, [])),
     pc_GzipClose = State_Monad.return ([8], None), pc_Close = State_Monad.return None\<rparr>"

theorem reported_dump_is_complete_witness:
  "\<exists>out. run_state (mysqldump_Dump ex_process ex_db) () = (Inr out, ()) \<and> do_UncompressedSize out = 100 \<and> do_CompressedSize out = 20"
proof -
  obtain out where r: "run_state (mysqldump_Dump ex_process ex_db) () = (Inr out, ())"
    by (simp add: mysqldump_Dump_def check_input_def ex_db_def ex_process_def and_then_def finish_dump_def wait_error_def run_simps)
  from reported_dump_is_complete [OF r] have "do_UncompressedSize out = 100 \<and> do_CompressedSize out = 20"
    by (auto simp: ex_process_def run_simps)
  with r show ?thesis by blast
qed

text \<open>
  The two ways to dump report inverse ratios: \<open>mysqlsh\<close> the uncompressed size by the compressed one,
  \<open>mysqldump\<close> the compressed size by the uncompressed one.
\<close>

lemma compression_ratio_inverse:
  "do_CompressionRatio (dump_output_of t t' u c) = Some (do_CompressedSize (dump_output_of t t' u c), do_UncompressedSize (dump_output_of t t' u c))"
  "parseDumpOutput rc s = (out, None) \<Longrightarrow> do_UncompressedSize out \<noteq> 0 \<Longrightarrow> do_CompressedSize out \<noteq> 0 \<Longrightarrow>
   do_CompressionRatio out = Some (do_UncompressedSize out, do_CompressedSize out)"
  by (auto simp: dump_output_of_def parseDumpOutput_def Let_def zero_output_def split: option.splits sum.splits)

end
