(* ===== verification/ObjectDiff.thy ===== *)
theory ObjectDiff
  imports Ensure Url
begin

text \<open>
  The description of a changed object for the log, \<open>ObjectDiff\<close> of \<open>internal/k8s/utils.go\<close>. JSON objects are
  lists of members in the order in which Go happens to range over the map. Turning an object into
  JSON and the verb \<open>%v\<close> for numbers and nested values are parameters.
\<close>

section \<open>Definitions\<close>

datatype jval = JVNull | JVBool bool | JVNum string | JVStr string | JVArr "jval list" | JVMap "(string \<times> jval) list"

text \<open>\<open>reflect.DeepEqual\<close>.\<close>

fun deep_eq :: "jval \<Rightarrow> jval \<Rightarrow> bool" where
  "deep_eq (JVArr a) (JVArr b) \<longleftrightarrow> list_all2 deep_eq a b"
| "deep_eq (JVMap a) (JVMap b) \<longleftrightarrow>
     length a = length b \<and> (\<forall>(k, v)\<in>set a. case map_of b k of Some w \<Rightarrow> deep_eq v w | None \<Rightarrow> False)"
| "deep_eq x y \<longleftrightarrow> x = y"

definition formatValue :: "(jval \<Rightarrow> string) \<Rightarrow> jval \<Rightarrow> string" where
  "formatValue fmt v =
     (case v of
        JVStr s \<Rightarrow> go_quote s
      | JVArr a \<Rightarrow> if length a > 3 then ''[...'' @ dec_nat (length a) @ '' items...]'' else fmt v
      | JVMap _ \<Rightarrow> ''{...}''
      | _ \<Rightarrow> fmt v)"

definition fullKey :: "string \<Rightarrow> string \<Rightarrow> string" where
  "fullKey pre key = (if pre \<noteq> [] then pre @ ''.'' @ key else key)"

function findChanges :: "(jval \<Rightarrow> string) \<Rightarrow> (string \<times> jval) list \<Rightarrow> (string \<times> jval) list \<Rightarrow> string \<Rightarrow> string list" where
  "findChanges fmt olds news pre =
     concat (map (\<lambda>(key, newValue).
       case map_of olds key of
         None \<Rightarrow> [''  + '' @ fullKey pre key @ '': '' @ formatValue fmt newValue]
       | Some oldValue \<Rightarrow>
           if deep_eq oldValue newValue then []
           else case newValue of
                  JVMap newMap \<Rightarrow>
                    (case oldValue of
                       JVMap oldMap \<Rightarrow> findChanges fmt oldMap newMap (fullKey pre key)
                     | _ \<Rightarrow> [''  ~ '' @ fullKey pre key @ '': '' @ formatValue fmt oldValue @ '' -> '' @ formatValue fmt newValue])
                | _ \<Rightarrow> [''  ~ '' @ fullKey pre key @ '': '' @ formatValue fmt oldValue @ '' -> '' @ formatValue fmt newValue]) news) @
     concat (map (\<lambda>(key, oldValue).
       if key \<in> fst ` set news then [] else [''  - '' @ fullKey pre key @ '': '' @ formatValue fmt oldValue]) olds)"
  by pat_completeness auto
termination
proof (relation "measure (\<lambda>(fmt, olds, news, pre). size (JVMap news))", goal_cases)
  case (2 fmt olds news pre x key newValue oldValue newMap oldMap)
  then have "(key, JVMap newMap) \<in> set news" by auto
  from size_list_estimation [OF this, of "size_list (size_prod (\<lambda>x. 0) size) newMap" "size_prod (\<lambda>x. 0) size"]
  show ?case by auto
qed simp

declare findChanges.simps [simp del]

definition diffData :: "kobj \<Rightarrow> kobj \<Rightarrow> (gomap \<times> gomap) + (hash_data \<times> hash_data)" where
  "diffData olds news =
     (case (olds, news) of
        (OSecret a, OSecret b) \<Rightarrow> Inl (redactSecrets (Some a) (Some b))
      | _ \<Rightarrow> Inr (extractRelevantData olds, extractRelevantData news))"

text \<open>A map of strings as JSON.\<close>

definition json_map :: "gomap \<Rightarrow> (string \<times> jval) list" where
  "json_map m = map (\<lambda>(k, v). (k, JVStr v)) (sorted_list_of_fmap m)"

definition describe_changes :: "(jval \<Rightarrow> string) \<Rightarrow> (string \<times> jval) list \<Rightarrow> (string \<times> jval) list \<Rightarrow> string" where
  "describe_changes fmt olds news =
     (let changes = findChanges fmt olds news [] in
      if changes = [] then ''No changes detected''
      else ''Changed fields:'' @ [CHR 10] @ concat (map (\<lambda>c. c @ [CHR 10]) changes))"

definition ObjectDiff :: "(hash_data \<Rightarrow> (string \<times> jval) list result) \<Rightarrow> (jval \<Rightarrow> string) \<Rightarrow> kobj \<Rightarrow> kobj \<Rightarrow> string result" where
  "ObjectDiff toMap fmt olds news =
     (case diffData olds news of
        Inl (a, b) \<Rightarrow> Inr (describe_changes fmt (json_map a) (json_map b))
      | Inr (a, b) \<Rightarrow>
          (case toMap a of
             Inl e \<Rightarrow> Inl e
           | Inr oldMap \<Rightarrow>
               (case toMap b of Inl e \<Rightarrow> Inl e | Inr newMap \<Rightarrow> Inr (describe_changes fmt oldMap newMap))))"

section \<open>Lemmas\<close>

text \<open>Go maps have no key twice.\<close>

fun wf_jval :: "jval \<Rightarrow> bool" where
  "wf_jval (JVMap m) \<longleftrightarrow> distinct (map fst m) \<and> list_all (\<lambda>(k, v). wf_jval v) m"
| "wf_jval _ \<longleftrightarrow> True"

lemma wf_member: "wf_jval (JVMap m) \<Longrightarrow> (k, v) \<in> set m \<Longrightarrow> wf_jval v"
  by (auto simp: list_all_iff)

lemma deep_eq_map:
  assumes "distinct (map fst a)" and "distinct (map fst b)"
  shows "deep_eq (JVMap a) (JVMap b) \<longleftrightarrow>
    fst ` set a = fst ` set b \<and> (\<forall>(k, w)\<in>set b. \<exists>v. map_of a k = Some v \<and> deep_eq v w)"
proof -
  have card: "length a = length b" if "fst ` set a = fst ` set b"
    using assms that by (metis distinct_card length_map list.set_map)
  have sub: "fst ` set a = fst ` set b" if "fst ` set a \<subseteq> fst ` set b" "length a = length b"
    using assms that by (metis List.finite_set card_subset_eq distinct_card length_map list.set_map)
  show ?thesis
  proof
    assume "deep_eq (JVMap a) (JVMap b)"
    then have l: "length a = length b" and e: "\<And>k v. (k, v) \<in> set a \<Longrightarrow> \<exists>w. map_of b k = Some w \<and> deep_eq v w"
      by (auto split: option.splits)
    have k: "fst ` set a = fst ` set b" using e by (intro sub l) (force dest: map_of_SomeD)
    have "\<exists>v. map_of a k = Some v \<and> deep_eq v w" if "(k, w) \<in> set b" for k w
    proof -
      from k that obtain v where "(k, v) \<in> set a" by (metis (no_types, lifting) fst_conv image_iff prod.collapse)
      with e [OF this] that assms show ?thesis by (auto simp: map_of_eq_Some_iff dest: eq_key_imp_eq_value)
    qed
    with k show "fst ` set a = fst ` set b \<and> (\<forall>(k, w)\<in>set b. \<exists>v. map_of a k = Some v \<and> deep_eq v w)" by auto
  next
    assume r: "fst ` set a = fst ` set b \<and> (\<forall>(k, w)\<in>set b. \<exists>v. map_of a k = Some v \<and> deep_eq v w)"
    have "\<exists>w. map_of b k = Some w \<and> deep_eq v w" if "(k, v) \<in> set a" for k v
    proof -
      from r that obtain w where "(k, w) \<in> set b" by (metis (no_types, lifting) fst_conv image_iff prod.collapse)
      with r that assms show ?thesis by (auto simp: map_of_eq_Some_iff dest: eq_key_imp_eq_value)
    qed
    with card r show "deep_eq (JVMap a) (JVMap b)" by fastforce
  qed
qed

section \<open>Properties\<close>

text \<open>
  C36: The description of a change is empty exactly when nothing changed: no changes are found between two JSON
  objects if and only if they are equal, at any depth and in any order of their members.
\<close>

theorem findChanges_empty_iff:
  assumes "wf_jval (JVMap olds)" and "wf_jval (JVMap news)"
  shows "findChanges fmt olds news pre = [] \<longleftrightarrow> deep_eq (JVMap olds) (JVMap news)"
  using assms
proof (induction fmt olds news pre rule: findChanges.induct)
  case (1 fmt olds news pre)
  have d: "distinct (map fst olds)" "distinct (map fst news)" using 1(2,3) by auto
  have sub: "findChanges fmt oldMap newMap (fullKey pre k) = [] \<longleftrightarrow> deep_eq (JVMap oldMap) (JVMap newMap)"
    if "(k, JVMap newMap) \<in> set news" "map_of olds k = Some (JVMap oldMap)" "\<not> deep_eq (JVMap oldMap) (JVMap newMap)" for k newMap oldMap
  proof -
    have "wf_jval (JVMap newMap)" by (rule wf_member [OF 1(3) that(1)])
    moreover have "wf_jval (JVMap oldMap)" by (rule wf_member [OF 1(2) map_of_SomeD [OF that(2)]])
    ultimately show ?thesis using 1(1) [OF that(1) refl that(2,3) refl refl] by blast
  qed
  have entry: "(case map_of olds k of None \<Rightarrow> [x] | Some oldValue \<Rightarrow> if deep_eq oldValue w then []
      else case w of JVMap newMap \<Rightarrow> (case oldValue of JVMap oldMap \<Rightarrow> findChanges fmt oldMap newMap (fullKey pre k) | _ \<Rightarrow> [y oldValue])
           | _ \<Rightarrow> [y oldValue]) = [] \<longleftrightarrow> (\<exists>v. map_of olds k = Some v \<and> deep_eq v w)" (is "?l k w x y = [] \<longleftrightarrow> _")
    if "(k, w) \<in> set news" for k w x y
  proof (cases "map_of olds k")
    case (Some v)
    with that sub [of k _ _] show ?thesis by (cases w; cases v) auto
  qed simp
  have "findChanges fmt olds news pre = [] \<longleftrightarrow>
    (\<forall>(k, w)\<in>set news. \<exists>v. map_of olds k = Some v \<and> deep_eq v w) \<and> (\<forall>(k, v)\<in>set olds. k \<in> fst ` set news)"
    unfolding findChanges.simps [of fmt olds news pre] append_is_Nil_conv concat_eq_Nil_conv set_map Set.ball_simps(9)
    by (intro arg_cong2 [where f = "(\<and>)"] ball_cong refl) (auto simp only: entry split_beta prod.collapse split: if_splits)
  also have "\<dots> \<longleftrightarrow> deep_eq (JVMap olds) (JVMap news)" (is "?N \<and> ?O \<longleftrightarrow> _")
  proof -
    have "fst ` set news \<subseteq> fst ` set olds" if ?N
    proof
      fix k assume "k \<in> fst ` set news"
      then obtain w where "(k, w) \<in> set news" by auto
      with that obtain v where "map_of olds k = Some v" by blast
      then show "k \<in> fst ` set olds" by (metis fst_conv image_eqI map_of_SomeD)
    qed
    moreover have "?O \<longleftrightarrow> fst ` set olds \<subseteq> fst ` set news" by (force simp: subset_eq)
    ultimately have "?N \<and> ?O \<longleftrightarrow> fst ` set olds = fst ` set news \<and> ?N" by (metis (no_types, lifting) order_refl subset_antisym)
    then show ?thesis by (simp only: deep_eq_map [OF d])
  qed
  finally show ?case .
qed

theorem findChanges_empty_iff_witness:
  "findChanges (\<lambda>_. ''?'') [(''a'', JVStr ''x''), (''b'', JVMap [(''c'', JVNull)])] [(''b'', JVMap [(''c'', JVNull)]), (''a'', JVStr ''x'')] [] = []"
  using findChanges_empty_iff [of "[(''a'', JVStr ''x''), (''b'', JVMap [(''c'', JVNull)])]"
      "[(''b'', JVMap [(''c'', JVNull)]), (''a'', JVStr ''x'')]" "\<lambda>_. ''?''" "[]"] by simp

end
