(* ===== verification/Tracing.thy ===== *)
theory Tracing
  imports Trigger Url Utf8
begin

text \<open>
  What the operator writes into trace spans: \<open>internal/tracing\<close>, \<open>internal/k8s/exec.go\<close>, \<open>RecordOnSpan\<close> of
  \<open>internal/trigger\<close> and the redaction of \<open>internal/deployment/queue.go\<close>. A span collects attributes,
  events and a status; exporting it is done by OpenTelemetry, which is not part of the sources. The
  property is that the message of a sensitive error does not get into a span.
\<close>

section \<open>Errors\<close>

text \<open>
  An error chain: a plain error, one that wraps another with a text of its own (\<open>fmt.Errorf\<close>), several joined
  ones, \<open>sensitiveError\<close>, and \<open>QueueStatsError\<close> with pod, container, command, stdout, stderr and \<open>Err\<close>.
\<close>

datatype chain = PlainError string | WrapError string chain | JoinError "chain list" | SensitiveError chain
  | StatsError string string string string string chain

fun Error :: "chain \<Rightarrow> string" where
  "Error (PlainError s) = s"
| "Error (WrapError s e) = s"
| "Error (JoinError es) = Join (map Error es) [CHR 10]"
| "Error (SensitiveError e) = Error e"
| "Error (StatsError pod container command stdout stderr e) =
     Error e @ '' (pod: '' @ pod @ '', container: '' @ container @ '', command: '' @ go_quote command @
       (if TrimSpace stderr \<noteq> [] then '', stderr: '' @ Truncate (TrimSpace stderr) 500 else []) @
       (if TrimSpace stdout \<noteq> [] then '', stdout: '' @ Truncate (TrimSpace stdout) 500 else []) @ '')''"

definition Sensitive :: "chain option \<Rightarrow> chain option" where
  "Sensitive err = map_option SensitiveError err"

text \<open>\<open>errors.As\<close> looks through the whole chain.\<close>

fun IsSensitive :: "chain \<Rightarrow> bool" where
  "IsSensitive (PlainError s) = False"
| "IsSensitive (WrapError s e) = IsSensitive e"
| "IsSensitive (JoinError es) = list_ex IsSensitive es"
| "IsSensitive (SensitiveError e) = True"
| "IsSensitive (StatsError pod container command stdout stderr e) = IsSensitive e"

text \<open>\<open>errors.As\<close> for \<open>QueueStatsError\<close>: the first one, depth first, without what it captured from the process.\<close>

fun as_stats :: "chain \<Rightarrow> (string \<times> string \<times> string \<times> chain) option" where
  "as_stats (PlainError s) = None"
| "as_stats (WrapError s e) = as_stats e"
| "as_stats (JoinError es) = (case filter (\<lambda>x. x \<noteq> None) (map as_stats es) of [] \<Rightarrow> None | x # _ \<Rightarrow> x)"
| "as_stats (SensitiveError e) = as_stats e"
| "as_stats (StatsError pod container command stdout stderr e) = Some (pod, container, command, e)"

definition RedactQueueStatsOutput :: "chain \<Rightarrow> chain" where
  "RedactQueueStatsOutput err =
     (case as_stats err of
        None \<Rightarrow> err
      | Some (pod, container, command, e) \<Rightarrow>
          WrapError (Error e @ '' (pod: '' @ pod @ '', container: '' @ container @ '', command: '' @ go_quote command @
            '', stdout and stderr omitted)'') e)"

section \<open>Spans\<close>

datatype attr_value = AString string | ABool bool | AInt nat | AStrings "string list"

type_synonym attrs = "(string \<times> attr_value) list"

record span =
  sn_Attributes :: attrs
  sn_Events :: "(string \<times> attrs) list"
  sn_ErrorStatus :: "string option"
  sn_Ended :: bool

definition SetAttributes :: "attrs \<Rightarrow> span \<Rightarrow> span" where
  "SetAttributes as s = s\<lparr>sn_Attributes := sn_Attributes s @ as\<rparr>"

definition AddEvent :: "string \<Rightarrow> attrs \<Rightarrow> span \<Rightarrow> span" where
  "AddEvent name as s = s\<lparr>sn_Events := sn_Events s @ [(name, as)]\<rparr>"

definition RedactedMessage :: string where
  "RedactedMessage = ''error message redacted because it could reveal secrets''"

definition validUTF8 :: "string \<Rightarrow> string" where
  "validUTF8 s = ToValidUTF8 s RuneError"

text \<open>\<open>typeName\<close> is the verb \<open>%T\<close>.\<close>

definition RecordError :: "(chain \<Rightarrow> string) \<Rightarrow> chain \<Rightarrow> span \<Rightarrow> span" where
  "RecordError typeName err s =
     (let message = (if IsSensitive err then RedactedMessage else validUTF8 (Error err));
          s = (if IsSensitive err then SetAttributes [(''shopware.error.redacted'', ABool True)] s else s);
          s = AddEvent ''exception'' [(''exception.type'', AString (typeName err)), (''exception.message'', AString message)] s
      in s\<lparr>sn_ErrorStatus := Some message\<rparr>)"

definition End_span :: "(chain \<Rightarrow> string) \<Rightarrow> chain option \<Rightarrow> span \<Rightarrow> span" where
  "End_span typeName err s = (case err of Some e \<Rightarrow> RecordError typeName e s | None \<Rightarrow> s)\<lparr>sn_Ended := True\<rparr>"

definition EndReconcile :: "(chain \<Rightarrow> string) \<Rightarrow> string \<Rightarrow> chain option \<Rightarrow> span \<Rightarrow> span" where
  "EndReconcile typeName requeueAfter err s =
     End_span typeName err (SetAttributes [(''reconcile.requeue_after'', AString requeueAfter)] s)"

text \<open>\<open>Start\<close> of the tracer: a new span.\<close>

definition Start :: "string \<Rightarrow> attrs \<Rightarrow> string \<times> span" where
  "Start name as = (name, \<lparr>sn_Attributes = as, sn_Events = [], sn_ErrorStatus = None, sn_Ended = False\<rparr>)"

definition StartReconcile :: "string \<Rightarrow> string \<Rightarrow> string \<Rightarrow> string \<times> span" where
  "StartReconcile kind ns name =
     Start (kind @ ''.Reconcile'')
       [(''shopware.resource.kind'', AString kind), (''k8s.namespace.name'', AString ns), (''shopware.resource.name'', AString name)]"

text \<open>\<open>TraceID\<close> of the span's context; \<open>None\<close> is a context without trace.\<close>

definition TraceID :: "string option \<Rightarrow> string" where
  "TraceID ctx = (case ctx of Some i \<Rightarrow> i | None \<Rightarrow> [])"

text \<open>\<open>hasParentSpan\<close> and \<open>kubernetesSpanName\<close>: which requests of the Kubernetes client are traced, and how.\<close>

definition kubernetes_span :: "bool \<Rightarrow> string \<Rightarrow> (string \<times> span) option" where
  "kubernetes_span parent method = (if parent then Some (Start (''k8s '' @ method) []) else None)"

definition RecordStateChange :: "string \<Rightarrow> string \<Rightarrow> span \<Rightarrow> span" where
  "RecordStateChange a b s =
     (let s = SetAttributes [(''shopware.state'', AString b)] s in
      if a = b then s
      else AddEvent ''state changed'' [(''shopware.state.from'', AString a), (''shopware.state.to'', AString b)] s)"

definition RecordStatusUpdate :: "string \<Rightarrow> string \<Rightarrow> attrs \<Rightarrow> span \<Rightarrow> span" where
  "RecordStatusUpdate state message as =
     AddEvent ''status updated'' ([(''shopware.state'', AString state), (''shopware.status.message'', AString (validUTF8 message))] @ as)"

definition RecordObjectChange :: "string \<Rightarrow> string \<Rightarrow> string \<Rightarrow> string list \<Rightarrow> span \<Rightarrow> span" where
  "RecordObjectChange kind name reason changedKeys =
     (let as = [(''k8s.object.kind'', AString kind), (''k8s.object.name'', AString name)] in
      if reason = [] then
        AddEvent ''object in place''
          (as @ [(''shopware.object.message'', AString (kind @ '' '' @ name @ '' is in place, nothing changed''))])
      else
        AddEvent ''object changed''
          (as @ [(''shopware.object.change_reason'', AString reason),
                 (''shopware.object.message'', AString (kind @ '' '' @ name @ '' will be applied: '' @ reason))] @
           (if changedKeys \<noteq> [] then [(''shopware.object.changed_keys'', AStrings changedKeys)] else [])))"

definition RecordObjectDisabled :: "string \<Rightarrow> string \<Rightarrow> string \<Rightarrow> span \<Rightarrow> span" where
  "RecordObjectDisabled kind name reason =
     AddEvent ''object disabled''
       [(''k8s.object.kind'', AString kind), (''k8s.object.name'', AString name),
        (''shopware.object.message'', AString (kind @ '' '' @ name @ '' is disabled, ensured it is deleted: '' @ reason))]"

text \<open>\<open>delay\<close> prints how long ago a trigger was seen.\<close>

definition RecordOnSpan :: "(gotime \<Rightarrow> string) \<Rightarrow> trigger list \<Rightarrow> span \<Rightarrow> span" where
  "RecordOnSpan delay ts s =
     fold (\<lambda>t. AddEvent ''reconcile trigger''
         [(''shopware.trigger.source'', AString (tr_Source t)), (''shopware.trigger.event'', AString (event_name (tr_Event t))),
          (''k8s.object.name'', AString (tr_Name t)), (''shopware.trigger.reason'', AString (tr_Reason t)),
          (''shopware.trigger.changes'', AStrings (tr_Changes t)), (''shopware.trigger.delay'', AString (delay (tr_At t)))]) ts
       (SetAttributes
         [(''reconcile.trigger'', AString (Cause ts)), (''reconcile.trigger_count'', AInt (length ts)),
          (''reconcile.trigger_sources'', AString (Join (Sources ts) '','')), (''reconcile.triggers'', AStrings (Summaries ts))] s)"

text \<open>
  \<open>ExecInPod\<close>: \<open>newExecutor\<close> and \<open>stream\<close> are the remote command library, the latter with what was written to stdout
  and stderr. The result is the three returned values and the ended span.
\<close>

definition ExecInPod ::
  "(chain \<Rightarrow> string) \<Rightarrow> chain option \<Rightarrow> string \<times> string \<times> chain option \<Rightarrow> string \<Rightarrow> string \<Rightarrow> string \<Rightarrow> string list \<Rightarrow>
   (string \<times> string \<times> chain option) \<times> span" where
  "ExecInPod typeName newExecutor stream ns podName containerName command =
     (let span = snd (Start ''k8s.ExecInPod''
            [(''k8s.namespace.name'', AString ns), (''k8s.pod.name'', AString podName), (''k8s.container.name'', AString containerName),
             (''process.command_line'', AString (Join command '' ''))]);
          (stdout, stderr) = (case newExecutor of Some _ \<Rightarrow> ([], []) | None \<Rightarrow> (fst stream, fst (snd stream)));
          err = (case newExecutor of
                   Some e \<Rightarrow> Some (WrapError (''create executor: '' @ Error e) e)
                 | None \<Rightarrow> map_option (\<lambda>e. WrapError (''exec in pod '' @ podName @ '': '' @ Error e) e) (snd (snd stream))) in
      ((stdout, stderr, err),
       End_span typeName err
         (SetAttributes
           [(''process.stdout.size'', AInt (length stdout)), (''process.stderr.size'', AInt (length stderr)),
            (''process.stderr.string'', AString stderr), (''process.stdout.string'', AString stdout)] span)))"

text \<open>The span of \<open>GetAdminQueueStats\<close>.\<close>

definition stats_span :: "(chain \<Rightarrow> string) \<Rightarrow> nat \<Rightarrow> string list \<Rightarrow> chain option \<Rightarrow> span" where
  "stats_span typeName stats uncountable err =
     End_span typeName (map_option RedactQueueStatsOutput err)
       (SetAttributes [(''shopware.queue.transports'', AInt stats), (''shopware.queue.uncountable_transports'', AStrings uncountable)]
         (snd (Start ''deployment.GetAdminQueueStats'' [])))"

datatype exporter = GrpcExporter | HttpExporter

text \<open>\<open>newTrace\<close> is the constructor of the OTLP library.\<close>

definition newExporter :: "(exporter \<Rightarrow> goerr option) \<Rightarrow> string \<Rightarrow> string \<Rightarrow> exporter result" where
  "newExporter newTrace tracesProtocol otlpProtocol =
     (let protocol = (if tracesProtocol = [] then otlpProtocol else tracesProtocol); p = ToLower protocol in
      if p = ''grpc'' then (case newTrace GrpcExporter of Some e \<Rightarrow> Inl e | None \<Rightarrow> Inr GrpcExporter)
      else if p = [] \<or> p = ''http/protobuf'' then (case newTrace HttpExporter of Some e \<Rightarrow> Inl e | None \<Rightarrow> Inr HttpExporter)
      else Inl (Errorf (''unsupported otlp protocol '' @ go_quote protocol @ '', possible values: grpc, http/protobuf'')))"

text \<open>\<open>Setup\<close>: \<open>None\<close> is the shutdown that does nothing. \<open>newResource\<close> is the error of OpenTelemetry's \<open>resource.New\<close>.\<close>

definition Setup_tracing :: "exporter result \<Rightarrow> goerr option \<Rightarrow> bool \<Rightarrow> exporter option result" where
  "Setup_tracing exp newResource enabled =
     (if \<not> enabled then Inr None
      else case exp of
             Inl e \<Rightarrow> Inl (Wrap ''create otlp trace exporter'' e)
           | Inr x \<Rightarrow> (case newResource of Some e \<Rightarrow> Inl (Wrap ''create otel resource'' e) | None \<Rightarrow> Inr (Some x)))"

section \<open>Properties\<close>

lemma Sensitive_marks: "Sensitive err = Some e \<Longrightarrow> IsSensitive e"
  by (auto simp: Sensitive_def)

text \<open>
  A sensitive error does not get into a trace: a span that ends with one shows its Go type only. Two such
  errors of the same type leave the same span, whatever their messages, also when the sensitive part
  is wrapped or joined with other errors.
\<close>

theorem sensitive_errors_stay_secret:
  assumes "IsSensitive e" and "IsSensitive e'" and "typeName e = typeName e'"
  shows "EndReconcile typeName d (Some e) s = EndReconcile typeName d (Some e') s \<and>
    sn_ErrorStatus (EndReconcile typeName d (Some e) s) = Some RedactedMessage"
  using assms by (simp add: EndReconcile_def End_span_def RecordError_def Let_def AddEvent_def SetAttributes_def)

theorem sensitive_errors_stay_secret_witness:
  "EndReconcile (\<lambda>_. ''*fmt.wrapError'') ''1m0s'' (Some (WrapError ''reconcile: password abc'' (SensitiveError (PlainError ''password abc''))))
     (snd (StartReconcile ''Store'' ''default'' ''shop'')) =
   EndReconcile (\<lambda>_. ''*fmt.wrapError'') ''1m0s'' (Some (WrapError ''reconcile: x'' (SensitiveError (PlainError ''x''))))
     (snd (StartReconcile ''Store'' ''default'' ''shop''))"
  using sensitive_errors_stay_secret by fastforce

text \<open>
  The span of the statistics does not contain what the command printed, because the output is left out of the
  error. The span of the command itself contains it all the same, and unlike every other text without a check
  that it is UTF-8.
\<close>

lemma stats_span_omits_output:
  "stats_span typeName n u (Some (StatsError pod container command stdout stderr e)) =
   stats_span typeName n u (Some (StatsError pod container command stdout' stderr' e))"
  by (simp add: stats_span_def RedactQueueStatsOutput_def)

lemma exec_span_shows_output:
  "(''process.stdout.string'', AString stdout) \<in> set (sn_Attributes (snd (ExecInPod typeName None (stdout, stderr, err) ns pod c cmd)))"
  by (cases err) (auto simp: ExecInPod_def Start_def SetAttributes_def AddEvent_def End_span_def RecordError_def Let_def)

end
