(* ===== verification/Startup.thy ===== *)
theory Startup
  imports StoreController QueueEndpoint Webhook Tracing
begin

text \<open>
  Starting the operator: the configuration, \<open>run\<close> and \<open>requireAPI\<close> of \<open>cmd/main.go\<close>, the connection to NATS, the
  log format and the trace identifiers of the log, the namespaces, and what the controllers watch
  (\<open>SetupWithManager\<close>). The results of the libraries' calls are arguments.
\<close>

section \<open>Configuration\<close>

record nats_handler =
  nh_Enable :: bool
  nh_NkeyFile :: string
  nh_CredentialsFile :: string
  nh_Address :: string
  nh_NatsTopic :: string

record store_config =
  sc_LogLevel :: string
  sc_LogFormat :: string
  sc_NatsHandler :: nats_handler
  sc_MetricsAddr :: string
  sc_ProbeAddr :: string
  sc_OperatorServiceURL :: string
  sc_EnableLeaderElection :: bool
  sc_EnableWebhook :: bool
  sc_EnableKeda :: bool
  sc_EnableServiceMonitor :: bool
  sc_DisableChecks :: bool
  sc_EnableTracing :: bool
  sc_Namespace :: string

definition IsDebug :: "store_config \<Rightarrow> bool" where
  "IsDebug c \<longleftrightarrow> ToLower (sc_LogLevel c) = ''debug''"

text \<open>\<open>lookupEnv\<close> is the environment of the process, \<open>serviceAccount\<close> the file of the service account's namespace.\<close>

definition GetWatchNamespace :: "(string \<Rightarrow> string option) \<Rightarrow> string result" where
  "GetWatchNamespace lookupEnv =
     (case lookupEnv ''NAMESPACE'' of Some ns \<Rightarrow> Inr ns | None \<Rightarrow> Inl (Errorf ''NAMESPACE must be set''))"

definition GetOperatorNamespace :: "(string \<Rightarrow> string option) \<Rightarrow> string result \<Rightarrow> string result" where
  "GetOperatorNamespace lookupEnv serviceAccount =
     (case lookupEnv ''OPERATOR_NAMESPACE'' of
        Some ns \<Rightarrow> Inr ns
      | None \<Rightarrow>
          (case serviceAccount of
             Inr bytes \<Rightarrow> Inr (TrimSpace bytes)
           | Inl _ \<Rightarrow> Inl (Errorf ''either set the namespace via env `OPERATOR_NAMESPACE` or run the operator as a pod'')))"

section \<open>Logging\<close>

datatype log_format = ZapPretty | TextFormat | JsonFormat

text \<open>
  \<open>NewLogger\<close> panics with a message; \<open>parseLevel\<close> and \<open>build\<close> are zap's. Outside of tests the flag \<open>test.v\<close> does not
  exist.
\<close>

definition NewLogger :: "(string \<Rightarrow> bool) \<Rightarrow> (log_format \<Rightarrow> goerr option) \<Rightarrow> string \<Rightarrow> string \<Rightarrow> string + log_format" where
  "NewLogger parseLevel build level format =
     (let f = ToLower format in
      case (if f = ''zap-pretty'' then Some ZapPretty else if f = ''text'' then Some TextFormat
            else if f = ''json'' then Some JsonFormat else None) of
        None \<Rightarrow> Inl (''invalid log format. possible values: json, text, zap-pretty. '' @ format @ '' given'')
      | Some x \<Rightarrow>
          if parseLevel (ToLower level) then (case build x of Some e \<Rightarrow> Inl (err_msg e) | None \<Rightarrow> Inr x)
          else Inl (''invalid log level. possible values: debug, info, warn, error. '' @ level @ '' given''))"

definition hex_value :: "char \<Rightarrow> nat option" where
  "hex_value c =
     (if byte_in 48 57 c then Some (of_char c - 48)
      else if byte_in 97 102 c then Some (of_char c - 87)
      else if byte_in 65 70 c then Some (of_char c - 55) else None)"

text \<open>\<open>strconv.ParseUint (s, 16, 64)\<close>.\<close>

definition parse_hex :: "string \<Rightarrow> nat option" where
  "parse_hex s =
     (if s = [] then None
      else case those (map hex_value s) of
             None \<Rightarrow> None
           | Some ds \<Rightarrow> (let n = fold (\<lambda>d a. 16 * a + d) ds 0 in if n < 2 ^ 64 then Some n else None))"

definition convertTraceID :: "string \<Rightarrow> string" where
  "convertTraceID s =
     (if length s < 16 then []
      else case parse_hex (if length s > 16 then drop 16 s else s) of Some n \<Rightarrow> dec_nat n | None \<Rightarrow> [])"

section \<open>NATS\<close>

text \<open>The options, in order, and the connection; \<open>seed\<close> is the error of reading the key.\<close>

datatype nats_option = NatsName string | NatsNkey string | NatsCredentials string

definition NewNatsEventServer ::
  "(string \<Rightarrow> goerr option) \<Rightarrow> (string \<Rightarrow> nats_option list \<Rightarrow> goerr option) \<Rightarrow> bool \<Rightarrow> string \<Rightarrow> string \<Rightarrow> string \<Rightarrow> goerr option" where
  "NewNatsEventServer seed connect isConnected addr nkeyFile credentialsFile =
     (let opts = [NatsName ''shopware-operator''] in
      case (if nkeyFile \<noteq> [] then seed nkeyFile else None) of
        Some e \<Rightarrow> Some (Wrap ''failed to read NKeyFile'' e)
      | None \<Rightarrow>
          (let opts = opts @ (if nkeyFile \<noteq> [] then [NatsNkey nkeyFile] else []) @
                             (if credentialsFile \<noteq> [] then [NatsCredentials credentialsFile] else []) in
           case connect addr opts of
             Some e \<Rightarrow> Some (Wrap ''failed to connect to NATS server'' e)
           | None \<Rightarrow>
               if \<not> isConnected then Some (Errorf ''NATS server connection test failed: server is not connected'')
               else None))"

text \<open>\<open>Send\<close>: the event is \<open>marshal\<close>ed and published on the topic, with the trace context in the headers.\<close>

record nats_msg =
  nm_Subject :: string
  nm_Data :: string
  nm_Header :: "(string \<times> string) list"

definition Send ::
  "('e \<Rightarrow> string result) \<Rightarrow> bool \<Rightarrow> (string \<times> string) list \<Rightarrow> (nats_msg \<Rightarrow> ('w, goerr option) state) \<Rightarrow> string \<Rightarrow> 'e \<Rightarrow>
   ('w, goerr option) state" where
  "Send marshal headersSupported carrier publish topic event =
     (case marshal event of
        Inl e \<Rightarrow> State_Monad.return (Some (Wrap ''failed to marshal event data in nats handler'' e))
      | Inr data \<Rightarrow> do {
          err \<leftarrow> publish \<lparr>nm_Subject = topic, nm_Data = data, nm_Header = (if headersSupported then carrier else [])\<rparr>;
          State_Monad.return (map_option (Wrap ''failed to publish event to NATS'') err) })"

section \<open>Watches\<close>

datatype mapping_result = Mapped | NoMatch | MappingError goerr

datatype relation = For | Owns | Watches

datatype watch_predicate = GenerationChanged | LabelChanged | AnnotationChanged | ResourceVersionChanged | ObjectChanged

text \<open>A watched kind with the predicates of which one must hold.\<close>

type_synonym watch = "relation \<times> kind \<times> watch_predicate list"

definition owned :: "kind \<Rightarrow> watch" where
  "owned k = (Owns, k, [ObjectChanged])"

definition store_SetupWithManager :: "(kind \<Rightarrow> mapping_result) \<Rightarrow> bool \<Rightarrow> watch list result" where
  "store_SetupWithManager mapping enableKeda =
     (let first = [(For, KStore, [GenerationChanged, LabelChanged, AnnotationChanged]), owned KSecret, owned KService, owned KIngress];
          final = [owned KPDB, owned KDeployment, owned KJob, owned KCronJob, (Watches, KSecret, [ResourceVersionChanged])] in
      case mapping KHTTPRoute of
        MappingError e \<Rightarrow> Inl (Wrap ''resolve HTTPRoute REST mapping'' e)
      | m \<Rightarrow>
          (let route = (if m = Mapped then [owned KHTTPRoute] else []) in
           if enableKeda then
             (case mapping KScaledObject of
                MappingError e \<Rightarrow> Inl (Wrap ''resolve ScaledObject REST mapping'' e)
              | n \<Rightarrow> Inr (first @ route @ (if n = Mapped then [owned KScaledObject] else []) @ final))
           else Inr (first @ route @ final)))"

definition exec_SetupWithManager :: "watch list" where
  "exec_SetupWithManager = [(For, KStoreExec, [])]"

definition debug_SetupWithManager :: "watch list" where
  "debug_SetupWithManager = [(For, KStoreDebugInstance, [])]"

definition create_SetupWithManager :: "watch list" where
  "create_SetupWithManager =
     [(For, KStoreSnapshotCreate, [GenerationChanged, AnnotationChanged, LabelChanged]),
      (Owns, KJob, [GenerationChanged, AnnotationChanged, LabelChanged])]"

definition restore_SetupWithManager :: "watch list" where
  "restore_SetupWithManager =
     [(For, KStoreSnapshotRestore, [GenerationChanged]),
      (Owns, KJob, [AnnotationChanged, LabelChanged, GenerationChanged])]"

section \<open>Starting\<close>

datatype api = ScaledObjectAPI | ServiceMonitorAPI | CertificateAPI

definition requireAPI :: "(api \<Rightarrow> mapping_result) \<Rightarrow> (api \<Rightarrow> string) \<Rightarrow> (api \<Rightarrow> string) \<Rightarrow> api \<Rightarrow> goerr option" where
  "requireAPI mapper gvkText kindText a =
     (case mapper a of
        Mapped \<Rightarrow> None
      | NoMatch \<Rightarrow> Some (Errorf (''api '' @ gvkText a @ '' is not available in the cluster''))
      | MappingError e \<Rightarrow> Some (Wrap (''resolve '' @ kindText a @ '' REST mapping'') e))"

text \<open>
  What the calls of \<open>run\<close> give: an error or nothing. \<open>rn_clientset\<close> is the error of \<open>kubernetes.NewForConfig\<close>, and
  \<open>rn_complete\<close> are the errors of building the Store, exec, create, restore and debug controllers.
\<close>

record run_results =
  rn_config :: "goerr + store_config"
  rn_parseLevel :: "string \<Rightarrow> bool"
  rn_build :: "log_format \<Rightarrow> goerr option"
  rn_restConfig :: "goerr option"
  rn_exporter :: "exporter result"
  rn_resource :: "goerr option"
  rn_manager :: "goerr option"
  rn_mapper :: "api \<Rightarrow> mapping_result"
  rn_gvkText :: "api \<Rightarrow> string"
  rn_kindText :: "api \<Rightarrow> string"
  rn_clientset :: "goerr option"
  rn_seed :: "string \<Rightarrow> goerr option"
  rn_connect :: "string \<Rightarrow> nats_option list \<Rightarrow> goerr option"
  rn_isConnected :: bool
  rn_mapping :: "kind \<Rightarrow> mapping_result"
  rn_complete :: "goerr option list"
  rn_healthz :: "goerr option"
  rn_readyz :: "goerr option"
  rn_start :: "goerr option"

text \<open>What was registered before the manager ran, and the exit code.\<close>

record run_outcome =
  ro_code :: nat
  ro_queueEndpoint :: bool
  ro_webhook :: bool
  ro_nats :: bool
  ro_started :: bool

definition keda_misconfigured :: "store_config \<Rightarrow> bool" where
  "keda_misconfigured c \<longleftrightarrow>
     sc_EnableKeda c \<and> (sc_MetricsAddr c = ''0'' \<or> sc_MetricsAddr c = [] \<or> sc_OperatorServiceURL c = [])"

definition nats_error :: "run_results \<Rightarrow> nats_handler \<Rightarrow> goerr option" where
  "nats_error rn h =
     NewNatsEventServer (rn_seed rn) (rn_connect rn) (rn_isConnected rn) (nh_Address h) (nh_NkeyFile h) (nh_CredentialsFile h)"

text \<open>\<open>run\<close> after the manager was created. A panic ends the process with code 2.\<close>

definition run_controllers :: "run_results \<Rightarrow> store_config \<Rightarrow> run_outcome \<Rightarrow> run_outcome" where
  "run_controllers rn c out =
     (let missing = (\<lambda>a. requireAPI (rn_mapper rn) (rn_gvkText rn) (rn_kindText rn) a \<noteq> None) in
      if sc_EnableKeda c \<and> missing ScaledObjectAPI then out\<lparr>ro_code := 4\<rparr>
      else if sc_EnableServiceMonitor c \<and> missing ServiceMonitorAPI then out\<lparr>ro_code := 6\<rparr>
      else if sc_EnableWebhook c \<and> missing CertificateAPI then out\<lparr>ro_code := 5\<rparr>
      else if rn_clientset rn \<noteq> None then out\<lparr>ro_webhook := sc_EnableWebhook c, ro_code := 2\<rparr>
      else
        (let out = out\<lparr>ro_webhook := sc_EnableWebhook c,
                      ro_nats := nh_Enable (sc_NatsHandler c) \<and> nats_error rn (sc_NatsHandler c) = None\<rparr> in
         if isl (store_SetupWithManager (rn_mapping rn) (sc_EnableKeda c)) then out\<lparr>ro_code := 1\<rparr>
         else if list_ex (\<lambda>e. e \<noteq> None) (rn_complete rn) then out\<lparr>ro_code := 1\<rparr>
         else if rn_healthz rn \<noteq> None then out\<lparr>ro_code := 1\<rparr>
         else if rn_readyz rn \<noteq> None then out\<lparr>ro_code := 1\<rparr>
         else out\<lparr>ro_started := True, ro_code := (if rn_start rn \<noteq> None then 1 else 0)\<rparr>))"

text \<open>\<open>setupTracing\<close> exits when tracing cannot be set up.\<close>

definition setupTracing :: "run_results \<Rightarrow> bool \<Rightarrow> goerr option" where
  "setupTracing rn enabled = (case Setup_tracing (rn_exporter rn) (rn_resource rn) enabled of Inl e \<Rightarrow> Some e | Inr _ \<Rightarrow> None)"

definition main_run :: "run_results \<Rightarrow> run_outcome" where
  "main_run rn =
     (let none = \<lparr>ro_code = 1, ro_queueEndpoint = False, ro_webhook = False, ro_nats = False, ro_started = False\<rparr> in
      case rn_config rn of
        Inl _ \<Rightarrow> none
      | Inr c \<Rightarrow>
          if isl (NewLogger (rn_parseLevel rn) (rn_build rn) (sc_LogLevel c) (sc_LogFormat c)) then none\<lparr>ro_code := 2\<rparr>
          else if sc_Namespace c = [] then none\<lparr>ro_code := 3\<rparr>
          else if keda_misconfigured c then none\<lparr>ro_code := 3\<rparr>
          else
            (let out = none\<lparr>ro_queueEndpoint := sc_EnableKeda c\<rparr> in
             if rn_restConfig rn \<noteq> None then out
             else if setupTracing rn (sc_EnableTracing c) \<noteq> None then out
             else if rn_manager rn \<noteq> None then out
             else run_controllers rn c out))"

section \<open>Properties\<close>

lemma requireAPI_None: "requireAPI mapper g k a = None \<longleftrightarrow> mapper a = Mapped"
  by (simp add: requireAPI_def split: mapping_result.split)

definition controllers_ready :: "run_results \<Rightarrow> store_config \<Rightarrow> bool" where
  "controllers_ready rn c \<longleftrightarrow>
     (sc_EnableKeda c \<longrightarrow> rn_mapper rn ScaledObjectAPI = Mapped) \<and> (sc_EnableServiceMonitor c \<longrightarrow> rn_mapper rn ServiceMonitorAPI = Mapped) \<and>
     (sc_EnableWebhook c \<longrightarrow> rn_mapper rn CertificateAPI = Mapped) \<and>
     rn_clientset rn = None \<and> \<not> isl (store_SetupWithManager (rn_mapping rn) (sc_EnableKeda c)) \<and> set (rn_complete rn) \<subseteq> {None} \<and>
     rn_healthz rn = None \<and> rn_readyz rn = None"

lemma run_controllers_started:
  assumes "\<not> ro_started out"
  shows "ro_started (run_controllers rn c out) \<longleftrightarrow> controllers_ready rn c"
proof -
  have "list_ex (\<lambda>e. e \<noteq> None) (rn_complete rn) \<longleftrightarrow> \<not> set (rn_complete rn) \<subseteq> {None}" by (auto simp: list_ex_iff)
  with assms show ?thesis
    unfolding run_controllers_def controllers_ready_def Let_def requireAPI_None by simp
qed

lemma run_controllers_registers:
  assumes "controllers_ready rn c"
  shows "ro_queueEndpoint (run_controllers rn c out) = ro_queueEndpoint out \<and> ro_webhook (run_controllers rn c out) = sc_EnableWebhook c"
proof -
  have "\<not> list_ex (\<lambda>e. e \<noteq> None) (rn_complete rn)" using assms by (auto simp: list_ex_iff controllers_ready_def)
  with assms show ?thesis
    unfolding run_controllers_def controllers_ready_def Let_def requireAPI_None by auto
qed

lemma main_run_started:
  assumes "rn_config rn = Inr c"
  shows "ro_started (main_run rn) \<longleftrightarrow>
    \<not> isl (NewLogger (rn_parseLevel rn) (rn_build rn) (sc_LogLevel c) (sc_LogFormat c)) \<and> sc_Namespace c \<noteq> [] \<and> \<not> keda_misconfigured c \<and>
    rn_restConfig rn = None \<and> setupTracing rn (sc_EnableTracing c) = None \<and> rn_manager rn = None \<and> controllers_ready rn c"
  using assms by (simp add: main_run_def Let_def run_controllers_started)

lemma written_kinds:
  "may_write s \<subseteq> {KIngress, KHTTPRoute, KPDB, KSecret, KJob, KCronJob, KDeployment, KScaledObject, KService, KHPA}"
  by (cases "ss_State (st_Status s)") (simp_all add: may_write_def)

lemma watched_kinds:
  assumes "store_SetupWithManager mapping keda = Inr watches"
  shows "(\<lambda>(r, k, p). k) ` set watches =
    {KStore, KSecret, KService, KIngress, KPDB, KDeployment, KJob, KCronJob} \<union>
    (if mapping KHTTPRoute = Mapped then {KHTTPRoute} else {}) \<union> (if keda \<and> mapping KScaledObject = Mapped then {KScaledObject} else {})"
  using assms
  by (cases keda; cases "mapping KHTTPRoute"; cases "mapping KScaledObject")
    (auto simp: store_SetupWithManager_def Let_def owned_def)

text \<open>
  C37: The operator runs its controllers only with a namespace and a valid log configuration, and what is switched
  on is there: with KEDA the queue endpoint, the metrics address, the service URL and the ScaledObject
  API, with the service monitor its API, with the webhook the certificate API and its registration,
  with tracing an exporter; all controllers were built. A NATS server that cannot be reached does not stop it.
\<close>

theorem started_operator_is_configured:
  assumes "rn_config rn = Inr c" and "ro_started (main_run rn)"
  shows "sc_Namespace c \<noteq> [] \<and> ToLower (sc_LogFormat c) \<in> {''zap-pretty'', ''text'', ''json''} \<and>
    ro_queueEndpoint (main_run rn) = sc_EnableKeda c \<and> ro_webhook (main_run rn) = sc_EnableWebhook c \<and>
    (sc_EnableKeda c \<longrightarrow> sc_MetricsAddr c \<notin> {[], ''0''} \<and> sc_OperatorServiceURL c \<noteq> [] \<and> rn_mapper rn ScaledObjectAPI = Mapped) \<and>
    (sc_EnableServiceMonitor c \<longrightarrow> rn_mapper rn ServiceMonitorAPI = Mapped) \<and>
    (sc_EnableWebhook c \<longrightarrow> rn_mapper rn CertificateAPI = Mapped) \<and> (sc_EnableTracing c \<longrightarrow> \<not> isl (rn_exporter rn)) \<and>
    \<not> isl (store_SetupWithManager (rn_mapping rn) (sc_EnableKeda c)) \<and> set (rn_complete rn) \<subseteq> {None} \<and>
    ro_started (main_run (rn\<lparr>rn_seed := f, rn_connect := g, rn_isConnected := b\<rparr>))"
proof -
  note started = assms(2) [unfolded main_run_started [OF assms(1)]]
  have "controllers_ready (rn\<lparr>rn_seed := f, rn_connect := g, rn_isConnected := b\<rparr>) c = controllers_ready rn c"
    "setupTracing (rn\<lparr>rn_seed := f, rn_connect := g, rn_isConnected := b\<rparr>) = setupTracing rn"
    by (simp_all add: controllers_ready_def setupTracing_def fun_eq_iff)
  then have again: "ro_started (main_run (rn\<lparr>rn_seed := f, rn_connect := g, rn_isConnected := b\<rparr>))"
    using started assms(1) by (simp add: main_run_started)
  have run: "ro_queueEndpoint (main_run rn) = sc_EnableKeda c \<and> ro_webhook (main_run rn) = sc_EnableWebhook c"
    using started run_controllers_registers assms(1) by (simp add: main_run_def)
  have log: "ToLower (sc_LogFormat c) \<in> {''zap-pretty'', ''text'', ''json''}"
    using started by (auto simp: NewLogger_def Let_def split: if_split_asm)
  have tracing: "sc_EnableTracing c \<longrightarrow> \<not> isl (rn_exporter rn)"
    using started by (auto simp: setupTracing_def Setup_tracing_def split: sum.split_asm)
  from started run log tracing again show ?thesis by (simp add: controllers_ready_def keda_misconfigured_def)
qed

definition ex_store_config :: store_config where
  "ex_store_config = \<lparr>sc_LogLevel = ''info'', sc_LogFormat = ''json'',
     sc_NatsHandler = \<lparr>nh_Enable = True, nh_NkeyFile = [], nh_CredentialsFile = [], nh_Address = [], nh_NatsTopic = []\<rparr>,
     sc_MetricsAddr = '':8080'', sc_ProbeAddr = [], sc_OperatorServiceURL = ''http://operator'', sc_EnableLeaderElection = True,
     sc_EnableWebhook = False, sc_EnableKeda = True, sc_EnableServiceMonitor = False, sc_DisableChecks = False, sc_EnableTracing = False,
     sc_Namespace = ''default''\<rparr>"

definition ex_run :: run_results where
  "ex_run = \<lparr>rn_config = Inr ex_store_config, rn_parseLevel = (\<lambda>_. True), rn_build = (\<lambda>_. None), rn_restConfig = None,
     rn_exporter = Inr HttpExporter, rn_resource = None, rn_manager = None, rn_mapper = (\<lambda>_. Mapped), rn_gvkText = (\<lambda>_. []), rn_kindText = (\<lambda>_. []),
     rn_clientset = None, rn_seed = (\<lambda>_. None), rn_connect = (\<lambda>_ _. Some (Errorf ''no servers available for connection'')), rn_isConnected = False,
     rn_mapping = (\<lambda>_. Mapped), rn_complete = [None, None, None, None, None], rn_healthz = None, rn_readyz = None, rn_start = None\<rparr>"

theorem started_operator_is_configured_witness:
  "ro_queueEndpoint (main_run ex_run) \<and> rn_mapper ex_run ScaledObjectAPI = Mapped"
proof -
  have "rn_config ex_run = Inr ex_store_config" "ro_started (main_run ex_run)" by (simp add: ex_run_def) code_simp
  from started_operator_is_configured [OF this] show ?thesis by (simp add: ex_store_config_def)
qed

text \<open>The trace identifier in the log is the decimal value of the last sixteen digits.\<close>

lemma convertTraceID_example: "convertTraceID ''4bf92f3577b34da6a3ce929d0e0e4736'' = ''11803532876627986230''"
  by (simp add: convertTraceID_def parse_hex_def hex_value_def byte_in_def Let_def dec_nat.simps) code_simp

end
