(* ===== verification/Spec2Isabelle.thy ===== *)
theory Spec2Isabelle
  imports StoreController ExecController DebugController SnapshotController QueueEndpoint Webhook
    SnapshotProgram MySQLDump ObjectDiff Startup
begin

text \<open>
  Verification of the Shopware operator, a Kubernetes operator in Go (\<open>src/\<close>).

  \<^bold>\<open>The program.\<close> A \<open>Store\<close> resource describes a shop. The Store controller
  (\<open>internal/controller\<close>) reads it, asks the state manager (\<open>internal/manager\<close>) to reconcile the
  objects that belong to the Store's state (secret, deployments, services, routes, jobs and so on,
  built in \<open>internal/deployment\<close>, \<open>internal/job\<close> and their neighbours and applied by
  \<open>internal/k8s\<close>), and then to compute the next state and write the status. Three more controllers
  serve \<open>StoreExec\<close> (a command in the shop), \<open>StoreDebugInstance\<close> (a pod for debugging) and the two
  snapshot resources. An HTTP endpoint tells the autoscaler the queue lengths, a webhook checks Stores.
  A snapshot job runs a second program (\<open>cmd/snapshot\<close>), which saves database and buckets of a shop
  in an archive and restores them.

  \<^bold>\<open>The model.\<close> Go values are HOL values: structs are records with the source's fields, string
  constants datatypes, \<open>int32\<close> and \<open>int64\<close> words, maps finite maps, strings byte lists, errors
  \<open>goerr\<close> values with the reason the API machinery looks at, and functions that may fail return a
  sum. Code that talks to the cluster, to files or to processes runs in the state monad over an
  arbitrary world \<open>'w\<close>. What is not part of the sources is an argument: the API client (record
  \<open>client\<close>), the fields of \<open>Base\<close> (record \<open>base\<close>: MySQL driver, S3 client, \<open>ExecInPod\<close>, event handlers,
  the Prometheus gauges), random numbers and key generation (record \<open>crypto\<close>), the other
  reconcilers' fields (record \<open>reconciler\<close>), the operating system, AWS and the minio client (records
  of \<open>Archive\<close> and \<open>SnapshotProgram\<close>), processes, the strict JSON decoder of the webhook and the
  results of the calls of \<open>run\<close> (record \<open>run_results\<close>). Nothing is assumed of them except in the locales
  named below, and every locale is interpreted on concrete ones. The Go library functions that the
  code calls are implemented: number printing, string functions, \<open>net/url\<close>, \<open>path/filepath\<close>,
  \<open>encoding/json\<close>, UTF-8, SHA-256, MD5, Base64 and PEM.

  Every function is total; most loops are structural recursions over lists, the JSON decoder and
  \<open>findChanges\<close> recurse on a measure, and the waiting loop of \<open>EnsureObjectWithHash\<close> runs its ten rounds,
  so no fuel is needed. Goroutines are step relations over all interleavings (\<open>pool_step\<close>,
  \<open>emptying_step\<close>, \<open>downloads_step\<close>, \<open>slot_step\<close>); that the pool of workers ends is proved with a measure of the
  steps left.

  Go copies structs but shares the maps and arrays in them. Where a function writes through such a
  copy, a second definition with the suffix \<open>_shared\<close> gives the caller's value afterwards
  (\<open>Merge_shared\<close>, \<open>GetDefaultContainerAnnotations_shared\<close>, \<open>PDB_shared\<close>, \<open>DebugPod_shared\<close>), and
  \<open>share_in\<close> and \<open>share_out\<close> follow the annotation map that a Store and the objects built from it
  have in common.

  \<^bold>\<open>Theories.\<close>
  \<^item> \<open>Prelude\<close>: Go values, errors, strings, the world monad, \<open>holds\<close> and \<open>preserves\<close>. \<open>KubeTypes\<close>: the
    parts of the Kubernetes types that the operator fills. \<open>StoreTypes\<close>: the custom resources of
    \<open>api/v1\<close>. \<open>Url\<close>, \<open>Filepath\<close>, \<open>Json\<close>, \<open>Utf8\<close>, \<open>Sha256\<close>, \<open>Md5\<close>: what is used of Go's library.
  \<^item> \<open>Conditions\<close> (\<open>api/v1\<close>): the bounded history of conditions, one locale for its three copies.
  \<^item> \<open>ContainerMerge\<close> (\<open>ContainerSpec.Merge\<close>), \<open>StoreEnv\<close> (\<open>store_env.go\<close>), \<open>Util\<close>
    (\<open>internal/util\<close>): container overrides, the environment, labels, URLs, truncation.
  \<^item> \<open>Deployments\<close>, \<open>Workloads\<close> (\<open>internal/deployment\<close>): the deployments of a Store and their
    conditions in the cluster. \<open>Resources\<close>: services, budgets, autoscaler, routes, debug pod.
  \<^item> \<open>Jobs\<close> (\<open>internal/job\<close>, \<open>internal/cronjob\<close>): the jobs, and whether one is done.
  \<^item> \<open>Client\<close>: the API client and a concrete one. \<open>Ensure\<close>, \<open>ObjectDiff\<close> (\<open>internal/k8s/utils.go\<close>): change
    detection and applying objects, with the locale \<open>api_server\<close>, and the text of a difference.
    \<open>Frame\<close>: which objects code may touch (locale \<open>guarded\<close>).
  \<^item> \<open>Metrics\<close> (\<open>internal/metrics/metrics.go\<close>): the gauges, with the locale \<open>prometheus\<close>.
    \<open>MessengerStats\<close> (\<open>internal/deployment/queue.go\<close>): the queue statistics of a shop.
    \<open>QueueEndpoint\<close> (\<open>internal/metrics/queue_handler.go\<close>): the HTTP handler and its cache.
  \<^item> \<open>StoreStates\<close>, \<open>Manager\<close> (\<open>internal/manager\<close>): the state handlers, \<open>ReconcileState\<close> and
    \<open>ReconcileStatus\<close>; the life of a Store is the step relation \<open>store_step\<close>.
  \<^item> \<open>StoreSecret\<close> (\<open>internal/secret\<close>), \<open>BaseResources\<close> (\<open>internal/manager/base\<close> and the resource
    handlers): reconciling the objects of a Store (locale \<open>guarded_base\<close>).
  \<^item> \<open>Trigger\<close> (\<open>internal/trigger\<close>): why a Store is reconciled. \<open>Reconciler\<close>: what the controllers share
    (locale \<open>guarded_reconciler\<close>). \<open>StoreController\<close>, \<open>ExecController\<close>, \<open>DebugController\<close>,
    \<open>SnapshotController\<close> (\<open>internal/controller\<close>).
  \<^item> \<open>Webhook\<close> (\<open>internal/webhook\<close>). \<open>Tracing\<close> (\<open>internal/tracing\<close>, \<open>internal/k8s/exec.go\<close>): what gets into
    traces. \<open>Startup\<close> (\<open>cmd/main.go\<close>, \<open>internal/config\<close>, \<open>internal/event/nats\<close>, \<open>internal/logging\<close>).
  \<^item> The snapshot program: \<open>WorkerPool\<close> and \<open>S3\<close> (\<open>internal/util/s3.go\<close>), \<open>Archive\<close>
    (\<open>internal/snapshot/archive.go\<close>, locale \<open>file_store\<close>), \<open>MySQLShell\<close> and \<open>MySQLDump\<close>
    (\<open>internal/util\<close>), \<open>SnapshotProgram\<close> (\<open>internal/snapshot\<close>, \<open>cmd/snapshot\<close>).
  \<^item> This theory holds the properties that span several of these.

  \<^bold>\<open>What is shown.\<close>
  \<^item> The state machine: every reconcile moves along \<open>store_step\<close>; what holds of all runs follows by
    rule induction; each handler's outcome is characterised on every branch; from waiting to ready.
  \<^item> The objects: names fit Kubernetes' limits and are distinct, selectors select the right pods,
    overrides merge by name, extra environment variables win, pods are restricted.
  \<^item> Applying: applying twice is applying once; which objects each controller may write or delete,
    for every API server and every error; obsolete workers are removed and wanted ones never; the
    text of a difference is empty exactly when nothing changed.
  \<^item> Secrets: generating the Store's secret again changes nothing, stored keys are never replaced,
    sensitive errors do not get into traces.
  \<^item> Jobs: \<open>IsJobContainerDone\<close> against a reference definition; what a finished job does to the
    Store, the command, the snapshot.
  \<^item> The controllers: requeue times, terminal states, what the trigger recorder and the gauges show
    after a reconcile. Starting: what is switched on is there.
  \<^item> Queues: statistics are read back from noisy output; concurrent requests ask the shop one at a
    time and not too often, and none is stuck; the scaler reads the count of its queue.
  \<^item> Snapshots: extraction stays in its directory, archiving and extracting is a round trip, the
    worker pool ends and a reported success means that every object was processed once, errors of
    the parts are reported, labels and paths survive their encodings.

  Several theorems state defects; the manifest lists them as findings.

  \<^bold>\<open>Not modelled.\<close> Generated deep copies; the registration of types with the API machinery; writing log
  lines; parsing command line and environment variables into the configuration, exporting traces, the
  connections to NATS, S3, AWS and MySQL, which third-party libraries do. Times are nanoseconds, the
  zero time is \<open>None\<close>.
\<close>

section \<open>Operator and snapshot program\<close>





section \<open>Handlers and watches\<close>

text \<open>
  Whatever the resource handlers of a Store may write (the frame of \<open>ReconcileResources\<close>) is watched by the
  controller, so that a change or a deletion from outside leads to a new reconcile, with one
  exception: the autoscaler. Routes and scaled objects are watched when the cluster knows them.
\<close>

theorem written_kinds_are_watched:
  assumes "store_SetupWithManager mapping keda = Inr watches"
  shows "may_write s - {KHPA} - {k \<in> {KHTTPRoute}. mapping k \<noteq> Mapped} - {k \<in> {KScaledObject}. \<not> keda \<or> mapping k \<noteq> Mapped}
    \<subseteq> (\<lambda>(r, k, p). k) ` set watches \<and>
    KHPA \<notin> (\<lambda>(r, k, p). k) ` set watches"
  unfolding watched_kinds [OF assms] using written_kinds [of s] by (cases keda) auto

theorem written_kinds_are_watched_witness:
  "\<exists>watches. store_SetupWithManager (\<lambda>_. Mapped) True = Inr watches \<and> may_write zero_store - {KHPA} \<subseteq> (\<lambda>(r, k, p). k) ` set watches"
proof -
  have ws: "store_SetupWithManager (\<lambda>_. Mapped) True = Inr (projr (store_SetupWithManager (\<lambda>_. Mapped) True))"
    by (simp add: store_SetupWithManager_def)
  with written_kinds_are_watched [OF ws, of zero_store]
  have "may_write zero_store - {KHPA} \<subseteq> (\<lambda>(r, k, p). k) ` set (projr (store_SetupWithManager (\<lambda>_. Mapped) True))" by simp
  with ws show ?thesis by (intro exI conjI)
qed

end
